(* ===== verification/Prelude.thy ===== *)
theory Prelude
  imports Main "HOL-Library.List_Lexorder" "HOL-Library.Char_ord"
begin

text \<open>
  Shared vocabulary of the development.

  \<^item> Requests run against a database session. An operation of the services is a function
    on a pair \<open>(committed, working)\<close>: it returns a value or the exception it raises, and
    the new pair. \<open>commit\<close> publishes the working copy, \<open>rollback\<close> drops it, and
    \<open>run_request\<close> is what the HTTP layer observes: an exception leaves only what had been
    committed before it was raised.
  \<^item> \<open>wp\<close> is the weakest precondition of an operation for a normal and an exceptional
    postcondition, with its equations (\<open>wp_eqs\<close>) and introduction rules (\<open>wp_rules\<close>).
  \<^item> A table is a list of rows in insertion order; \<open>row_by\<close> is a SELECT by key and
    \<open>put_row\<close> an UPDATE by key.
  \<^item> Strings are lists of code points below 256; Python's \<open>strip\<close>, \<open>upper\<close>, \<open>lower\<close>,
    \<open>str(int)\<close>, \<open>str(uuid)\<close> and \<open>split\<close> are defined on them (case mapping on ASCII
    letters only).
\<close>

named_theorems wp_eqs "weakest preconditions as equations"
named_theorems wp_rules "weakest preconditions as introduction rules"

type_synonym uuid = nat
type_synonym currency = string

section \<open>Exceptions and sessions\<close>

text \<open>\<open>ApiError\<close> keeps the machine-readable type and the HTTP status of the exception;
  its title and its English detail carry no logic.\<close>

datatype exn =
    ApiError string int
  | ValidationError
  | RuntimeError
  | ValueError
  | AttributeError
  | IndexError
  | KeyError
  | IntegrityError
  | TypeError
  | OSError
  | ProviderTemporaryError
  | ProviderOtherError

type_synonym ('d, 'a) op = "'d \<times> 'd \<Rightarrow> (exn + 'a) \<times> ('d \<times> 'd)"

definition ret :: "'a \<Rightarrow> ('d, 'a) op" where
  "ret x = (\<lambda>s. (Inr x, s))"

definition raise :: "exn \<Rightarrow> ('d, 'a) op" where
  "raise e = (\<lambda>s. (Inl e, s))"

definition bnd :: "('d, 'a) op \<Rightarrow> ('a \<Rightarrow> ('d, 'b) op) \<Rightarrow> ('d, 'b) op" where
  "bnd m f = (\<lambda>s. case m s of (Inl e, s') \<Rightarrow> (Inl e, s') | (Inr x, s') \<Rightarrow> f x s')"

definition seq :: "('d, unit) op \<Rightarrow> ('d, 'b) op \<Rightarrow> ('d, 'b) op" where
  "seq m n = bnd m (\<lambda>_. n)"

definition query :: "('d \<Rightarrow> 'a) \<Rightarrow> ('d, 'a) op" where
  "query f = (\<lambda>(c, w). (Inr (f w), (c, w)))"

definition modify :: "('d \<Rightarrow> 'd) \<Rightarrow> ('d, unit) op" where
  "modify f = (\<lambda>(c, w). (Inr (), (c, f w)))"

definition commit :: "('d, unit) op" where
  "commit = (\<lambda>(c, w). (Inr (), (w, w)))"

definition rollback :: "('d, unit) op" where
  "rollback = (\<lambda>(c, w). (Inr (), (c, c)))"

definition require :: "bool \<Rightarrow> exn \<Rightarrow> ('d, unit) op" where
  "require b e = (if b then ret () else raise e)"

definition found :: "exn \<Rightarrow> 'a option \<Rightarrow> ('d, 'a) op" where
  "found e r = (case r of None \<Rightarrow> raise e | Some x \<Rightarrow> ret x)"

definition lift_result :: "exn + 'a \<Rightarrow> ('d, 'a) op" where
  "lift_result r = (case r of Inl e \<Rightarrow> raise e | Inr x \<Rightarrow> ret x)"

text \<open>\<open>with db.session.begin_nested(): m\<close> under \<open>except IntegrityError: h\<close>: the savepoint
  restores the working copy before the handler runs.\<close>

definition savepoint :: "('d, 'a) op \<Rightarrow> ('d, 'a) op \<Rightarrow> ('d, 'a) op" where
  "savepoint m h = (\<lambda>s. case m s of (Inl IntegrityError, _) \<Rightarrow> h s | r \<Rightarrow> r)"

text \<open>\<open>try: m\<close> under \<open>except e: h e\<close>, without a savepoint.\<close>

definition catch :: "('d, 'a) op \<Rightarrow> (exn \<Rightarrow> ('d, 'a) op) \<Rightarrow> ('d, 'a) op" where
  "catch m h = (\<lambda>s. case m s of (Inl e, s') \<Rightarrow> h e s' | (Inr x, s') \<Rightarrow> (Inr x, s'))"

fun for_each :: "'b list \<Rightarrow> ('b \<Rightarrow> ('d, unit) op) \<Rightarrow> ('d, unit) op" where
  "for_each [] f = ret ()"
| "for_each (x # xs) f = seq (f x) (for_each xs f)"

definition run_request :: "('d, 'a) op \<Rightarrow> 'd \<Rightarrow> (exn + 'a) \<times> 'd" where
  "run_request m d = (case m (d, d) of (r, (c, w)) \<Rightarrow> (r, c))"

section \<open>Weakest preconditions\<close>

definition wp :: "('d, 'a) op \<Rightarrow> ('a \<Rightarrow> 'd \<times> 'd \<Rightarrow> bool) \<Rightarrow> (exn \<Rightarrow> 'd \<times> 'd \<Rightarrow> bool) \<Rightarrow>
    'd \<times> 'd \<Rightarrow> bool" where
  "wp m Q E s = (case m s of (Inl e, s') \<Rightarrow> E e s' | (Inr x, s') \<Rightarrow> Q x s')"

lemma wp_ret [wp_eqs]: "wp (ret x) Q E s = Q x s"
  by (simp add: wp_def ret_def)

lemma wp_raise [wp_eqs]: "wp (raise e) Q E s = E e s"
  by (simp add: wp_def raise_def)

lemma wp_bnd [wp_eqs]: "wp (bnd m f) Q E s = wp m (\<lambda>x. wp (f x) Q E) E s"
  by (simp add: wp_def bnd_def split: prod.split sum.split)

lemma wp_seq [wp_eqs]: "wp (seq m n) Q E s = wp m (\<lambda>_. wp n Q E) E s"
  by (simp add: seq_def wp_bnd)

lemma wp_query [wp_eqs]: "wp (query f) Q E (c, w) = Q (f w) (c, w)"
  by (simp add: wp_def query_def)

lemma wp_modify [wp_eqs]: "wp (modify f) Q E (c, w) = Q () (c, f w)"
  by (simp add: wp_def modify_def)

lemma wp_commit [wp_eqs]: "wp commit Q E (c, w) = Q () (w, w)"
  by (simp add: wp_def commit_def)

lemma wp_rollback [wp_eqs]: "wp rollback Q E (c, w) = Q () (c, c)"
  by (simp add: wp_def rollback_def)

lemma wp_require [wp_eqs]: "wp (require b e) Q E s = (if b then Q () s else E e s)"
  by (simp add: require_def wp_ret wp_raise)

lemma wp_found [wp_eqs]:
  "wp (found e r) Q E s = (case r of None \<Rightarrow> E e s | Some x \<Rightarrow> Q x s)"
  by (simp add: found_def wp_ret wp_raise split: option.split)

lemma wp_lift_result [wp_eqs]:
  "wp (lift_result r) Q E s = (case r of Inl e \<Rightarrow> E e s | Inr x \<Rightarrow> Q x s)"
  by (simp add: lift_result_def wp_ret wp_raise split: sum.split)

lemma wp_savepoint [wp_eqs]:
  "wp (savepoint m h) Q E s =
    wp m Q (\<lambda>e s'. if e = IntegrityError then wp h Q E s else E e s') s"
  by (auto simp: wp_def savepoint_def split: prod.split sum.split exn.split)

lemma wp_catch [wp_eqs]: "wp (catch m h) Q E s = wp m Q (\<lambda>e s'. wp (h e) Q E s') s"
  by (auto simp: wp_def catch_def split: prod.split sum.split)

lemma wp_if [wp_eqs]:
  "wp (if b then m else n) Q E s = (if b then wp m Q E s else wp n Q E s)"
  by simp

lemma wp_case_option [wp_eqs]:
  "wp (case r of None \<Rightarrow> m | Some x \<Rightarrow> f x) Q E s =
    (case r of None \<Rightarrow> wp m Q E s | Some x \<Rightarrow> wp (f x) Q E s)"
  by (simp split: option.split)

lemma wp_case_sum [wp_eqs]:
  "wp (case r of Inl x \<Rightarrow> m x | Inr y \<Rightarrow> f y) Q E s =
    (case r of Inl x \<Rightarrow> wp (m x) Q E s | Inr y \<Rightarrow> wp (f y) Q E s)"
  by (simp split: sum.split)

lemma wp_case_prod [wp_eqs]:
  "wp (case p of (x, y) \<Rightarrow> f x y) Q E s = (case p of (x, y) \<Rightarrow> wp (f x y) Q E s)"
  by (simp split: prod.split)

lemma wp_Let [wp_eqs]: "wp (let x = v in f x) Q E s = (let x = v in wp (f x) Q E s)"
  by (simp add: Let_def)

text \<open>The same as introduction rules, which leave one flat goal for each path.\<close>

lemma wpI_ret [wp_rules]: "Q x s \<Longrightarrow> wp (ret x) Q E s"
  by (simp add: wp_eqs)

lemma wpI_raise [wp_rules]: "E e s \<Longrightarrow> wp (raise e) Q E s"
  by (simp add: wp_eqs)

lemma wpI_bnd [wp_rules]: "wp m (\<lambda>x. wp (f x) Q E) E s \<Longrightarrow> wp (bnd m f) Q E s"
  by (simp add: wp_eqs)

lemma wpI_seq [wp_rules]: "wp m (\<lambda>_. wp n Q E) E s \<Longrightarrow> wp (seq m n) Q E s"
  by (simp add: wp_eqs)

lemma wpI_query [wp_rules]: "Q (f w) (c, w) \<Longrightarrow> wp (query f) Q E (c, w)"
  by (simp add: wp_eqs)

lemma wpI_modify [wp_rules]: "Q () (c, f w) \<Longrightarrow> wp (modify f) Q E (c, w)"
  by (simp add: wp_eqs)

lemma wpI_commit [wp_rules]: "Q () (w, w) \<Longrightarrow> wp commit Q E (c, w)"
  by (simp add: wp_eqs)

lemma wpI_rollback [wp_rules]: "Q () (c, c) \<Longrightarrow> wp rollback Q E (c, w)"
  by (simp add: wp_eqs)

lemma wpI_require [wp_rules]:
  "(b \<Longrightarrow> Q () s) \<Longrightarrow> (\<not> b \<Longrightarrow> E e s) \<Longrightarrow> wp (require b e) Q E s"
  by (simp add: wp_eqs)

lemma wpI_found [wp_rules]:
  "(\<And>x. r = Some x \<Longrightarrow> Q x s) \<Longrightarrow> (r = None \<Longrightarrow> E e s) \<Longrightarrow> wp (found e r) Q E s"
  by (cases r) (simp_all add: wp_eqs)

lemma wpI_lift_result [wp_rules]:
  "(\<And>x. r = Inr x \<Longrightarrow> Q x s) \<Longrightarrow> (\<And>e. r = Inl e \<Longrightarrow> E e s) \<Longrightarrow> wp (lift_result r) Q E s"
  by (cases r) (simp_all add: wp_eqs)

lemma wpI_if [wp_rules]:
  "(b \<Longrightarrow> wp m Q E s) \<Longrightarrow> (\<not> b \<Longrightarrow> wp n Q E s) \<Longrightarrow> wp (if b then m else n) Q E s"
  by simp

lemma wpI_option [wp_rules]:
  "(r = None \<Longrightarrow> wp m Q E s) \<Longrightarrow> (\<And>x. r = Some x \<Longrightarrow> wp (f x) Q E s) \<Longrightarrow>
    wp (case r of None \<Rightarrow> m | Some x \<Rightarrow> f x) Q E s"
  by (cases r) simp_all

lemma wpI_sum [wp_rules]:
  "(\<And>x. r = Inl x \<Longrightarrow> wp (m x) Q E s) \<Longrightarrow> (\<And>y. r = Inr y \<Longrightarrow> wp (f y) Q E s) \<Longrightarrow>
    wp (case r of Inl x \<Rightarrow> m x | Inr y \<Rightarrow> f y) Q E s"
  by (cases r) simp_all

lemma wpI_prod [wp_rules]:
  "(\<And>x y. p = (x, y) \<Longrightarrow> wp (f x y) Q E s) \<Longrightarrow> wp (case p of (x, y) \<Rightarrow> f x y) Q E s"
  by (cases p) simp

lemma wpI_Let [wp_rules]:
  "(\<And>x. x = v \<Longrightarrow> wp (f x) Q E s) \<Longrightarrow> wp (let x = v in f x) Q E s"
  by simp

lemma wpI_savepoint [wp_rules]:
  "wp m Q (\<lambda>e s'. if e = IntegrityError then wp h Q E s else E e s') s \<Longrightarrow>
    wp (savepoint m h) Q E s"
  by (simp add: wp_savepoint)

lemma wpI_catch [wp_rules]: "wp m Q (\<lambda>e s'. wp (h e) Q E s') s \<Longrightarrow> wp (catch m h) Q E s"
  by (simp add: wp_catch)

lemma wp_mono:
  "wp m Q E s \<Longrightarrow> (\<And>x s'. Q x s' \<Longrightarrow> Q' x s') \<Longrightarrow> (\<And>e s'. E e s' \<Longrightarrow> E' e s') \<Longrightarrow> wp m Q' E' s"
  by (auto simp: wp_def split: prod.splits sum.splits)

text \<open>A loop keeps what every iteration keeps.\<close>

lemma wpI_for_each:
  assumes "I w" and "\<And>x w. I w \<Longrightarrow> wp (f x) (\<lambda>_ s. \<exists>w'. s = (c, w') \<and> I w') E (c, w)"
    and "\<And>w. I w \<Longrightarrow> Q () (c, w)"
  shows "wp (for_each xs f) Q E (c, w)"
  using assms(1)
proof (induction xs arbitrary: w)
  case Nil
  then show ?case using assms(3) by (simp add: wp_eqs)
next
  case (Cons x xs)
  have "wp (f x) (\<lambda>_. wp (for_each xs f) Q E) E (c, w)"
    by (rule wp_mono[OF assms(2)[OF Cons.prems, of x]]) (auto intro: Cons.IH)
  then show ?case by (simp add: wp_eqs)
qed

lemma wp_run_request:
  assumes "wp m (\<lambda>x s. Q x (fst s)) (\<lambda>e s. E e (fst s)) (d, d)"
  shows "case run_request m d of (Inr x, d') \<Rightarrow> Q x d' | (Inl e, d') \<Rightarrow> E e d'"
  using assms by (auto simp: wp_def run_request_def split: prod.splits sum.splits)

text \<open>From the outcome of an operation to its precondition.\<close>

lemma outcome_eq: "m s = t \<longleftrightarrow> wp m (\<lambda>x s'. t = (Inr x, s')) (\<lambda>e s'. t = (Inl e, s')) s"
  by (auto simp: wp_def split: prod.splits sum.splits)

lemma run_request_ok:
  "run_request m d = (Inr x, d') \<Longrightarrow> wp m (\<lambda>x s. Q x (fst s)) (\<lambda>_ _. True) (d, d) \<Longrightarrow> Q x d'"
  by (auto simp: wp_def run_request_def split: prod.splits sum.splits)

text \<open>A committed-state invariant: kept by a request whatever it returns.\<close>

definition keeps :: "('d \<Rightarrow> bool) \<Rightarrow> ('d, 'a) op \<Rightarrow> bool" where
  "keeps I m \<longleftrightarrow> (\<forall>d. I d \<longrightarrow> wp m (\<lambda>_ s. I (fst s)) (\<lambda>_ s. I (fst s)) (d, d))"

lemma keepsI: "(\<And>d. I d \<Longrightarrow> wp m (\<lambda>_ s. I (fst s)) (\<lambda>_ s. I (fst s)) (d, d)) \<Longrightarrow> keeps I m"
  by (simp add: keeps_def)

lemma keeps_run_request: "keeps I m \<Longrightarrow> I d \<Longrightarrow> I (snd (run_request m d))"
  by (auto simp: keeps_def wp_def run_request_def split: prod.splits sum.splits)

section \<open>Tables\<close>

definition row_by :: "('r \<Rightarrow> 'k) \<Rightarrow> 'k \<Rightarrow> 'r list \<Rightarrow> 'r option" where
  "row_by key k rows = List.find (\<lambda>r. key r = k) rows"

definition put_row :: "('r \<Rightarrow> 'k) \<Rightarrow> 'r \<Rightarrow> 'r list \<Rightarrow> 'r list" where
  "put_row key r rows = map (\<lambda>x. if key x = key r then r else x) rows"

lemma find_SomeD: "List.find P xs = Some x \<Longrightarrow> x \<in> set xs \<and> P x"
  by (auto simp: find_Some_iff)

lemma find_NoneD: "List.find P xs = None \<Longrightarrow> x \<in> set xs \<Longrightarrow> \<not> P x"
  by (auto simp: find_None_iff)

lemma find_append:
  "List.find P (xs @ ys) = (case List.find P xs of None \<Rightarrow> List.find P ys | Some x \<Rightarrow> Some x)"
  by (induction xs) auto

lemma row_by_SomeD: "row_by key k rows = Some r \<Longrightarrow> r \<in> set rows \<and> key r = k"
  by (auto simp: row_by_def dest: find_SomeD)

lemma row_by_NoneD: "row_by key k rows = None \<Longrightarrow> r \<in> set rows \<Longrightarrow> key r \<noteq> k"
  by (auto simp: row_by_def dest: find_NoneD)

lemma row_by_Some_iff:
  "distinct (map key rows) \<Longrightarrow> row_by key k rows = Some r \<longleftrightarrow> r \<in> set rows \<and> key r = k"
  by (induction rows) (auto simp: row_by_def)

lemma row_by_append:
  "row_by key k (rows @ rs) = (case row_by key k rows of None \<Rightarrow> row_by key k rs | Some x \<Rightarrow> Some x)"
  by (simp add: row_by_def find_append split: option.split)

lemma row_by_single [simp]: "row_by key k [r] = (if key r = k then Some r else None)"
  by (simp add: row_by_def)

lemma map_key_put_row [simp]: "map key (put_row key r rows) = map key rows"
  by (induction rows) (auto simp: put_row_def)

lemma set_put_row:
  "r' \<in> set rows \<Longrightarrow> key r' = key r \<Longrightarrow>
    set (put_row key r rows) = insert r {x \<in> set rows. key x \<noteq> key r}"
  by (auto simp: put_row_def)

lemma put_row_mem: "old \<in> set rows \<Longrightarrow> key r = key old \<Longrightarrow> r \<in> set (put_row key r rows)"
  by (force simp: put_row_def)

lemma put_row_memD: "x \<in> set (put_row key r rows) \<Longrightarrow> x = r \<or> x \<in> set rows \<and> key x \<noteq> key r"
  by (auto simp: put_row_def split: if_splits)

lemma row_by_put_row:
  "row_by key k (put_row key r rows) =
    (if k = key r then map_option (\<lambda>_. r) (row_by key k rows) else row_by key k rows)"
  by (induction rows) (auto simp: row_by_def put_row_def)

lemma put_row_Nil [simp]: "put_row key r [] = []"
  by (simp add: put_row_def)

lemma put_row_Cons:
  "put_row key r (x # xs) = (if key x = key r then r else x) # put_row key r xs"
  by (simp add: put_row_def)

lemma sum_list_put_row:
  fixes f :: "'r \<Rightarrow> int"
  assumes "distinct (map key rows)" and "r' \<in> set rows" and "key r' = key r"
  shows "sum_list (map f (put_row key r rows)) = sum_list (map f rows) - f r' + f r"
  using assms
proof (induction rows)
  case Nil
  then show ?case by simp
next
  case (Cons x xs)
  show ?case
  proof (cases "x = r'")
    case True
    with Cons.prems have "\<forall>y\<in>set xs. key y \<noteq> key r" by (metis distinct.simps(2) imageI list.set_map list.simps(9))
    then have "put_row key r xs = xs"
      by (auto simp: put_row_def intro: map_idI)
    with True Cons.prems(3) show ?thesis by (simp add: put_row_Cons)
  next
    case False
    with Cons.prems have m: "r' \<in> set xs" and k: "key x \<noteq> key r" by (auto simp: image_iff)
    with Cons show ?thesis by (simp add: put_row_Cons)
  qed
qed

lemma sum_filter_concat:
  "sum_list (map f (filter P (concat xss))) = sum_list (map (\<lambda>xs. sum_list (map f (filter P xs))) xss)"
  for f :: "'a \<Rightarrow> int"
  by (induction xss) simp_all

end
