(* ===== verification/PyText.thy ===== *)
theory PyText
  imports Prelude
begin

text \<open>
  The string operations of Python's standard library that the services use: \<open>strip\<close>,
  \<open>upper\<close>, \<open>lower\<close>, \<open>split\<close> on a separator character, \<open>str\<close> of an integer and of a UUID,
  and \<open>int\<close> of a string. The lemmas are the round trips between printing and parsing.
\<close>

section \<open>Characters and stripping\<close>

definition is_space :: "char \<Rightarrow> bool" where
  "is_space c = (let n = (of_char c :: nat) in
     (9 \<le> n \<and> n \<le> 13) \<or> (28 \<le> n \<and> n \<le> 32) \<or> n = 133 \<or> n = 160)"

definition strip :: "string \<Rightarrow> string" where
  "strip s = rev (dropWhile is_space (rev (dropWhile is_space s)))"

definition upper_char :: "char \<Rightarrow> char" where
  "upper_char c = (let n = (of_char c :: nat) in
     if 97 \<le> n \<and> n \<le> 122 then char_of (n - 32) else c)"

definition lower_char :: "char \<Rightarrow> char" where
  "lower_char c = (let n = (of_char c :: nat) in
     if 65 \<le> n \<and> n \<le> 90 then char_of (n + 32) else c)"

definition upper :: "string \<Rightarrow> string" where
  "upper s = map upper_char s"

definition lower :: "string \<Rightarrow> string" where
  "lower s = map lower_char s"

text \<open>\<open>str.casefold\<close> of the code points below 256; the micro sign, whose folding lies beyond them, is kept.\<close>

definition casefold_char :: "char \<Rightarrow> string" where
  "casefold_char c = (let n = (of_char c :: nat) in
     if 192 \<le> n \<and> n \<le> 222 \<and> n \<noteq> 215 then [char_of (n + 32)] else if n = 223 then ''ss'' else [lower_char c])"

definition casefold :: "string \<Rightarrow> string" where
  "casefold s = concat (map casefold_char s)"

definition is_ascii_alpha :: "char \<Rightarrow> bool" where
  "is_ascii_alpha c = (let n = (of_char c :: nat) in (65 \<le> n \<and> n \<le> 90) \<or> (97 \<le> n \<and> n \<le> 122))"

lemma length_upper [simp]: "length (upper s) = length s"
  by (simp add: upper_def)

lemma length_lower [simp]: "length (lower s) = length s"
  by (simp add: lower_def)

lemma dropWhile_length_le: "length (dropWhile P xs) \<le> length xs"
  by (induction xs) auto

lemma length_strip: "length (strip s) \<le> length s"
  unfolding strip_def by (metis dropWhile_length_le length_rev order_trans)

lemma dropWhile_hd_id: "xs = [] \<or> \<not> P (hd xs) \<Longrightarrow> dropWhile P xs = xs"
  by (cases xs) auto

lemma dropWhile_head: "dropWhile P xs = [] \<or> \<not> P (hd (dropWhile P xs))"
  by (induction xs) auto

lemma hd_rev_dropWhile_rev:
  assumes "xs = [] \<or> \<not> P (hd xs)"
  shows "rev (dropWhile P (rev xs)) = [] \<or> \<not> P (hd (rev (dropWhile P (rev xs))))"
proof (cases xs)
  case Nil
  then show ?thesis by simp
next
  case (Cons y ys)
  with assms have "\<not> P y" by simp
  then have "dropWhile P (rev ys @ [y]) = dropWhile P (rev ys) @ [y]"
    by (induction "rev ys" arbitrary: ys rule: list.induct) (auto simp: dropWhile_append3)
  with Cons \<open>\<not> P y\<close> show ?thesis by simp
qed

text \<open>Stripping twice is stripping once.\<close>

lemma strip_idem [simp]: "strip (strip s) = strip s"
proof -
  let ?t = "dropWhile is_space s"
  have h: "strip s = [] \<or> \<not> is_space (hd (strip s))"
    unfolding strip_def by (rule hd_rev_dropWhile_rev) (rule dropWhile_head)
  have r: "rev (strip s) = [] \<or> \<not> is_space (hd (rev (strip s)))"
    unfolding strip_def using dropWhile_head[of is_space "rev ?t"] by simp
  show ?thesis
    unfolding strip_def[of "strip s"]
    using dropWhile_hd_id[of "strip s" is_space, OF h] dropWhile_hd_id[of "rev (strip s)" is_space, OF r] by simp
qed

section \<open>Decimal and hexadecimal numerals\<close>

definition digit :: "nat \<Rightarrow> char" where
  "digit n = (if n < 10 then char_of (48 + n) else char_of (87 + n))"

fun nat_digits :: "nat \<Rightarrow> string" where
  "nat_digits n = (if n < 10 then [digit n] else nat_digits (n div 10) @ [digit (n mod 10)])"

declare nat_digits.simps [simp del]

definition str_int :: "int \<Rightarrow> string" where
  "str_int i = (if i < 0 then CHR ''-'' # nat_digits (nat (- i)) else nat_digits (nat i))"

fun hex_digits :: "nat \<Rightarrow> nat \<Rightarrow> string" where
  "hex_digits 0 n = []"
| "hex_digits (Suc k) n = hex_digits k (n div 16) @ [digit (n mod 16)]"

text \<open>\<open>str(uuid.UUID(int=n))\<close>: 32 hexadecimal digits in groups of 8, 4, 4, 4 and 12.\<close>

definition str_uuid :: "uuid \<Rightarrow> string" where
  "str_uuid n = (let h = hex_digits 32 n in
     take 8 h @ ''-'' @ take 4 (drop 8 h) @ ''-'' @ take 4 (drop 12 h) @ ''-'' @
     take 4 (drop 16 h) @ ''-'' @ drop 20 h)"

definition is_digit :: "char \<Rightarrow> bool" where
  "is_digit c = (let n = (of_char c :: nat) in 48 \<le> n \<and> n \<le> 57)"

definition digit_val :: "char \<Rightarrow> int" where
  "digit_val c = of_char c - 48"

definition digits_val :: "string \<Rightarrow> int" where
  "digits_val ds = foldl (\<lambda>a c. 10 * a + digit_val c) 0 ds"

fun split_on :: "char \<Rightarrow> string \<Rightarrow> string list" where
  "split_on c [] = [[]]"
| "split_on c (x # xs) =
     (if x = c then [] # split_on c xs
      else case split_on c xs of w # ws \<Rightarrow> (x # w) # ws | [] \<Rightarrow> [[x]])"

text \<open>\<open>int(s)\<close>: surrounding white space, a sign, and digits with single underscores between
  them; \<open>None\<close> is the \<open>ValueError\<close>.\<close>

definition py_int :: "string \<Rightarrow> int option" where
  "py_int s = (let t = strip s;
      (neg, body) = (case t of [] \<Rightarrow> (False, t)
        | c # r \<Rightarrow> if c = CHR ''-'' then (True, r) else if c = CHR ''+'' then (False, r) else (False, t));
      ws = split_on (CHR ''_'') body
    in if list_all (\<lambda>w. w \<noteq> [] \<and> list_all is_digit w) ws
       then Some ((if neg then - 1 else 1) * digits_val (concat ws)) else None)"

lemma of_char_digit: "n < 10 \<Longrightarrow> (of_char (digit n) :: nat) = 48 + n"
  by (simp add: digit_def of_char_of)

lemma is_digit_digit: "n < 10 \<Longrightarrow> is_digit (digit n)"
  by (simp add: is_digit_def of_char_digit)

lemma digit_val_digit: "n < 10 \<Longrightarrow> digit_val (digit n) = int n"
proof -
  assume "n < 10"
  then have "(of_char (digit n) :: int) = int (48 + n)"
    by (metis of_char_digit of_nat_of_char)
  then show ?thesis by (simp add: digit_val_def)
qed

lemma nat_digits_nonempty [simp]: "nat_digits n \<noteq> []"
  by (subst nat_digits.simps) simp

lemma nat_digits_is_digit: "list_all is_digit (nat_digits n)"
proof (induction n rule: nat_digits.induct)
  case (1 n)
  then show ?case
    by (subst nat_digits.simps) (auto simp: is_digit_digit)
qed

lemma digits_val_nat_digits [simp]: "digits_val (nat_digits n) = int n"
proof (induction n rule: nat_digits.induct)
  case (1 n)
  show ?case
  proof (cases "n < 10")
    case True
    then show ?thesis by (simp add: nat_digits.simps[of n] digits_val_def digit_val_digit)
  next
    case False
    with 1 have "digits_val (nat_digits (n div 10)) = int (n div 10)" by simp
    with False have "digits_val (nat_digits n) = 10 * int (n div 10) + int (n mod 10)"
      by (simp add: nat_digits.simps[of n] digits_val_def digit_val_digit)
    then show ?thesis using mult_div_mod_eq[of 10 n] by (metis of_nat_add of_nat_mult of_nat_numeral)
  qed
qed

lemma digit_not_special:
  "is_digit c \<Longrightarrow> \<not> is_space c \<and> c \<noteq> CHR ''-'' \<and> c \<noteq> CHR ''+'' \<and> c \<noteq> CHR ''_''"
  by (auto simp: is_digit_def is_space_def Let_def)

lemma dash_not_space [simp]: "\<not> is_space (CHR ''-'')"
  by (simp add: is_space_def)

lemma split_on_absent: "c \<notin> set w \<Longrightarrow> split_on c w = [w]"
  by (induction w) auto

lemma split_on_append: "c \<notin> set w \<Longrightarrow> split_on c (w @ c # r) = w # split_on c r"
  by (induction w) auto

lemma strip_no_space: "list_all (\<lambda>c. \<not> is_space c) s \<Longrightarrow> strip s = s"
proof -
  assume a: "list_all (\<lambda>c. \<not> is_space c) s"
  then have "dropWhile is_space s = s" by (cases s) auto
  moreover have "dropWhile is_space (rev s) = rev s"
    using a by (intro dropWhile_hd_id) (metis hd_in_set list.pred_set set_rev)
  ultimately show ?thesis by (simp add: strip_def)
qed

text \<open>Printing an integer and reading it back.\<close>

lemma py_int_str_int: "py_int (str_int i) = Some i"
proof -
  define ds where "ds = nat_digits (nat \<bar>i\<bar>)"
  have d: "list_all is_digit ds" and v: "digits_val ds = \<bar>i\<bar>" and ne: "ds \<noteq> []"
    by (simp_all add: ds_def nat_digits_is_digit)
  have s: "strip ds = ds" "strip (CHR ''-'' # ds) = CHR ''-'' # ds"
    using d by (auto intro!: strip_no_space simp: list_all_iff digit_not_special dash_not_space)
  have u: "split_on (CHR ''_'') ds = [ds]"
    using d by (intro split_on_absent) (auto simp: list_all_iff dest: digit_not_special)
  obtain c r where cr: "ds = c # r" using ne by (cases ds) auto
  then have "c \<noteq> CHR ''-''" "c \<noteq> CHR ''+''" using d digit_not_special[of c] by auto
  moreover have "str_int i = (if i < 0 then CHR ''-'' # ds else ds)"
    by (simp add: str_int_def ds_def)
  ultimately show ?thesis
    using s u d v cr by (cases "i < 0") (simp_all add: py_int_def)
qed

end
