(* ===== verification/Json.thy ===== *)
theory Json
  imports PyText "HOL-Library.Multiset"
begin

text \<open>
  JSON values as the Python services build and read them (dictionaries, lists, strings,
  integers, booleans, \<open>None\<close>), and \<open>json.dumps(..., sort_keys=True, separators=(",", ":"))\<close>,
  the canonical text whose SHA-256 digest identifies requests, audit states and contract
  documents. \<open>dumps\<close> does not depend on the order in which a dictionary was filled.
\<close>

datatype json =
    JNull
  | JBool bool
  | JInt int
  | JFloat string
  | JStr string
  | JList "json list"
  | JObj "(string \<times> json) list"

definition jget :: "json \<Rightarrow> string \<Rightarrow> json" where
  "jget j k = (case j of JObj kvs \<Rightarrow> (case map_of kvs k of None \<Rightarrow> JNull | Some v \<Rightarrow> v) | _ \<Rightarrow> JNull)"

definition jhas :: "json \<Rightarrow> string \<Rightarrow> bool" where
  "jhas j k = (case j of JObj kvs \<Rightarrow> k \<in> set (map fst kvs) | _ \<Rightarrow> False)"

definition j_id :: "uuid \<Rightarrow> json" where
  "j_id i = JStr (str_uuid i)"

definition j_opt :: "('a \<Rightarrow> json) \<Rightarrow> 'a option \<Rightarrow> json" where
  "j_opt f r = (case r of None \<Rightarrow> JNull | Some x \<Rightarrow> f x)"

definition escape_char :: "bool \<Rightarrow> char \<Rightarrow> string" where
  "escape_char ascii c = (let n = (of_char c :: nat) in
     if n = 34 then [char_of (92::nat), char_of (34::nat)]
     else if n = 92 then [char_of (92::nat), char_of (92::nat)]
     else if n = 10 then [char_of (92::nat), CHR ''n'']
     else if n = 13 then [char_of (92::nat), CHR ''r'']
     else if n = 9 then [char_of (92::nat), CHR ''t'']
     else if n = 8 then [char_of (92::nat), CHR ''b'']
     else if n = 12 then [char_of (92::nat), CHR ''f'']
     else if n < 32 \<or> (ascii \<and> 127 \<le> n) then char_of (92::nat) # ''u'' @ hex_digits 4 n
     else [c])"

definition quote_str :: "bool \<Rightarrow> string \<Rightarrow> string" where
  "quote_str ascii s = CHR ''\"'' # concat (map (escape_char ascii) s) @ [CHR ''\"'']"

definition join :: "string \<Rightarrow> string list \<Rightarrow> string" where
  "join sep ws = (case ws of [] \<Rightarrow> [] | w # r \<Rightarrow> w @ concat (map (\<lambda>x. sep @ x) r))"

text \<open>\<open>ascii\<close> is the \<open>ensure_ascii\<close> argument.\<close>

fun dumps :: "bool \<Rightarrow> json \<Rightarrow> string" where
  "dumps ascii JNull = ''null''"
| "dumps ascii (JBool b) = (if b then ''true'' else ''false'')"
| "dumps ascii (JInt i) = str_int i"
| "dumps ascii (JFloat s) = s"
| "dumps ascii (JStr s) = quote_str ascii s"
| "dumps ascii (JList js) = ''['' @ join '','' (map (dumps ascii) js) @ '']''"
| "dumps ascii (JObj kvs) =
     ''{'' @ join '','' (map snd (sort_key fst
       (map (\<lambda>kv. (fst kv, quote_str ascii (fst kv) @ '':'' @ dumps ascii (snd kv))) kvs))) @ ''}''"

lemma sort_key_perm_eq:
  fixes xs ys :: "('k::linorder \<times> 'b) list"
  assumes "mset xs = mset ys" and "distinct (map fst xs)"
  shows "sort_key fst xs = sort_key fst ys"
proof (rule properties_for_sort_key)
  show "mset (sort_key fst ys) = mset xs" using assms by simp
  show "sorted (map fst (sort_key fst ys))" by simp
  fix k assume "k \<in> set (sort_key fst ys)"
  have dy: "distinct (map fst ys)"
    using assms by (metis mset_eq_imp_distinct_iff mset_map)
  have eq: "filter (\<lambda>x. fst k = fst x) zs = [k]"
    if "distinct (map fst zs)" and "k \<in> set zs" for zs :: "('k \<times> 'b) list"
    using that by (induction zs) (auto simp: filter_empty_conv rev_image_eqI)
  have "k \<in> set ys" and "k \<in> set xs"
    using \<open>k \<in> set (sort_key fst ys)\<close> assms(1) by (auto dest: mset_eq_setD)
  moreover have "distinct (map fst (sort_key fst ys))"
    using dy by (metis distinct_map distinct_sort inj_on_def mset_eq_imp_distinct_iff mset_map mset_sort)
  ultimately show "filter (\<lambda>x. fst k = fst x) (sort_key fst ys) = filter (\<lambda>x. fst k = fst x) xs"
    using eq assms(2) by simp
qed

text \<open>Two dictionaries with the same items have the same canonical text.\<close>

lemma dumps_obj_perm:
  assumes "mset xs = mset ys" and "distinct (map fst xs)"
  shows "dumps ascii (JObj xs) = dumps ascii (JObj ys)"
proof -
  let ?g = "\<lambda>kv. (fst kv, quote_str ascii (fst kv) @ '':'' @ dumps ascii (snd kv))"
  have "mset (map ?g xs) = mset (map ?g ys)" using assms(1) by simp
  moreover have "distinct (map fst (map ?g xs))" using assms(2) by (simp add: comp_def)
  ultimately have "sort_key fst (map ?g xs) = sort_key fst (map ?g ys)" by (rule sort_key_perm_eq)
  then show ?thesis by simp
qed

end
