(* ===== verification/Schema.thy ===== *)
theory Schema
  imports Json
begin

text \<open>
  The rows of the marketplace and money tables (the \<open>models.py\<close> files), the whole database
  as one record of tables, the payment-provider protocol and the environment of a request.
  Status columns are datatypes whose constructors are the values of the table's CHECK
  constraint. Surrogate keys come from one counter, so a new row's id is unused. Audit
  timestamps (\<open>created_at\<close>, \<open>updated_at\<close>) are kept only where a query or a response uses
  them.
\<close>

section \<open>Users, projects and proposals\<close>

record user =
  user_id :: uuid
  user_roles :: "string list"

datatype project_status = PJ_OPEN | PJ_CLOSED | PJ_CANCELLED

record project =
  pj_id :: uuid
  pj_employer :: uuid
  pj_title :: string
  pj_description :: string
  pj_budget_min :: "int option"
  pj_budget_max :: "int option"
  pj_currency :: "currency option"
  pj_status :: project_status

record project_attachment =
  pa_id :: uuid
  pa_project_id :: uuid
  pa_object_key :: string
  pa_mime_type :: string
  pa_file_size_bytes :: int
  pa_scan_status :: string

datatype proposal_status =
  PR_DRAFT | PR_SUBMITTED | PR_UNDER_NEGOTIATION | PR_WITHDRAWN | PR_REJECTED | PR_ACCEPTED

record proposal_milestone =
  pm_sequence :: int
  pm_title :: string
  pm_amount :: int
  pm_delivery_days :: int

record proposal_version =
  pv_id :: uuid
  pv_number :: int
  pv_amount :: int
  pv_currency :: currency
  pv_delivery_days :: int
  pv_cover_letter :: string
  pv_milestones :: "proposal_milestone list"

record proposal =
  pr_id :: uuid
  pr_project_id :: uuid
  pr_freelancer :: uuid
  pr_status :: proposal_status
  pr_current_version :: int
  pr_versions :: "proposal_version list"

section \<open>Contracts and milestones\<close>

datatype contract_status = CON_PENDING_SIGNATURES | CON_ACTIVE | CON_CANCELLED

record contract =
  con_id :: uuid
  con_project_id :: uuid
  con_proposal_id :: uuid
  con_employer :: uuid
  con_freelancer :: uuid
  con_status :: contract_status
  con_current_version :: int
  con_activated_at :: "nat option"
  con_cancelled_at :: "nat option"

record contract_version =
  cv_id :: uuid
  cv_contract_id :: uuid
  cv_number :: int
  cv_snapshot :: json
  cv_document_hash :: string

record contract_party =
  cp_contract_id :: uuid
  cp_user_id :: uuid
  cp_role :: string
  cp_required_signature :: bool

record contract_signature =
  cs_id :: uuid
  cs_version_id :: uuid
  cs_user_id :: uuid
  cs_document_hash :: string
  cs_ip_metadata :: json
  cs_risk_metadata :: json
  cs_provider_reference :: "string option"
  cs_key_hash :: string

datatype milestone_status =
  MS_CREATED | MS_FUNDED | MS_IN_PROGRESS | MS_SUBMITTED | MS_CHANGES_REQUESTED
| MS_DISPUTED | MS_APPROVED | MS_RELEASE_PENDING | MS_RELEASED

record milestone =
  ms_id :: uuid
  ms_version_id :: uuid
  ms_sequence :: int
  ms_title :: string
  ms_amount :: int
  ms_currency :: currency
  ms_delivery_days :: int
  ms_status :: milestone_status

record milestone_event =
  me_milestone_id :: uuid
  me_actor :: "uuid option"
  me_from :: milestone_status
  me_to :: milestone_status
  me_note :: string

section \<open>Ledger\<close>

datatype account_type =
  PROVIDER_CLEARING | MILESTONE_ESCROW | FREELANCER_WALLET | PLATFORM_COMMISSION

record ledger_account =
  acc_id :: uuid
  acc_key :: string
  acc_type :: account_type
  acc_owner :: "uuid option"
  acc_milestone :: "uuid option"
  acc_currency :: currency

datatype journal_operation =
  MILESTONE_FUND | MILESTONE_RELEASE | MILESTONE_REFUND | DISPUTE_RESOLUTION | PAYOUT | REVERSAL

record ledger_entry =
  le_account :: uuid
  le_direction :: string
  le_amount :: int
  le_currency :: currency

record journal =
  jn_id :: uuid
  jn_operation :: journal_operation
  jn_reference_type :: string
  jn_reference_id :: uuid
  jn_reversal_of :: "uuid option"
  jn_metadata :: json
  jn_entries :: "ledger_entry list"

section \<open>Payments and payouts\<close>

record idempotency_key =
  ik_id :: uuid
  ik_user :: uuid
  ik_operation :: string
  ik_key_hash :: string
  ik_request_hash :: string
  ik_response_status :: "int option"
  ik_response_body :: "json option"

datatype intent_status = PI_PENDING | PI_CAPTURED | PI_FAILED | PI_CANCELLED

record payment_intent =
  pi_id :: uuid
  pi_milestone :: uuid
  pi_employer :: uuid
  pi_provider :: string
  pi_reference :: "string option"
  pi_idem :: uuid
  pi_amount :: int
  pi_currency :: currency
  pi_status :: intent_status
  pi_captured_at :: "nat option"
  pi_created_at :: nat

record escrow =
  es_id :: uuid
  es_milestone :: uuid
  es_account :: uuid
  es_commission_bps :: int

record funding =
  fu_escrow :: uuid
  fu_intent :: uuid
  fu_journal :: uuid
  fu_amount :: int

datatype refund_status = RF_PENDING | RF_SUCCEEDED | RF_FAILED

record refund =
  rf_id :: uuid
  rf_milestone :: uuid
  rf_employer :: uuid
  rf_journal :: uuid
  rf_idem :: uuid
  rf_provider :: string
  rf_reference :: "string option"
  rf_amount :: int
  rf_currency :: currency
  rf_status :: refund_status

record provider_event =
  pe_provider :: string
  pe_external_id :: string
  pe_type :: string
  pe_payload_hash :: string
  pe_processed_at :: "nat option"

record payout_account =
  ya_id :: uuid
  ya_freelancer :: uuid
  ya_provider :: string
  ya_reference :: string
  ya_active :: bool

datatype payout_status = PO_PENDING | PO_SUCCEEDED | PO_FAILED

record payout =
  po_id :: uuid
  po_freelancer :: uuid
  po_idem :: uuid
  po_journal :: uuid
  po_reversal :: "uuid option"
  po_provider :: string
  po_destination :: "string option"
  po_reference :: "string option"
  po_amount :: int
  po_currency :: currency
  po_status :: payout_status
  po_completed_at :: "nat option"

section \<open>Disputes and files\<close>

datatype dispute_status =
  DS_OPEN | DS_EVIDENCE_COLLECTION | DS_UNDER_REVIEW | DS_NEED_MORE_INFO | DS_RESOLVED

datatype dispute_outcome = RELEASE_TO_FREELANCER | REFUND_CLIENT | SPLIT

record dispute =
  dp_id :: uuid
  dp_milestone :: uuid
  dp_contract :: uuid
  dp_opened_by :: uuid
  dp_status :: dispute_status
  dp_reason :: string
  dp_created_at :: nat
  dp_resolved_at :: "nat option"

record dispute_party =
  dpp_dispute :: uuid
  dpp_user :: uuid
  dpp_role :: string

record dispute_evidence =
  dev_id :: uuid
  dev_dispute :: uuid
  dev_submitted_by :: uuid
  dev_file :: uuid
  dev_note :: string
  dev_created_at :: nat

record dispute_event =
  dvt_dispute :: uuid
  dvt_actor :: uuid
  dvt_type :: string
  dvt_from :: "dispute_status option"
  dvt_to :: dispute_status
  dvt_reason :: string
  dvt_before :: json
  dvt_after :: json
  dvt_created_at :: nat

record dispute_decision =
  dd_id :: uuid
  dd_dispute :: uuid
  dd_administrator :: uuid
  dd_outcome :: dispute_outcome
  dd_award :: int
  dd_net :: int
  dd_refund_minor :: int
  dd_commission :: int
  dd_currency :: currency
  dd_journal :: uuid
  dd_refund :: "uuid option"
  dd_reason :: string
  dd_created_at :: nat

record file_object =
  fo_id :: uuid
  fo_owner :: uuid
  fo_purpose :: string
  fo_status :: string
  fo_object_key :: string
  fo_original_name :: string
  fo_mime_type :: string
  fo_size_bytes :: int
  fo_sha256 :: "string option"
  fo_rejection :: "string option"
  fo_created :: nat

section \<open>Outbox and audit log\<close>

record outbox_event =
  ob_event_type :: string
  ob_aggregate_type :: string
  ob_aggregate_id :: string
  ob_payload :: json

record audit_event =
  ae_actor :: "uuid option"
  ae_action :: string
  ae_resource_type :: string
  ae_resource_id :: "string option"
  ae_request_id :: "string option"
  ae_previous_hash :: "string option"
  ae_new_hash :: "string option"
  ae_metadata :: json

section \<open>The database\<close>

record db =
  next_uuid :: nat
  users :: "user list"
  projects :: "project list"
  attachments :: "project_attachment list"
  proposals :: "proposal list"
  contracts :: "contract list"
  contract_versions :: "contract_version list"
  contract_parties :: "contract_party list"
  contract_signatures :: "contract_signature list"
  milestones :: "milestone list"
  milestone_events :: "milestone_event list"
  accounts :: "ledger_account list"
  journals :: "journal list"
  idempotency_keys :: "idempotency_key list"
  intents :: "payment_intent list"
  escrows :: "escrow list"
  fundings :: "funding list"
  refunds :: "refund list"
  provider_events :: "provider_event list"
  payout_accounts :: "payout_account list"
  payouts :: "payout list"
  disputes :: "dispute list"
  dispute_parties :: "dispute_party list"
  dispute_evidence :: "dispute_evidence list"
  dispute_events :: "dispute_event list"
  dispute_decisions :: "dispute_decision list"
  file_objects :: "file_object list"
  outbox :: "outbox_event list"
  audit_events :: "audit_event list"

type_synonym 'a dbop = "(db, 'a) op"
type_synonym response = "json \<times> int"

definition empty_db :: db where
  "empty_db = \<lparr>next_uuid = 1, users = [], projects = [], attachments = [], proposals = [],
     contracts = [], contract_versions = [], contract_parties = [], contract_signatures = [],
     milestones = [], milestone_events = [], accounts = [], journals = [],
     idempotency_keys = [], intents = [], escrows = [], fundings = [], refunds = [],
     provider_events = [], payout_accounts = [], payouts = [], disputes = [],
     dispute_parties = [], dispute_evidence = [], dispute_events = [], dispute_decisions = [],
     file_objects = [], outbox = [], audit_events = []\<rparr>"

text \<open>\<open>uuid.uuid4()\<close>: an id no row uses yet.\<close>

definition uuid4 :: "uuid dbop" where
  "uuid4 = bnd (query next_uuid) (\<lambda>i. seq (modify (\<lambda>d. d\<lparr>next_uuid := Suc i\<rparr>)) (ret i))"

lemma wp_uuid4 [wp_eqs]:
  "wp uuid4 Q E (c, w) = Q (next_uuid w) (c, w\<lparr>next_uuid := Suc (next_uuid w)\<rparr>)"
  by (simp add: uuid4_def wp_eqs)

section \<open>Status values as text\<close>

fun milestone_status_str :: "milestone_status \<Rightarrow> string" where
  "milestone_status_str MS_CREATED = ''CREATED''"
| "milestone_status_str MS_FUNDED = ''FUNDED''"
| "milestone_status_str MS_IN_PROGRESS = ''IN_PROGRESS''"
| "milestone_status_str MS_SUBMITTED = ''SUBMITTED''"
| "milestone_status_str MS_CHANGES_REQUESTED = ''CHANGES_REQUESTED''"
| "milestone_status_str MS_DISPUTED = ''DISPUTED''"
| "milestone_status_str MS_APPROVED = ''APPROVED''"
| "milestone_status_str MS_RELEASE_PENDING = ''RELEASE_PENDING''"
| "milestone_status_str MS_RELEASED = ''RELEASED''"

fun contract_status_str :: "contract_status \<Rightarrow> string" where
  "contract_status_str CON_PENDING_SIGNATURES = ''PENDING_SIGNATURES''"
| "contract_status_str CON_ACTIVE = ''ACTIVE''"
| "contract_status_str CON_CANCELLED = ''CANCELLED''"

fun intent_status_str :: "intent_status \<Rightarrow> string" where
  "intent_status_str PI_PENDING = ''PENDING''"
| "intent_status_str PI_CAPTURED = ''CAPTURED''"
| "intent_status_str PI_FAILED = ''FAILED''"
| "intent_status_str PI_CANCELLED = ''CANCELLED''"

fun refund_status_str :: "refund_status \<Rightarrow> string" where
  "refund_status_str RF_PENDING = ''PENDING''"
| "refund_status_str RF_SUCCEEDED = ''SUCCEEDED''"
| "refund_status_str RF_FAILED = ''FAILED''"

fun payout_status_str :: "payout_status \<Rightarrow> string" where
  "payout_status_str PO_PENDING = ''PENDING''"
| "payout_status_str PO_SUCCEEDED = ''SUCCEEDED''"
| "payout_status_str PO_FAILED = ''FAILED''"

fun dispute_status_str :: "dispute_status \<Rightarrow> string" where
  "dispute_status_str DS_OPEN = ''OPEN''"
| "dispute_status_str DS_EVIDENCE_COLLECTION = ''EVIDENCE_COLLECTION''"
| "dispute_status_str DS_UNDER_REVIEW = ''UNDER_REVIEW''"
| "dispute_status_str DS_NEED_MORE_INFO = ''NEED_MORE_INFO''"
| "dispute_status_str DS_RESOLVED = ''RESOLVED''"

fun dispute_outcome_str :: "dispute_outcome \<Rightarrow> string" where
  "dispute_outcome_str RELEASE_TO_FREELANCER = ''RELEASE_TO_FREELANCER''"
| "dispute_outcome_str REFUND_CLIENT = ''REFUND_CLIENT''"
| "dispute_outcome_str SPLIT = ''SPLIT''"

fun proposal_status_str :: "proposal_status \<Rightarrow> string" where
  "proposal_status_str PR_DRAFT = ''DRAFT''"
| "proposal_status_str PR_SUBMITTED = ''SUBMITTED''"
| "proposal_status_str PR_UNDER_NEGOTIATION = ''UNDER_NEGOTIATION''"
| "proposal_status_str PR_WITHDRAWN = ''WITHDRAWN''"
| "proposal_status_str PR_REJECTED = ''REJECTED''"
| "proposal_status_str PR_ACCEPTED = ''ACCEPTED''"

text \<open>A status read from a request is looked up among the values of its enumeration.\<close>

definition all_dispute_statuses :: "dispute_status list" where
  "all_dispute_statuses =
     [DS_OPEN, DS_EVIDENCE_COLLECTION, DS_UNDER_REVIEW, DS_NEED_MORE_INFO, DS_RESOLVED]"

definition all_proposal_statuses :: "proposal_status list" where
  "all_proposal_statuses =
     [PR_DRAFT, PR_SUBMITTED, PR_UNDER_NEGOTIATION, PR_WITHDRAWN, PR_REJECTED, PR_ACCEPTED]"

section \<open>Payment providers and the environment of a request\<close>

record provider_result =
  res_reference :: string
  res_status :: string
  res_amount :: int
  res_currency :: currency

record verified_webhook =
  vw_event_id :: string
  vw_event_type :: string
  vw_data :: json

record provider =
  pv_name :: string
  pv_create_payment :: "int \<Rightarrow> currency \<Rightarrow> string \<Rightarrow> exn + provider_result"
  pv_verify_payment :: "string \<Rightarrow> exn + provider_result"
  pv_get_payment_action :: "string \<Rightarrow> exn + (string \<times> string) option"
  pv_refund :: "string \<Rightarrow> int \<Rightarrow> currency \<Rightarrow> string \<Rightarrow> exn + provider_result"
  pv_verify_refund :: "string \<Rightarrow> exn + provider_result"
  pv_validate_destination :: "string \<Rightarrow> exn + string"
  pv_payout :: "string \<Rightarrow> int \<Rightarrow> currency \<Rightarrow> string \<Rightarrow> exn + provider_result"
  pv_get_transaction :: "string \<Rightarrow> exn + provider_result"
  pv_verify_webhook :: "string \<Rightarrow> string \<Rightarrow> exn + verified_webhook"

text \<open>
  What a request sees of the outside: the clock, SHA-256 and HMAC-SHA-256 (hexadecimal
  digests), \<open>json.loads\<close>, ISO formatting of a timestamp, the request id, the configuration
  and the Stripe adapter, which answers through Stripe's SDK and is therefore a parameter.
\<close>

record env =
  env_now :: nat
  env_sha256 :: "string \<Rightarrow> string"
  env_hmac :: "string \<Rightarrow> string \<Rightarrow> string"
  env_json_loads :: "string \<Rightarrow> json option"
  env_iso :: "nat \<Rightarrow> string"
  env_request_id :: "string option"
  env_runtime_enabled :: bool
  env_webhook_secret :: string
  env_commission_bps :: "string option"
  env_stripe :: provider

end
