(* ===== verification/AuditLog.thy ===== *)
theory AuditLog
  imports Schema
begin

text \<open>
  The append-only side tables every service writes: the audit log
  (\<open>app/audit/service.py\<close>), with the state hashes that high-risk actions must carry, and the
  transactional outbox (\<open>app/common/outbox.py\<close>). \<open>append_log\<close> is the interface of a table
  that is only ever extended; it is interpreted on both tables here and on the ledger's
  entries in theory \<open>Ledger\<close>.
\<close>

section \<open>Append-only tables\<close>

locale append_log =
  fixes log :: "'d \<Rightarrow> 'e list" and extend :: "'e list \<Rightarrow> 'd \<Rightarrow> 'd"
  assumes log_extend: "log (extend es d) = log d @ es"
begin

lemma log_prefix: "\<exists>es'. log (extend es d) = log d @ es'"
  by (auto simp: log_extend)

lemma all_extend: "(\<forall>e\<in>set (log (extend es d)). P e) \<longleftrightarrow> (\<forall>e\<in>set (log d). P e) \<and> (\<forall>e\<in>set es. P e)"
  by (auto simp: log_extend)

lemma sum_extend:
  "sum_list (map f (filter P (log (extend es d)))) =
    sum_list (map f (filter P (log d))) + (sum_list (map f (filter P es)) :: int)"
  by (simp add: log_extend)

lemma sum_extend_twice:
  "sum_list (map f (filter P (log (extend es (extend es' d))))) =
    sum_list (map f (filter P (log d))) + sum_list (map f (filter P es')) +
    (sum_list (map f (filter P es)) :: int)"
  by (simp add: log_extend)

end

section \<open>The audit log\<close>

definition state_hash_required_actions :: "string list" where
  "state_hash_required_actions =
    [''contract.created'', ''contract.signed'', ''contract.activated'', ''contract.cancelled'',
     ''identity.login_risk'', ''identity.login_succeeded'', ''identity.mfa_enrollment_started'',
     ''identity.mfa_enabled'', ''identity.mfa_challenge_failed'', ''identity.mfa_verified'',
     ''identity.mfa_recovery_code_used'', ''payout_provider_account.configured'',
     ''payout_provider_account.disabled'', ''payout.reserved'', ''payout.succeeded'',
     ''payout.failed'', ''milestone.released'', ''refund.reserved'', ''milestone.refunded'',
     ''refund.failed'', ''dispute.opened'', ''dispute.transitioned'', ''dispute.resolved'']"

definition audit_state_hash :: "env \<Rightarrow> json option \<Rightarrow> string option" where
  "audit_state_hash env st = map_option (\<lambda>j. env_sha256 env (dumps False j)) st"

definition metadata_state :: "json \<Rightarrow> string \<Rightarrow> json option" where
  "metadata_state m k = (case jget m k of JObj kvs \<Rightarrow> Some (JObj kvs) | _ \<Rightarrow> None)"

definition audit_states :: "json option \<Rightarrow> json option \<Rightarrow> json \<Rightarrow> json option \<times> json option" where
  "audit_states prev new meta =
    ((case prev of None \<Rightarrow> metadata_state meta ''before'' | Some p \<Rightarrow> Some p),
     (case new of None \<Rightarrow> metadata_state meta ''after'' | Some n \<Rightarrow> Some n))"

definition audit_row :: "env \<Rightarrow> string \<Rightarrow> string \<Rightarrow> uuid option \<Rightarrow> string option \<Rightarrow>
    json option \<Rightarrow> json option \<Rightarrow> json \<Rightarrow> audit_event" where
  "audit_row env action rtype actor rid prev new meta =
    \<lparr>ae_actor = actor, ae_action = action, ae_resource_type = rtype, ae_resource_id = rid,
     ae_request_id = env_request_id env, ae_previous_hash = audit_state_hash env prev,
     ae_new_hash = audit_state_hash env new, ae_metadata = meta\<rparr>"

definition record_audit_event :: "env \<Rightarrow> string \<Rightarrow> string \<Rightarrow> uuid option \<Rightarrow> string option \<Rightarrow>
    json option \<Rightarrow> json option \<Rightarrow> json \<Rightarrow> unit dbop" where
  "record_audit_event env action rtype actor rid prev new meta =
    (let (p, n) = audit_states prev new meta in
     if action \<in> set state_hash_required_actions \<and> (p = None \<or> n = None) then raise ValueError
     else modify (\<lambda>d. d\<lparr>audit_events :=
            audit_events d @ [audit_row env action rtype actor rid p n meta]\<rparr>))"

text \<open>The invariant of the log: a high-risk row carries both state hashes.\<close>

definition audit_complete :: "db \<Rightarrow> bool" where
  "audit_complete d \<longleftrightarrow> (\<forall>e\<in>set (audit_events d).
     ae_action e \<in> set state_hash_required_actions \<longrightarrow>
     ae_previous_hash e \<noteq> None \<and> ae_new_hash e \<noteq> None)"

definition append_audit :: "audit_event list \<Rightarrow> db \<Rightarrow> db" where
  "append_audit es d = d\<lparr>audit_events := audit_events d @ es\<rparr>"

interpretation audit: append_log audit_events append_audit
  by unfold_locales (simp add: append_audit_def)

lemma wp_record_audit_event:
  assumes "\<And>es. (\<forall>e\<in>set es. ae_action e \<in> set state_hash_required_actions \<longrightarrow>
      ae_previous_hash e \<noteq> None \<and> ae_new_hash e \<noteq> None) \<Longrightarrow> Q () (c, append_audit es w)"
    and "E ValueError (c, w)"
  shows "wp (record_audit_event env action rtype actor rid prev new meta) Q E (c, w)"
proof -
  obtain p n where pn: "audit_states prev new meta = (p, n)" by force
  let ?e = "audit_row env action rtype actor rid p n meta"
  have "Q () (c, append_audit [?e] w)"
    if "\<not> (action \<in> set state_hash_required_actions \<and> (p = None \<or> n = None))"
    by (rule assms(1)) (use that in \<open>auto simp: audit_row_def audit_state_hash_def\<close>)
  then show ?thesis
    using assms(2) by (simp add: record_audit_event_def pn wp_eqs append_audit_def)
qed

lemma audit_complete_append:
  "audit_complete (append_audit es d) \<longleftrightarrow> audit_complete d \<and>
    (\<forall>e\<in>set es. ae_action e \<in> set state_hash_required_actions \<longrightarrow>
      ae_previous_hash e \<noteq> None \<and> ae_new_hash e \<noteq> None)"
  unfolding audit_complete_def by (rule audit.all_extend)

section \<open>The transactional outbox\<close>

definition enqueue_outbox_event :: "string \<Rightarrow> string \<Rightarrow> string \<Rightarrow> json \<Rightarrow> unit dbop" where
  "enqueue_outbox_event ty agg aid payload =
    modify (\<lambda>d. d\<lparr>outbox := outbox d @
      [\<lparr>ob_event_type = ty, ob_aggregate_type = agg, ob_aggregate_id = aid, ob_payload = payload\<rparr>]\<rparr>)"

definition append_outbox :: "outbox_event list \<Rightarrow> db \<Rightarrow> db" where
  "append_outbox es d = d\<lparr>outbox := outbox d @ es\<rparr>"

interpretation outbox: append_log outbox append_outbox
  by unfold_locales (simp add: append_outbox_def)

lemma wp_enqueue_outbox_event:
  assumes "\<And>es. Q () (c, append_outbox es w)"
  shows "wp (enqueue_outbox_event ty agg aid payload) Q E (c, w)"
  using assms by (simp add: enqueue_outbox_event_def wp_eqs append_outbox_def)

end
