(* ===== verification/Ledger.thy ===== *)
theory Ledger
  imports AuditLog
begin

text \<open>
  The double-entry ledger (\<open>app/ledger/service.py\<close>): accounts are created on first use under
  a key, a journal is a balanced list of postings in one currency that is written once for a
  reference and never changed, and every balance is a sum over the entries. The lemmas give
  the effect of a journal on balances, the ledger's well-formedness and its preservation, and
  conservation: the balances of all accounts of a currency add up to zero.
\<close>

section \<open>Operations\<close>

record posting =
  po_account :: ledger_account
  po_direction :: string
  po_amount_minor :: int

definition mk_posting :: "ledger_account \<Rightarrow> string \<Rightarrow> int \<Rightarrow> posting" where
  "mk_posting a dir n = \<lparr>po_account = a, po_direction = dir, po_amount_minor = n\<rparr>"

definition account_identity_ok ::
    "ledger_account \<Rightarrow> account_type \<Rightarrow> currency \<Rightarrow> uuid option \<Rightarrow> uuid option \<Rightarrow> bool" where
  "account_identity_ok a ty cur owner ms \<longleftrightarrow>
     \<not> (acc_type a \<noteq> ty \<or> acc_currency a \<noteq> cur \<or> acc_owner a \<noteq> owner \<or> acc_milestone a \<noteq> ms)"

definition find_account :: "string \<Rightarrow> db \<Rightarrow> ledger_account option" where
  "find_account k d = List.find (\<lambda>a. acc_key a = k) (accounts d)"

definition insert_account :: "ledger_account \<Rightarrow> unit dbop" where
  "insert_account a = bnd (query accounts) (\<lambda>as.
     if acc_key a \<in> set (map acc_key as) then raise IntegrityError
     else modify (\<lambda>d. d\<lparr>accounts := accounts d @ [a]\<rparr>))"

definition get_or_create_account :: "string \<Rightarrow> account_type \<Rightarrow> currency \<Rightarrow> uuid option \<Rightarrow>
    uuid option \<Rightarrow> ledger_account dbop" where
  "get_or_create_account k ty cur owner ms =
    bnd (query (find_account k)) (\<lambda>r.
    case r of
      Some a \<Rightarrow> if account_identity_ok a ty cur owner ms then ret a else raise RuntimeError
    | None \<Rightarrow>
        bnd uuid4 (\<lambda>i.
        let a = \<lparr>acc_id = i, acc_key = k, acc_type = ty, acc_owner = owner,
                 acc_milestone = ms, acc_currency = cur\<rparr> in
        savepoint (seq (insert_account a) (ret a))
          (bnd (query (find_account k)) (\<lambda>r'.
           bnd (found IntegrityError r') (\<lambda>b.
           if account_identity_ok b ty cur owner ms then ret b else raise RuntimeError)))))"

text \<open>The validation loop of \<open>post_journal\<close>: running debit and credit totals.\<close>

fun tally :: "posting list \<Rightarrow> int \<Rightarrow> int \<Rightarrow> exn + (int \<times> int)" where
  "tally [] dt ct = Inr (dt, ct)"
| "tally (p # ps) dt ct =
     (if po_amount_minor p \<le> 0 then Inl ValueError
      else if po_direction p = ''DEBIT'' then tally ps (dt + po_amount_minor p) ct
      else if po_direction p = ''CREDIT'' then tally ps dt (ct + po_amount_minor p)
      else Inl ValueError)"

definition entry_of :: "currency \<Rightarrow> posting \<Rightarrow> ledger_entry" where
  "entry_of cur p = \<lparr>le_account = acc_id (po_account p), le_direction = po_direction p,
     le_amount = po_amount_minor p, le_currency = cur\<rparr>"

definition find_journal :: "string \<Rightarrow> uuid \<Rightarrow> journal_operation \<Rightarrow> db \<Rightarrow> journal option" where
  "find_journal rt ref oper d =
     List.find (\<lambda>j. jn_reference_type j = rt \<and> jn_reference_id j = ref \<and> jn_operation j = oper)
       (journals d)"

definition mk_journal :: "uuid \<Rightarrow> journal_operation \<Rightarrow> string \<Rightarrow> uuid \<Rightarrow> posting list \<Rightarrow> json \<Rightarrow>
    uuid option \<Rightarrow> journal" where
  "mk_journal i oper rt ref ps meta reverses =
    \<lparr>jn_id = i, jn_operation = oper, jn_reference_type = rt, jn_reference_id = ref,
     jn_reversal_of = reverses, jn_metadata = meta,
     jn_entries = map (entry_of (acc_currency (po_account (hd ps)))) ps\<rparr>"

definition post_journal :: "journal_operation \<Rightarrow> string \<Rightarrow> uuid \<Rightarrow> posting list \<Rightarrow> json \<Rightarrow>
    uuid option \<Rightarrow> journal dbop" where
  "post_journal oper rt ref ps meta reverses =
    (if ps = [] then raise ValueError
     else if length (remdups (map (\<lambda>p. acc_currency (po_account p)) ps)) \<noteq> 1 then raise ValueError
     else bnd (lift_result (tally ps 0 0)) (\<lambda>(dt, ct).
       if dt \<noteq> ct then raise ValueError
       else bnd (query (find_journal rt ref oper)) (\<lambda>r.
         case r of
           Some j \<Rightarrow> ret j
         | None \<Rightarrow>
             bnd uuid4 (\<lambda>i.
             let j = mk_journal i oper rt ref ps meta reverses in
             seq (modify (\<lambda>d. d\<lparr>journals := journals d @ [j]\<rparr>)) (ret j)))))"

definition signed :: "ledger_entry \<Rightarrow> int" where
  "signed e = (if le_direction e = ''CREDIT'' then le_amount e else - le_amount e)"

definition entries :: "db \<Rightarrow> ledger_entry list" where
  "entries d = concat (map jn_entries (journals d))"

definition account_balance_minor :: "uuid \<Rightarrow> db \<Rightarrow> int" where
  "account_balance_minor a d =
     sum_list (map signed (filter (\<lambda>e. le_account e = a) (entries d)))"

definition wallet_balances :: "uuid \<Rightarrow> db \<Rightarrow> (currency \<times> int) list" where
  "wallet_balances u d =
    (let as = filter (\<lambda>a. acc_type a = FREELANCER_WALLET \<and> acc_owner a = Some u \<and>
                list_ex (\<lambda>e. le_account e = acc_id a) (entries d)) (accounts d) in
     map (\<lambda>cur. (cur, sum_list (map (\<lambda>a. account_balance_minor (acc_id a) d)
                         (filter (\<lambda>a. acc_currency a = cur) as))))
       (remdups (map acc_currency as)))"

definition require_sufficient_balance :: "ledger_account \<Rightarrow> int \<Rightarrow> unit dbop" where
  "require_sufficient_balance a n =
    bnd (query (account_balance_minor (acc_id a))) (\<lambda>b.
    if b < n then raise (ApiError ''insufficient_funds'' 409) else ret ())"

section \<open>Effect of a journal on balances\<close>

definition append_entries :: "ledger_entry list \<Rightarrow> ledger_entry list \<Rightarrow> ledger_entry list" where
  "append_entries es log = log @ es"

interpretation book: append_log "\<lambda>log. log" append_entries
  by unfold_locales (simp add: append_entries_def)

definition posting_net :: "posting list \<Rightarrow> uuid \<Rightarrow> int" where
  "posting_net ps a = sum_list (map (\<lambda>p. if acc_id (po_account p) \<noteq> a then 0
     else if po_direction p = ''CREDIT'' then po_amount_minor p else - po_amount_minor p) ps)"

lemma posting_net_simps [simp]:
  "posting_net [] a = 0"
  "posting_net (p # ps) a = (if acc_id (po_account p) \<noteq> a then 0
     else if po_direction p = ''CREDIT'' then po_amount_minor p else - po_amount_minor p) + posting_net ps a"
  "posting_net (ps @ qs) a = posting_net ps a + posting_net qs a"
  by (simp_all add: posting_net_def)

lemma mk_posting_sel [simp]:
  "po_account (mk_posting a dir n) = a" "po_direction (mk_posting a dir n) = dir"
  "po_amount_minor (mk_posting a dir n) = n"
  by (simp_all add: mk_posting_def)

lemma entries_append [simp]:
  "entries (d\<lparr>journals := journals d @ [j]\<rparr>) = entries d @ jn_entries j"
  by (simp add: entries_def)

lemma net_of_entries:
  "sum_list (map signed (filter (\<lambda>e. le_account e = a) (map (entry_of cur) ps))) = posting_net ps a"
  by (induction ps) (auto simp: posting_net_def entry_of_def signed_def)

text \<open>The record update \<open>post_journal\<close> makes, named so that invariants can speak of it.\<close>

definition add_journal :: "journal \<Rightarrow> db \<Rightarrow> db" where
  "add_journal j d = d\<lparr>next_uuid := Suc (next_uuid d), journals := journals d @ [j]\<rparr>"

lemma entries_add_journal: "entries (add_journal j d) = append_entries (jn_entries j) (entries d)"
  by (simp add: add_journal_def entries_def append_entries_def)

lemma balance_add_journal:
  "account_balance_minor a (add_journal (mk_journal i oper rt ref ps meta reverses) d) =
    account_balance_minor a d + posting_net ps a"
  unfolding account_balance_minor_def entries_add_journal book.sum_extend
  by (simp add: mk_journal_def net_of_entries)

text \<open>What \<open>post_journal\<close> accepts.\<close>

definition side_total :: "string \<Rightarrow> posting list \<Rightarrow> int" where
  "side_total dir ps = sum_list (map (\<lambda>p. if po_direction p = dir then po_amount_minor p else 0) ps)"

lemma side_total_simps [simp]:
  "side_total dir [] = 0"
  "side_total dir (p # ps) = (if po_direction p = dir then po_amount_minor p else 0) + side_total dir ps"
  "side_total dir (ps @ qs) = side_total dir ps + side_total dir qs"
  by (simp_all add: side_total_def)

definition posting_ok :: "posting \<Rightarrow> bool" where
  "posting_ok p \<longleftrightarrow> 0 < po_amount_minor p \<and> (po_direction p = ''DEBIT'' \<or> po_direction p = ''CREDIT'')"

definition one_currency :: "posting list \<Rightarrow> bool" where
  "one_currency ps \<longleftrightarrow> (\<forall>p\<in>set ps. acc_currency (po_account p) = acc_currency (po_account (hd ps)))"

definition valid_postings :: "posting list \<Rightarrow> bool" where
  "valid_postings ps \<longleftrightarrow> ps \<noteq> [] \<and> one_currency ps \<and> (\<forall>p\<in>set ps. posting_ok p) \<and>
     side_total ''DEBIT'' ps = side_total ''CREDIT'' ps"

lemma tally_eq:
  "tally ps dt ct = (if \<forall>p\<in>set ps. posting_ok p
     then Inr (dt + side_total ''DEBIT'' ps, ct + side_total ''CREDIT'' ps) else Inl ValueError)"
proof (induction ps arbitrary: dt ct)
  case Nil
  then show ?case by simp
next
  case (Cons p ps)
  consider (debit) "posting_ok p" "po_direction p = ''DEBIT''"
    | (credit) "posting_ok p" "po_direction p = ''CREDIT''" | (bad) "\<not> posting_ok p"
    by (auto simp: posting_ok_def)
  then show ?case
  proof cases
    case debit
    then have "\<not> po_amount_minor p \<le> 0" by (simp add: posting_ok_def)
    with debit show ?thesis by (simp add: Cons.IH)
  next
    case credit
    then have "\<not> po_amount_minor p \<le> 0" by (simp add: posting_ok_def)
    with credit show ?thesis by (simp add: Cons.IH)
  next
    case bad
    then show ?thesis by (simp add: posting_ok_def)
  qed
qed

lemma one_currency_iff:
  assumes "ps \<noteq> []"
  shows "length (remdups (map (\<lambda>p. acc_currency (po_account p)) ps)) = 1 \<longleftrightarrow> one_currency ps"
proof -
  let ?f = "\<lambda>p. acc_currency (po_account p)"
  have "length (remdups (map ?f ps)) = card (?f ` set ps)" by (simp add: length_remdups_card_conv)
  moreover have "card (?f ` set ps) = 1 \<longleftrightarrow> (\<forall>p\<in>set ps. ?f p = ?f (hd ps))"
  proof
    assume "card (?f ` set ps) = 1"
    then obtain x where "?f ` set ps = {x}" by (auto simp: card_1_singleton_iff)
    then show "\<forall>p\<in>set ps. ?f p = ?f (hd ps)" using assms by (metis hd_in_set imageI singletonD)
  next
    assume "\<forall>p\<in>set ps. ?f p = ?f (hd ps)"
    then have "?f ` set ps \<subseteq> {?f (hd ps)}" by blast
    moreover have "{?f (hd ps)} \<subseteq> ?f ` set ps" using assms by simp
    ultimately have "?f ` set ps = {?f (hd ps)}" by (rule equalityI)
    then show "card (?f ` set ps) = 1" by simp
  qed
  ultimately show ?thesis by (simp add: one_currency_def)
qed

text \<open>The behaviour of \<open>post_journal\<close> on every branch.\<close>

lemma wp_post_journal:
  "wp (post_journal oper rt ref ps meta reverses) Q E (c, w) =
    (if \<not> valid_postings ps then E ValueError (c, w)
     else case find_journal rt ref oper w of
       Some j \<Rightarrow> Q j (c, w)
     | None \<Rightarrow> let j = mk_journal (next_uuid w) oper rt ref ps meta reverses in Q j (c, add_journal j w))"
proof (cases "ps = []")
  case True
  then show ?thesis by (simp add: post_journal_def wp_eqs valid_postings_def)
next
  case False
  show ?thesis
  proof (cases "one_currency ps \<and> (\<forall>p\<in>set ps. posting_ok p)")
    case True
    then show ?thesis
      using False one_currency_iff[OF False]
      by (simp add: post_journal_def wp_eqs tally_eq valid_postings_def Let_def add_journal_def
          del: remdups.simps split: option.split)
  next
    case no: False
    then show ?thesis
      using False one_currency_iff[OF False]
      by (auto simp: post_journal_def wp_eqs tally_eq valid_postings_def simp del: remdups.simps)
  qed
qed

lemma wpI_post_journal:
  assumes "\<And>j. valid_postings ps \<Longrightarrow> find_journal rt ref oper w = Some j \<Longrightarrow> Q j (c, w)"
    and "\<And>j. valid_postings ps \<Longrightarrow> find_journal rt ref oper w = None \<Longrightarrow>
      j = mk_journal (next_uuid w) oper rt ref ps meta reverses \<Longrightarrow> Q j (c, add_journal j w)"
    and "\<not> valid_postings ps \<Longrightarrow> E ValueError (c, w)"
  shows "wp (post_journal oper rt ref ps meta reverses) Q E (c, w)"
  using assms by (auto simp: wp_post_journal Let_def split: option.split)

definition add_account :: "ledger_account \<Rightarrow> db \<Rightarrow> db" where
  "add_account a d = d\<lparr>next_uuid := Suc (next_uuid d), accounts := accounts d @ [a]\<rparr>"

definition new_account :: "string \<Rightarrow> account_type \<Rightarrow> currency \<Rightarrow> uuid option \<Rightarrow> uuid option \<Rightarrow>
    db \<Rightarrow> ledger_account" where
  "new_account k ty cur owner ms d =
    \<lparr>acc_id = next_uuid d, acc_key = k, acc_type = ty, acc_owner = owner,
     acc_milestone = ms, acc_currency = cur\<rparr>"

lemma wp_get_or_create_account:
  "wp (get_or_create_account k ty cur owner ms) Q E (c, w) =
    (case find_account k w of
       Some a \<Rightarrow> if account_identity_ok a ty cur owner ms then Q a (c, w) else E RuntimeError (c, w)
     | None \<Rightarrow> let a = new_account k ty cur owner ms w in Q a (c, add_account a w))"
proof (cases "find_account k w")
  case None
  then have "k \<notin> set (map acc_key (accounts w))"
    by (auto simp: find_account_def dest: find_NoneD)
  with None show ?thesis
    by (simp add: get_or_create_account_def insert_account_def wp_eqs Let_def new_account_def add_account_def)
next
  case (Some a)
  then show ?thesis by (simp add: get_or_create_account_def wp_eqs)
qed

text \<open>For a client it is enough to know the identity of the account it gets.\<close>

lemma wpI_get_or_create_account:
  assumes "\<And>a. a \<in> set (accounts w) \<Longrightarrow> acc_key a = k \<Longrightarrow> account_identity_ok a ty cur owner ms \<Longrightarrow>
      Q a (c, w)"
    and "\<And>a. a = new_account k ty cur owner ms w \<Longrightarrow> k \<notin> set (map acc_key (accounts w)) \<Longrightarrow>
      Q a (c, add_account a w)"
    and "E RuntimeError (c, w)"
  shows "wp (get_or_create_account k ty cur owner ms) Q E (c, w)"
  using assms
  by (auto simp: wp_get_or_create_account Let_def find_account_def split: option.split
      dest: find_SomeD find_NoneD)

lemma wp_require_sufficient_balance [wp_eqs]:
  "wp (require_sufficient_balance a n) Q E (c, w) =
    (if account_balance_minor (acc_id a) w < n then E (ApiError ''insufficient_funds'' 409) (c, w)
     else Q () (c, w))"
  by (simp add: require_sufficient_balance_def wp_eqs)

section \<open>Well-formedness and conservation\<close>

definition journal_ref :: "journal \<Rightarrow> string \<times> uuid \<times> journal_operation" where
  "journal_ref j = (jn_reference_type j, jn_reference_id j, jn_operation j)"

definition entry_ok :: "ledger_account list \<Rightarrow> currency \<Rightarrow> ledger_entry \<Rightarrow> bool" where
  "entry_ok as cur e \<longleftrightarrow> 0 < le_amount e \<and> le_direction e \<in> {''DEBIT'', ''CREDIT''} \<and>
     le_currency e = cur \<and> (\<exists>a\<in>set as. acc_id a = le_account e \<and> acc_currency a = cur)"

definition wf_journal :: "ledger_account list \<Rightarrow> journal \<Rightarrow> bool" where
  "wf_journal as j \<longleftrightarrow> jn_entries j \<noteq> [] \<and> sum_list (map signed (jn_entries j)) = 0 \<and>
     (\<exists>cur. \<forall>e\<in>set (jn_entries j). entry_ok as cur e)"

definition wf_ledger :: "db \<Rightarrow> bool" where
  "wf_ledger d \<longleftrightarrow> (\<forall>j\<in>set (journals d). wf_journal (accounts d) j) \<and>
     distinct (map journal_ref (journals d)) \<and>
     distinct (map acc_id (accounts d)) \<and> distinct (map acc_key (accounts d)) \<and>
     (\<forall>a\<in>set (accounts d). acc_id a < next_uuid d)"

definition ledger_total :: "currency \<Rightarrow> db \<Rightarrow> int" where
  "ledger_total cur d = sum_list (map (\<lambda>a. account_balance_minor (acc_id a) d)
     (filter (\<lambda>a. acc_currency a = cur) (accounts d)))"

lemma wf_journal_mono: "wf_journal as j \<Longrightarrow> set as \<subseteq> set as' \<Longrightarrow> wf_journal as' j"
  unfolding wf_journal_def entry_ok_def by blast

lemma sum_signed_entries:
  "sum_list (map signed (map (entry_of cur) ps)) = side_total ''CREDIT'' ps - side_total ''DEBIT'' ps"
  if "\<forall>p\<in>set ps. posting_ok p"
  using that by (induction ps) (auto simp: entry_of_def signed_def posting_ok_def)

lemma wf_mk_journal:
  assumes v: "valid_postings ps" and a: "\<forall>p\<in>set ps. po_account p \<in> set as"
  shows "wf_journal as (mk_journal i oper rt ref ps meta reverses)"
proof -
  let ?cur = "acc_currency (po_account (hd ps))"
  have "entry_ok as ?cur (entry_of ?cur p)" if "p \<in> set ps" for p
  proof -
    from v that have "posting_ok p" and cur: "acc_currency (po_account p) = ?cur"
      unfolding valid_postings_def one_currency_def by blast+
    moreover have "po_account p \<in> set as" using a that by blast
    ultimately show ?thesis
      by (auto simp: entry_ok_def entry_of_def posting_ok_def intro!: bexI[of _ "po_account p"])
  qed
  moreover have "sum_list (map signed (map (entry_of ?cur) ps)) = 0" and "ps \<noteq> []"
    using v sum_signed_entries[of ps ?cur] by (simp_all add: valid_postings_def)
  ultimately show ?thesis
    unfolding wf_journal_def mk_journal_def by auto
qed

lemma wf_ledger_add_journal:
  assumes "wf_ledger d" and "valid_postings ps" and "\<forall>p\<in>set ps. po_account p \<in> set (accounts d)"
    and "find_journal rt ref oper d = None"
  shows "wf_ledger (add_journal (mk_journal (next_uuid d) oper rt ref ps meta reverses) d)"
proof -
  have "journal_ref (mk_journal (next_uuid d) oper rt ref ps meta reverses) \<notin> journal_ref ` set (journals d)"
    using assms(4) by (auto simp: find_journal_def journal_ref_def mk_journal_def dest: find_NoneD)
  then show ?thesis
    using assms wf_mk_journal[OF assms(2,3)] by (auto simp: wf_ledger_def add_journal_def)
qed

lemma wf_ledger_add_account:
  assumes "wf_ledger d" and "k \<notin> set (map acc_key (accounts d))"
  shows "wf_ledger (add_account (new_account k ty cur owner ms d) d)"
  using assms
  by (fastforce simp: wf_ledger_def add_account_def new_account_def intro: wf_journal_mono)

lemma balance_add_account [simp]:
  "account_balance_minor a (add_account b d) = account_balance_minor a d"
  by (simp add: account_balance_minor_def entries_def add_account_def)

lemma sum_pick_account:
  assumes "distinct (map acc_id as)" and "b \<in> set as"
  shows "sum_list (map (\<lambda>a. if acc_id b = acc_id a then x else (0::int)) (filter P as)) = (if P b then x else 0)"
  using assms
proof (induction as)
  case Nil
  then show ?case by simp
next
  case (Cons a as)
  have z: "sum_list (map (\<lambda>a. if acc_id b = acc_id a then x else 0) (filter P as)) = 0"
    if "acc_id b \<notin> acc_id ` set as"
    using that by (induction as) auto
  show ?case
  proof (cases "b = a")
    case True
    with Cons.prems z show ?thesis by simp
  next
    case False
    with Cons.prems have "b \<in> set as" "acc_id b \<noteq> acc_id a" by (auto simp: image_iff)
    with Cons show ?thesis by simp
  qed
qed

lemma sum_accounts_entries:
  assumes "distinct (map acc_id as)" and "\<forall>e\<in>set es. \<exists>c. entry_ok as c e"
  shows "sum_list (map (\<lambda>a. sum_list (map signed (filter (\<lambda>e. le_account e = acc_id a) es)))
      (filter (\<lambda>a. acc_currency a = cur) as)) =
    sum_list (map signed (filter (\<lambda>e. le_currency e = cur) es))"
  using assms(2)
proof (induction es)
  case Nil
  then show ?case by (induction as) auto
next
  case (Cons e es)
  then obtain b where b: "b \<in> set as" "acc_id b = le_account e" "acc_currency b = le_currency e"
    by (auto simp: entry_ok_def)
  let ?as = "filter (\<lambda>a. acc_currency a = cur) as"
  let ?S = "\<lambda>es a. sum_list (map signed (filter (\<lambda>e. le_account e = acc_id a) es))"
  have "sum_list (map (?S (e # es)) ?as) =
      sum_list (map (\<lambda>a. (if acc_id b = acc_id a then signed e else 0) + ?S es a) ?as)"
    by (rule arg_cong[where f = sum_list]) (simp add: b)
  also have "\<dots> = (if acc_currency b = cur then signed e else 0) + sum_list (map (?S es) ?as)"
    by (simp add: sum_list_addf sum_pick_account[OF assms(1) b(1)])
  finally show ?case using Cons b by simp
qed

lemma sum_journal_currency:
  assumes "wf_journal as j"
  shows "sum_list (map signed (filter (\<lambda>e. le_currency e = cur) (jn_entries j))) = 0"
proof -
  from assms obtain c where c: "\<forall>e\<in>set (jn_entries j). le_currency e = c"
    and z: "sum_list (map signed (jn_entries j)) = 0"
    by (auto simp: wf_journal_def entry_ok_def)
  then have "filter (\<lambda>e. le_currency e = cur) (jn_entries j) = (if c = cur then jn_entries j else [])"
    by (auto simp: filter_id_conv filter_empty_conv)
  with z show ?thesis by simp
qed

lemma ledger_total_zero:
  assumes "wf_ledger d"
  shows "ledger_total cur d = 0"
proof -
  have ok: "\<forall>e\<in>set (entries d). \<exists>c. entry_ok (accounts d) c e"
    using assms unfolding wf_ledger_def wf_journal_def entries_def by fastforce
  have "ledger_total cur d = sum_list (map signed (filter (\<lambda>e. le_currency e = cur) (entries d)))"
    unfolding ledger_total_def account_balance_minor_def
    by (rule sum_accounts_entries[OF _ ok]) (use assms in \<open>simp add: wf_ledger_def\<close>)
  also have "\<dots> = sum_list (map (\<lambda>j. sum_list (map signed (filter (\<lambda>e. le_currency e = cur) (jn_entries j)))) (journals d))"
    unfolding entries_def by (simp add: sum_filter_concat comp_def)
  also have "\<dots> = sum_list (map (\<lambda>j. 0) (journals d))"
    by (rule arg_cong[where f = sum_list], rule map_cong[OF refl])
       (use assms sum_journal_currency in \<open>auto simp: wf_ledger_def\<close>)
  finally show ?thesis by (simp add: sum_list_triv)
qed

end
