(* ===== verification/Idempotency.thy ===== *)
theory Idempotency
  imports AuditLog
begin

text \<open>
  Scoped idempotency keys of the financial operations (\<open>app/payments/idempotency.py\<close>): a key
  is claimed for a user and an operation, bound to the hash of the request, and completed
  with the response that a retry receives.
\<close>

definition find_idempotency :: "uuid \<Rightarrow> string \<Rightarrow> string \<Rightarrow> db \<Rightarrow> idempotency_key option" where
  "find_idempotency u oper kh d = List.find
     (\<lambda>r. ik_user r = u \<and> ik_operation r = oper \<and> ik_key_hash r = kh) (idempotency_keys d)"

definition insert_idempotency :: "idempotency_key \<Rightarrow> unit dbop" where
  "insert_idempotency r = bnd (query (find_idempotency (ik_user r) (ik_operation r) (ik_key_hash r)))
     (\<lambda>x. case x of
        Some _ \<Rightarrow> raise IntegrityError
      | None \<Rightarrow> modify (\<lambda>d. d\<lparr>idempotency_keys := idempotency_keys d @ [r]\<rparr>))"

definition request_hash :: "env \<Rightarrow> json \<Rightarrow> string" where
  "request_hash env payload = env_sha256 env (dumps True payload)"

definition claim_idempotency :: "env \<Rightarrow> uuid \<Rightarrow> string \<Rightarrow> string \<Rightarrow> json \<Rightarrow>
    (idempotency_key \<times> bool) dbop" where
  "claim_idempotency env u oper raw payload =
    (let key = strip raw in
     if key = [] \<or> length key > 200 then raise (ApiError ''invalid_idempotency_key'' 422)
     else
     let kh = env_sha256 env key; rh = request_hash env payload in
     bnd (query (find_idempotency u oper kh)) (\<lambda>r.
     case r of
       Some x \<Rightarrow> if ik_request_hash x \<noteq> rh then raise (ApiError ''idempotency_conflict'' 409)
                 else ret (x, False)
     | None \<Rightarrow>
         bnd uuid4 (\<lambda>i.
         let rec = \<lparr>ik_id = i, ik_user = u, ik_operation = oper, ik_key_hash = kh,
                    ik_request_hash = rh, ik_response_status = None, ik_response_body = None\<rparr> in
         savepoint (seq (insert_idempotency rec) (ret (rec, True)))
           (bnd (query (find_idempotency u oper kh)) (\<lambda>r'.
            bnd (found IntegrityError r') (\<lambda>x.
            if ik_request_hash x \<noteq> rh then raise (ApiError ''idempotency_conflict'' 409)
            else ret (x, False)))))))"

definition set_response :: "int \<Rightarrow> json \<Rightarrow> idempotency_key \<Rightarrow> idempotency_key" where
  "set_response st body r = r\<lparr>ik_response_status := Some st, ik_response_body := Some body\<rparr>"

definition complete_keys :: "uuid \<Rightarrow> int \<Rightarrow> json \<Rightarrow> db \<Rightarrow> db" where
  "complete_keys i st body d = d\<lparr>idempotency_keys :=
     map (\<lambda>r. if ik_id r = i then set_response st body r else r) (idempotency_keys d)\<rparr>"

definition complete_idempotency :: "uuid \<Rightarrow> int \<Rightarrow> json \<Rightarrow> unit dbop" where
  "complete_idempotency i st body = modify (complete_keys i st body)"

text \<open>The replay test every financial handler makes right after its claim.\<close>

definition stored_response :: "idempotency_key \<times> bool \<Rightarrow> response option" where
  "stored_response x = (case x of (r, created) \<Rightarrow>
     if created then None
     else case (ik_response_body r, ik_response_status r) of
       (Some b, Some s) \<Rightarrow> Some (b, s) | _ \<Rightarrow> None)"

section \<open>Behaviour\<close>

definition valid_key :: "string \<Rightarrow> bool" where
  "valid_key raw \<longleftrightarrow> strip raw \<noteq> [] \<and> length (strip raw) \<le> 200"

definition new_key :: "env \<Rightarrow> uuid \<Rightarrow> string \<Rightarrow> string \<Rightarrow> json \<Rightarrow> db \<Rightarrow> idempotency_key" where
  "new_key env u oper raw payload d =
    \<lparr>ik_id = next_uuid d, ik_user = u, ik_operation = oper,
     ik_key_hash = env_sha256 env (strip raw), ik_request_hash = request_hash env payload,
     ik_response_status = None, ik_response_body = None\<rparr>"

definition add_key :: "idempotency_key \<Rightarrow> db \<Rightarrow> db" where
  "add_key r d = d\<lparr>next_uuid := Suc (next_uuid d), idempotency_keys := idempotency_keys d @ [r]\<rparr>"

lemma wp_claim_idempotency:
  "wp (claim_idempotency env u oper raw payload) Q E (c, w) =
    (if \<not> valid_key raw then E (ApiError ''invalid_idempotency_key'' 422) (c, w)
     else case find_idempotency u oper (env_sha256 env (strip raw)) w of
       Some x \<Rightarrow> if ik_request_hash x \<noteq> request_hash env payload
                 then E (ApiError ''idempotency_conflict'' 409) (c, w) else Q (x, False) (c, w)
     | None \<Rightarrow> let r = new_key env u oper raw payload w in Q (r, True) (c, add_key r w))"
proof (cases "valid_key raw")
  case False
  then show ?thesis
    by (auto simp: claim_idempotency_def valid_key_def wp_eqs Let_def)
next
  case True
  then have k: "\<not> (strip raw = [] \<or> length (strip raw) > 200)" by (auto simp: valid_key_def)
  have n: "find_idempotency u oper kh (w\<lparr>next_uuid := n\<rparr>) = find_idempotency u oper kh w" for n kh
    by (simp add: find_idempotency_def)
  show ?thesis
  proof (cases "find_idempotency u oper (env_sha256 env (strip raw)) w")
    case None
    with True k n show ?thesis
      by (simp add: claim_idempotency_def insert_idempotency_def wp_eqs Let_def add_key_def new_key_def)
  next
    case (Some x)
    with True k show ?thesis by (simp add: claim_idempotency_def wp_eqs Let_def)
  qed
qed

lemma wpI_claim_idempotency:
  assumes "\<And>x. valid_key raw \<Longrightarrow> x \<in> set (idempotency_keys w) \<Longrightarrow> Q (x, False) (c, w)"
    and "\<And>r. valid_key raw \<Longrightarrow> r = new_key env u oper raw payload w \<Longrightarrow> Q (r, True) (c, add_key r w)"
    and "\<And>e. E e (c, w)"
  shows "wp (claim_idempotency env u oper raw payload) Q E (c, w)"
  using assms
  by (auto simp: wp_claim_idempotency Let_def find_idempotency_def split: option.split dest: find_SomeD)

lemma wpI_complete_idempotency:
  "Q () (c, complete_keys i st body w) \<Longrightarrow> wp (complete_idempotency i st body) Q E (c, w)"
  by (simp add: complete_idempotency_def wp_eqs)

text \<open>The interface a retry relies on: what is stored for a key is what a later lookup of
  the key returns, and completing another record leaves it alone.\<close>

locale response_store =
  fixes lookup_key :: "'k \<Rightarrow> 'd \<Rightarrow> 'r option"
    and store :: "'i \<Rightarrow> 'v \<Rightarrow> 'd \<Rightarrow> 'd"
    and ident :: "'r \<Rightarrow> 'i"
    and answer :: "'r \<Rightarrow> 'v option"
  assumes store_hit: "lookup_key k d = Some r \<Longrightarrow> ident r = i \<Longrightarrow>
      \<exists>r'. lookup_key k (store i v d) = Some r' \<and> answer r' = Some v \<and> ident r' = i"
    and store_miss: "lookup_key k d = Some r \<Longrightarrow> ident r \<noteq> i \<Longrightarrow> lookup_key k (store i v d) = Some r"
begin

lemma answer_stable:
  assumes "lookup_key k d = Some r" and "answer r = Some v" and "i = ident r \<Longrightarrow> v' = v"
  shows "\<exists>r'. lookup_key k (store i v' d) = Some r' \<and> answer r' = Some v"
  using assms store_hit[of k d r i v'] store_miss[of k d r i v'] by (cases "ident r = i") auto

lemma last_answer:
  assumes "lookup_key k d = Some r"
  shows "\<exists>r'. lookup_key k (store (ident r) v (store (ident r) u d)) = Some r' \<and> answer r' = Some v"
  using store_hit[OF assms refl, of u] store_hit by blast

end

definition key_answer :: "idempotency_key \<Rightarrow> response option" where
  "key_answer r = (case (ik_response_body r, ik_response_status r) of
     (Some b, Some s) \<Rightarrow> Some (b, s) | _ \<Rightarrow> None)"

lemma find_map_pres:
  assumes "\<And>x. P (f x) = P x"
  shows "List.find P (map f xs) = map_option f (List.find P xs)"
  using assms by (induction xs) auto

lemma find_idempotency_complete:
  "find_idempotency u oper kh (complete_keys i st body d) =
    map_option (\<lambda>r. if ik_id r = i then set_response st body r else r) (find_idempotency u oper kh d)"
  unfolding find_idempotency_def complete_keys_def
  by (simp, rule find_map_pres) (simp add: set_response_def)

interpretation replay: response_store "\<lambda>(u, oper, kh). find_idempotency u oper kh"
    "\<lambda>i (body, st). complete_keys i st body" ik_id key_answer
  by unfold_locales (auto simp: find_idempotency_complete key_answer_def set_response_def)

lemma stored_response_answer: "stored_response (r, False) = key_answer r"
  by (simp add: stored_response_def key_answer_def)

end
