(* ===== verification/Providers.thy ===== *)
theory Providers
  imports Schema
begin

text \<open>
  The payment providers: the deterministic sandbox adapter
  (\<open>app/payments/providers/sandbox.py\<close>), whose references encode amount and currency, and the
  registry that selects an adapter by name (\<open>registry.py\<close>). The Stripe adapter is the
  parameter \<open>env_stripe\<close> of the environment.
\<close>

section \<open>The sandbox adapter\<close>

definition sandbox_token :: "env \<Rightarrow> string \<Rightarrow> string" where
  "sandbox_token env key = take 16 (env_sha256 env key)"

definition sandbox_create_payment :: "env \<Rightarrow> int \<Rightarrow> currency \<Rightarrow> string \<Rightarrow> exn + provider_result" where
  "sandbox_create_payment env amount cur key =
    Inr \<lparr>res_reference = ''sandbox_pay_'' @ str_int amount @ ''_'' @ cur @ ''_'' @ sandbox_token env key,
         res_status = ''PENDING'', res_amount = amount, res_currency = cur\<rparr>"

definition parse_reference :: "string \<Rightarrow> string \<Rightarrow> exn + (int \<times> currency)" where
  "parse_reference kind reference = (let parts = split_on (CHR ''_'') reference in
     if length parts \<noteq> 5 \<or> take 2 parts \<noteq> [''sandbox'', kind]
     then Inl (ApiError ''provider_reference_invalid'' 502)
     else case py_int (parts ! 2) of
         None \<Rightarrow> Inl (ApiError ''provider_reference_invalid'' 502)
       | Some amount \<Rightarrow> Inr (amount, parts ! 3))"

definition sandbox_verify_payment :: "string \<Rightarrow> exn + provider_result" where
  "sandbox_verify_payment reference = (case parse_reference ''pay'' reference of
     Inl e \<Rightarrow> Inl e
   | Inr (amount, cur) \<Rightarrow> Inr \<lparr>res_reference = reference, res_status = ''CAPTURED'',
       res_amount = amount, res_currency = cur\<rparr>)"

definition sandbox_get_payment_action :: "string \<Rightarrow> exn + (string \<times> string) option" where
  "sandbox_get_payment_action reference = (case parse_reference ''pay'' reference of
     Inl e \<Rightarrow> Inl e | Inr _ \<Rightarrow> Inr None)"

definition sandbox_refund :: "env \<Rightarrow> string \<Rightarrow> int \<Rightarrow> currency \<Rightarrow> string \<Rightarrow> exn + provider_result" where
  "sandbox_refund env reference amount cur key = (case parse_reference ''pay'' reference of
     Inl e \<Rightarrow> Inl e
   | Inr _ \<Rightarrow> Inr \<lparr>res_reference = ''sandbox_refund_'' @ str_int amount @ ''_'' @ cur @ ''_'' @ sandbox_token env key,
       res_status = ''SUCCEEDED'', res_amount = amount, res_currency = cur\<rparr>)"

definition sandbox_verify_refund :: "string \<Rightarrow> exn + provider_result" where
  "sandbox_verify_refund reference = (case parse_reference ''refund'' reference of
     Inl e \<Rightarrow> Inl e
   | Inr (amount, cur) \<Rightarrow> Inr \<lparr>res_reference = reference, res_status = ''SUCCEEDED'',
       res_amount = amount, res_currency = cur\<rparr>)"

definition sandbox_validate_payout_destination :: "string \<Rightarrow> exn + string" where
  "sandbox_validate_payout_destination reference =
    (if reference = [] then Inl (ApiError ''payout_destination_invalid'' 422) else Inr reference)"

definition sandbox_payout :: "env \<Rightarrow> string \<Rightarrow> int \<Rightarrow> currency \<Rightarrow> string \<Rightarrow> exn + provider_result" where
  "sandbox_payout env user_reference amount cur key =
    Inr \<lparr>res_reference = ''sandbox_payout_'' @ take 8 (env_sha256 env user_reference) @ ''_'' @
           str_int amount @ ''_'' @ cur @ ''_'' @ sandbox_token env key,
         res_status = ''SUCCEEDED'', res_amount = amount, res_currency = cur\<rparr>"

definition nonempty_str :: "json \<Rightarrow> string option" where
  "nonempty_str j = (case j of JStr s \<Rightarrow> if s = [] then None else Some s | _ \<Rightarrow> None)"

definition normalize_webhook_data :: "(string \<times> json) list \<Rightarrow> json" where
  "normalize_webhook_data kvs =
    (if ''reference'' \<in> set (map fst kvs) \<and> ''provider_reference'' \<notin> set (map fst kvs)
     then JObj (kvs @ [(''provider_reference'', jget (JObj kvs) ''reference'')]) else JObj kvs)"

definition sandbox_verify_webhook :: "env \<Rightarrow> string \<Rightarrow> string \<Rightarrow> exn + verified_webhook" where
  "sandbox_verify_webhook env payload signature =
    (if env_hmac env (env_webhook_secret env) payload \<noteq> signature
     then Inl (ApiError ''invalid_webhook_signature'' 401)
     else case env_json_loads env payload of
       Some (JObj doc) \<Rightarrow>
         (case (nonempty_str (jget (JObj doc) ''id''), nonempty_str (jget (JObj doc) ''type''),
                if jhas (JObj doc) ''data'' then jget (JObj doc) ''data'' else JObj []) of
            (Some i, Some t, JObj kvs) \<Rightarrow>
              Inr \<lparr>vw_event_id = i, vw_event_type = t, vw_data = normalize_webhook_data kvs\<rparr>
          | _ \<Rightarrow> Inl (ApiError ''invalid_webhook_payload'' 400))
     | _ \<Rightarrow> Inl (ApiError ''invalid_webhook_payload'' 400))"

definition sandbox_provider :: "env \<Rightarrow> provider" where
  "sandbox_provider env =
    \<lparr>pv_name = ''sandbox'', pv_create_payment = sandbox_create_payment env,
     pv_verify_payment = sandbox_verify_payment,
     pv_get_payment_action = sandbox_get_payment_action,
     pv_refund = sandbox_refund env, pv_verify_refund = sandbox_verify_refund,
     pv_validate_destination = sandbox_validate_payout_destination,
     pv_payout = sandbox_payout env, pv_get_transaction = sandbox_verify_payment,
     pv_verify_webhook = sandbox_verify_webhook env\<rparr>"

section \<open>The registry\<close>

definition get_provider :: "env \<Rightarrow> string \<Rightarrow> exn + provider" where
  "get_provider env name =
    (if \<not> env_runtime_enabled env then Inl (ApiError ''payment_runtime_disabled'' 503)
     else let normalized = lower (strip name) in
       if normalized = ''sandbox'' then Inr (sandbox_provider env)
       else if normalized = ''stripe'' then Inr (env_stripe env)
       else Inl (ApiError ''unsupported_payment_provider'' 422))"

section \<open>References carry amount and currency\<close>

lemma str_int_no_underscore: "CHR ''_'' \<notin> set (str_int i)"
  using nat_digits_is_digit[of "nat i"] nat_digits_is_digit[of "nat (- i)"]
  by (auto simp: str_int_def list_all_iff dest: digit_not_special)

lemma take_no_underscore: "CHR ''_'' \<notin> set s \<Longrightarrow> CHR ''_'' \<notin> set (take n s)"
  by (meson in_set_takeD)

lemma parse_reference_built:
  assumes "CHR ''_'' \<notin> set kind" and "CHR ''_'' \<notin> set cur" and "CHR ''_'' \<notin> set tok"
  shows "parse_reference kind (''sandbox'' @ ''_'' @ kind @ ''_'' @ str_int n @ ''_'' @ cur @ ''_'' @ tok) = Inr (n, cur)"
proof -
  have "split_on (CHR ''_'') (''sandbox'' @ CHR ''_'' # kind @ CHR ''_'' # str_int n @ CHR ''_'' # cur @ CHR ''_'' # tok)
      = [''sandbox'', kind, str_int n, cur, tok]"
    using assms str_int_no_underscore[of n]
    by (subst split_on_append, simp, subst split_on_append, simp, subst split_on_append, simp,
        subst split_on_append, simp, subst split_on_absent, simp_all)
  then show ?thesis by (simp add: parse_reference_def py_int_str_int)
qed

text \<open>The contract a settlement relies on: a provider that reports success echoes the amount
  and the currency of the request, and a reference it hands out verifies to the same values.\<close>

locale echoing_provider =
  fixes prov :: provider and plain :: "string \<Rightarrow> bool"
  assumes refund_echo: "pv_refund prov r n cur k = Inr x \<Longrightarrow> res_amount x = n \<and> res_currency x = cur"
    and payout_echo: "pv_payout prov dst n cur k = Inr x \<Longrightarrow> res_amount x = n \<and> res_currency x = cur"
    and payment_echo: "pv_create_payment prov n cur k = Inr x \<Longrightarrow> res_amount x = n \<and> res_currency x = cur"
    and refund_verifies: "pv_refund prov r n cur k = Inr x \<Longrightarrow> plain cur \<Longrightarrow> plain k \<Longrightarrow>
        \<exists>y. pv_verify_refund prov (res_reference x) = Inr y \<and> res_reference y = res_reference x \<and>
            res_amount y = n \<and> res_currency y = cur"
    and payment_verifies: "pv_create_payment prov n cur k = Inr x \<Longrightarrow> plain cur \<Longrightarrow> plain k \<Longrightarrow>
        \<exists>y. pv_verify_payment prov (res_reference x) = Inr y \<and> res_reference y = res_reference x \<and>
            res_amount y = n \<and> res_currency y = cur"
begin

lemma verified_refund_matches_request:
  assumes "pv_refund prov r n cur k = Inr x" and "plain cur" and "plain k"
    and "pv_verify_refund prov (res_reference x) = Inr y"
  shows "res_amount y = res_amount x \<and> res_currency y = res_currency x"
  using assms refund_verifies[OF assms(1-3)] refund_echo[OF assms(1)] by auto

lemma verified_payment_matches_request:
  assumes "pv_create_payment prov n cur k = Inr x" and "plain cur" and "plain k"
    and "pv_verify_payment prov (res_reference x) = Inr y"
  shows "res_amount y = res_amount x \<and> res_currency y = res_currency x"
  using assms payment_verifies[OF assms(1-3)] payment_echo[OF assms(1)] by auto

end

text \<open>The sandbox keeps the contract for currencies without an underscore; the digest of the
  idempotency key has none because it is hexadecimal.\<close>

definition plain_text :: "env \<Rightarrow> string \<Rightarrow> bool" where
  "plain_text env s \<longleftrightarrow> CHR ''_'' \<notin> set s \<and> CHR ''_'' \<notin> set (env_sha256 env s)"

lemma sandbox_refund_reference_parses:
  assumes "plain_text env cur" and "plain_text env k"
  shows "parse_reference ''refund'' (''sandbox_refund_'' @ str_int n @ ''_'' @ cur @ ''_'' @ sandbox_token env k) = Inr (n, cur)"
  using parse_reference_built[of "''refund''" cur "sandbox_token env k" n] assms
  by (simp add: plain_text_def sandbox_token_def take_no_underscore)

lemma sandbox_payment_reference_parses:
  assumes "plain_text env cur" and "plain_text env k"
  shows "parse_reference ''pay'' (''sandbox_pay_'' @ str_int n @ ''_'' @ cur @ ''_'' @ sandbox_token env k) = Inr (n, cur)"
  using parse_reference_built[of "''pay''" cur "sandbox_token env k" n] assms
  by (simp add: plain_text_def sandbox_token_def take_no_underscore)

interpretation sandbox: echoing_provider "sandbox_provider env" "plain_text env" for env
proof unfold_locales
  fix r n cur k x
  assume "pv_refund (sandbox_provider env) r n cur k = Inr x"
  then obtain a where p: "parse_reference ''pay'' r = Inr a"
    and x: "x = \<lparr>res_reference = ''sandbox_refund_'' @ str_int n @ ''_'' @ cur @ ''_'' @ sandbox_token env k,
       res_status = ''SUCCEEDED'', res_amount = n, res_currency = cur\<rparr>"
    by (auto simp: sandbox_provider_def sandbox_refund_def split: sum.splits)
  then show "res_amount x = n \<and> res_currency x = cur" by simp
  assume "plain_text env cur" "plain_text env k"
  from sandbox_refund_reference_parses[OF this, of n]
  show "\<exists>y. pv_verify_refund (sandbox_provider env) (res_reference x) = Inr y \<and>
      res_reference y = res_reference x \<and> res_amount y = n \<and> res_currency y = cur"
    unfolding x sandbox_provider_def sandbox_verify_refund_def by simp
next
  fix dst n cur k x
  assume "pv_payout (sandbox_provider env) dst n cur k = Inr x"
  then show "res_amount x = n \<and> res_currency x = cur"
    by (auto simp: sandbox_provider_def sandbox_payout_def)
next
  fix n cur k x
  assume "pv_create_payment (sandbox_provider env) n cur k = Inr x"
  then have x: "x = \<lparr>res_reference = ''sandbox_pay_'' @ str_int n @ ''_'' @ cur @ ''_'' @ sandbox_token env k,
       res_status = ''PENDING'', res_amount = n, res_currency = cur\<rparr>"
    by (auto simp: sandbox_provider_def sandbox_create_payment_def)
  then show "res_amount x = n \<and> res_currency x = cur" by simp
  assume "plain_text env cur" "plain_text env k"
  from sandbox_payment_reference_parses[OF this, of n]
  show "\<exists>y. pv_verify_payment (sandbox_provider env) (res_reference x) = Inr y \<and>
      res_reference y = res_reference x \<and> res_amount y = n \<and> res_currency y = cur"
    unfolding x sandbox_provider_def sandbox_verify_payment_def by simp
qed

end
