(* ===== verification/Payments.thy ===== *)
theory Payments
  imports Ledger Idempotency Providers
begin

text \<open>
  Milestone funding, provider webhooks and escrow release (\<open>app/payments/service.py\<close>): a
  payment intent is created at the provider, captured into the milestone's escrow account by
  a signed webhook that is processed once, and the escrow of an approved milestone is split
  between the freelancer's wallet and the platform commission.
\<close>

section \<open>Lookups\<close>

definition locked_milestone :: "uuid \<Rightarrow> milestone dbop" where
  "locked_milestone mid = bnd (query (\<lambda>d. row_by ms_id mid (milestones d)))
     (found (ApiError ''milestone_not_found'' 404))"

definition version_of :: "milestone \<Rightarrow> contract_version dbop" where
  "version_of m = bnd (query (\<lambda>d. row_by cv_id (ms_version_id m) (contract_versions d)))
     (found AttributeError)"

definition locked_contract :: "uuid \<Rightarrow> contract dbop" where
  "locked_contract cid = bnd (query (\<lambda>d. row_by con_id cid (contracts d))) (found RuntimeError)"

text \<open>\<open>milestone.contract_version.contract\<close>\<close>

definition contract_of :: "milestone \<Rightarrow> contract dbop" where
  "contract_of m = bnd (version_of m) (\<lambda>v.
     bnd (query (\<lambda>d. row_by con_id (cv_contract_id v) (contracts d))) (found AttributeError))"

definition require_active_contract :: "contract \<Rightarrow> unit dbop" where
  "require_active_contract c =
     (if con_status c \<noteq> CON_ACTIVE then raise (ApiError ''invalid_state'' 409) else ret ())"

definition can_fund_milestone :: "user \<Rightarrow> contract \<Rightarrow> bool" where
  "can_fund_milestone u c \<longleftrightarrow> user_id u = con_employer c"

definition can_release_or_refund :: "user \<Rightarrow> contract \<Rightarrow> bool" where
  "can_release_or_refund u c \<longleftrightarrow> user_id u = con_employer c"

definition find_escrow :: "uuid \<Rightarrow> db \<Rightarrow> escrow option" where
  "find_escrow mid d = row_by es_milestone mid (escrows d)"

definition require_escrow :: "uuid \<Rightarrow> escrow dbop" where
  "require_escrow mid = bnd (query (find_escrow mid)) (found (ApiError ''escrow_not_found'' 409))"

definition account_by_id :: "uuid \<Rightarrow> db \<Rightarrow> ledger_account option" where
  "account_by_id i d = row_by acc_id i (accounts d)"

definition escrow_balance :: "escrow option \<Rightarrow> int dbop" where
  "escrow_balance r = (case r of
     None \<Rightarrow> ret 0
   | Some e \<Rightarrow> bnd (query (account_by_id (es_account e))) (\<lambda>a.
       case a of None \<Rightarrow> raise RuntimeError
       | Some acc \<Rightarrow> query (account_balance_minor (acc_id acc))))"

fun latest :: "('a \<Rightarrow> nat) \<Rightarrow> 'a list \<Rightarrow> 'a option" where
  "latest f [] = None"
| "latest f (x # xs) = (case latest f xs of None \<Rightarrow> Some x
     | Some y \<Rightarrow> if f y \<le> f x then Some x else Some y)"

lemma latest_SomeD: "latest f xs = Some x \<Longrightarrow> x \<in> set xs"
  by (induction xs arbitrary: x) (auto split: option.splits if_splits)

definition active_intent :: "uuid \<Rightarrow> db \<Rightarrow> payment_intent option" where
  "active_intent mid d = latest pi_created_at
     (filter (\<lambda>i. pi_milestone i = mid \<and> pi_status i = PI_PENDING) (intents d))"

definition intent_by_reference :: "string \<Rightarrow> string \<Rightarrow> db \<Rightarrow> payment_intent option" where
  "intent_by_reference prov reference d =
     List.find (\<lambda>i. pi_provider i = prov \<and> pi_reference i = Some reference) (intents d)"

section \<open>Responses\<close>

definition serialize_payment_intent :: "payment_intent \<Rightarrow> json" where
  "serialize_payment_intent i = JObj
     [(''payment_intent_id'', j_id (pi_id i)), (''milestone_id'', j_id (pi_milestone i)),
      (''provider'', JStr (pi_provider i)), (''provider_reference'', j_opt JStr (pi_reference i)),
      (''amount_minor'', JInt (pi_amount i)), (''currency'', JStr (pi_currency i)),
      (''status'', JStr (intent_status_str (pi_status i)))]"

definition milestone_audit_state :: "milestone \<Rightarrow> json" where
  "milestone_audit_state m = JObj
     [(''status'', JStr (milestone_status_str (ms_status m))), (''amount_minor'', JInt (ms_amount m)),
      (''currency'', JStr (ms_currency m))]"

definition financial_state_json :: "milestone \<Rightarrow> escrow option \<Rightarrow> int \<Rightarrow> json" where
  "financial_state_json m e bal = JObj
     [(''milestone_id'', j_id (ms_id m)),
      (''milestone_status'', JStr (milestone_status_str (ms_status m))),
      (''contracted_amount_minor'', JInt (ms_amount m)), (''currency'', JStr (ms_currency m)),
      (''escrow_balance_minor'', JInt bal),
      (''commission_bps'', j_opt (\<lambda>x. JInt (es_commission_bps x)) e)]"

definition financial_state :: "milestone \<Rightarrow> json dbop" where
  "financial_state m = bnd (query (find_escrow (ms_id m))) (\<lambda>e.
     bnd (escrow_balance e) (\<lambda>b. ret (financial_state_json m e b)))"

definition is_contract_party_ids :: "user \<Rightarrow> contract \<Rightarrow> bool" where
  "is_contract_party_ids u c \<longleftrightarrow> user_id u \<in> {con_employer c, con_freelancer c}"

definition get_milestone_financial_state :: "user \<Rightarrow> uuid \<Rightarrow> json dbop" where
  "get_milestone_financial_state u mid =
    bnd (locked_milestone mid) (\<lambda>m.
    bnd (contract_of m) (\<lambda>c.
    if \<not> is_contract_party_ids u c then raise (ApiError ''forbidden'' 403)
    else financial_state m))"

definition require_milestone_fully_funded :: "milestone \<Rightarrow> unit dbop" where
  "require_milestone_fully_funded m =
    bnd (require_escrow (ms_id m)) (\<lambda>e.
    bnd (query (account_by_id (es_account e))) (\<lambda>a.
    case a of
      None \<Rightarrow> raise (ApiError ''escrow_not_fully_funded'' 409)
    | Some acc \<Rightarrow> bnd (query (account_balance_minor (acc_id acc))) (\<lambda>b.
        if b \<noteq> ms_amount m then raise (ApiError ''escrow_not_fully_funded'' 409) else ret ())))"

section \<open>Row updates\<close>

definition put_milestone :: "milestone \<Rightarrow> db \<Rightarrow> db" where
  "put_milestone m d = d\<lparr>milestones := put_row ms_id m (milestones d)\<rparr>"

definition add_milestone_event :: "milestone_event \<Rightarrow> db \<Rightarrow> db" where
  "add_milestone_event e d = d\<lparr>milestone_events := milestone_events d @ [e]\<rparr>"

definition milestone_event_of :: "milestone \<Rightarrow> uuid option \<Rightarrow> milestone_status \<Rightarrow> milestone_status \<Rightarrow>
    string \<Rightarrow> milestone_event" where
  "milestone_event_of m actor from_status to_status note =
     \<lparr>me_milestone_id = ms_id m, me_actor = actor, me_from = from_status, me_to = to_status,
      me_note = note\<rparr>"

text \<open>\<open>milestone.events.append(...)\<close> and \<open>milestone.status = ...\<close>\<close>

definition log_milestone_event :: "milestone \<Rightarrow> uuid option \<Rightarrow> milestone_status \<Rightarrow> milestone_status \<Rightarrow>
    string \<Rightarrow> unit dbop" where
  "log_milestone_event m actor from_status to_status note =
     modify (add_milestone_event (milestone_event_of m actor from_status to_status note))"

definition set_milestone_status :: "milestone \<Rightarrow> milestone_status \<Rightarrow> milestone dbop" where
  "set_milestone_status m st = (let m' = m\<lparr>ms_status := st\<rparr> in seq (modify (put_milestone m')) (ret m'))"

definition put_intent :: "payment_intent \<Rightarrow> db \<Rightarrow> db" where
  "put_intent i d = d\<lparr>intents := put_row pi_id i (intents d)\<rparr>"

definition add_intent :: "payment_intent \<Rightarrow> db \<Rightarrow> db" where
  "add_intent i d = d\<lparr>intents := intents d @ [i]\<rparr>"

text \<open>INSERT with the table's CHECK and UNIQUE constraints.\<close>

definition insert_intent :: "payment_intent \<Rightarrow> unit dbop" where
  "insert_intent i = bnd (query intents) (\<lambda>is.
     if pi_amount i \<le> 0 \<or>
        (pi_reference i \<noteq> None \<and>
           list_ex (\<lambda>x. pi_provider x = pi_provider i \<and> pi_reference x = pi_reference i) is) \<or>
        list_ex (\<lambda>x. pi_idem x = pi_idem i) is
     then raise IntegrityError
     else modify (add_intent i))"

definition add_escrow :: "escrow \<Rightarrow> db \<Rightarrow> db" where
  "add_escrow e d = d\<lparr>escrows := escrows d @ [e]\<rparr>"

definition add_funding :: "funding \<Rightarrow> db \<Rightarrow> db" where
  "add_funding f d = d\<lparr>fundings := fundings d @ [f]\<rparr>"

section \<open>Funding a milestone\<close>

definition finish :: "idempotency_key \<Rightarrow> json \<Rightarrow> int \<Rightarrow> response dbop" where
  "finish idem body st =
     seq (complete_idempotency (ik_id idem) st body) (seq commit (ret (body, st)))"

definition fund_milestone :: "env \<Rightarrow> user \<Rightarrow> uuid \<Rightarrow> string \<Rightarrow> string \<Rightarrow> response dbop" where
  "fund_milestone env user mid provider_name key =
    bnd (locked_milestone mid) (\<lambda>m.
    bnd (version_of m) (\<lambda>v.
    bnd (locked_contract (cv_contract_id v)) (\<lambda>c.
    seq (require_active_contract c) (
    if \<not> can_fund_milestone user c then raise (ApiError ''forbidden'' 403) else
    let prov_name = lower (strip provider_name) in
    bnd (claim_idempotency env (user_id user) ''milestone.fund'' key
          (JObj [(''milestone_id'', j_id (ms_id m)), (''provider'', JStr prov_name)])) (\<lambda>claim.
    case stored_response claim of Some r \<Rightarrow> ret r | None \<Rightarrow>
    let idem = fst claim in
    if ms_status m \<noteq> MS_CREATED then raise (ApiError ''invalid_transition'' 409) else
    bnd (query (\<lambda>d. List.find (\<lambda>i. pi_idem i = ik_id idem) (intents d))) (\<lambda>existing.
    case existing of
      Some i \<Rightarrow> finish idem (serialize_payment_intent i) (if pi_status i = PI_CAPTURED then 200 else 202)
    | None \<Rightarrow>
    bnd (query (active_intent (ms_id m))) (\<lambda>active.
    case active of
      Some a \<Rightarrow> if pi_provider a \<noteq> prov_name then raise (ApiError ''payment_in_progress'' 409)
                else finish idem (serialize_payment_intent a) 202
    | None \<Rightarrow>
    bnd (lift_result (get_provider env prov_name)) (\<lambda>p.
    bnd (lift_result (pv_create_payment p (ms_amount m) (ms_currency m) key)) (\<lambda>result.
    bnd uuid4 (\<lambda>iid.
    let intent = \<lparr>pi_id = iid, pi_milestone = ms_id m, pi_employer = user_id user,
          pi_provider = pv_name p, pi_reference = Some (res_reference result), pi_idem = ik_id idem,
          pi_amount = ms_amount m, pi_currency = ms_currency m, pi_status = PI_PENDING,
          pi_captured_at = None, pi_created_at = env_now env\<rparr> in
    seq (insert_intent intent) (
    seq (record_audit_event env ''payment.created'' ''payment_intent'' (Some (user_id user))
          (Some (str_uuid iid)) None None
          (JObj [(''milestone_id'', j_id (ms_id m)), (''provider'', JStr (pv_name p)),
                 (''amount_minor'', JInt (pi_amount intent)), (''currency'', JStr (pi_currency intent))])) (
    finish idem (serialize_payment_intent intent) 202))))))))))))"

section \<open>Capturing a payment\<close>

definition contract_commission_bps :: "contract_version \<Rightarrow> exn + int" where
  "contract_commission_bps v = (case jget (cv_snapshot v) ''commission'' of
     JNull \<Rightarrow> Inr 0
   | JObj kvs \<Rightarrow> (case jget (JObj kvs) ''platform_bps'' of
        JInt n \<Rightarrow> if n < 0 \<or> n > 10000 then Inl RuntimeError else Inr n
      | _ \<Rightarrow> Inl RuntimeError)
   | _ \<Rightarrow> Inl RuntimeError)"

text \<open>The escrow row of a milestone and its ledger account, created by the first capture.\<close>

definition escrow_for_capture :: "milestone \<Rightarrow> contract_version \<Rightarrow> (escrow \<times> ledger_account) dbop" where
  "escrow_for_capture m v =
    bnd (query (find_escrow (ms_id m))) (\<lambda>r.
    case r of
      None \<Rightarrow>
        bnd (get_or_create_account
              (''milestone:'' @ str_uuid (ms_id m) @ '':escrow:'' @ ms_currency m)
              MILESTONE_ESCROW (ms_currency m) None (Some (ms_id m))) (\<lambda>acc.
        bnd (lift_result (contract_commission_bps v)) (\<lambda>bps.
        bnd uuid4 (\<lambda>i.
        let e = \<lparr>es_id = i, es_milestone = ms_id m, es_account = acc_id acc, es_commission_bps = bps\<rparr> in
        seq (modify (add_escrow e)) (ret (e, acc)))))
    | Some e \<Rightarrow>
        bnd (query (account_by_id (es_account e))) (\<lambda>a.
        bnd (found RuntimeError a) (\<lambda>acc. ret (e, acc))))"

definition capture_note :: string where
  "capture_note = ''Full contracted milestone amount captured into escrow''"

definition provider_clearing_account :: "string \<Rightarrow> currency \<Rightarrow> ledger_account dbop" where
  "provider_clearing_account prov cur =
     get_or_create_account (''provider:'' @ prov @ '':clearing:'' @ cur) PROVIDER_CLEARING cur None None"

definition capture_intent :: "env \<Rightarrow> payment_intent \<Rightarrow> uuid option \<Rightarrow> json dbop" where
  "capture_intent env intent actor =
    (if pi_status intent = PI_CAPTURED
     then bnd (locked_milestone (pi_milestone intent)) financial_state
     else
    bnd (locked_milestone (pi_milestone intent)) (\<lambda>m.
    bnd (version_of m) (\<lambda>v.
    bnd (locked_contract (cv_contract_id v)) (\<lambda>c.
    seq (require_active_contract c) (
    if ms_status m \<notin> {MS_CREATED, MS_FUNDED} then raise (ApiError ''invalid_transition'' 409) else
    if pi_reference intent = None then raise RuntimeError else
    bnd (escrow_for_capture m v) (\<lambda>(e, escrow_account).
    bnd (query (account_balance_minor (acc_id escrow_account))) (\<lambda>before.
    if before + pi_amount intent > ms_amount m then raise (ApiError ''escrow_overfund'' 409) else
    bnd (provider_clearing_account (pi_provider intent) (pi_currency intent)) (\<lambda>clearing.
    bnd (post_journal MILESTONE_FUND ''payment_intent'' (pi_id intent)
          [mk_posting clearing ''DEBIT'' (pi_amount intent),
           mk_posting escrow_account ''CREDIT'' (pi_amount intent)]
          (JObj [(''provider'', JStr (pi_provider intent)),
                 (''provider_reference'', j_opt JStr (pi_reference intent)),
                 (''milestone_id'', j_id (ms_id m))]) None) (\<lambda>j.
    bnd (query fundings) (\<lambda>fs.
    seq (if list_ex (\<lambda>f. fu_intent f = pi_id intent) fs then ret ()
         else modify (add_funding \<lparr>fu_escrow = es_id e, fu_intent = pi_id intent,
                fu_journal = jn_id j, fu_amount = pi_amount intent\<rparr>)) (
    seq (modify (put_intent (intent\<lparr>pi_status := PI_CAPTURED, pi_captured_at := Some (env_now env)\<rparr>))) (
    let after = before + pi_amount intent in
    bnd (if after = ms_amount m \<and> ms_status m \<noteq> MS_FUNDED
         then bnd (set_milestone_status m MS_FUNDED) (\<lambda>m'.
              seq (log_milestone_event m actor (ms_status m) MS_FUNDED capture_note) (ret m'))
         else ret m) (\<lambda>m'.
    seq (enqueue_outbox_event ''milestone.funded'' ''milestone'' (str_uuid (ms_id m))
          (JObj [(''payment_intent_id'', j_id (pi_id intent)),
                 (''journal_transaction_id'', j_id (jn_id j)), (''funded_balance_minor'', JInt after)])) (
    seq (record_audit_event env ''milestone.funded'' ''milestone'' actor (Some (str_uuid (ms_id m))) None None
          (JObj [(''payment_intent_id'', j_id (pi_id intent)),
                 (''journal_transaction_id'', j_id (jn_id j)),
                 (''amount_minor'', JInt (pi_amount intent)), (''currency'', JStr (pi_currency intent))])) (
    financial_state m')))))))))))))))"

section \<open>Provider webhooks\<close>

definition webhook_string :: "json \<Rightarrow> string \<Rightarrow> exn + string" where
  "webhook_string data k = (case jget data k of
     JStr s \<Rightarrow> if s = [] then Inl (ApiError ''invalid_webhook'' 400) else Inr s
   | _ \<Rightarrow> Inl (ApiError ''invalid_webhook'' 400))"

definition webhook_int :: "json \<Rightarrow> string \<Rightarrow> exn + int" where
  "webhook_int data k = (case jget data k of JInt n \<Rightarrow> Inr n | _ \<Rightarrow> Inl (ApiError ''invalid_webhook'' 400))"

definition find_provider_event :: "string \<Rightarrow> string \<Rightarrow> db \<Rightarrow> provider_event option" where
  "find_provider_event prov ext d =
     List.find (\<lambda>e. pe_provider e = prov \<and> pe_external_id e = ext) (provider_events d)"

definition duplicate_provider_event :: "provider_event \<Rightarrow> string \<Rightarrow> response dbop" where
  "duplicate_provider_event e h =
     (if pe_payload_hash e \<noteq> h then raise (ApiError ''provider_event_conflict'' 409)
      else ret (JObj [(''status'', JStr ''duplicate''), (''event_id'', JStr (pe_external_id e))], 200))"

definition add_provider_event :: "provider_event \<Rightarrow> db \<Rightarrow> db" where
  "add_provider_event e d = d\<lparr>provider_events := provider_events d @ [e]\<rparr>"

definition insert_provider_event :: "provider_event \<Rightarrow> unit dbop" where
  "insert_provider_event e = bnd (query (find_provider_event (pe_provider e) (pe_external_id e))) (\<lambda>r.
     case r of Some _ \<Rightarrow> raise IntegrityError | None \<Rightarrow> modify (add_provider_event e))"

definition mark_event_processed :: "nat \<Rightarrow> provider_event \<Rightarrow> db \<Rightarrow> db" where
  "mark_event_processed t e d = d\<lparr>provider_events :=
     map (\<lambda>x. if pe_provider x = pe_provider e \<and> pe_external_id x = pe_external_id e
              then x\<lparr>pe_processed_at := Some t\<rparr> else x) (provider_events d)\<rparr>"

definition apply_captured :: "env \<Rightarrow> provider \<Rightarrow> json \<Rightarrow> unit dbop" where
  "apply_captured env p data =
    bnd (lift_result (webhook_string data ''provider_reference'')) (\<lambda>reference.
    bnd (lift_result (webhook_int data ''amount_minor'')) (\<lambda>amount.
    bnd (lift_result (webhook_string data ''currency'')) (\<lambda>cur.
    bnd (query (intent_by_reference (pv_name p) reference)) (\<lambda>r.
    bnd (found (ApiError ''payment_not_found'' 404) r) (\<lambda>i.
    if pi_amount i \<noteq> amount \<or> pi_currency i \<noteq> upper cur then raise (ApiError ''payment_mismatch'' 409)
    else bnd (capture_intent env i None) (\<lambda>_. ret ()))))))"

definition apply_failed :: "provider \<Rightarrow> json \<Rightarrow> unit dbop" where
  "apply_failed p data =
    bnd (lift_result (webhook_string data ''provider_reference'')) (\<lambda>reference.
    bnd (query (intent_by_reference (pv_name p) reference)) (\<lambda>r.
    case r of
      None \<Rightarrow> ret ()
    | Some i \<Rightarrow> if pi_status i = PI_CAPTURED then ret ()
                else modify (put_intent (i\<lparr>pi_status := PI_FAILED\<rparr>))))"

definition process_provider_webhook :: "env \<Rightarrow> string \<Rightarrow> string \<Rightarrow> string \<Rightarrow> response dbop" where
  "process_provider_webhook env provider_name payload signature =
    bnd (lift_result (get_provider env provider_name)) (\<lambda>p.
    bnd (lift_result (pv_verify_webhook p payload signature)) (\<lambda>verified.
    let h = env_sha256 env payload in
    bnd (query (find_provider_event (pv_name p) (vw_event_id verified))) (\<lambda>r.
    case r of Some x \<Rightarrow> duplicate_provider_event x h | None \<Rightarrow>
    let event = \<lparr>pe_provider = pv_name p, pe_external_id = vw_event_id verified,
                 pe_type = vw_event_type verified, pe_payload_hash = h, pe_processed_at = None\<rparr> in
    bnd (savepoint (seq (insert_provider_event event) (ret None))
          (bnd (query (find_provider_event (pv_name p) (vw_event_id verified))) (\<lambda>r'.
           bnd (found IntegrityError r') (\<lambda>x. ret (Some x))))) (\<lambda>race.
    case race of Some x \<Rightarrow> duplicate_provider_event x h | None \<Rightarrow>
    seq (if vw_event_type verified = ''payment.captured'' then apply_captured env p (vw_data verified)
         else if vw_event_type verified = ''payment.failed'' then apply_failed p (vw_data verified)
         else ret ()) (
    seq (modify (mark_event_processed (env_now env) event)) (
    seq commit (
    ret (JObj [(''status'', JStr ''processed''), (''event_id'', JStr (vw_event_id verified))], 200))))))))"

section \<open>Releasing escrow\<close>

definition wallet_account :: "uuid \<Rightarrow> currency \<Rightarrow> ledger_account dbop" where
  "wallet_account u cur =
     get_or_create_account (''user:'' @ str_uuid u @ '':wallet:'' @ cur) FREELANCER_WALLET cur (Some u) None"

definition commission_account :: "currency \<Rightarrow> ledger_account dbop" where
  "commission_account cur =
     get_or_create_account (''platform:commission:'' @ cur) PLATFORM_COMMISSION cur None None"

definition commission_minor :: "int \<Rightarrow> int \<Rightarrow> int" where
  "commission_minor amount bps = amount * bps div 10000"

definition release_postings :: "ledger_account \<Rightarrow> ledger_account \<Rightarrow> ledger_account \<Rightarrow> int \<Rightarrow> int \<Rightarrow>
    posting list" where
  "release_postings escrow_account wallet platform amount fee =
    [mk_posting escrow_account ''DEBIT'' amount, mk_posting wallet ''CREDIT'' (amount - fee)] @
    (if fee \<noteq> 0 then [mk_posting platform ''CREDIT'' fee] else [])"

definition release_pending_note :: string where
  "release_pending_note = ''Escrow release journal created''"

definition released_note :: string where
  "released_note = ''Internal ledger release committed''"

definition release_milestone :: "env \<Rightarrow> user \<Rightarrow> uuid \<Rightarrow> string \<Rightarrow> response dbop" where
  "release_milestone env user mid key =
    bnd (locked_milestone mid) (\<lambda>m.
    bnd (contract_of m) (\<lambda>c.
    seq (require_active_contract c) (
    if \<not> can_release_or_refund user c then raise (ApiError ''forbidden'' 403) else
    bnd (claim_idempotency env (user_id user) ''milestone.release'' key
          (JObj [(''milestone_id'', j_id (ms_id m))])) (\<lambda>claim.
    case stored_response claim of Some r \<Rightarrow> ret r | None \<Rightarrow>
    let idem = fst claim in
    if ms_status m = MS_RELEASED
    then bnd (financial_state m) (\<lambda>body. finish idem body 200)
    else if ms_status m \<noteq> MS_APPROVED then raise (ApiError ''invalid_transition'' 409) else
    let previous_state = milestone_audit_state m in
    bnd (require_escrow (ms_id m)) (\<lambda>e.
    bnd (query (account_by_id (es_account e))) (\<lambda>a.
    bnd (found RuntimeError a) (\<lambda>escrow_account.
    bnd (query (account_balance_minor (acc_id escrow_account))) (\<lambda>balance.
    if balance \<noteq> ms_amount m then raise (ApiError ''escrow_not_fully_funded'' 409) else
    bnd (wallet_account (con_freelancer c) (ms_currency m)) (\<lambda>wallet.
    bnd (commission_account (ms_currency m)) (\<lambda>platform.
    let fee = commission_minor (ms_amount m) (es_commission_bps e) in
    bnd (post_journal MILESTONE_RELEASE ''milestone'' (ms_id m)
          (release_postings escrow_account wallet platform (ms_amount m) fee)
          (JObj [(''commission_bps'', JInt (es_commission_bps e)), (''commission_minor'', JInt fee),
                 (''freelancer_user_id'', j_id (con_freelancer c))]) None) (\<lambda>j.
    seq (log_milestone_event m (Some (user_id user)) MS_APPROVED MS_RELEASE_PENDING release_pending_note) (
    bnd (set_milestone_status m MS_RELEASE_PENDING) (\<lambda>m1.
    seq (log_milestone_event m1 (Some (user_id user)) MS_RELEASE_PENDING MS_RELEASED released_note) (
    bnd (set_milestone_status m1 MS_RELEASED) (\<lambda>m2.
    seq (enqueue_outbox_event ''milestone.released'' ''milestone'' (str_uuid (ms_id m))
          (JObj [(''journal_transaction_id'', j_id (jn_id j))])) (
    seq (record_audit_event env ''milestone.released'' ''milestone'' (Some (user_id user))
          (Some (str_uuid (ms_id m))) (Some previous_state) (Some (milestone_audit_state m2))
          (JObj [(''journal_transaction_id'', j_id (jn_id j)), (''amount_minor'', JInt (ms_amount m)),
                 (''currency'', JStr (ms_currency m)), (''commission_minor'', JInt fee)])) (
    bnd (financial_state m2) (\<lambda>body. finish idem body 200))))))))))))))))))"

end
