(* ===== verification/Refunds.thy ===== *)
theory Refunds
  imports Payments
begin

text \<open>
  Refunding a funded milestone before work starts (\<open>refund_milestone\<close> in
  \<open>app/payments/service.py\<close>). The handler has two transactions. \<open>refund_prepare\<close> reserves
  the escrow by a journal and commits the PENDING refund; \<open>refund_settle\<close> calls the provider
  and records the outcome, by completing the refund or by reversing the reservation.
\<close>

section \<open>Rows and responses\<close>

definition latest_captured :: "payment_intent list \<Rightarrow> payment_intent option" where
  "latest_captured is = (case List.find (\<lambda>i. pi_captured_at i = None) is of
     Some i \<Rightarrow> Some i
   | None \<Rightarrow> latest (\<lambda>i. case pi_captured_at i of None \<Rightarrow> 0 | Some t \<Rightarrow> t) is)"

definition captured_funding_intent :: "uuid \<Rightarrow> string \<Rightarrow> payment_intent dbop" where
  "captured_funding_intent mid prov = bnd (query (\<lambda>d. latest_captured (filter
       (\<lambda>i. pi_milestone i = mid \<and> pi_status i = PI_CAPTURED \<and> pi_provider i = prov) (intents d))))
     (found (ApiError ''refund_provider_mismatch'' 409))"

definition serialize_refund :: "refund \<Rightarrow> json" where
  "serialize_refund r = JObj
     [(''refund_id'', j_id (rf_id r)), (''milestone_id'', j_id (rf_milestone r)),
      (''provider'', JStr (rf_provider r)), (''provider_reference'', j_opt JStr (rf_reference r)),
      (''amount_minor'', JInt (rf_amount r)), (''currency'', JStr (rf_currency r)),
      (''status'', JStr (refund_status_str (rf_status r)))]"

definition pending_refund :: "refund \<Rightarrow> response" where
  "pending_refund r = (JObj
     [(''refund_id'', j_id (rf_id r)), (''milestone_id'', j_id (rf_milestone r)),
      (''provider'', JStr (rf_provider r)), (''provider_reference'', j_opt JStr (rf_reference r)),
      (''amount_minor'', JInt (rf_amount r)), (''currency'', JStr (rf_currency r)),
      (''status'', JStr ''PENDING'')], 202)"

definition refund_failed_detail :: string where
  "refund_failed_detail =
     ''The payment provider did not complete the refund; escrow funds were restored''"

definition failed_refund_body :: "refund \<Rightarrow> json" where
  "failed_refund_body r = JObj
     [(''type'', JStr ''refund_failed''), (''title'', JStr ''Refund failed''), (''status'', JInt 502),
      (''detail'', JStr refund_failed_detail), (''refund_id'', j_id (rf_id r))]"

definition refund_audit_state :: "refund \<Rightarrow> json" where
  "refund_audit_state r = JObj
     [(''status'', JStr (refund_status_str (rf_status r))), (''amount_minor'', JInt (rf_amount r)),
      (''currency'', JStr (rf_currency r)), (''provider'', JStr (rf_provider r)),
      (''provider_reference_set'', JBool (rf_reference r \<noteq> None))]"

definition add_refund :: "refund \<Rightarrow> db \<Rightarrow> db" where
  "add_refund r d = d\<lparr>refunds := refunds d @ [r]\<rparr>"

definition put_refund :: "refund \<Rightarrow> db \<Rightarrow> db" where
  "put_refund r d = d\<lparr>refunds := put_row rf_id r (refunds d)\<rparr>"

text \<open>The table's CHECK and UNIQUE constraints on INSERT, and the UNIQUE constraint on the
  provider reference when it is set by UPDATE.\<close>

definition insert_refund :: "refund \<Rightarrow> unit dbop" where
  "insert_refund r = bnd (query refunds) (\<lambda>rs.
     if rf_amount r \<le> 0 \<or>
        (rf_reference r \<noteq> None \<and>
           list_ex (\<lambda>x. rf_provider x = rf_provider r \<and> rf_reference x = rf_reference r) rs) \<or>
        list_ex (\<lambda>x. rf_idem x = rf_idem r \<or> rf_journal x = rf_journal r) rs
     then raise IntegrityError
     else modify (add_refund r))"

definition set_refund_reference :: "refund \<Rightarrow> string \<Rightarrow> refund dbop" where
  "set_refund_reference r reference = bnd (query refunds) (\<lambda>rs.
     if list_ex (\<lambda>x. rf_id x \<noteq> rf_id r \<and> rf_provider x = rf_provider r \<and>
                     rf_reference x = Some reference) rs
     then raise IntegrityError
     else let r' = r\<lparr>rf_reference := Some reference\<rparr> in seq (modify (put_refund r')) (ret r'))"

definition locked_refund :: "uuid \<Rightarrow> refund dbop" where
  "locked_refund i = bnd (query (\<lambda>d. row_by rf_id i (refunds d))) (found RuntimeError)"

definition key_by_id :: "uuid \<Rightarrow> idempotency_key dbop" where
  "key_by_id i = bnd (query (\<lambda>d. row_by ik_id i (idempotency_keys d))) (found RuntimeError)"

section \<open>Terminal replays and failure\<close>

definition complete_refund_replay :: "refund \<Rightarrow> idempotency_key \<Rightarrow> response option dbop" where
  "complete_refund_replay r idem = (case rf_status r of
     RF_SUCCEEDED \<Rightarrow> bnd (finish idem (serialize_refund r) 200) (\<lambda>x. ret (Some x))
   | RF_FAILED \<Rightarrow> bnd (finish idem (failed_refund_body r) 502) (\<lambda>x. ret (Some x))
   | RF_PENDING \<Rightarrow> ret None)"

definition replay_terminal_refund :: "refund \<Rightarrow> response dbop" where
  "replay_terminal_refund r =
    bnd (key_by_id (rf_idem r)) (\<lambda>idem.
    bnd (complete_refund_replay r idem) (found RuntimeError))"

definition fail_refund :: "env \<Rightarrow> uuid \<Rightarrow> uuid \<Rightarrow> response dbop" where
  "fail_refund env rid actor =
    bnd (locked_refund rid) (\<lambda>r.
    if rf_status r \<noteq> RF_PENDING then replay_terminal_refund r else
    let previous_state = refund_audit_state r in
    bnd (query (\<lambda>d. row_by jn_id (rf_journal r) (journals d))) (\<lambda>jr.
    bnd (require_escrow (rf_milestone r)) (\<lambda>e.
    bnd (query (account_by_id (es_account e))) (\<lambda>ea.
    bnd (query (find_account (''provider:'' @ rf_provider r @ '':clearing:'' @ rf_currency r))) (\<lambda>pa.
    case (jr, ea, pa) of
      (Some j, Some escrow_account, Some provider_account) \<Rightarrow>
        bnd (post_journal REVERSAL ''refund'' (rf_id r)
              [mk_posting provider_account ''DEBIT'' (rf_amount r),
               mk_posting escrow_account ''CREDIT'' (rf_amount r)]
              (JObj [(''reason'', JStr ''provider_refund_failed'')]) (Some (jn_id j))) (\<lambda>_.
        let r' = r\<lparr>rf_status := RF_FAILED\<rparr> in
        seq (modify (put_refund r')) (
        seq (record_audit_event env ''refund.failed'' ''refund'' (Some actor) (Some (str_uuid (rf_id r)))
              (Some previous_state) (Some (refund_audit_state r')) (JObj [])) (
        bnd (key_by_id (rf_idem r)) (\<lambda>idem.
        finish idem (failed_refund_body r') 502))))
    | _ \<Rightarrow> raise RuntimeError)))))"

section \<open>Reserving the refund\<close>

definition reserve_refund :: "env \<Rightarrow> user \<Rightarrow> milestone \<Rightarrow> string \<Rightarrow> idempotency_key \<Rightarrow>
    (refund \<times> payment_intent) dbop" where
  "reserve_refund env user m prov_name idem =
    (if ms_status m \<noteq> MS_FUNDED then raise (ApiError ''invalid_transition'' 409) else
    bnd (require_escrow (ms_id m)) (\<lambda>e.
    bnd (query (account_by_id (es_account e))) (\<lambda>a.
    bnd (found RuntimeError a) (\<lambda>escrow_account.
    bnd (query (account_balance_minor (acc_id escrow_account))) (\<lambda>amount.
    if amount \<le> 0 then raise (ApiError ''nothing_to_refund'' 409) else
    bnd (captured_funding_intent (ms_id m) prov_name) (\<lambda>fi.
    bnd (provider_clearing_account prov_name (ms_currency m)) (\<lambda>clearing.
    bnd uuid4 (\<lambda>rid.
    bnd (post_journal MILESTONE_REFUND ''refund'' rid
          [mk_posting escrow_account ''DEBIT'' amount, mk_posting clearing ''CREDIT'' amount]
          (JObj [(''milestone_id'', j_id (ms_id m)), (''provider'', JStr prov_name)]) None) (\<lambda>j.
    let r = \<lparr>rf_id = rid, rf_milestone = ms_id m, rf_employer = user_id user, rf_journal = jn_id j,
             rf_idem = ik_id idem, rf_provider = prov_name, rf_reference = None, rf_amount = amount,
             rf_currency = ms_currency m, rf_status = RF_PENDING\<rparr> in
    seq (insert_refund r) (
    seq (record_audit_event env ''refund.reserved'' ''refund'' (Some (user_id user)) (Some (str_uuid rid))
          (Some (JObj [(''exists'', JBool False)]))
          (Some (JObj [(''exists'', JBool True), (''refund'', refund_audit_state r),
                       (''milestone'', milestone_audit_state m)]))
          (JObj [(''milestone_id'', j_id (ms_id m)), (''amount_minor'', JInt amount),
                 (''currency'', JStr (rf_currency r)), (''provider'', JStr prov_name)])) (
    seq commit (ret (r, fi)))))))))))))"

definition refund_prepare :: "env \<Rightarrow> user \<Rightarrow> uuid \<Rightarrow> string \<Rightarrow> string \<Rightarrow>
    (response + (refund \<times> payment_intent)) dbop" where
  "refund_prepare env user mid provider_name key =
    bnd (locked_milestone mid) (\<lambda>m.
    bnd (contract_of m) (\<lambda>c.
    seq (require_active_contract c) (
    if \<not> can_release_or_refund user c then raise (ApiError ''forbidden'' 403) else
    let prov_name = lower (strip provider_name) in
    bnd (claim_idempotency env (user_id user) ''milestone.refund'' key
          (JObj [(''milestone_id'', j_id (ms_id m)), (''provider'', JStr prov_name)])) (\<lambda>claim.
    case stored_response claim of Some r \<Rightarrow> ret (Inl r) | None \<Rightarrow>
    let idem = fst claim in
    bnd (query (\<lambda>d. List.find (\<lambda>r. rf_idem r = ik_id idem) (refunds d))) (\<lambda>existing.
    case existing of
      Some r \<Rightarrow>
        bnd (complete_refund_replay r idem) (\<lambda>terminal.
        case terminal of
          Some x \<Rightarrow> ret (Inl x)
        | None \<Rightarrow> bnd (captured_funding_intent (rf_milestone r) (rf_provider r)) (\<lambda>fi. ret (Inr (r, fi))))
    | None \<Rightarrow> bnd (reserve_refund env user m prov_name idem) (\<lambda>x. ret (Inr x)))))))"

section \<open>Settling the refund\<close>

definition refunded_note :: string where
  "refunded_note = ''Escrow funding fully refunded before work started''"

text \<open>The second transaction, from the provider's answer on: the refund row is read again
  under its lock, since another request may have settled it meanwhile.\<close>

definition refund_record :: "env \<Rightarrow> user \<Rightarrow> uuid \<Rightarrow> uuid \<Rightarrow> provider_result \<Rightarrow> response dbop" where
  "refund_record env user mid rid result =
    bnd (query (\<lambda>d. row_by rf_id rid (refunds d))) (\<lambda>rr.
    bnd (locked_milestone mid) (\<lambda>m.
    bnd (found RuntimeError rr) (\<lambda>r.
    if rf_status r \<noteq> RF_PENDING then replay_terminal_refund r
    else if res_amount result \<noteq> rf_amount r \<or> res_currency result \<noteq> rf_currency r
    then fail_refund env (rf_id r) (user_id user)
    else
    let previous_state = JObj [(''refund'', refund_audit_state r), (''milestone'', milestone_audit_state m)] in
    bnd (set_refund_reference r (res_reference result)) (\<lambda>r1.
    if res_status result = ''PENDING'' then seq commit (ret (pending_refund r1))
    else if res_status result \<noteq> ''SUCCEEDED'' then fail_refund env (rf_id r1) (user_id user)
    else if ms_status m \<noteq> MS_FUNDED then raise RuntimeError
    else
    let r2 = r1\<lparr>rf_status := RF_SUCCEEDED\<rparr> in
    seq (modify (put_refund r2)) (
    bnd (set_milestone_status m MS_CREATED) (\<lambda>m1.
    seq (log_milestone_event m1 (Some (user_id user)) MS_FUNDED MS_CREATED refunded_note) (
    seq (enqueue_outbox_event ''milestone.refunded'' ''milestone'' (str_uuid (ms_id m))
          (JObj [(''refund_id'', j_id (rf_id r2))])) (
    seq (record_audit_event env ''milestone.refunded'' ''refund'' (Some (user_id user))
          (Some (str_uuid (rf_id r2))) (Some previous_state)
          (Some (JObj [(''refund'', refund_audit_state r2), (''milestone'', milestone_audit_state m1)]))
          (JObj [(''milestone_id'', j_id (ms_id m)), (''amount_minor'', JInt (rf_amount r2)),
                 (''currency'', JStr (rf_currency r2))])) (
    bnd (key_by_id (rf_idem r2)) (\<lambda>idem.
    finish idem (serialize_refund r2) 200))))))))))"

definition refund_settle :: "env \<Rightarrow> user \<Rightarrow> uuid \<Rightarrow> string \<Rightarrow> refund \<Rightarrow> payment_intent \<Rightarrow> response dbop" where
  "refund_settle env user mid key r fi =
    bnd (found RuntimeError (pi_reference fi)) (\<lambda>funding_reference.
    bnd (lift_result (get_provider env (rf_provider r))) (\<lambda>p.
    case rf_reference r of
      Some reference \<Rightarrow>
        (case pv_verify_refund p reference of
           Inl ProviderTemporaryError \<Rightarrow> ret (pending_refund r)
         | Inl e \<Rightarrow> raise e
         | Inr result \<Rightarrow> refund_record env user mid (rf_id r) result)
    | None \<Rightarrow>
        (case pv_refund p funding_reference (rf_amount r) (rf_currency r) key of
           Inl ProviderTemporaryError \<Rightarrow> ret (pending_refund r)
         | Inl e \<Rightarrow> fail_refund env (rf_id r) (user_id user)
         | Inr result \<Rightarrow> refund_record env user mid (rf_id r) result)))"

definition refund_milestone :: "env \<Rightarrow> user \<Rightarrow> uuid \<Rightarrow> string \<Rightarrow> string \<Rightarrow> response dbop" where
  "refund_milestone env user mid provider_name key =
    bnd (refund_prepare env user mid provider_name key) (\<lambda>x.
    case x of Inl r \<Rightarrow> ret r | Inr (r, fi) \<Rightarrow> refund_settle env user mid key r fi)"

end
