(* ===== verification/Payouts.thy ===== *)
theory Payouts
  imports Refunds
begin

text \<open>
  Paying a freelancer's wallet out (\<open>app/payouts/service.py\<close>) and the provider accounts that
  receive payouts (\<open>app/payouts/provider_accounts.py\<close>). Like a refund, a payout has two
  transactions: \<open>payout_prepare\<close> debits the wallet and commits the PENDING payout,
  \<open>payout_settle\<close> calls the provider and completes or reverses it.
\<close>

section \<open>Payout destinations\<close>

definition provider_account_state :: "payout_account option \<Rightarrow> string option \<Rightarrow> json" where
  "provider_account_state r prov = (case r of
     None \<Rightarrow> JObj [(''exists'', JBool False), (''provider'', j_opt JStr prov), (''status'', JNull),
                   (''external_account_reference'', JNull)]
   | Some a \<Rightarrow> JObj [(''exists'', JBool True), (''provider'', JStr (ya_provider a)),
                   (''status'', JStr (if ya_active a then ''ACTIVE'' else ''DISABLED'')),
                   (''external_account_reference'', JStr (ya_reference a))])"

definition serialize_payout_account :: "payout_account \<Rightarrow> json" where
  "serialize_payout_account a = JObj
     [(''id'', j_id (ya_id a)), (''freelancer_user_id'', j_id (ya_freelancer a)),
      (''provider'', JStr (ya_provider a)), (''external_account_reference'', JStr (ya_reference a)),
      (''status'', JStr (if ya_active a then ''ACTIVE'' else ''DISABLED''))]"

definition find_payout_account :: "uuid \<Rightarrow> string \<Rightarrow> db \<Rightarrow> payout_account option" where
  "find_payout_account u prov d =
     List.find (\<lambda>a. ya_freelancer a = u \<and> ya_provider a = prov) (payout_accounts d)"

definition put_payout_account :: "payout_account \<Rightarrow> db \<Rightarrow> db" where
  "put_payout_account a d = d\<lparr>payout_accounts := put_row ya_id a (payout_accounts d)\<rparr>"

definition add_payout_account :: "payout_account \<Rightarrow> db \<Rightarrow> db" where
  "add_payout_account a d = d\<lparr>payout_accounts := payout_accounts d @ [a]\<rparr>"

definition last_chars :: "nat \<Rightarrow> string \<Rightarrow> string" where
  "last_chars n s = drop (length s - n) s"

definition configure_payout_provider_account :: "env \<Rightarrow> user \<Rightarrow> uuid \<Rightarrow> string \<Rightarrow> string \<Rightarrow> json dbop" where
  "configure_payout_provider_account env administrator fid provider_name reference =
    bnd (query (\<lambda>d. row_by user_id fid (users d))) (\<lambda>f.
    if (case f of None \<Rightarrow> True | Some u \<Rightarrow> ''freelancer'' \<notin> set (user_roles u))
    then raise (ApiError ''freelancer_not_found'' 404) else
    bnd (lift_result (get_provider env provider_name)) (\<lambda>p.
    bnd (lift_result (pv_validate_destination p (strip reference))) (\<lambda>verified.
    bnd (query (\<lambda>d. List.find (\<lambda>a. ya_provider a = pv_name p \<and> ya_reference a = verified \<and>
                    ya_freelancer a \<noteq> fid) (payout_accounts d))) (\<lambda>conflicting.
    if conflicting \<noteq> None then raise (ApiError ''payout_destination_conflict'' 409) else
    bnd (query (find_payout_account fid (pv_name p))) (\<lambda>r.
    let previous_state = provider_account_state r (Some (pv_name p)) in
    bnd (case r of
           None \<Rightarrow> bnd uuid4 (\<lambda>i.
             let a = \<lparr>ya_id = i, ya_freelancer = fid, ya_provider = pv_name p,
                      ya_reference = verified, ya_active = True\<rparr> in
             seq (modify (add_payout_account a)) (ret a))
         | Some a \<Rightarrow>
             let a' = a\<lparr>ya_reference := verified, ya_active := True\<rparr> in
             seq (modify (put_payout_account a')) (ret a')) (\<lambda>account.
    seq (record_audit_event env ''payout_provider_account.configured'' ''payout_provider_account''
          (Some (user_id administrator)) (Some (str_uuid (ya_id account))) (Some previous_state)
          (Some (provider_account_state (Some account) None))
          (JObj [(''freelancer_user_id'', j_id fid), (''provider'', JStr (pv_name p)),
                 (''reference_tail'', JStr (last_chars 6 verified))])) (
    seq commit (ret (serialize_payout_account account)))))))))"

definition disable_payout_provider_account :: "env \<Rightarrow> user \<Rightarrow> uuid \<Rightarrow> string \<Rightarrow> json dbop" where
  "disable_payout_provider_account env administrator fid provider_name =
    bnd (query (find_payout_account fid (lower (strip provider_name)))) (\<lambda>r.
    bnd (found (ApiError ''payout_provider_account_not_found'' 404) r) (\<lambda>a.
    let previous_state = provider_account_state (Some a) None; a' = a\<lparr>ya_active := False\<rparr> in
    seq (modify (put_payout_account a')) (
    seq (record_audit_event env ''payout_provider_account.disabled'' ''payout_provider_account''
          (Some (user_id administrator)) (Some (str_uuid (ya_id a))) (Some previous_state)
          (Some (provider_account_state (Some a') None))
          (JObj [(''freelancer_user_id'', j_id fid), (''provider'', JStr (ya_provider a))])) (
    seq commit (ret (serialize_payout_account a'))))))"

definition resolve_payout_destination :: "uuid \<Rightarrow> string \<Rightarrow> string dbop" where
  "resolve_payout_destination fid provider_name =
    (let prov = lower (strip provider_name) in
     if prov = ''sandbox'' then ret (str_uuid fid)
     else bnd (query (\<lambda>d. List.find (\<lambda>a. ya_freelancer a = fid \<and> ya_provider a = prov \<and> ya_active a)
            (payout_accounts d))) (\<lambda>r.
       bnd (found (ApiError ''payout_destination_not_configured'' 409) r) (\<lambda>a. ret (ya_reference a))))"

section \<open>Rows and responses\<close>

definition payout_state :: "payout \<Rightarrow> json" where
  "payout_state p = JObj
     [(''status'', JStr (payout_status_str (po_status p))), (''amount_minor'', JInt (po_amount p)),
      (''currency'', JStr (po_currency p)), (''provider'', JStr (po_provider p)),
      (''provider_reference_set'', JBool (po_reference p \<noteq> None)),
      (''destination_snapshot_set'', JBool (po_destination p \<noteq> None)),
      (''reversal_recorded'', JBool (po_reversal p \<noteq> None))]"

definition payout_pending_detail :: string where
  "payout_pending_detail = ''Payout outcome is unknown; retry with the same Idempotency-Key''"

definition payout_failed_detail :: string where
  "payout_failed_detail =
     ''The payment provider did not complete the payout; wallet funds were restored''"

definition pending_payout_body :: "payout \<Rightarrow> json" where
  "pending_payout_body p = JObj
     [(''type'', JStr ''payment_provider_temporarily_unavailable''),
      (''title'', JStr ''Payment provider temporarily unavailable''), (''status'', JInt 503),
      (''detail'', JStr payout_pending_detail), (''payout_id'', j_id (po_id p))]"

definition failed_payout_body :: "payout \<Rightarrow> json" where
  "failed_payout_body p = JObj
     [(''type'', JStr ''payout_failed''), (''title'', JStr ''Payout failed''), (''status'', JInt 502),
      (''detail'', JStr payout_failed_detail), (''payout_id'', j_id (po_id p))]"

definition serialize_payout :: "payout \<Rightarrow> json" where
  "serialize_payout p = JObj
     [(''payout_id'', j_id (po_id p)), (''provider'', JStr (po_provider p)),
      (''provider_reference'', j_opt JStr (po_reference p)), (''amount_minor'', JInt (po_amount p)),
      (''currency'', JStr (po_currency p)), (''status'', JStr (payout_status_str (po_status p)))]"

definition add_payout :: "payout \<Rightarrow> db \<Rightarrow> db" where
  "add_payout p d = d\<lparr>payouts := payouts d @ [p]\<rparr>"

definition put_payout :: "payout \<Rightarrow> db \<Rightarrow> db" where
  "put_payout p d = d\<lparr>payouts := put_row po_id p (payouts d)\<rparr>"

definition insert_payout :: "payout \<Rightarrow> unit dbop" where
  "insert_payout p = bnd (query payouts) (\<lambda>ps.
     if po_amount p \<le> 0 \<or> list_ex (\<lambda>x. po_idem x = po_idem p \<or> po_journal x = po_journal p) ps
     then raise IntegrityError else modify (add_payout p))"

definition locked_payout :: "uuid \<Rightarrow> payout dbop" where
  "locked_payout i = bnd (query (\<lambda>d. row_by po_id i (payouts d))) (found RuntimeError)"

definition find_wallet :: "string \<Rightarrow> db \<Rightarrow> ledger_account option" where
  "find_wallet k d = List.find (\<lambda>a. acc_key a = k \<and> acc_type a = FREELANCER_WALLET) (accounts d)"

section \<open>Terminal replays and failure\<close>

definition complete_terminal_replay :: "payout \<Rightarrow> idempotency_key \<Rightarrow> response option dbop" where
  "complete_terminal_replay p idem = (case po_status p of
     PO_SUCCEEDED \<Rightarrow> bnd (finish idem (serialize_payout p) 200) (\<lambda>x. ret (Some x))
   | PO_FAILED \<Rightarrow> bnd (finish idem (failed_payout_body p) 502) (\<lambda>x. ret (Some x))
   | PO_PENDING \<Rightarrow> ret None)"

definition replay_terminal_payout :: "payout \<Rightarrow> response dbop" where
  "replay_terminal_payout p =
    bnd (key_by_id (po_idem p)) (\<lambda>idem.
    bnd (complete_terminal_replay p idem) (found RuntimeError))"

definition upgrade_legacy_destination_snapshot :: "payout \<Rightarrow> payout dbop" where
  "upgrade_legacy_destination_snapshot p =
    (if po_destination p \<noteq> None then ret p
     else if po_provider p \<noteq> ''sandbox'' then raise RuntimeError
     else let p' = p\<lparr>po_destination := Some (str_uuid (po_freelancer p))\<rparr> in
       seq (modify (put_payout p')) (seq commit (ret p')))"

definition fail_payout :: "env \<Rightarrow> uuid \<Rightarrow> uuid \<Rightarrow> response dbop" where
  "fail_payout env pid actor =
    bnd (locked_payout pid) (\<lambda>p.
    if po_status p \<noteq> PO_PENDING then replay_terminal_payout p else
    let previous_state = payout_state p in
    bnd (query (find_account (''user:'' @ str_uuid (po_freelancer p) @ '':wallet:'' @ po_currency p))) (\<lambda>wr.
    bnd (query (find_account (''provider:'' @ po_provider p @ '':clearing:'' @ po_currency p))) (\<lambda>pr.
    bnd (query (\<lambda>d. row_by jn_id (po_journal p) (journals d))) (\<lambda>jr.
    case (wr, pr, jr) of
      (Some wallet, Some clearing, Some original) \<Rightarrow>
        bnd (post_journal REVERSAL ''payout'' (po_id p)
              [mk_posting clearing ''DEBIT'' (po_amount p), mk_posting wallet ''CREDIT'' (po_amount p)]
              (JObj [(''reason'', JStr ''provider_payout_failed'')]) (Some (jn_id original))) (\<lambda>reversal.
        let p' = p\<lparr>po_reversal := Some (jn_id reversal), po_status := PO_FAILED,
                   po_completed_at := Some (env_now env)\<rparr> in
        seq (modify (put_payout p')) (
        seq (record_audit_event env ''payout.failed'' ''payout'' (Some actor) (Some (str_uuid (po_id p)))
              (Some previous_state) (Some (payout_state p')) (JObj [])) (
        bnd (key_by_id (po_idem p)) (\<lambda>idem.
        finish idem (failed_payout_body p') 502))))
    | _ \<Rightarrow> raise RuntimeError))))"

section \<open>Reserving the payout\<close>

definition reserve_payout :: "env \<Rightarrow> user \<Rightarrow> int \<Rightarrow> currency \<Rightarrow> string \<Rightarrow> idempotency_key \<Rightarrow> payout dbop" where
  "reserve_payout env user amount cur prov_name idem =
    bnd (resolve_payout_destination (user_id user) prov_name) (\<lambda>destination.
    bnd (query (find_wallet (''user:'' @ str_uuid (user_id user) @ '':wallet:'' @ cur))) (\<lambda>wr.
    bnd (found (ApiError ''insufficient_funds'' 409) wr) (\<lambda>wallet.
    seq (require_sufficient_balance wallet amount) (
    bnd (provider_clearing_account prov_name cur) (\<lambda>clearing.
    bnd uuid4 (\<lambda>pid.
    bnd (post_journal PAYOUT ''payout'' pid
          [mk_posting wallet ''DEBIT'' amount, mk_posting clearing ''CREDIT'' amount]
          (JObj [(''provider'', JStr prov_name), (''freelancer_user_id'', j_id (user_id user))]) None) (\<lambda>j.
    let p = \<lparr>po_id = pid, po_freelancer = user_id user, po_idem = ik_id idem, po_journal = jn_id j,
             po_reversal = None, po_provider = prov_name, po_destination = Some destination,
             po_reference = None, po_amount = amount, po_currency = cur, po_status = PO_PENDING,
             po_completed_at = None\<rparr> in
    seq (insert_payout p) (
    seq (record_audit_event env ''payout.reserved'' ''payout'' (Some (user_id user)) (Some (str_uuid pid))
          (Some (JObj [(''exists'', JBool False)])) (Some (payout_state p))
          (JObj [(''amount_minor'', JInt amount), (''currency'', JStr cur), (''provider'', JStr prov_name)])) (
    seq commit (ret p))))))))))"

definition payout_prepare :: "env \<Rightarrow> user \<Rightarrow> int \<Rightarrow> string \<Rightarrow> string \<Rightarrow> string \<Rightarrow> (response + payout) dbop" where
  "payout_prepare env user amount currency provider_name key =
    (if amount \<le> 0 then raise (ApiError ''validation_error'' 422) else
    let cur = upper (strip currency) in
    if length cur \<noteq> 3 then raise (ApiError ''validation_error'' 422) else
    let prov_name = lower (strip provider_name) in
    bnd (claim_idempotency env (user_id user) ''payout.create'' key
          (JObj [(''amount_minor'', JInt amount), (''currency'', JStr cur), (''provider'', JStr prov_name)])) (\<lambda>claim.
    case stored_response claim of Some r \<Rightarrow> ret (Inl r) | None \<Rightarrow>
    let idem = fst claim in
    bnd (query (\<lambda>d. List.find (\<lambda>p. po_idem p = ik_id idem) (payouts d))) (\<lambda>existing.
    case existing of
      Some p \<Rightarrow>
        bnd (complete_terminal_replay p idem) (\<lambda>terminal.
        case terminal of
          Some x \<Rightarrow> ret (Inl x)
        | None \<Rightarrow> bnd (upgrade_legacy_destination_snapshot p) (\<lambda>p'. ret (Inr p')))
    | None \<Rightarrow> bnd (reserve_payout env user amount cur prov_name idem) (\<lambda>p. ret (Inr p)))))"

section \<open>Settling the payout\<close>

definition set_payout_succeeded :: "env \<Rightarrow> payout \<Rightarrow> string \<Rightarrow> payout dbop" where
  "set_payout_succeeded env p reference = bnd (query payouts) (\<lambda>ps.
     if list_ex (\<lambda>x. po_id x \<noteq> po_id p \<and> po_provider x = po_provider p \<and>
                     po_reference x = Some reference) ps
     then raise IntegrityError
     else let p' = p\<lparr>po_reference := Some reference, po_status := PO_SUCCEEDED,
                     po_completed_at := Some (env_now env)\<rparr> in
       seq (modify (put_payout p')) (ret p'))"

definition payout_record :: "env \<Rightarrow> user \<Rightarrow> uuid \<Rightarrow> provider_result \<Rightarrow> response dbop" where
  "payout_record env user pid result =
    bnd (locked_payout pid) (\<lambda>p.
    if po_status p \<noteq> PO_PENDING then replay_terminal_payout p
    else if res_amount result \<noteq> po_amount p \<or> res_currency result \<noteq> po_currency p
    then fail_payout env (po_id p) (user_id user)
    else
    let previous_state = payout_state p in
    bnd (set_payout_succeeded env p (res_reference result)) (\<lambda>p1.
    seq (enqueue_outbox_event ''payout.succeeded'' ''payout'' (str_uuid (po_id p1))
          (JObj [(''provider_reference'', JStr (res_reference result))])) (
    seq (record_audit_event env ''payout.succeeded'' ''payout'' (Some (user_id user))
          (Some (str_uuid (po_id p1))) (Some previous_state) (Some (payout_state p1))
          (JObj [(''amount_minor'', JInt (po_amount p1)), (''currency'', JStr (po_currency p1)),
                 (''provider'', JStr (po_provider p1))])) (
    bnd (key_by_id (po_idem p1)) (\<lambda>idem.
    finish idem (serialize_payout p1) 200)))))"

definition payout_settle :: "env \<Rightarrow> user \<Rightarrow> string \<Rightarrow> payout \<Rightarrow> response dbop" where
  "payout_settle env user key p =
    bnd (found RuntimeError (po_destination p)) (\<lambda>destination.
    bnd (lift_result (get_provider env (po_provider p))) (\<lambda>prov.
    case pv_payout prov destination (po_amount p) (po_currency p) key of
      Inl ProviderTemporaryError \<Rightarrow>
        seq rollback (
        bnd (locked_payout (po_id p)) (\<lambda>persisted. ret (pending_payout_body persisted, 503)))
    | Inl e \<Rightarrow> fail_payout env (po_id p) (user_id user)
    | Inr result \<Rightarrow> payout_record env user (po_id p) result))"

definition create_payout :: "env \<Rightarrow> user \<Rightarrow> int \<Rightarrow> string \<Rightarrow> string \<Rightarrow> string \<Rightarrow> response dbop" where
  "create_payout env user amount currency provider_name key =
    bnd (payout_prepare env user amount currency provider_name key) (\<lambda>x.
    case x of Inl r \<Rightarrow> ret r | Inr p \<Rightarrow> payout_settle env user key p)"

end
