(* ===== verification/Disputes.thy ===== *)
theory Disputes
  imports Refunds
begin

text \<open>
  Dispute arbitration (\<open>app/disputes/service.py\<close>): a party freezes a milestone, evidence is
  collected, an administrator moves the dispute through its states and finally divides the
  escrow between the freelancer (less commission) and the client.
\<close>

definition openable_milestone_states :: "milestone_status set" where
  "openable_milestone_states = {MS_FUNDED, MS_IN_PROGRESS, MS_SUBMITTED, MS_CHANGES_REQUESTED, MS_APPROVED}"

definition evidence_states :: "dispute_status set" where
  "evidence_states = {DS_OPEN, DS_EVIDENCE_COLLECTION, DS_NEED_MORE_INFO}"

fun admin_transitions :: "dispute_status \<Rightarrow> dispute_status set" where
  "admin_transitions DS_OPEN = {DS_EVIDENCE_COLLECTION}"
| "admin_transitions DS_EVIDENCE_COLLECTION = {DS_UNDER_REVIEW}"
| "admin_transitions DS_UNDER_REVIEW = {DS_NEED_MORE_INFO}"
| "admin_transitions DS_NEED_MORE_INFO = {DS_EVIDENCE_COLLECTION, DS_UNDER_REVIEW}"
| "admin_transitions DS_RESOLVED = {}"

section \<open>Helpers\<close>

definition required_text :: "string \<Rightarrow> nat \<Rightarrow> exn + string" where
  "required_text v max_length = (let n = strip v in
     if n = [] \<or> length n > max_length then Inl (ApiError ''validation_error'' 422) else Inr n)"

definition is_admin :: "user \<Rightarrow> bool" where
  "is_admin u \<longleftrightarrow> ''admin'' \<in> set (user_roles u)"

definition require_admin :: "user \<Rightarrow> unit dbop" where
  "require_admin u = (if \<not> is_admin u then raise (ApiError ''forbidden'' 403) else ret ())"

definition require_party :: "user \<Rightarrow> uuid \<Rightarrow> uuid \<Rightarrow> unit dbop" where
  "require_party u employer freelancer =
     (if user_id u \<notin> {employer, freelancer} then raise (ApiError ''forbidden'' 403) else ret ())"

definition locked_dispute :: "uuid \<Rightarrow> dispute dbop" where
  "locked_dispute did = bnd (query (\<lambda>d. row_by dp_id did (disputes d)))
     (found (ApiError ''dispute_not_found'' 404))"

definition parties_of :: "uuid \<Rightarrow> db \<Rightarrow> dispute_party list" where
  "parties_of did d = filter (\<lambda>p. dpp_dispute p = did) (dispute_parties d)"

definition decision_of :: "uuid \<Rightarrow> db \<Rightarrow> dispute_decision option" where
  "decision_of did d = row_by dd_dispute did (dispute_decisions d)"

definition state_snapshot :: "milestone_status \<Rightarrow> dispute_status option \<Rightarrow> dispute_outcome option \<Rightarrow> json" where
  "state_snapshot ms ds oc = JObj
     ([(''milestone_status'', JStr (milestone_status_str ms)),
       (''status'', j_opt (\<lambda>x. JStr (dispute_status_str x)) ds)] @
      (case oc of None \<Rightarrow> [] | Some x \<Rightarrow> [(''outcome'', JStr (dispute_outcome_str x))]))"

definition audit_state_change :: "env \<Rightarrow> string \<Rightarrow> uuid \<Rightarrow> uuid \<Rightarrow> string \<Rightarrow> json \<Rightarrow> json \<Rightarrow>
    (string \<times> json) list \<Rightarrow> unit dbop" where
  "audit_state_change env action did actor reason before after extra =
     record_audit_event env action ''dispute'' (Some actor) (Some (str_uuid did)) None None
       (JObj ([(''who'', j_id actor), (''what'', JStr action), (''when'', JStr (env_iso env (env_now env))),
               (''why'', JStr reason), (''before'', before), (''after'', after)] @ extra))"

definition notification_event :: "uuid \<Rightarrow> string \<Rightarrow> string \<Rightarrow> string \<Rightarrow> uuid \<Rightarrow> unit dbop" where
  "notification_event did event_type title body uid =
     enqueue_outbox_event ''notification.requested'' ''dispute'' (str_uuid did)
       (JObj [(''user_id'', j_id uid), (''event_type'', JStr event_type), (''title'', JStr title),
              (''body'', JStr body), (''payload'', JObj [(''dispute_id'', j_id did)]),
              (''dedupe_key'', JStr (event_type @ '':'' @ str_uuid did @ '':'' @ str_uuid uid))])"

definition notify_other_party :: "uuid \<Rightarrow> uuid \<Rightarrow> string \<Rightarrow> string \<Rightarrow> string \<Rightarrow> unit dbop" where
  "notify_other_party did actor event_type title body =
    bnd (query (parties_of did)) (\<lambda>ps.
    for_each ps (\<lambda>p. if dpp_user p \<noteq> actor
      then notification_event did event_type title body (dpp_user p) else ret ()))"

definition notify_all_parties :: "uuid \<Rightarrow> string \<Rightarrow> string \<Rightarrow> string \<Rightarrow> unit dbop" where
  "notify_all_parties did event_type title body =
    bnd (query (parties_of did)) (\<lambda>ps.
    for_each ps (\<lambda>p. notification_event did event_type title body (dpp_user p)))"

definition put_dispute :: "dispute \<Rightarrow> db \<Rightarrow> db" where
  "put_dispute x d = d\<lparr>disputes := put_row dp_id x (disputes d)\<rparr>"

definition add_dispute_event :: "dispute_event \<Rightarrow> db \<Rightarrow> db" where
  "add_dispute_event e d = d\<lparr>dispute_events := dispute_events d @ [e]\<rparr>"

definition log_dispute_event :: "env \<Rightarrow> uuid \<Rightarrow> uuid \<Rightarrow> string \<Rightarrow> dispute_status option \<Rightarrow>
    dispute_status \<Rightarrow> string \<Rightarrow> json \<Rightarrow> json \<Rightarrow> unit dbop" where
  "log_dispute_event env did actor ty from_status to_status reason before after =
     modify (add_dispute_event
       \<lparr>dvt_dispute = did, dvt_actor = actor, dvt_type = ty, dvt_from = from_status,
        dvt_to = to_status, dvt_reason = reason, dvt_before = before, dvt_after = after,
        dvt_created_at = env_now env\<rparr>)"

definition add_dispute :: "dispute \<Rightarrow> dispute_party list \<Rightarrow> db \<Rightarrow> db" where
  "add_dispute x ps d = d\<lparr>disputes := disputes d @ [x], dispute_parties := dispute_parties d @ ps\<rparr>"

definition insert_dispute :: "dispute \<Rightarrow> contract \<Rightarrow> unit dbop" where
  "insert_dispute x c = bnd (query disputes) (\<lambda>ds.
     if list_ex (\<lambda>y. dp_milestone y = dp_milestone x) ds then raise IntegrityError
     else modify (add_dispute x
         [\<lparr>dpp_dispute = dp_id x, dpp_user = con_employer c, dpp_role = ''EMPLOYER''\<rparr>,
          \<lparr>dpp_dispute = dp_id x, dpp_user = con_freelancer c, dpp_role = ''FREELANCER''\<rparr>]))"

section \<open>Opening a dispute\<close>

definition frozen_note :: string where
  "frozen_note = ''Milestone release frozen by dispute''"

definition opened_title :: string where
  "opened_title = ''A dispute was opened''"

definition opened_body :: string where
  "opened_body = ''A funded milestone is frozen while the dispute is reviewed.''"

definition open_dispute :: "env \<Rightarrow> user \<Rightarrow> uuid \<Rightarrow> string \<Rightarrow> dispute dbop" where
  "open_dispute env user mid reason_text =
    bnd (lift_result (required_text reason_text 4000)) (\<lambda>reason.
    bnd (locked_milestone mid) (\<lambda>m.
    bnd (contract_of m) (\<lambda>c.
    seq (require_party user (con_employer c) (con_freelancer c)) (
    if con_status c \<noteq> CON_ACTIVE then raise (ApiError ''invalid_state'' 409)
    else if ms_status m \<notin> openable_milestone_states then raise (ApiError ''invalid_transition'' 409) else
    bnd (query (\<lambda>d. row_by dp_milestone (ms_id m) (disputes d))) (\<lambda>existing.
    if existing \<noteq> None then raise (ApiError ''dispute_exists'' 409) else
    let before = state_snapshot (ms_status m) None None in
    bnd uuid4 (\<lambda>did.
    let dispute = \<lparr>dp_id = did, dp_milestone = ms_id m, dp_contract = con_id c,
          dp_opened_by = user_id user, dp_status = DS_OPEN, dp_reason = reason,
          dp_created_at = env_now env, dp_resolved_at = None\<rparr> in
    seq (savepoint (insert_dispute dispute c) (raise (ApiError ''dispute_exists'' 409))) (
    bnd (set_milestone_status m MS_DISPUTED) (\<lambda>m1.
    seq (log_milestone_event m1 (Some (user_id user)) (ms_status m) MS_DISPUTED frozen_note) (
    let after = state_snapshot (ms_status m1) (Some (dp_status dispute)) None in
    seq (log_dispute_event env did (user_id user) ''OPENED'' None DS_OPEN reason before after) (
    seq (audit_state_change env ''dispute.opened'' did (user_id user) reason before after []) (
    seq (notify_other_party did (user_id user) ''dispute.opened'' opened_title opened_body) (
    seq commit (ret dispute)))))))))))))"

definition get_dispute_for_user :: "user \<Rightarrow> uuid \<Rightarrow> dispute dbop" where
  "get_dispute_for_user user did =
    bnd (locked_dispute did) (\<lambda>x.
    bnd (query (parties_of did)) (\<lambda>ps.
    if \<not> is_admin user \<and> user_id user \<notin> set (map dpp_user ps)
    then raise (ApiError ''forbidden'' 403) else ret x))"

section \<open>Evidence\<close>

definition insert_evidence :: "dispute_evidence \<Rightarrow> unit dbop" where
  "insert_evidence e = bnd (query dispute_evidence) (\<lambda>es.
     if list_ex (\<lambda>x. dev_dispute x = dev_dispute e \<and> dev_file x = dev_file e) es
     then raise IntegrityError
     else modify (\<lambda>d. d\<lparr>dispute_evidence := dispute_evidence d @ [e]\<rparr>))"

definition add_evidence :: "env \<Rightarrow> user \<Rightarrow> uuid \<Rightarrow> uuid \<Rightarrow> string \<Rightarrow> dispute_evidence dbop" where
  "add_evidence env user did fid note_text =
    bnd (locked_dispute did) (\<lambda>x.
    bnd (query (parties_of did)) (\<lambda>ps.
    if user_id user \<notin> set (map dpp_user ps) then raise (ApiError ''forbidden'' 403)
    else if dp_status x \<notin> evidence_states then raise (ApiError ''invalid_state'' 409) else
    let note = strip note_text in
    if length note > 4000 then raise (ApiError ''validation_error'' 422) else
    bnd (query (\<lambda>d. row_by fo_id fid (file_objects d))) (\<lambda>fr.
    bnd (found (ApiError ''file_not_found'' 404) fr) (\<lambda>f.
    if fo_owner f \<noteq> user_id user then raise (ApiError ''forbidden'' 403)
    else if fo_purpose f \<noteq> ''DISPUTE_EVIDENCE'' \<or> fo_status f \<noteq> ''SAFE''
    then raise (ApiError ''invalid_evidence_file'' 409) else
    bnd (query (\<lambda>d. int (length (filter (\<lambda>e. dev_dispute e = did) (dispute_evidence d))))) (\<lambda>before_count.
    bnd uuid4 (\<lambda>i.
    let e = \<lparr>dev_id = i, dev_dispute = did, dev_submitted_by = user_id user, dev_file = fo_id f,
             dev_note = note, dev_created_at = env_now env\<rparr> in
    seq (savepoint (insert_evidence e) (raise (ApiError ''evidence_exists'' 409))) (
    seq (log_dispute_event env did (user_id user) ''EVIDENCE_ADDED'' (Some (dp_status x)) (dp_status x)
          (if note = [] then ''Evidence submitted'' else note)
          (JObj [(''evidence_count'', JInt before_count)])
          (JObj [(''evidence_count'', JInt (before_count + 1))])) (
    seq (record_audit_event env ''dispute.evidence_added'' ''dispute'' (Some (user_id user))
          (Some (str_uuid did)) None None (JObj [(''file_id'', j_id (fo_id f))])) (
    seq commit (ret e))))))))))"

section \<open>Administrative transitions\<close>

definition dispute_status_of :: "string \<Rightarrow> dispute_status option" where
  "dispute_status_of s = List.find (\<lambda>x. dispute_status_str x = s) all_dispute_statuses"

definition admin_transition :: "env \<Rightarrow> user \<Rightarrow> uuid \<Rightarrow> string \<Rightarrow> string \<Rightarrow> dispute dbop" where
  "admin_transition env administrator did to_status_text reason_text =
    seq (require_admin administrator) (
    bnd (locked_dispute did) (\<lambda>x.
    bnd (lift_result (required_text reason_text 4000)) (\<lambda>reason.
    case dispute_status_of (upper (strip to_status_text)) of
      None \<Rightarrow> raise (ApiError ''invalid_transition'' 409)
    | Some to_status \<Rightarrow>
    if to_status \<notin> admin_transitions (dp_status x) then raise (ApiError ''invalid_transition'' 409) else
    bnd (locked_milestone (dp_milestone x)) (\<lambda>m.
    let before = state_snapshot (ms_status m) (Some (dp_status x)) None;
        x' = x\<lparr>dp_status := to_status\<rparr>;
        after = state_snapshot (ms_status m) (Some (dp_status x')) None in
    seq (modify (put_dispute x')) (
    seq (log_dispute_event env did (user_id administrator) ''ADMIN_TRANSITION'' (Some (dp_status x))
          to_status reason before after) (
    seq (audit_state_change env ''dispute.transitioned'' did (user_id administrator) reason before after []) (
    seq commit (ret x'))))))))"

section \<open>Resolution\<close>

definition require_reviewable_dispute :: "dispute \<Rightarrow> unit dbop" where
  "require_reviewable_dispute x = bnd (query (decision_of (dp_id x))) (\<lambda>dec.
     if dp_status x = DS_RESOLVED \<or> dec \<noteq> None then raise (ApiError ''dispute_already_resolved'' 409)
     else if dp_status x \<noteq> DS_UNDER_REVIEW then raise (ApiError ''invalid_transition'' 409)
     else ret ())"

definition locked_funded_escrow :: "milestone \<Rightarrow> (escrow \<times> ledger_account) dbop" where
  "locked_funded_escrow m =
    bnd (require_escrow (ms_id m)) (\<lambda>e.
    bnd (query (account_by_id (es_account e))) (\<lambda>a.
    bnd (found RuntimeError a) (\<lambda>acc.
    bnd (query (account_balance_minor (acc_id acc))) (\<lambda>balance.
    if balance \<noteq> ms_amount m \<or> balance \<le> 0 then raise (ApiError ''escrow_not_fully_funded'' 409)
    else ret (e, acc)))))"

definition resolution_amounts :: "dispute_outcome \<Rightarrow> int \<Rightarrow> int option \<Rightarrow> int option \<Rightarrow> exn + (int \<times> int)" where
  "resolution_amounts oc funded award refund_amount = (case oc of
     RELEASE_TO_FREELANCER \<Rightarrow>
       (if award \<notin> {None, Some funded} \<or> refund_amount \<notin> {None, Some 0}
        then Inl (ApiError ''validation_error'' 422) else Inr (funded, 0))
   | REFUND_CLIENT \<Rightarrow>
       (if award \<notin> {None, Some 0} \<or> refund_amount \<notin> {None, Some funded}
        then Inl (ApiError ''validation_error'' 422) else Inr (0, funded))
   | SPLIT \<Rightarrow>
       (case (award, refund_amount) of
          (Some a, Some r) \<Rightarrow>
            if a \<le> 0 \<or> r \<le> 0 then Inl (ApiError ''validation_error'' 422)
            else if a + r \<noteq> funded then Inl (ApiError ''validation_error'' 422)
            else Inr (a, r)
        | _ \<Rightarrow> Inl (ApiError ''validation_error'' 422)))"

text \<open>\<open>_append_freelancer_postings\<close>: the postings it appends.\<close>

definition freelancer_postings :: "uuid \<Rightarrow> currency \<Rightarrow> int \<Rightarrow> int \<Rightarrow> posting list dbop" where
  "freelancer_postings freelancer cur net commission =
    bnd (if net \<noteq> 0 then bnd (wallet_account freelancer cur) (\<lambda>w. ret [mk_posting w ''CREDIT'' net])
         else ret []) (\<lambda>ps.
    bnd (if commission \<noteq> 0 then bnd (commission_account cur) (\<lambda>a. ret [mk_posting a ''CREDIT'' commission])
         else ret []) (\<lambda>qs. ret (ps @ qs)))"

definition latest_captured_intent :: "uuid \<Rightarrow> payment_intent dbop" where
  "latest_captured_intent mid = bnd (query (\<lambda>d. latest_captured (filter
       (\<lambda>i. pi_milestone i = mid \<and> pi_status i = PI_CAPTURED) (intents d)))) (found RuntimeError)"

text \<open>\<open>_confirm_provider_refund\<close>: provider, reference and the posting it appends.\<close>

definition confirm_provider_refund :: "env \<Rightarrow> dispute \<Rightarrow> milestone \<Rightarrow> int \<Rightarrow> string \<Rightarrow>
    (string \<times> string \<times> posting) dbop" where
  "confirm_provider_refund env x m amount key =
    bnd (latest_captured_intent (ms_id m)) (\<lambda>i.
    bnd (found RuntimeError (pi_reference i)) (\<lambda>reference.
    bnd (lift_result (get_provider env (pi_provider i))) (\<lambda>p.
    let provider_key = env_sha256 env (''dispute:'' @ str_uuid (dp_id x) @ '':'' @ key) in
    bnd (lift_result (pv_refund p reference amount (ms_currency m) provider_key)) (\<lambda>result.
    if res_status result \<noteq> ''SUCCEEDED'' \<or> res_amount result \<noteq> amount \<or>
       res_currency result \<noteq> ms_currency m
    then raise (ApiError ''refund_failed'' 502) else
    bnd (provider_clearing_account (pi_provider i) (ms_currency m)) (\<lambda>clearing.
    ret (pi_provider i, res_reference result, mk_posting clearing ''CREDIT'' amount))))))"

definition persist_resolution_refund :: "milestone \<Rightarrow> uuid \<Rightarrow> uuid \<Rightarrow> uuid \<Rightarrow> int \<Rightarrow> string option \<Rightarrow>
    string option \<Rightarrow> uuid option dbop" where
  "persist_resolution_refund m employer idem_id journal_id amount prov reference =
    (if amount = 0 then ret None else
     case (prov, reference) of
       (Some p, Some r) \<Rightarrow>
         bnd uuid4 (\<lambda>i.
         seq (insert_refund
           \<lparr>rf_id = i, rf_milestone = ms_id m, rf_employer = employer, rf_journal = journal_id,
            rf_idem = idem_id, rf_provider = p, rf_reference = Some r, rf_amount = amount,
            rf_currency = ms_currency m, rf_status = RF_SUCCEEDED\<rparr>) (ret (Some i)))
     | _ \<Rightarrow> raise RuntimeError)"

definition serialize_evidence :: "env \<Rightarrow> dispute_evidence \<Rightarrow> json" where
  "serialize_evidence env e = JObj
     [(''id'', j_id (dev_id e)), (''file_id'', j_id (dev_file e)),
      (''submitted_by_user_id'', j_id (dev_submitted_by e)), (''note'', JStr (dev_note e)),
      (''created_at'', JStr (env_iso env (dev_created_at e)))]"

definition serialize_event :: "env \<Rightarrow> dispute_event \<Rightarrow> json" where
  "serialize_event env e = JObj
     [(''event_type'', JStr (dvt_type e)),
      (''from_status'', j_opt (\<lambda>s. JStr (dispute_status_str s)) (dvt_from e)),
      (''to_status'', JStr (dispute_status_str (dvt_to e))), (''reason'', JStr (dvt_reason e)),
      (''created_at'', JStr (env_iso env (dvt_created_at e)))]"

definition serialize_decision :: "env \<Rightarrow> dispute_decision \<Rightarrow> json" where
  "serialize_decision env x = JObj
     [(''id'', j_id (dd_id x)), (''administrator_user_id'', j_id (dd_administrator x)),
      (''outcome'', JStr (dispute_outcome_str (dd_outcome x))),
      (''freelancer_award_minor'', JInt (dd_award x)), (''freelancer_net_minor'', JInt (dd_net x)),
      (''client_refund_minor'', JInt (dd_refund_minor x)), (''commission_minor'', JInt (dd_commission x)),
      (''currency'', JStr (dd_currency x)), (''journal_transaction_id'', j_id (dd_journal x)),
      (''refund_id'', j_opt j_id (dd_refund x)), (''reason'', JStr (dd_reason x)),
      (''created_at'', JStr (env_iso env (dd_created_at x)))]"

definition serialize_dispute :: "env \<Rightarrow> dispute \<Rightarrow> db \<Rightarrow> json" where
  "serialize_dispute env x d = JObj
     [(''id'', j_id (dp_id x)), (''milestone_id'', j_id (dp_milestone x)),
      (''contract_id'', j_id (dp_contract x)), (''opened_by_user_id'', j_id (dp_opened_by x)),
      (''status'', JStr (dispute_status_str (dp_status x))), (''reason'', JStr (dp_reason x)),
      (''created_at'', JStr (env_iso env (dp_created_at x))),
      (''resolved_at'', j_opt (\<lambda>t. JStr (env_iso env t)) (dp_resolved_at x)),
      (''parties'', JList (map (\<lambda>p. JObj [(''user_id'', j_id (dpp_user p)), (''role'', JStr (dpp_role p))])
         (parties_of (dp_id x) d))),
      (''evidence'', JList (map (serialize_evidence env)
         (filter (\<lambda>e. dev_dispute e = dp_id x) (dispute_evidence d)))),
      (''events'', JList (map (serialize_event env)
         (filter (\<lambda>e. dvt_dispute e = dp_id x) (dispute_events d)))),
      (''decision'', j_opt (serialize_decision env) (decision_of (dp_id x) d))]"

definition dispute_outcome_of :: "string \<Rightarrow> dispute_outcome option" where
  "dispute_outcome_of s = List.find (\<lambda>x. dispute_outcome_str x = s) [RELEASE_TO_FREELANCER, REFUND_CLIENT, SPLIT]"

definition resolved_note :: "dispute_outcome \<Rightarrow> string" where
  "resolved_note oc = ''Dispute resolved with outcome '' @ dispute_outcome_str oc"

definition resolved_body :: "dispute_outcome \<Rightarrow> string" where
  "resolved_body oc = ''The dispute was resolved with outcome '' @ dispute_outcome_str oc @ ''.''"

definition resolve_dispute :: "env \<Rightarrow> user \<Rightarrow> uuid \<Rightarrow> string \<Rightarrow> string \<Rightarrow> int option \<Rightarrow> int option \<Rightarrow>
    string \<Rightarrow> response dbop" where
  "resolve_dispute env administrator did outcome_text reason_text award_arg refund_arg key =
    seq (require_admin administrator) (
    bnd (locked_dispute did) (\<lambda>x.
    let outcome_str = upper (strip outcome_text) in
    bnd (lift_result (required_text reason_text 4000)) (\<lambda>reason.
    bnd (claim_idempotency env (user_id administrator) ''dispute.resolve'' key
          (JObj [(''dispute_id'', j_id (dp_id x)), (''outcome'', JStr outcome_str), (''reason'', JStr reason),
                 (''freelancer_award_minor'', j_opt JInt award_arg),
                 (''client_refund_minor'', j_opt JInt refund_arg)])) (\<lambda>claim.
    case stored_response claim of Some r \<Rightarrow> ret r | None \<Rightarrow>
    let idem = fst claim in
    seq (require_reviewable_dispute x) (
    bnd (found (ApiError ''validation_error'' 422) (dispute_outcome_of outcome_str)) (\<lambda>outcome.
    bnd (locked_milestone (dp_milestone x)) (\<lambda>m.
    if ms_status m \<noteq> MS_DISPUTED then raise (ApiError ''invalid_state'' 409) else
    bnd (locked_funded_escrow m) (\<lambda>(e, escrow_account).
    bnd (query (account_balance_minor (acc_id escrow_account))) (\<lambda>funded.
    bnd (lift_result (resolution_amounts outcome funded award_arg refund_arg)) (\<lambda>(award, refund_amount).
    let commission = commission_minor award (es_commission_bps e); net = award - commission in
    bnd (contract_of m) (\<lambda>c.
    bnd (freelancer_postings (con_freelancer c) (ms_currency m) net commission) (\<lambda>fps.
    bnd (if refund_amount \<noteq> 0
         then bnd (confirm_provider_refund env x m refund_amount key) (\<lambda>(p, r, post).
                ret (Some p, Some r, [post]))
         else ret (None, None, [])) (\<lambda>(refund_provider, refund_reference, rps).
    bnd (post_journal DISPUTE_RESOLUTION ''dispute'' (dp_id x)
          (mk_posting escrow_account ''DEBIT'' funded # fps @ rps)
          (JObj [(''milestone_id'', j_id (ms_id m)), (''outcome'', JStr outcome_str),
                 (''freelancer_award_minor'', JInt award), (''client_refund_minor'', JInt refund_amount),
                 (''commission_minor'', JInt commission)]) None) (\<lambda>j.
    bnd (persist_resolution_refund m (con_employer c) (ik_id idem) (jn_id j) refund_amount
          refund_provider refund_reference) (\<lambda>refund_id.
    let before = state_snapshot (ms_status m) (Some (dp_status x)) None in
    seq (log_milestone_event m (Some (user_id administrator)) MS_DISPUTED MS_RELEASED (resolved_note outcome)) (
    bnd (set_milestone_status m MS_RELEASED) (\<lambda>m1.
    let x' = x\<lparr>dp_status := DS_RESOLVED, dp_resolved_at := Some (env_now env)\<rparr> in
    seq (modify (put_dispute x')) (
    bnd uuid4 (\<lambda>ddid.
    seq (modify (\<lambda>d. d\<lparr>dispute_decisions := dispute_decisions d @
          [\<lparr>dd_id = ddid, dd_dispute = dp_id x, dd_administrator = user_id administrator,
            dd_outcome = outcome, dd_award = award, dd_net = net, dd_refund_minor = refund_amount,
            dd_commission = commission, dd_currency = ms_currency m, dd_journal = jn_id j,
            dd_refund = refund_id, dd_reason = reason, dd_created_at = env_now env\<rparr>]\<rparr>)) (
    let after = state_snapshot (ms_status m1) (Some (dp_status x')) (Some outcome) in
    seq (log_dispute_event env (dp_id x) (user_id administrator) ''RESOLVED'' (Some DS_UNDER_REVIEW)
          DS_RESOLVED reason before after) (
    seq (audit_state_change env ''dispute.resolved'' (dp_id x) (user_id administrator) reason before after
          [(''journal_transaction_id'', j_id (jn_id j)), (''outcome'', JStr outcome_str),
           (''freelancer_award_minor'', JInt award), (''client_refund_minor'', JInt refund_amount),
           (''commission_minor'', JInt commission)]) (
    seq (notify_all_parties (dp_id x) ''dispute.resolved'' ''Dispute resolved'' (resolved_body outcome)) (
    bnd (query (serialize_dispute env x')) (\<lambda>response.
    finish idem response 200))))))))))))))))))))))))"

end
