(* ===== verification/Milestones.thy ===== *)
theory Milestones
  imports Payments
begin

text \<open>
  Milestone execution (\<open>app/milestones/service.py\<close>): the freelancer starts and submits, the
  employer requests changes and approves; each action is a guarded transition of the milestone's
  status, and work starts only on a fully funded escrow.
\<close>

datatype milestone_action = Start | Submit | Request_changes | Approve

fun user_transitions :: "milestone_action \<Rightarrow> milestone_status set" where
  "user_transitions Start = {MS_FUNDED}"
| "user_transitions Submit = {MS_IN_PROGRESS, MS_CHANGES_REQUESTED}"
| "user_transitions Request_changes = {MS_SUBMITTED}"
| "user_transitions Approve = {MS_SUBMITTED}"

definition can_work_on_milestone :: "user \<Rightarrow> contract \<Rightarrow> bool" where
  "can_work_on_milestone u c \<longleftrightarrow> user_id u = con_freelancer c"

definition can_review_milestone :: "user \<Rightarrow> contract \<Rightarrow> bool" where
  "can_review_milestone u c \<longleftrightarrow> user_id u = con_employer c"

definition can_view_milestone :: "user \<Rightarrow> contract \<Rightarrow> bool" where
  "can_view_milestone u c \<longleftrightarrow> user_id u \<in> {con_employer c, con_freelancer c}"

definition get_milestone_for_user :: "user \<Rightarrow> uuid \<Rightarrow> milestone dbop" where
  "get_milestone_for_user u mid =
    bnd (locked_milestone mid) (\<lambda>m.
    bnd (contract_of m) (\<lambda>c.
    if \<not> can_view_milestone u c then raise (ApiError ''forbidden'' 403) else ret m))"

definition milestone_transition :: "env \<Rightarrow> user \<Rightarrow> uuid \<Rightarrow> milestone_action \<Rightarrow> milestone_status \<Rightarrow>
    string \<Rightarrow> bool \<Rightarrow> milestone dbop" where
  "milestone_transition env user mid action target note worker_action =
    bnd (locked_milestone mid) (\<lambda>m.
    bnd (contract_of m) (\<lambda>c.
    if con_status c \<noteq> CON_ACTIVE then raise (ApiError ''invalid_state'' 409) else
    let allowed = (if worker_action then can_work_on_milestone user c else can_review_milestone user c) in
    if \<not> allowed then raise (ApiError ''forbidden'' 403)
    else if ms_status m = target then locked_milestone (ms_id m)
    else if ms_status m \<notin> user_transitions action then raise (ApiError ''invalid_transition'' 409)
    else
    seq (if action = Start then require_milestone_fully_funded m else ret ()) (
    let previous = ms_status m in
    bnd (set_milestone_status m target) (\<lambda>m1.
    seq (log_milestone_event m1 (Some (user_id user)) previous target note) (
    seq (record_audit_event env (''milestone.'' @ lower (milestone_status_str target)) ''milestone''
          (Some (user_id user)) (Some (str_uuid (ms_id m))) None None
          (JObj [(''contract_id'', j_id (con_id c)), (''from'', JStr (milestone_status_str previous)),
                 (''to'', JStr (milestone_status_str target))])) (
    seq commit (locked_milestone (ms_id m))))))))"

definition start_milestone :: "env \<Rightarrow> user \<Rightarrow> uuid \<Rightarrow> milestone dbop" where
  "start_milestone env u mid = milestone_transition env u mid Start MS_IN_PROGRESS '''' True"

definition submit_milestone :: "env \<Rightarrow> user \<Rightarrow> uuid \<Rightarrow> string \<Rightarrow> milestone dbop" where
  "submit_milestone env u mid note = milestone_transition env u mid Submit MS_SUBMITTED note True"

definition request_milestone_changes :: "env \<Rightarrow> user \<Rightarrow> uuid \<Rightarrow> string \<Rightarrow> milestone dbop" where
  "request_milestone_changes env u mid note =
     milestone_transition env u mid Request_changes MS_CHANGES_REQUESTED note False"

definition approve_milestone :: "env \<Rightarrow> user \<Rightarrow> uuid \<Rightarrow> milestone dbop" where
  "approve_milestone env u mid = milestone_transition env u mid Approve MS_APPROVED '''' False"

end
