(* ===== verification/Contracts.thy ===== *)
theory Contracts
  imports Payments
begin

text \<open>
  Contracts (\<open>app/contracts/service.py\<close>): an accepted proposal becomes one contract whose first
  version is an immutable snapshot with a canonical hash; it activates when every required
  party has signed that hash, and the employer may cancel it while no milestone has left
  CREATED and no funding payment is pending.
\<close>

section \<open>Lookups and policies\<close>

definition get_contract :: "uuid \<Rightarrow> contract dbop" where
  "get_contract cid = bnd (query (\<lambda>d. row_by con_id cid (contracts d)))
     (found (ApiError ''contract_not_found'' 404))"

definition get_project_contract :: "uuid \<Rightarrow> contract dbop" where
  "get_project_contract pid = bnd (query (\<lambda>d. row_by con_project_id pid (contracts d)))
     (found (ApiError ''contract_not_found'' 404))"

definition is_contract_party :: "user \<Rightarrow> contract \<Rightarrow> bool" where
  "is_contract_party u c \<longleftrightarrow> user_id u \<in> {con_employer c, con_freelancer c}"

definition can_cancel_contract :: "user \<Rightarrow> contract \<Rightarrow> bool" where
  "can_cancel_contract u c \<longleftrightarrow> user_id u = con_employer c"

definition get_contract_for_user :: "user \<Rightarrow> uuid \<Rightarrow> contract dbop" where
  "get_contract_for_user u cid = bnd (get_contract cid) (\<lambda>c.
     if \<not> is_contract_party u c then raise (ApiError ''forbidden'' 403) else ret c)"

definition get_project_contract_for_user :: "user \<Rightarrow> uuid \<Rightarrow> contract dbop" where
  "get_project_contract_for_user u pid = bnd (get_project_contract pid) (\<lambda>c.
     if \<not> is_contract_party u c then raise (ApiError ''forbidden'' 403) else ret c)"

definition current_proposal_version :: "proposal \<Rightarrow> exn + proposal_version" where
  "current_proposal_version p =
     (case List.find (\<lambda>v. pv_number v = pr_current_version p) (pr_versions p) of
        Some v \<Rightarrow> Inr v | None \<Rightarrow> Inl RuntimeError)"

definition current_contract_version :: "contract \<Rightarrow> contract_version dbop" where
  "current_contract_version c = bnd (query (\<lambda>d. List.find
       (\<lambda>v. cv_contract_id v = con_id c \<and> cv_number v = con_current_version c) (contract_versions d)))
     (found RuntimeError)"

definition contract_state :: "contract \<Rightarrow> contract_version \<Rightarrow> bool option \<Rightarrow> json" where
  "contract_state c v signer = JObj
     ([(''status'', JStr (contract_status_str (con_status c))),
       (''current_version'', JInt (con_current_version c)),
       (''document_hash'', JStr (cv_document_hash v))] @
      (case signer of None \<Rightarrow> [] | Some b \<Rightarrow> [(''signer_has_signature'', JBool b)]))"

section \<open>The contract document\<close>

type_synonym milestone_term = "int \<times> string \<times> int \<times> int"

definition milestone_terms :: "proposal_version \<Rightarrow> milestone_term list" where
  "milestone_terms v =
    (if pv_milestones v \<noteq> []
     then map (\<lambda>m. (pm_sequence m, pm_title m, pm_amount m, pm_delivery_days m)) (pv_milestones v)
     else [(1, ''Full contract delivery'', pv_amount v, pv_delivery_days v)])"

definition commission_bps :: "env \<Rightarrow> exn + int" where
  "commission_bps env =
    (case py_int (case env_commission_bps env of None \<Rightarrow> ''1000'' | Some s \<Rightarrow> s) of
       None \<Rightarrow> Inl RuntimeError
     | Some n \<Rightarrow> if n < 0 \<or> n > 10000 then Inl RuntimeError else Inr n)"

definition build_snapshot :: "project \<Rightarrow> proposal \<Rightarrow> proposal_version \<Rightarrow> milestone_term list \<Rightarrow>
    project_attachment list \<Rightarrow> int \<Rightarrow> json" where
  "build_snapshot pj pr v terms atts bps = JObj
    [(''schema_version'', JInt 2),
     (''source'', JObj [(''project_id'', j_id (pj_id pj)), (''proposal_id'', j_id (pr_id pr)),
        (''proposal_version_id'', j_id (pv_id v)), (''proposal_version'', JInt (pv_number v))]),
     (''scope'', JObj [(''project_title'', JStr (pj_title pj)),
        (''project_description'', JStr (pj_description pj)),
        (''proposal_cover_letter'', JStr (pv_cover_letter v))]),
     (''price'', JObj [(''amount_minor'', JInt (pv_amount v))]),
     (''currency'', JStr (pv_currency v)),
     (''delivery_days'', JInt (pv_delivery_days v)),
     (''milestones'', JList (map (\<lambda>(sequence, title, amount, days). JObj
        [(''sequence'', JInt sequence), (''title'', JStr title), (''amount_minor'', JInt amount),
         (''currency'', JStr (pv_currency v)), (''delivery_days'', JInt days)]) terms)),
     (''commission'', JObj [(''platform_bps'', JInt bps)]),
     (''refund_terms'', JNull),
     (''dispute_terms'', JNull),
     (''attachments'', JList (map (\<lambda>a. JObj
        [(''id'', j_id (pa_id a)), (''object_key'', JStr (pa_object_key a)),
         (''mime_type'', JStr (pa_mime_type a)), (''file_size_bytes'', JInt (pa_file_size_bytes a)),
         (''scan_status'', JStr (pa_scan_status a))]) atts))]"

definition document_hash :: "env \<Rightarrow> json \<Rightarrow> string" where
  "document_hash env snapshot = env_sha256 env (dumps False snapshot)"

section \<open>Creating a contract\<close>

definition put_contract :: "contract \<Rightarrow> db \<Rightarrow> db" where
  "put_contract c d = d\<lparr>contracts := put_row con_id c (contracts d)\<rparr>"

definition insert_contract :: "contract \<Rightarrow> unit dbop" where
  "insert_contract c = bnd (query contracts) (\<lambda>cs.
     if list_ex (\<lambda>x. con_project_id x = con_project_id c \<or> con_proposal_id x = con_proposal_id c) cs \<or>
        con_employer c = con_freelancer c
     then raise IntegrityError
     else modify (\<lambda>d. d\<lparr>contracts := contracts d @ [c],
       contract_parties := contract_parties d @
         [\<lparr>cp_contract_id = con_id c, cp_user_id = con_employer c, cp_role = ''EMPLOYER'',
           cp_required_signature = True\<rparr>,
          \<lparr>cp_contract_id = con_id c, cp_user_id = con_freelancer c, cp_role = ''FREELANCER'',
           cp_required_signature = True\<rparr>]\<rparr>))"

definition add_milestone :: "milestone \<Rightarrow> db \<Rightarrow> db" where
  "add_milestone m d = d\<lparr>milestones := milestones d @ [m]\<rparr>"

definition insert_milestone :: "uuid \<Rightarrow> currency \<Rightarrow> milestone_term \<Rightarrow> unit dbop" where
  "insert_milestone vid cur term = (case term of (sequence, title, amount, days) \<Rightarrow>
     if sequence < 1 \<or> amount < 0 \<or> days < 1 then raise IntegrityError
     else bnd uuid4 (\<lambda>i. modify (add_milestone
       \<lparr>ms_id = i, ms_version_id = vid, ms_sequence = sequence, ms_title = title, ms_amount = amount,
        ms_currency = cur, ms_delivery_days = days, ms_status = MS_CREATED\<rparr>)))"

definition create_contract_from_accepted_proposal :: "env \<Rightarrow> proposal \<Rightarrow> project \<Rightarrow> uuid \<Rightarrow> contract dbop" where
  "create_contract_from_accepted_proposal env proposal project actor =
    bnd (query (\<lambda>d. row_by con_project_id (pj_id project) (contracts d))) (\<lambda>existing.
    case existing of
      Some c \<Rightarrow> if con_proposal_id c = pr_id proposal then ret c
                else raise (ApiError ''contract_exists'' 409)
    | None \<Rightarrow>
    bnd (lift_result (current_proposal_version proposal)) (\<lambda>pv.
    let terms = milestone_terms pv in
    bnd (query (\<lambda>d. sort_key pa_object_key
           (filter (\<lambda>a. pa_project_id a = pj_id project) (attachments d)))) (\<lambda>atts.
    bnd (lift_result (commission_bps env)) (\<lambda>bps.
    let snapshot = build_snapshot project proposal pv terms atts bps in
    bnd uuid4 (\<lambda>cid.
    bnd uuid4 (\<lambda>vid.
    let version = \<lparr>cv_id = vid, cv_contract_id = cid, cv_number = 1, cv_snapshot = snapshot,
                   cv_document_hash = document_hash env snapshot\<rparr>;
        contract = \<lparr>con_id = cid, con_project_id = pj_id project, con_proposal_id = pr_id proposal,
                    con_employer = pj_employer project, con_freelancer = pr_freelancer proposal,
                    con_status = CON_PENDING_SIGNATURES, con_current_version = 1,
                    con_activated_at = None, con_cancelled_at = None\<rparr> in
    seq (insert_contract contract) (
    seq (modify (\<lambda>d. d\<lparr>contract_versions := contract_versions d @ [version]\<rparr>)) (
    seq (for_each terms (insert_milestone vid (pv_currency pv))) (
    seq (record_audit_event env ''contract.created'' ''contract'' (Some actor) (Some (str_uuid cid))
          (Some (JObj [(''exists'', JBool False)])) (Some (contract_state contract version None))
          (JObj [(''project_id'', j_id (pj_id project)), (''proposal_id'', j_id (pr_id proposal)),
                 (''proposal_version'', JInt (pv_number pv)),
                 (''document_hash'', JStr (cv_document_hash version))])) (
    ret contract))))))))))"

section \<open>Signing\<close>

definition add_signature :: "contract_signature \<Rightarrow> db \<Rightarrow> db" where
  "add_signature s d = d\<lparr>contract_signatures := contract_signatures d @ [s]\<rparr>"

definition insert_signature :: "contract_signature \<Rightarrow> unit dbop" where
  "insert_signature s = bnd (query contract_signatures) (\<lambda>ss.
     if list_ex (\<lambda>x. cs_version_id x = cs_version_id s \<and> cs_user_id x = cs_user_id s) ss \<or>
        list_ex (\<lambda>x. cs_user_id x = cs_user_id s \<and> cs_key_hash x = cs_key_hash s) ss
     then raise IntegrityError else modify (add_signature s))"

definition signed_user_ids :: "uuid \<Rightarrow> db \<Rightarrow> uuid list" where
  "signed_user_ids vid d =
     map cs_user_id (filter (\<lambda>s. cs_version_id s = vid) (contract_signatures d))"

definition required_user_ids :: "uuid \<Rightarrow> db \<Rightarrow> uuid list" where
  "required_user_ids cid d = map cp_user_id
     (filter (\<lambda>p. cp_contract_id p = cid \<and> cp_required_signature p) (contract_parties d))"

definition sign_contract :: "env \<Rightarrow> user \<Rightarrow> uuid \<Rightarrow> string \<Rightarrow> string \<Rightarrow> string option \<Rightarrow> json \<Rightarrow> json \<Rightarrow>
    contract dbop" where
  "sign_contract env user cid key expected_hash provider_reference ip_metadata risk_metadata =
    bnd (get_contract cid) (\<lambda>c.
    if \<not> is_contract_party user c then raise (ApiError ''forbidden'' 403)
    else if con_status c = CON_CANCELLED then raise (ApiError ''invalid_state'' 409) else
    bnd (current_contract_version c) (\<lambda>v.
    if expected_hash \<noteq> cv_document_hash v then raise (ApiError ''document_changed'' 409) else
    let kh = env_sha256 env key in
    bnd (query (\<lambda>d. List.find (\<lambda>s. cs_user_id s = user_id user \<and> cs_key_hash s = kh)
          (contract_signatures d))) (\<lambda>prior.
    case prior of
      Some s \<Rightarrow> if cs_version_id s \<noteq> cv_id v then raise (ApiError ''idempotency_key_reused'' 409)
                else get_contract (con_id c)
    | None \<Rightarrow>
    bnd (query (\<lambda>d. List.find (\<lambda>s. cs_version_id s = cv_id v \<and> cs_user_id s = user_id user)
          (contract_signatures d))) (\<lambda>existing.
    if existing \<noteq> None then get_contract (con_id c) else
    bnd uuid4 (\<lambda>sid.
    seq (savepoint (insert_signature
            \<lparr>cs_id = sid, cs_version_id = cv_id v, cs_user_id = user_id user,
             cs_document_hash = cv_document_hash v, cs_ip_metadata = ip_metadata,
             cs_risk_metadata = risk_metadata, cs_provider_reference = provider_reference,
             cs_key_hash = kh\<rparr>)
          (seq rollback (raise (ApiError ''signature_conflict'' 409)))) (
    seq (record_audit_event env ''contract.signed'' ''contract'' (Some (user_id user))
          (Some (str_uuid (con_id c))) (Some (contract_state c v (Some False)))
          (Some (contract_state c v (Some True)))
          (JObj [(''contract_version'', JInt (cv_number v)), (''document_hash'', JStr (cv_document_hash v))])) (
    bnd (query (required_user_ids (con_id c))) (\<lambda>required.
    bnd (query (signed_user_ids (cv_id v))) (\<lambda>signed_ids.
    seq (if required \<noteq> [] \<and> set required \<subseteq> set signed_ids
         then let previous_state = contract_state c v None;
                  c' = c\<lparr>con_status := CON_ACTIVE, con_activated_at := Some (env_now env)\<rparr> in
              seq (modify (put_contract c'))
                (record_audit_event env ''contract.activated'' ''contract'' (Some (user_id user))
                  (Some (str_uuid (con_id c))) (Some previous_state) (Some (contract_state c' v None))
                  (JObj [(''contract_version'', JInt (cv_number v))]))
         else ret ()) (
    seq commit (get_contract (con_id c))))))))))))"

section \<open>Cancelling\<close>

definition cancel_contract :: "env \<Rightarrow> user \<Rightarrow> uuid \<Rightarrow> contract dbop" where
  "cancel_contract env user cid =
    bnd (get_contract cid) (\<lambda>c.
    if \<not> can_cancel_contract user c then raise (ApiError ''forbidden'' 403)
    else if con_status c = CON_CANCELLED then get_contract (con_id c) else
    bnd (current_contract_version c) (\<lambda>v.
    bnd (query (\<lambda>d. filter (\<lambda>m. ms_version_id m = cv_id v) (milestones d))) (\<lambda>ms.
    bnd (query intents) (\<lambda>is.
    if con_status c = CON_ACTIVE \<and> list_ex (\<lambda>m. ms_status m \<noteq> MS_CREATED) ms
    then raise (ApiError ''invalid_state'' 409)
    else if con_status c = CON_ACTIVE \<and>
            list_ex (\<lambda>i. pi_milestone i \<in> set (map ms_id ms) \<and> pi_status i = PI_PENDING) is
    then raise (ApiError ''invalid_state'' 409)
    else
    let previous_state = contract_state c v None;
        c' = c\<lparr>con_status := CON_CANCELLED, con_cancelled_at := Some (env_now env)\<rparr> in
    seq (modify (put_contract c')) (
    seq (record_audit_event env ''contract.cancelled'' ''contract'' (Some (user_id user))
          (Some (str_uuid (con_id c))) (Some previous_state) (Some (contract_state c' v None)) (JObj [])) (
    seq commit (get_contract (con_id c))))))))"

end
