(* ===== verification/Proposals.thy ===== *)
theory Proposals
  imports Contracts
begin

text \<open>
  Proposals (\<open>app/proposals/service.py\<close>): versioned commercial terms, their negotiation state
  machine, and acceptance, which creates the contract in the same transaction.
\<close>

record milestone_input =
  mi_title :: string
  mi_amount :: int
  mi_delivery_days :: int

fun allowed_transitions :: "proposal_status \<Rightarrow> proposal_status set" where
  "allowed_transitions PR_DRAFT = {PR_SUBMITTED}"
| "allowed_transitions PR_SUBMITTED = {PR_UNDER_NEGOTIATION, PR_WITHDRAWN, PR_REJECTED, PR_ACCEPTED}"
| "allowed_transitions PR_UNDER_NEGOTIATION = {PR_WITHDRAWN, PR_REJECTED, PR_ACCEPTED}"
| "allowed_transitions PR_WITHDRAWN = {}"
| "allowed_transitions PR_REJECTED = {}"
| "allowed_transitions PR_ACCEPTED = {}"

definition get_project :: "uuid \<Rightarrow> project dbop" where
  "get_project pid = bnd (query (\<lambda>d. row_by pj_id pid (projects d)))
     (found (ApiError ''project_not_found'' 404))"

definition get_proposal :: "uuid \<Rightarrow> proposal dbop" where
  "get_proposal pid = bnd (query (\<lambda>d. row_by pr_id pid (proposals d)))
     (found (ApiError ''proposal_not_found'' 404))"

definition can_submit_proposal :: "user \<Rightarrow> project \<Rightarrow> bool" where
  "can_submit_proposal u pj \<longleftrightarrow>
     pj_status pj = PJ_OPEN \<and> pj_employer pj \<noteq> user_id u \<and> ''freelancer'' \<in> set (user_roles u)"

definition can_edit_proposal :: "user \<Rightarrow> proposal \<Rightarrow> bool" where
  "can_edit_proposal u p \<longleftrightarrow> pr_freelancer p = user_id u"

definition can_manage_proposal :: "user \<Rightarrow> proposal \<Rightarrow> project \<Rightarrow> bool" where
  "can_manage_proposal u p pj \<longleftrightarrow> pr_project_id p = pj_id pj \<and> pj_employer pj = user_id u"

definition list_project_proposals :: "user \<Rightarrow> uuid \<Rightarrow> proposal list dbop" where
  "list_project_proposals u pid = bnd (get_project pid) (\<lambda>pj.
     if pj_employer pj \<noteq> user_id u then raise (ApiError ''forbidden'' 403)
     else query (\<lambda>d. filter (\<lambda>p. pr_project_id p = pj_id pj) (proposals d)))"

definition number_milestones :: "milestone_input list \<Rightarrow> proposal_milestone list" where
  "number_milestones ms = map (\<lambda>(i, m).
     \<lparr>pm_sequence = int i, pm_title = mi_title m, pm_amount = mi_amount m,
      pm_delivery_days = mi_delivery_days m\<rparr>) (zip [1..<Suc (length ms)] ms)"

definition new_version :: "int \<Rightarrow> int \<Rightarrow> currency \<Rightarrow> int \<Rightarrow> string \<Rightarrow> milestone_input list \<Rightarrow>
    proposal_version dbop" where
  "new_version number amount cur days letter ms =
    (if ms \<noteq> [] \<and> sum_list (map mi_amount ms) \<noteq> amount then raise (ApiError ''validation_error'' 422)
     else bnd uuid4 (\<lambda>i. ret
       \<lparr>pv_id = i, pv_number = number, pv_amount = amount, pv_currency = cur,
        pv_delivery_days = days, pv_cover_letter = letter, pv_milestones = number_milestones ms\<rparr>))"

text \<open>CHECK constraints of a version and its milestones.\<close>

definition version_ok :: "proposal_version \<Rightarrow> bool" where
  "version_ok v \<longleftrightarrow> 1 \<le> pv_number v \<and> 0 \<le> pv_amount v \<and> 1 \<le> pv_delivery_days v \<and>
     list_all (\<lambda>m. 1 \<le> pm_sequence m \<and> 0 \<le> pm_amount m \<and> 1 \<le> pm_delivery_days m) (pv_milestones v)"

definition put_proposal :: "proposal \<Rightarrow> db \<Rightarrow> db" where
  "put_proposal p d = d\<lparr>proposals := put_row pr_id p (proposals d)\<rparr>"

definition insert_proposal :: "proposal \<Rightarrow> unit dbop" where
  "insert_proposal p = bnd (query proposals) (\<lambda>ps.
     if list_ex (\<lambda>x. pr_project_id x = pr_project_id p \<and> pr_freelancer x = pr_freelancer p) ps \<or>
        \<not> list_all version_ok (pr_versions p)
     then raise IntegrityError
     else modify (\<lambda>d. d\<lparr>proposals := proposals d @ [p]\<rparr>))"

definition create_proposal :: "env \<Rightarrow> user \<Rightarrow> uuid \<Rightarrow> int \<Rightarrow> currency \<Rightarrow> int \<Rightarrow> string \<Rightarrow>
    milestone_input list \<Rightarrow> proposal dbop" where
  "create_proposal env user pid amount cur days letter ms =
    bnd (get_project pid) (\<lambda>pj.
    if \<not> can_submit_proposal user pj then raise (ApiError ''forbidden'' 403)
    else if pj_currency pj \<noteq> None \<and> pj_currency pj \<noteq> Some cur
    then raise (ApiError ''validation_error'' 422) else
    bnd (new_version 1 amount cur days letter ms) (\<lambda>v.
    bnd uuid4 (\<lambda>i.
    let p = \<lparr>pr_id = i, pr_project_id = pj_id pj, pr_freelancer = user_id user, pr_status = PR_DRAFT,
             pr_current_version = 1, pr_versions = [v]\<rparr> in
    seq (savepoint (insert_proposal p) (seq rollback (raise (ApiError ''proposal_exists'' 409)))) (
    seq (record_audit_event env ''proposal.draft_created'' ''proposal'' (Some (user_id user))
          (Some (str_uuid i)) None None (JObj [(''project_id'', j_id (pj_id pj)), (''version'', JInt 1)])) (
    seq commit (get_proposal i))))))"

definition add_proposal_version :: "env \<Rightarrow> user \<Rightarrow> uuid \<Rightarrow> int \<Rightarrow> currency \<Rightarrow> int \<Rightarrow> string \<Rightarrow>
    milestone_input list \<Rightarrow> proposal dbop" where
  "add_proposal_version env user prid amount cur days letter ms =
    bnd (get_proposal prid) (\<lambda>p.
    if \<not> can_edit_proposal user p then raise (ApiError ''forbidden'' 403)
    else if pr_status p \<notin> {PR_DRAFT, PR_UNDER_NEGOTIATION}
    then raise (ApiError ''invalid_transition'' 409)
    else if pr_versions p = [] then raise IndexError else
    let current = last (pr_versions p) in
    seq (if pv_currency current \<noteq> cur
         then bnd (get_project (pr_project_id p)) (\<lambda>pj.
              if pj_currency pj \<noteq> None \<and> pj_currency pj \<noteq> Some cur
              then raise (ApiError ''validation_error'' 422) else ret ())
         else ret ()) (
    let number = pr_current_version p + 1 in
    bnd (new_version number amount cur days letter ms) (\<lambda>v.
    let p' = p\<lparr>pr_current_version := number, pr_versions := pr_versions p @ [v]\<rparr> in
    if \<not> version_ok v then raise IntegrityError else
    seq (modify (put_proposal p')) (
    seq (record_audit_event env ''proposal.version_created'' ''proposal'' (Some (user_id user))
          (Some (str_uuid (pr_id p))) None None (JObj [(''version'', JInt number)])) (
    seq commit (get_proposal (pr_id p)))))))"

definition proposal_status_of :: "string \<Rightarrow> proposal_status option" where
  "proposal_status_of s = List.find (\<lambda>x. proposal_status_str x = s) all_proposal_statuses"

text \<open>UPDATE of the status under the partial unique index on accepted proposals.\<close>

definition set_proposal_status :: "proposal \<Rightarrow> proposal_status \<Rightarrow> unit dbop" where
  "set_proposal_status p st = bnd (query proposals) (\<lambda>ps.
     if st = PR_ACCEPTED \<and> list_ex (\<lambda>x. pr_id x \<noteq> pr_id p \<and> pr_project_id x = pr_project_id p \<and>
          pr_status x = PR_ACCEPTED) ps
     then raise IntegrityError else modify (put_proposal (p\<lparr>pr_status := st\<rparr>)))"

definition transition_proposal :: "env \<Rightarrow> user \<Rightarrow> uuid \<Rightarrow> string \<Rightarrow> proposal dbop" where
  "transition_proposal env user prid target_text =
    bnd (get_proposal prid) (\<lambda>p.
    bnd (get_project (pr_project_id p)) (\<lambda>pj.
    case proposal_status_of (upper target_text) of
      None \<Rightarrow> raise (ApiError ''invalid_transition'' 409)
    | Some target \<Rightarrow>
    if target \<notin> allowed_transitions (pr_status p) then raise (ApiError ''invalid_transition'' 409)
    else if (if target \<in> {PR_SUBMITTED, PR_WITHDRAWN} then \<not> can_edit_proposal user p
             else \<not> can_manage_proposal user p pj)
    then raise (ApiError ''forbidden'' 403)
    else if pj_status pj \<noteq> PJ_OPEN then raise (ApiError ''invalid_state'' 409) else
    let previous = pr_status p in
    seq (catch
          (seq (if target = PR_ACCEPTED
                then bnd (create_contract_from_accepted_proposal env p pj (user_id user)) (\<lambda>_. ret ())
                else ret ()) (
           seq (set_proposal_status p target) (
           seq (record_audit_event env (''proposal.'' @ lower (proposal_status_str target)) ''proposal''
                 (Some (user_id user)) (Some (str_uuid (pr_id p))) None None
                 (JObj [(''from'', JStr (proposal_status_str previous)),
                        (''to'', JStr (proposal_status_str target))]))
           commit)))
          (\<lambda>e. case e of
             IntegrityError \<Rightarrow> seq rollback
               (raise (if target = PR_ACCEPTED then ApiError ''proposal_already_accepted'' 409
                       else IntegrityError))
           | ApiError t st \<Rightarrow> seq rollback (raise (ApiError t st))
           | _ \<Rightarrow> raise e)) (
    get_proposal (pr_id p))))"

end
