(* ===== verification/Invariants.thy ===== *)
theory Invariants
  imports Payouts Disputes Milestones Proposals
begin

text \<open>
  The invariant of the money tables and the transitions that keep it. \<open>sys_inv\<close> says that the
  ledger is well formed, that every account except provider clearing is solvent, and that the
  escrow of a milestone together with its reserved refunds is exactly what its status calls
  for. Each lemma \<open>inv_*\<close> is one business transition (a journal together with the status
  changes it belongs to), stated on the tables it changes; theory \<open>System\<close> lifts them to
  the request handlers.
\<close>

section \<open>Escrow and reserved refunds of a milestone\<close>

definition escrow_bal :: "uuid \<Rightarrow> db \<Rightarrow> int" where
  "escrow_bal mid d = (case find_escrow mid d of None \<Rightarrow> 0
     | Some e \<Rightarrow> account_balance_minor (es_account e) d)"

definition reserved_of :: "uuid \<Rightarrow> refund \<Rightarrow> int" where
  "reserved_of mid r = (if rf_milestone r = mid \<and> rf_status r = RF_PENDING then rf_amount r else 0)"

definition reserved :: "uuid \<Rightarrow> db \<Rightarrow> int" where
  "reserved mid d = sum_list (map (reserved_of mid) (refunds d))"

definition work_states :: "milestone_status set" where
  "work_states = {MS_IN_PROGRESS, MS_SUBMITTED, MS_CHANGES_REQUESTED, MS_APPROVED}"

section \<open>The invariant\<close>

definition account_ok :: "ledger_account \<Rightarrow> bool" where
  "account_ok a \<longleftrightarrow> (case acc_type a of
     PROVIDER_CLEARING \<Rightarrow> take 2 (acc_key a) = ''pr''
   | MILESTONE_ESCROW \<Rightarrow> take 2 (acc_key a) = ''mi''
   | FREELANCER_WALLET \<Rightarrow> take 2 (acc_key a) = ''us''
   | PLATFORM_COMMISSION \<Rightarrow> take 2 (acc_key a) = ''pl'')"

definition escrow_row_ok :: "db \<Rightarrow> escrow \<Rightarrow> bool" where
  "escrow_row_ok d e \<longleftrightarrow> 0 \<le> es_commission_bps e \<and> es_commission_bps e \<le> 10000 \<and>
     es_milestone e \<in> ms_id ` set (milestones d) \<and>
     (\<exists>a\<in>set (accounts d). acc_id a = es_account e \<and> acc_type a = MILESTONE_ESCROW \<and>
        acc_milestone a = Some (es_milestone e))"

definition accounts_inv :: "db \<Rightarrow> bool" where
  "accounts_inv d \<longleftrightarrow> (\<forall>a\<in>set (accounts d). account_ok a) \<and>
     (\<forall>a\<in>set (accounts d). acc_type a = MILESTONE_ESCROW \<longrightarrow>
        (\<exists>e\<in>set (escrows d). es_account e = acc_id a)) \<and>
     (\<forall>e\<in>set (escrows d). escrow_row_ok d e) \<and> distinct (map es_milestone (escrows d))"

definition solvent :: "db \<Rightarrow> bool" where
  "solvent d \<longleftrightarrow> (\<forall>a\<in>set (accounts d). acc_type a \<noteq> PROVIDER_CLEARING \<longrightarrow>
     0 \<le> account_balance_minor (acc_id a) d)"

definition fresh_ids :: "('r \<Rightarrow> uuid) \<Rightarrow> 'r list \<Rightarrow> uuid \<Rightarrow> bool" where
  "fresh_ids key rows n \<longleftrightarrow> distinct (map key rows) \<and> (\<forall>r\<in>set rows. key r < n)"

definition ids_ok :: "db \<Rightarrow> bool" where
  "ids_ok d \<longleftrightarrow> fresh_ids ms_id (milestones d) (next_uuid d) \<and>
     fresh_ids pi_id (intents d) (next_uuid d) \<and> fresh_ids rf_id (refunds d) (next_uuid d) \<and>
     fresh_ids po_id (payouts d) (next_uuid d) \<and> fresh_ids dp_id (disputes d) (next_uuid d)"

definition intent_ok :: "db \<Rightarrow> payment_intent \<Rightarrow> bool" where
  "intent_ok d i \<longleftrightarrow> 0 < pi_amount i \<and>
     (\<exists>m\<in>set (milestones d). ms_id m = pi_milestone i \<and> ms_amount m = pi_amount i)"

definition refund_ok :: "db \<Rightarrow> refund \<Rightarrow> bool" where
  "refund_ok d r \<longleftrightarrow> 0 < rf_amount r \<and>
     (\<exists>m\<in>set (milestones d). ms_id m = rf_milestone r \<and>
        (rf_status r = RF_PENDING \<longrightarrow> rf_amount r = ms_amount m))"

definition milestone_ok :: "db \<Rightarrow> milestone \<Rightarrow> bool" where
  "milestone_ok d m \<longleftrightarrow> 0 \<le> ms_amount m \<and> ms_status m \<noteq> MS_RELEASE_PENDING \<and>
     escrow_bal (ms_id m) d + reserved (ms_id m) d =
       (if ms_status m \<in> {MS_CREATED, MS_RELEASED} then 0 else ms_amount m) \<and>
     (ms_status m \<in> work_states \<longrightarrow> reserved (ms_id m) d = 0)"

definition journal_ok :: "db \<Rightarrow> journal \<Rightarrow> bool" where
  "journal_ok d j \<longleftrightarrow> jn_reference_id j < next_uuid d \<and>
     (jn_operation j = MILESTONE_FUND \<longrightarrow>
        (\<exists>i\<in>set (intents d). pi_id i = jn_reference_id j \<and> pi_status i = PI_CAPTURED)) \<and>
     (jn_operation j = MILESTONE_RELEASE \<longrightarrow>
        (\<exists>m\<in>set (milestones d). ms_id m = jn_reference_id j \<and> ms_status m = MS_RELEASED)) \<and>
     (jn_operation j = REVERSAL \<and> jn_reference_type j = ''refund'' \<longrightarrow>
        (\<exists>r\<in>set (refunds d). rf_id r = jn_reference_id j \<and> rf_status r = RF_FAILED)) \<and>
     (jn_operation j = REVERSAL \<and> jn_reference_type j = ''payout'' \<longrightarrow>
        (\<exists>p\<in>set (payouts d). po_id p = jn_reference_id j \<and> po_status p = PO_FAILED)) \<and>
     (jn_operation j = DISPUTE_RESOLUTION \<longrightarrow>
        (\<exists>x\<in>set (disputes d). dp_id x = jn_reference_id j \<and> dp_status x = DS_RESOLVED))"

definition sys_inv :: "db \<Rightarrow> bool" where
  "sys_inv d \<longleftrightarrow> wf_ledger d \<and> accounts_inv d \<and> solvent d \<and> ids_ok d \<and>
     (\<forall>i\<in>set (intents d). intent_ok d i) \<and> (\<forall>r\<in>set (refunds d). refund_ok d r) \<and>
     (\<forall>m\<in>set (milestones d). milestone_ok d m) \<and> (\<forall>j\<in>set (journals d). journal_ok d j)"

text \<open>Tables the invariant does not read may change freely.\<close>

definition same_core :: "db \<Rightarrow> db \<Rightarrow> bool" where
  "same_core d d' \<longleftrightarrow> next_uuid d = next_uuid d' \<and> accounts d = accounts d' \<and> journals d = journals d' \<and>
     milestones d = milestones d' \<and> escrows d = escrows d' \<and> intents d = intents d' \<and>
     refunds d = refunds d' \<and> payouts d = payouts d' \<and> disputes d = disputes d'"

lemma balance_cong: "journals d = journals d' \<Longrightarrow> account_balance_minor a d = account_balance_minor a d'"
  by (simp add: account_balance_minor_def entries_def)

lemma escrow_bal_cong:
  "journals d = journals d' \<Longrightarrow> escrows d = escrows d' \<Longrightarrow> escrow_bal mid d = escrow_bal mid d'"
  unfolding escrow_bal_def find_escrow_def by (auto split: option.split intro: balance_cong)

lemma reserved_cong: "refunds d = refunds d' \<Longrightarrow> reserved mid d = reserved mid d'"
  by (simp add: reserved_def)

lemma sys_inv_cong:
  assumes "sys_inv d" and "same_core d d'"
  shows "sys_inv d'"
  using assms balance_cong[of d d'] escrow_bal_cong[of d d'] reserved_cong[of d d']
  unfolding sys_inv_def same_core_def wf_ledger_def accounts_inv_def solvent_def ids_ok_def
    escrow_row_ok_def intent_ok_def refund_ok_def milestone_ok_def journal_ok_def
  by simp

section \<open>Consequences\<close>

lemma account_eqI:
  "wf_ledger d \<Longrightarrow> a \<in> set (accounts d) \<Longrightarrow> b \<in> set (accounts d) \<Longrightarrow> acc_id a = acc_id b \<Longrightarrow> a = b"
  by (auto simp: wf_ledger_def distinct_map inj_on_def)

lemma find_escrow_SomeD: "find_escrow mid d = Some e \<Longrightarrow> e \<in> set (escrows d) \<and> es_milestone e = mid"
  by (auto simp: find_escrow_def dest: row_by_SomeD)

lemma find_escrow_Some_iff:
  "accounts_inv d \<Longrightarrow> find_escrow mid d = Some e \<longleftrightarrow> e \<in> set (escrows d) \<and> es_milestone e = mid"
  by (simp add: find_escrow_def accounts_inv_def row_by_Some_iff)

lemma account_by_id_Some_iff:
  "wf_ledger d \<Longrightarrow> account_by_id i d = Some a \<longleftrightarrow> a \<in> set (accounts d) \<and> acc_id a = i"
  by (simp add: account_by_id_def wf_ledger_def row_by_Some_iff)

text \<open>An account is the escrow account of a milestone exactly when its identity says so.\<close>

lemma escrow_account_iff:
  assumes "wf_ledger d" and "accounts_inv d" and "a \<in> set (accounts d)"
  shows "(\<exists>e. find_escrow mid d = Some e \<and> es_account e = acc_id a) \<longleftrightarrow>
    acc_type a = MILESTONE_ESCROW \<and> acc_milestone a = Some mid"
proof
  assume "\<exists>e. find_escrow mid d = Some e \<and> es_account e = acc_id a"
  then obtain e where e: "e \<in> set (escrows d)" "es_milestone e = mid" "es_account e = acc_id a"
    by (auto dest: find_escrow_SomeD)
  with assms(2) obtain b where "b \<in> set (accounts d)" "acc_id b = acc_id a"
    "acc_type b = MILESTONE_ESCROW" "acc_milestone b = Some mid"
    by (auto simp: accounts_inv_def escrow_row_ok_def)
  with account_eqI[OF assms(1) _ assms(3)] show "acc_type a = MILESTONE_ESCROW \<and> acc_milestone a = Some mid"
    by blast
next
  assume a: "acc_type a = MILESTONE_ESCROW \<and> acc_milestone a = Some mid"
  with assms(2,3) obtain e where e: "e \<in> set (escrows d)" "es_account e = acc_id a"
    by (auto simp: accounts_inv_def)
  with assms(2) obtain b where "b \<in> set (accounts d)" "acc_id b = acc_id a"
    "acc_milestone b = Some (es_milestone e)"
    by (auto simp: accounts_inv_def escrow_row_ok_def)
  with account_eqI[OF assms(1) _ assms(3)] a have "es_milestone e = mid" by fastforce
  with e show "\<exists>e. find_escrow mid d = Some e \<and> es_account e = acc_id a"
    by (auto simp: find_escrow_Some_iff[OF assms(2)])
qed

definition escrow_flow :: "posting list \<Rightarrow> uuid \<Rightarrow> int" where
  "escrow_flow ps mid = sum_list (map (\<lambda>p.
     if acc_type (po_account p) = MILESTONE_ESCROW \<and> acc_milestone (po_account p) = Some mid
     then (if po_direction p = ''CREDIT'' then po_amount_minor p else - po_amount_minor p) else 0) ps)"

lemma escrow_flow_simps [simp]:
  "escrow_flow [] mid = 0"
  "escrow_flow (p # ps) mid = (if acc_type (po_account p) = MILESTONE_ESCROW \<and>
       acc_milestone (po_account p) = Some mid
     then (if po_direction p = ''CREDIT'' then po_amount_minor p else - po_amount_minor p) else 0) +
     escrow_flow ps mid"
  "escrow_flow (ps @ qs) mid = escrow_flow ps mid + escrow_flow qs mid"
  by (simp_all add: escrow_flow_def)

lemma escrow_flow_none:
  "(\<forall>p\<in>set ps. acc_type (po_account p) \<noteq> MILESTONE_ESCROW) \<Longrightarrow> escrow_flow ps mid = 0"
  by (induction ps) auto

text \<open>The effect of a journal on the escrow of every milestone.\<close>

lemma escrow_bal_journal:
  assumes "wf_ledger d" and "accounts_inv d" and "\<forall>p\<in>set ps. po_account p \<in> set (accounts d)"
    and "journals d' = journals d @ [mk_journal i oper rt ref ps meta reverses]" and "escrows d' = escrows d"
  shows "escrow_bal mid d' = escrow_bal mid d + escrow_flow ps mid"
proof (cases "find_escrow mid d")
  case None
  have "\<not> (acc_type (po_account p) = MILESTONE_ESCROW \<and> acc_milestone (po_account p) = Some mid)"
    if "p \<in> set ps" for p
    using escrow_account_iff[OF assms(1,2), of "po_account p" mid] assms(3) that None by auto
  then have "escrow_flow ps mid = 0" by (induction ps) auto
  with None assms(5) show ?thesis by (simp add: escrow_bal_def find_escrow_def)
next
  case (Some e)
  have same: "acc_id (po_account p) = es_account e \<longleftrightarrow>
      acc_type (po_account p) = MILESTONE_ESCROW \<and> acc_milestone (po_account p) = Some mid"
    if "p \<in> set ps" for p
    using escrow_account_iff[OF assms(1,2), of "po_account p" mid] assms(3) that Some by auto
  have "posting_net ps (es_account e) = escrow_flow ps mid"
    using same by (induction ps) auto
  moreover have "account_balance_minor (es_account e) d' = account_balance_minor (es_account e)
      (add_journal (mk_journal i oper rt ref ps meta reverses) d)"
    by (rule balance_cong) (simp add: assms(4) add_journal_def)
  ultimately show ?thesis
    using Some assms(5) by (simp add: escrow_bal_def find_escrow_def balance_add_journal)
qed

lemma reserved_append:
  "refunds d' = refunds d @ [r] \<Longrightarrow> reserved mid d' = reserved mid d + reserved_of mid r"
  by (simp add: reserved_def)

lemma reserved_put:
  assumes "distinct (map rf_id (refunds d))" and "r \<in> set (refunds d)" and "rf_id r = rf_id r'"
    and "refunds d' = put_row rf_id r' (refunds d)"
  shows "reserved mid d' = reserved mid d - reserved_of mid r + reserved_of mid r'"
  using sum_list_put_row[OF assms(1-3), of "reserved_of mid"] assms(4) by (simp add: reserved_def)

lemma reserved_of_nonneg: "refund_ok d r \<Longrightarrow> 0 \<le> reserved_of mid r"
  by (auto simp: reserved_of_def refund_ok_def)

lemma reserved_nonneg: "sys_inv d \<Longrightarrow> 0 \<le> reserved mid d"
  unfolding reserved_def by (rule sum_list_nonneg) (auto simp: sys_inv_def dest: reserved_of_nonneg)

lemma escrow_bal_nonneg:
  assumes "sys_inv d"
  shows "0 \<le> escrow_bal mid d"
proof (cases "find_escrow mid d")
  case None
  then show ?thesis by (simp add: escrow_bal_def)
next
  case (Some e)
  then have "escrow_row_ok d e"
    using assms by (auto simp: sys_inv_def accounts_inv_def dest: find_escrow_SomeD)
  then obtain a where "a \<in> set (accounts d)" "acc_id a = es_account e" "acc_type a = MILESTONE_ESCROW"
    by (auto simp: escrow_row_ok_def)
  moreover have "solvent d" using assms by (simp add: sys_inv_def)
  ultimately have "0 \<le> account_balance_minor (es_account e) d" unfolding solvent_def by force
  with Some show ?thesis by (simp add: escrow_bal_def)
qed

lemma reserved_ge:
  assumes "sys_inv d" and "r \<in> set (refunds d)"
  shows "reserved_of mid r \<le> reserved mid d"
proof -
  have "\<And>r. r \<in> set (refunds d) \<Longrightarrow> 0 \<le> reserved_of mid r"
    using assms(1) by (auto simp: sys_inv_def dest: reserved_of_nonneg)
  then show ?thesis
    unfolding reserved_def using assms(2) by (intro member_le_sum_list) auto
qed

section \<open>Solvency under a journal\<close>

definition credits_only :: "posting list \<Rightarrow> bool" where
  "credits_only ps \<longleftrightarrow> (\<forall>p\<in>set ps. po_direction p = ''CREDIT'' \<and> 0 < po_amount_minor p)"

lemma credits_only_net: "credits_only ps \<Longrightarrow> 0 \<le> posting_net ps a"
  by (induction ps) (auto simp: credits_only_def)

text \<open>Every journal of the platform has one debit, written first.\<close>

lemma solvent_journal:
  assumes "solvent d" and "wf_ledger d"
    and "ps = mk_posting x ''DEBIT'' n # cs" and "credits_only cs" and "x \<in> set (accounts d)"
    and "acc_type x = PROVIDER_CLEARING \<or> n \<le> account_balance_minor (acc_id x) d"
    and "journals d' = journals d @ [mk_journal i oper rt ref ps meta reverses]" and "accounts d' = accounts d"
  shows "solvent d'"
  unfolding solvent_def
proof (intro ballI impI)
  fix a assume a: "a \<in> set (accounts d')" "acc_type a \<noteq> PROVIDER_CLEARING"
  have "account_balance_minor (acc_id a) d' = account_balance_minor (acc_id a) (add_journal (mk_journal i oper rt ref ps meta reverses) d)"
    by (rule balance_cong) (simp add: assms(7) add_journal_def)
  then have b: "account_balance_minor (acc_id a) d' = account_balance_minor (acc_id a) d + posting_net ps (acc_id a)"
    by (simp add: balance_add_journal)
  have nn: "0 \<le> account_balance_minor (acc_id a) d"
    using a assms(1,8) by (simp add: solvent_def)
  have c: "0 \<le> posting_net cs (acc_id a)" by (rule credits_only_net[OF assms(4)])
  show "0 \<le> account_balance_minor (acc_id a) d'"
  proof (cases "acc_id x = acc_id a")
    case True
    with a assms(8) account_eqI[OF assms(2,5), of a] have "x = a" by simp
    with a assms(6) have "n \<le> account_balance_minor (acc_id a) d" by simp
    with b c True show ?thesis by (simp add: assms(3))
  next
    case False
    with b c nn show ?thesis by (simp add: assms(3))
  qed
qed

section \<open>How a transition may change the tables\<close>

text \<open>Rows with property \<open>P\<close> keep their identity and the property.\<close>

definition stays :: "('r \<Rightarrow> uuid) \<Rightarrow> ('r \<Rightarrow> bool) \<Rightarrow> 'r list \<Rightarrow> 'r list \<Rightarrow> bool" where
  "stays key P rows rows' \<longleftrightarrow> (\<forall>r\<in>set rows. P r \<longrightarrow> (\<exists>r'\<in>set rows'. key r' = key r \<and> P r'))"

lemma stays_refl [simp]: "stays key P rows rows"
  by (auto simp: stays_def)

lemma stays_append [simp]: "stays key P rows (rows @ rs)"
  by (auto simp: stays_def)

lemma stays_put:
  assumes "\<And>x. x \<in> set rows \<Longrightarrow> key x = key r \<Longrightarrow> P x \<Longrightarrow> P r"
  shows "stays key P rows (put_row key r rows)"
  unfolding stays_def put_row_def
proof (intro ballI impI)
  fix x assume "x \<in> set rows" "P x"
  then show "\<exists>r'\<in>set (map (\<lambda>x. if key x = key r then r else x) rows). key r' = key x \<and> P r'"
    using assms[of x] by (intro bexI[of _ "if key x = key r then r else x"]) auto
qed

lemma fresh_ids_alt: "fresh_ids key rows n \<longleftrightarrow> distinct (map key rows) \<and> (\<forall>k\<in>set (map key rows). k < n)"
  by (simp add: fresh_ids_def)

lemma fresh_ids_put [simp]: "fresh_ids key (put_row key r rows) n = fresh_ids key rows n"
  by (simp only: fresh_ids_alt map_key_put_row)

lemma fresh_ids_mono: "fresh_ids key rows n \<Longrightarrow> n \<le> n' \<Longrightarrow> fresh_ids key rows n'"
  by (auto simp: fresh_ids_def)

lemma fresh_ids_append:
  "fresh_ids key rows n \<Longrightarrow> n \<le> key r \<Longrightarrow> key r < n' \<Longrightarrow> fresh_ids key (rows @ [r]) n'"
  by (fastforce simp: fresh_ids_def)

definition evolves :: "db \<Rightarrow> db \<Rightarrow> bool" where
  "evolves d d' \<longleftrightarrow> next_uuid d \<le> next_uuid d' \<and>
     (\<forall>a. stays ms_id (\<lambda>m. ms_amount m = a) (milestones d) (milestones d')) \<and>
     stays pi_id (\<lambda>i. pi_status i = PI_CAPTURED) (intents d) (intents d') \<and>
     stays ms_id (\<lambda>m. ms_status m = MS_RELEASED) (milestones d) (milestones d') \<and>
     stays rf_id (\<lambda>r. rf_status r = RF_FAILED) (refunds d) (refunds d') \<and>
     stays po_id (\<lambda>p. po_status p = PO_FAILED) (payouts d) (payouts d') \<and>
     stays dp_id (\<lambda>x. dp_status x = DS_RESOLVED) (disputes d) (disputes d')"

lemma journal_ok_evolves:
  assumes "journal_ok d j" and "evolves d d'"
  shows "journal_ok d' j"
  using assms unfolding journal_ok_def evolves_def stays_def by (metis order_less_le_trans)

lemma intent_ok_evolves: "intent_ok d i \<Longrightarrow> evolves d d' \<Longrightarrow> intent_ok d' i"
  unfolding intent_ok_def evolves_def stays_def by metis

lemma refund_ok_evolves: "refund_ok d r \<Longrightarrow> evolves d d' \<Longrightarrow> refund_ok d' r"
  unfolding refund_ok_def evolves_def stays_def by metis

lemma accounts_inv_evolves:
  assumes "accounts_inv d" and "evolves d d'" and "accounts d' = accounts d" and "escrows d' = escrows d"
  shows "accounts_inv d'"
proof -
  have "ms_id ` set (milestones d) \<subseteq> ms_id ` set (milestones d')"
    using assms(2) unfolding evolves_def stays_def by (auto simp: image_iff) metis
  with assms(1,3,4) show ?thesis by (auto simp: accounts_inv_def escrow_row_ok_def)
qed

text \<open>The rows a transition adds or rewrites are good, given that the old ones were.\<close>

definition rows_ok :: "db \<Rightarrow> db \<Rightarrow> bool" where
  "rows_ok d d' \<longleftrightarrow> (\<forall>i\<in>set (intents d'). i \<in> set (intents d) \<or> intent_ok d' i) \<and>
     (\<forall>r\<in>set (refunds d'). r \<in> set (refunds d) \<or> refund_ok d' r) \<and>
     (\<forall>m\<in>set (milestones d'). milestone_ok d' m)"

lemma rows_ok_all:
  assumes "sys_inv d" and "evolves d d'" and "rows_ok d d'"
  shows "(\<forall>i\<in>set (intents d'). intent_ok d' i) \<and> (\<forall>r\<in>set (refunds d'). refund_ok d' r) \<and>
    (\<forall>m\<in>set (milestones d'). milestone_ok d' m)"
  using assms(1,3) intent_ok_evolves[OF _ assms(2)] refund_ok_evolves[OF _ assms(2)]
  unfolding sys_inv_def rows_ok_def by blast

text \<open>A transition that posts no journal.\<close>

lemma inv_plain:
  assumes "sys_inv d" and "accounts d' = accounts d" and "journals d' = journals d" and "escrows d' = escrows d"
    and "evolves d d'" and "ids_ok d'" and "rows_ok d d'"
  shows "sys_inv d'"
  unfolding sys_inv_def
proof (intro conjI ballI)
  show "wf_ledger d'"
    using assms(1-3,5) by (auto simp: sys_inv_def wf_ledger_def evolves_def)
  show "accounts_inv d'"
    using assms(1,2,4,5) accounts_inv_evolves by (auto simp: sys_inv_def)
  show "solvent d'"
    using assms(1-3) balance_cong[of d' d] by (simp add: sys_inv_def solvent_def)
  show "ids_ok d'" by fact
next
  fix j assume "j \<in> set (journals d')"
  then show "journal_ok d' j"
    using assms(1,3,5) journal_ok_evolves by (auto simp: sys_inv_def)
qed (use rows_ok_all[OF assms(1,5,7)] in blast)+

text \<open>A transition that posts one journal.\<close>

lemma inv_journal:
  assumes inv: "sys_inv d" and acc: "accounts d' = accounts d" and esc: "escrows d' = escrows d"
    and jn: "journals d' = journals d @ [mk_journal (next_uuid d) oper rt ref ps meta reverses]"
    and ps: "ps = mk_posting x ''DEBIT'' n # cs" "\<forall>p\<in>set cs. po_direction p = ''CREDIT''" "valid_postings ps"
    and mem: "\<forall>p\<in>set ps. po_account p \<in> set (accounts d)"
    and new: "find_journal rt ref oper d = None"
    and rich: "acc_type x = PROVIDER_CLEARING \<or> n \<le> account_balance_minor (acc_id x) d"
    and "evolves d d'" and "ids_ok d'" and "rows_ok d d'"
    and "journal_ok d' (mk_journal (next_uuid d) oper rt ref ps meta reverses)"
  shows "sys_inv d'"
  unfolding sys_inv_def
proof (intro conjI ballI)
  let ?j = "mk_journal (next_uuid d) oper rt ref ps meta reverses"
  have wf: "wf_ledger d" "solvent d" "accounts_inv d" using inv by (simp_all add: sys_inv_def)
  have "wf_ledger (add_journal ?j d)" by (rule wf_ledger_add_journal[OF wf(1) ps(3) mem new])
  then show "wf_ledger d'"
    using acc jn wf(1) \<open>evolves d d'\<close> by (auto simp: wf_ledger_def add_journal_def evolves_def)
  show "accounts_inv d'" by (rule accounts_inv_evolves[OF wf(3) \<open>evolves d d'\<close> acc esc])
  have "credits_only cs"
    using ps by (auto simp: credits_only_def valid_postings_def posting_ok_def)
  then show "solvent d'"
    using mem ps(1) by (intro solvent_journal[OF wf(2,1) ps(1) _ _ rich jn acc]) auto
  show "ids_ok d'" by fact
next
  fix j assume "j \<in> set (journals d')"
  then show "journal_ok d' j"
    using inv jn assms(14) journal_ok_evolves[OF _ \<open>evolves d d'\<close>] by (auto simp: sys_inv_def)
qed (use rows_ok_all[OF inv \<open>evolves d d'\<close> \<open>rows_ok d d'\<close>] in blast)+

end
