(* ===== verification/Transitions.thy ===== *)
theory Transitions
  imports Invariants
begin

text \<open>
  The business transitions of the money tables, one lemma \<open>inv_*\<close> each: what has to hold
  before a funding, release, refund, payout or resolution is written so that \<open>sys_inv\<close> holds
  after it. The states are the record updates the services make, with the side tables left
  out; \<open>sys_inv_cong\<close> puts them back.
\<close>

section \<open>Rewriting one row\<close>

lemma fresh_ids_Suc [simp]: "fresh_ids key rows n \<Longrightarrow> fresh_ids key rows (Suc n)"
  by (erule fresh_ids_mono) simp

lemma fresh_ids_eqI: "fresh_ids key rows n \<Longrightarrow> x \<in> set rows \<Longrightarrow> y \<in> set rows \<Longrightarrow> key x = key y \<Longrightarrow> x = y"
  by (auto simp: fresh_ids_def distinct_map inj_on_def)

lemma stays_put_old:
  assumes "fresh_ids key rows n" and "old \<in> set rows" and "key r = key old" and "P old \<Longrightarrow> P r"
  shows "stays key P rows (put_row key r rows)"
  using assms fresh_ids_eqI[OF assms(1) _ assms(2)] by (intro stays_put) auto

lemma inv_ids:
  assumes "sys_inv d"
  shows "fresh_ids ms_id (milestones d) (next_uuid d)" "fresh_ids pi_id (intents d) (next_uuid d)"
    "fresh_ids rf_id (refunds d) (next_uuid d)" "fresh_ids po_id (payouts d) (next_uuid d)"
    "fresh_ids dp_id (disputes d) (next_uuid d)"
  using assms by (simp_all add: sys_inv_def ids_ok_def)

lemma inv_parts:
  assumes "sys_inv d"
  shows "wf_ledger d" "accounts_inv d" "solvent d" "ids_ok d"
  using assms by (simp_all add: sys_inv_def)

lemma inv_milestone: "sys_inv d \<Longrightarrow> m \<in> set (milestones d) \<Longrightarrow> milestone_ok d m"
  by (simp add: sys_inv_def)

lemma inv_intent: "sys_inv d \<Longrightarrow> i \<in> set (intents d) \<Longrightarrow> intent_ok d i"
  by (simp add: sys_inv_def)

lemma inv_refund: "sys_inv d \<Longrightarrow> r \<in> set (refunds d) \<Longrightarrow> refund_ok d r"
  by (simp add: sys_inv_def)

lemma inv_escrow: "sys_inv d \<Longrightarrow> find_escrow mid d = Some e \<Longrightarrow> escrow_row_ok d e"
  by (auto simp: sys_inv_def accounts_inv_def dest: find_escrow_SomeD)

lemma stays_status:
  assumes "sys_inv d" and "m \<in> set (milestones d)" and "ms_status m \<noteq> MS_RELEASED"
  shows "stays ms_id (\<lambda>m. ms_amount m = a) (milestones d) (put_row ms_id (m\<lparr>ms_status := st\<rparr>) (milestones d))"
    and "stays ms_id (\<lambda>m. ms_status m = MS_RELEASED) (milestones d)
      (put_row ms_id (m\<lparr>ms_status := st\<rparr>) (milestones d))"
  using assms(3) by (auto intro: stays_put_old[OF inv_ids(1)[OF assms(1)] assms(2)])

text \<open>The milestones after one of them was rewritten.\<close>

lemma milestones_frame:
  assumes "sys_inv d" and "milestones d' = put_row ms_id m' (milestones d)"
    and "\<And>mid. mid \<noteq> ms_id m' \<Longrightarrow> escrow_bal mid d' = escrow_bal mid d \<and> reserved mid d' = reserved mid d"
    and "milestone_ok d' m'"
  shows "\<forall>m\<in>set (milestones d'). milestone_ok d' m"
proof
  fix m assume "m \<in> set (milestones d')"
  then consider "m = m'" | "m \<in> set (milestones d)" "ms_id m \<noteq> ms_id m'"
    using assms(2) by (auto dest: put_row_memD)
  then show "milestone_ok d' m"
    using assms(3,4) inv_milestone[OF assms(1), of m] by cases (auto simp: milestone_ok_def)
qed

text \<open>The milestones after money moved between the escrow and the reservation of one.\<close>

lemma milestones_shift:
  assumes "sys_inv d" and "milestones d' = milestones d"
    and "\<And>mid. escrow_bal mid d' + reserved mid d' = escrow_bal mid d + reserved mid d"
    and "\<And>m. m \<in> set (milestones d) \<Longrightarrow> ms_status m \<in> work_states \<Longrightarrow> reserved (ms_id m) d' = 0"
  shows "\<forall>m\<in>set (milestones d'). milestone_ok d' m"
  using assms inv_milestone[OF assms(1)] by (auto simp: milestone_ok_def)

section \<open>Journals not yet written\<close>

lemma find_journal_SomeD:
  "find_journal rt ref oper d = Some j \<Longrightarrow> j \<in> set (journals d) \<and> jn_reference_type j = rt \<and>
    jn_reference_id j = ref \<and> jn_operation j = oper"
  by (auto simp: find_journal_def dest: find_SomeD)

lemma no_fresh_journal: "sys_inv d \<Longrightarrow> next_uuid d \<le> ref \<Longrightarrow> find_journal rt ref oper d = None"
  by (cases "find_journal rt ref oper d") (auto simp: sys_inv_def journal_ok_def dest!: find_journal_SomeD)

lemma no_fund_journal:
  assumes "sys_inv d" and "i \<in> set (intents d)" and "pi_status i \<noteq> PI_CAPTURED"
  shows "find_journal rt (pi_id i) MILESTONE_FUND d = None"
  using assms fresh_ids_eqI[OF inv_ids(2)[OF assms(1)] _ assms(2)]
  by (cases "find_journal rt (pi_id i) MILESTONE_FUND d")
     (fastforce simp: sys_inv_def journal_ok_def dest!: find_journal_SomeD)+

lemma no_release_journal:
  assumes "sys_inv d" and "m \<in> set (milestones d)" and "ms_status m \<noteq> MS_RELEASED"
  shows "find_journal rt (ms_id m) MILESTONE_RELEASE d = None"
  using assms fresh_ids_eqI[OF inv_ids(1)[OF assms(1)] _ assms(2)]
  by (cases "find_journal rt (ms_id m) MILESTONE_RELEASE d")
     (fastforce simp: sys_inv_def journal_ok_def dest!: find_journal_SomeD)+

lemma no_refund_reversal:
  assumes "sys_inv d" and "r \<in> set (refunds d)" and "rf_status r \<noteq> RF_FAILED"
  shows "find_journal ''refund'' (rf_id r) REVERSAL d = None"
  using assms fresh_ids_eqI[OF inv_ids(3)[OF assms(1)] _ assms(2)]
  by (cases "find_journal ''refund'' (rf_id r) REVERSAL d")
     (fastforce simp: sys_inv_def journal_ok_def dest!: find_journal_SomeD)+

lemma no_payout_reversal:
  assumes "sys_inv d" and "p \<in> set (payouts d)" and "po_status p \<noteq> PO_FAILED"
  shows "find_journal ''payout'' (po_id p) REVERSAL d = None"
  using assms fresh_ids_eqI[OF inv_ids(4)[OF assms(1)] _ assms(2)]
  by (cases "find_journal ''payout'' (po_id p) REVERSAL d")
     (fastforce simp: sys_inv_def journal_ok_def dest!: find_journal_SomeD)+

lemma no_resolution_journal:
  assumes "sys_inv d" and "x \<in> set (disputes d)" and "dp_status x \<noteq> DS_RESOLVED"
  shows "find_journal rt (dp_id x) DISPUTE_RESOLUTION d = None"
  using assms fresh_ids_eqI[OF inv_ids(5)[OF assms(1)] _ assms(2)]
  by (cases "find_journal rt (dp_id x) DISPUTE_RESOLUTION d")
     (fastforce simp: sys_inv_def journal_ok_def dest!: find_journal_SomeD)+

section \<open>Accounts and escrow rows\<close>

lemma entry_account:
  assumes "wf_ledger d" and "e \<in> set (entries d)"
  shows "le_account e \<in> acc_id ` set (accounts d)"
proof -
  from assms(2) obtain j where "j \<in> set (journals d)" "e \<in> set (jn_entries j)"
    by (auto simp: entries_def)
  with assms(1) obtain cur where "entry_ok (accounts d) cur e"
    unfolding wf_ledger_def wf_journal_def by blast
  then obtain b where "b \<in> set (accounts d)" "acc_id b = le_account e"
    unfolding entry_ok_def by blast
  then show ?thesis by (metis imageI)
qed

lemma balance_unknown_account:
  assumes "wf_ledger d" and "i \<notin> acc_id ` set (accounts d)"
  shows "account_balance_minor i d = 0"
proof -
  have "filter (\<lambda>e. le_account e = i) (entries d) = []"
    using entry_account[OF assms(1)] assms(2) by (auto simp: filter_empty_conv)
  then show ?thesis by (simp add: account_balance_minor_def)
qed

text \<open>A new account that is not an escrow account.\<close>

lemma inv_add_account:
  assumes "sys_inv d" and "a = new_account k ty cur owner ms d" and "k \<notin> set (map acc_key (accounts d))"
    and "account_ok a" and "ty \<noteq> MILESTONE_ESCROW"
  shows "sys_inv (add_account a d)"
proof -
  let ?d = "add_account a d"
  have wf: "wf_ledger ?d" using inv_parts(1)[OF assms(1)] assms(2,3) wf_ledger_add_account by simp
  have "acc_id a \<notin> acc_id ` set (accounts d)"
    using inv_parts(1)[OF assms(1)] by (auto simp: assms(2) new_account_def wf_ledger_def)
  then have zero: "account_balance_minor (acc_id a) d = 0"
    by (rule balance_unknown_account[OF inv_parts(1)[OF assms(1)]])
  have ty: "acc_type a = ty" by (simp add: assms(2) new_account_def)
  have eq: "milestones ?d = milestones d" "escrows ?d = escrows d" "intents ?d = intents d"
    "refunds ?d = refunds d" "payouts ?d = payouts d" "disputes ?d = disputes d"
    "journals ?d = journals d" "next_uuid ?d = Suc (next_uuid d)" "accounts ?d = accounts d @ [a]"
    by (simp_all add: add_account_def)
  have ev: "evolves d ?d" by (simp add: evolves_def eq)
  have "rows_ok d ?d"
    using inv_milestone[OF assms(1)]
    by (auto simp: rows_ok_def eq milestone_ok_def escrow_bal_cong[OF eq(7,2)] reserved_cong[OF eq(4)])
  moreover have "accounts_inv ?d"
    using inv_parts(2)[OF assms(1)] assms(4,5) ty by (auto simp: accounts_inv_def escrow_row_ok_def eq)
  moreover have "solvent ?d" using inv_parts(3)[OF assms(1)] zero by (auto simp: solvent_def eq)
  moreover have "ids_ok ?d" using inv_parts(4)[OF assms(1)] by (simp add: ids_ok_def eq)
  moreover have "\<forall>j\<in>set (journals ?d). journal_ok ?d j"
    using assms(1) journal_ok_evolves[OF _ ev] by (simp add: sys_inv_def eq)
  ultimately show ?thesis
    using wf rows_ok_all[OF assms(1) ev] unfolding sys_inv_def by blast
qed

text \<open>The escrow account and the escrow row of a milestone, created together.\<close>

lemma inv_add_escrow:
  assumes inv: "sys_inv d" and a: "a = new_account k MILESTONE_ESCROW cur None (Some mid) d"
    and k: "k \<notin> set (map acc_key (accounts d))" and ok: "account_ok a" and none: "find_escrow mid d = None"
    and e: "es_milestone e = mid" "es_account e = acc_id a" "0 \<le> es_commission_bps e" "es_commission_bps e \<le> 10000"
    and mid: "mid \<in> ms_id ` set (milestones d)"
    and n: "next_uuid (add_account a d) \<le> n"
  shows "sys_inv (add_escrow e (add_account a d\<lparr>next_uuid := n\<rparr>))"
proof -
  let ?d = "add_escrow e (add_account a d\<lparr>next_uuid := n\<rparr>)"
  have eq: "milestones ?d = milestones d" "intents ?d = intents d" "escrows ?d = escrows d @ [e]"
    "refunds ?d = refunds d" "payouts ?d = payouts d" "disputes ?d = disputes d"
    "journals ?d = journals d" "next_uuid ?d = n" "accounts ?d = accounts d @ [a]"
    by (simp_all add: add_account_def add_escrow_def)
  have n': "next_uuid d < n" using n by (simp add: add_account_def)
  have "wf_ledger (add_account a d)" using inv_parts(1)[OF inv] a k wf_ledger_add_account by simp
  then have wf: "wf_ledger ?d" using n by (auto simp: wf_ledger_def add_account_def add_escrow_def)
  have "acc_id a \<notin> acc_id ` set (accounts d)"
    using inv_parts(1)[OF inv] by (auto simp: a new_account_def wf_ledger_def)
  then have zero: "account_balance_minor (acc_id a) d = 0"
    by (rule balance_unknown_account[OF inv_parts(1)[OF inv]])
  have bal: "account_balance_minor x ?d = account_balance_minor x d" for x
    by (rule balance_cong) (simp add: eq)
  have "mid \<notin> es_milestone ` set (escrows d)"
    using none by (auto simp: find_escrow_def dest: row_by_NoneD)
  then have acc: "accounts_inv ?d"
    using inv_parts(2)[OF inv] ok e mid unfolding accounts_inv_def escrow_row_ok_def eq
    by (auto simp: a new_account_def)
  have "find_escrow x ?d = (case find_escrow x d of None \<Rightarrow> if mid = x then Some e else None | Some y \<Rightarrow> Some y)" for x
    using e(1) by (simp add: find_escrow_def eq row_by_append split: option.split)
  then have esc: "escrow_bal x ?d = escrow_bal x d" for x
    using zero e(2) none by (auto simp: escrow_bal_def bal split: option.split)
  have ev: "evolves d ?d" using n' by (simp add: evolves_def eq)
  have "rows_ok d ?d"
    using inv_milestone[OF inv] by (auto simp: rows_ok_def eq milestone_ok_def esc reserved_cong[OF eq(4)])
  moreover have "solvent ?d" using inv_parts(3)[OF inv] zero by (auto simp: solvent_def eq bal)
  moreover have "ids_ok ?d"
    using inv_parts(4)[OF inv] n' by (auto simp: ids_ok_def eq elim!: fresh_ids_mono)
  moreover have "\<forall>j\<in>set (journals ?d). journal_ok ?d j"
    using inv journal_ok_evolves[OF _ ev] by (simp add: sys_inv_def eq)
  ultimately show ?thesis
    using wf acc rows_ok_all[OF inv ev] unfolding sys_inv_def by blast
qed

section \<open>Rows without a journal\<close>

lemma plain_milestones:
  assumes "sys_inv d" and "milestones d' = milestones d" and "journals d' = journals d"
    and "escrows d' = escrows d" and "\<And>mid. reserved mid d' = reserved mid d"
  shows "\<forall>m\<in>set (milestones d'). milestone_ok d' m"
  using assms(2) inv_milestone[OF assms(1)]
  by (auto simp: milestone_ok_def escrow_bal_cong[OF assms(3,4)] assms(5))

lemma inv_bump:
  assumes "sys_inv d" and "next_uuid d \<le> n"
  shows "sys_inv (d\<lparr>next_uuid := n\<rparr>)"
proof (rule inv_plain[OF assms(1)])
  let ?d = "d\<lparr>next_uuid := n\<rparr>"
  show "evolves d ?d" using assms(2) by (simp add: evolves_def)
  show "ids_ok ?d"
    using inv_ids[OF assms(1)] assms(2) by (auto simp: ids_ok_def elim: fresh_ids_mono)
  have "\<forall>m\<in>set (milestones ?d). milestone_ok ?d m"
    by (rule plain_milestones[OF assms(1)]) (simp_all add: reserved_def)
  then show "rows_ok d ?d" by (simp add: rows_ok_def)
qed simp_all

text \<open>An id handed out by \<open>uuid4\<close> is newer than every row and every reference.\<close>

definition unused :: "uuid \<Rightarrow> db \<Rightarrow> bool" where
  "unused n d \<longleftrightarrow> (\<forall>x\<in>set (milestones d). ms_id x < n) \<and> (\<forall>x\<in>set (intents d). pi_id x < n) \<and>
     (\<forall>x\<in>set (refunds d). rf_id x < n) \<and> (\<forall>x\<in>set (payouts d). po_id x < n) \<and>
     (\<forall>x\<in>set (disputes d). dp_id x < n) \<and> (\<forall>j\<in>set (journals d). jn_reference_id j < n)"

lemma inv_unused: "sys_inv d \<Longrightarrow> unused (next_uuid d) d"
  by (simp add: unused_def sys_inv_def ids_ok_def fresh_ids_def journal_ok_def)

lemma unused_journal: "unused n d \<Longrightarrow> find_journal rt n oper d = None"
  by (cases "find_journal rt n oper d") (auto simp: unused_def dest!: find_journal_SomeD)

lemma inv_add_intent:
  assumes "sys_inv d" and "unused (pi_id i) d" and "pi_id i < next_uuid d"
    and "m \<in> set (milestones d)" and "pi_milestone i = ms_id m" and "pi_amount i = ms_amount m" and "0 < pi_amount i"
  shows "sys_inv (add_intent i d)"
proof (rule inv_plain[OF assms(1)])
  let ?d = "add_intent i d"
  show "evolves d ?d" by (simp add: evolves_def add_intent_def)
  show "ids_ok ?d"
    using inv_ids[OF assms(1)] assms(2,3) by (auto simp: ids_ok_def add_intent_def unused_def fresh_ids_def)
  have "\<forall>m\<in>set (milestones ?d). milestone_ok ?d m"
    by (rule plain_milestones[OF assms(1)]) (simp_all add: add_intent_def reserved_def)
  then show "rows_ok d ?d"
    using assms(4-7) by (auto simp: rows_ok_def add_intent_def intent_ok_def)
qed (simp_all add: add_intent_def)

text \<open>Rewriting an intent that is not captured.\<close>

lemma inv_put_intent:
  assumes "sys_inv d" and "i \<in> set (intents d)" and "pi_status i \<noteq> PI_CAPTURED"
    and "pi_id i' = pi_id i" and "pi_milestone i' = pi_milestone i" and "pi_amount i' = pi_amount i"
  shows "sys_inv (put_intent i' d)"
proof (rule inv_plain[OF assms(1)])
  let ?d = "put_intent i' d"
  show ev: "evolves d ?d"
    using stays_put_old[OF inv_ids(2)[OF assms(1)] assms(2,4), of "\<lambda>i. pi_status i = PI_CAPTURED"] assms(3)
    by (simp add: evolves_def put_intent_def)
  show "ids_ok ?d" using inv_ids[OF assms(1)] by (simp add: ids_ok_def put_intent_def)
  have "intent_ok ?d i'"
    using intent_ok_evolves[OF inv_intent[OF assms(1,2)] ev] assms(5,6) by (simp add: intent_ok_def)
  moreover have "\<forall>m\<in>set (milestones ?d). milestone_ok ?d m"
    by (rule plain_milestones[OF assms(1)]) (simp_all add: put_intent_def reserved_def)
  ultimately show "rows_ok d ?d" by (auto simp: rows_ok_def put_intent_def dest: put_row_memD)
qed (simp_all add: put_intent_def)

text \<open>Rewriting a milestone's status; the escrow already is what the new status calls for.\<close>

lemma inv_put_milestone:
  assumes "sys_inv d" and "m \<in> set (milestones d)" and "m' = m\<lparr>ms_status := st\<rparr>"
    and "ms_status m \<noteq> MS_RELEASED" and "milestone_ok d m'"
  shows "sys_inv (put_milestone m' d)"
proof (rule inv_plain[OF assms(1)])
  let ?d = "put_milestone m' d"
  have id: "ms_id m' = ms_id m" "ms_amount m' = ms_amount m" by (simp_all add: assms(3))
  have same: "escrow_bal mid ?d = escrow_bal mid d" "reserved mid ?d = reserved mid d" for mid
    by (auto simp: put_milestone_def reserved_def intro: escrow_bal_cong)
  have "milestone_ok ?d m'" using assms(5) by (simp add: milestone_ok_def same)
  then have "\<forall>m\<in>set (milestones ?d). milestone_ok ?d m"
    by (intro milestones_frame[OF assms(1)]) (simp_all add: same, simp add: put_milestone_def)
  then show "rows_ok d ?d" unfolding rows_ok_def by (simp add: put_milestone_def)
  show "evolves d ?d"
    using stays_status[OF assms(1,2,4)] by (simp add: evolves_def put_milestone_def assms(3))
  show "ids_ok ?d" using inv_ids[OF assms(1)] by (simp add: ids_ok_def put_milestone_def)
qed (simp_all add: put_milestone_def)

lemma inv_add_milestone:
  assumes "sys_inv d" and "unused (ms_id m) d" "ms_id m < next_uuid d" and "ms_status m = MS_CREATED" and "0 \<le> ms_amount m"
  shows "sys_inv (add_milestone m d)"
proof (rule inv_plain[OF assms(1)])
  let ?d = "add_milestone m d"
  have same: "escrow_bal mid ?d = escrow_bal mid d" "reserved mid ?d = reserved mid d" for mid
    by (auto simp: add_milestone_def reserved_def intro: escrow_bal_cong)
  have new: "ms_id x \<noteq> ms_id m" if "x \<in> set (milestones d)" for x
    using that assms(2) by (auto simp: unused_def)
  have "find_escrow (ms_id m) d = None"
  proof (rule ccontr)
    assume "find_escrow (ms_id m) d \<noteq> None"
    then obtain e where "find_escrow (ms_id m) d = Some e" by blast
    then have "escrow_row_ok d e" "es_milestone e = ms_id m"
      using inv_escrow[OF assms(1)] find_escrow_SomeD by blast+
    then obtain x where "x \<in> set (milestones d)" "ms_id x = ms_id m" by (auto simp: escrow_row_ok_def)
    with new show False by blast
  qed
  then have "escrow_bal (ms_id m) d = 0" by (simp add: escrow_bal_def)
  moreover have "reserved_of (ms_id m) r = 0" if "r \<in> set (refunds d)" for r
    using inv_refund[OF assms(1) that] new by (auto simp: refund_ok_def reserved_of_def)
  then have "reserved (ms_id m) d = 0" by (simp add: reserved_def cong: map_cong)
  ultimately have "milestone_ok ?d m"
    using assms(4,5) by (simp add: milestone_ok_def same work_states_def)
  moreover have "milestone_ok ?d x" if "x \<in> set (milestones d)" for x
    using inv_milestone[OF assms(1) that] by (simp add: milestone_ok_def same)
  moreover have "set (milestones ?d) = insert m (set (milestones d))" by (simp add: add_milestone_def)
  ultimately have "\<forall>m\<in>set (milestones ?d). milestone_ok ?d m" by auto
  then show "rows_ok d ?d" unfolding rows_ok_def by (simp add: add_milestone_def)
  show "evolves d ?d" by (simp add: evolves_def add_milestone_def)
  show "ids_ok ?d"
    using inv_ids[OF assms(1)] assms(2,3) by (auto simp: ids_ok_def add_milestone_def unused_def fresh_ids_def)
qed (simp_all add: add_milestone_def)

section \<open>Capture and release\<close>

lemma inv_capture:
  assumes inv: "sys_inv d" and i: "i \<in> set (intents d)" "pi_status i \<noteq> PI_CAPTURED"
    and i': "pi_id i' = pi_id i" "pi_status i' = PI_CAPTURED" "pi_milestone i' = pi_milestone i" "pi_amount i' = pi_amount i"
    and m: "m \<in> set (milestones d)" "ms_id m = pi_milestone i" "ms_amount m = pi_amount i" "ms_status m = MS_CREATED"
    and ea: "ea \<in> set (accounts d)" "acc_type ea = MILESTONE_ESCROW" "acc_milestone ea = Some (ms_id m)"
    and clearing: "clearing \<in> set (accounts d)" "acc_type clearing = PROVIDER_CLEARING"
    and ps: "ps = [mk_posting clearing ''DEBIT'' (pi_amount i), mk_posting ea ''CREDIT'' (pi_amount i)]" "valid_postings ps"
    and rt: "rt = ''payment_intent''"
  shows "sys_inv (put_milestone (m\<lparr>ms_status := MS_FUNDED\<rparr>) (put_intent i'
    (add_journal (mk_journal (next_uuid d) MILESTONE_FUND rt (pi_id i) ps meta None) d)))"
    (is "sys_inv ?d")
proof (rule inv_journal[OF inv _ _ _ ps(1) _ ps(2)])
  let ?m = "m\<lparr>ms_status := MS_FUNDED\<rparr>"
  have eq: "accounts ?d = accounts d" "escrows ?d = escrows d" "refunds ?d = refunds d" "payouts ?d = payouts d"
    "disputes ?d = disputes d" "journals ?d = journals d @ [mk_journal (next_uuid d) MILESTONE_FUND rt (pi_id i) ps meta None]"
    "milestones ?d = put_row ms_id ?m (milestones d)" "intents ?d = put_row pi_id i' (intents d)"
    "next_uuid ?d = Suc (next_uuid d)"
    by (simp_all add: put_milestone_def put_intent_def add_journal_def)
  show "accounts ?d = accounts d" "escrows ?d = escrows d" "journals ?d = journals d @ [mk_journal (next_uuid d) MILESTONE_FUND rt (pi_id i) ps meta None]"
    by (rule eq)+
  show mem: "\<forall>p\<in>set ps. po_account p \<in> set (accounts d)" using ea clearing by (simp add: ps(1))
  show "find_journal rt (pi_id i) MILESTONE_FUND d = None" by (rule no_fund_journal[OF inv i])
  show ev: "evolves d ?d"
    using stays_status[OF inv m(1)] m(4) i(2)
      stays_put_old[OF inv_ids(2)[OF inv] i(1) i'(1), of "\<lambda>i. pi_status i = PI_CAPTURED"]
    by (simp add: evolves_def eq)
  show "ids_ok ?d" using inv_ids[OF inv] by (simp add: ids_ok_def eq)
  have flow: "escrow_bal mid ?d = escrow_bal mid d + (if mid = ms_id m then pi_amount i else 0)" for mid
    using escrow_bal_journal[OF inv_parts(1,2)[OF inv] mem eq(6,2), of mid] ea clearing by (auto simp: ps(1))
  have "reserved (ms_id m) d = 0 \<and> escrow_bal (ms_id m) d = 0"
    using inv_milestone[OF inv m(1)] m(4) reserved_nonneg[OF inv, of "ms_id m"] escrow_bal_nonneg[OF inv, of "ms_id m"]
    by (simp add: milestone_ok_def)
  then have "milestone_ok ?d ?m"
    using inv_milestone[OF inv m(1)] m(3)
    by (simp add: milestone_ok_def flow reserved_cong[OF eq(3)] work_states_def)
  then have "\<forall>m\<in>set (milestones ?d). milestone_ok ?d m"
    by (intro milestones_frame[OF inv eq(7)]) (auto simp: flow reserved_cong[OF eq(3)])
  moreover have "intent_ok ?d i'"
    using intent_ok_evolves[OF inv_intent[OF inv i(1)] ev] i' by (simp add: intent_ok_def)
  ultimately show "rows_ok d ?d" by (auto simp: rows_ok_def eq(3,8) dest: put_row_memD)
  show "journal_ok ?d (mk_journal (next_uuid d) MILESTONE_FUND rt (pi_id i) ps meta None)"
    using inv_ids(2)[OF inv] i i' put_row_mem[OF i(1) i'(1)]
    unfolding journal_ok_def eq by (auto simp: mk_journal_def fresh_ids_def)
qed (use clearing in \<open>simp_all add: ps(1)\<close>)

text \<open>Emptying an escrow into accounts that are not escrow accounts: a release, or the
  resolution of a dispute, which may also record a settled refund.\<close>

lemma inv_drain:
  assumes inv: "sys_inv d" and m: "m \<in> set (milestones d)" "ms_status m \<noteq> MS_RELEASED" "ms_status m \<noteq> MS_CREATED"
    and ea: "ea \<in> set (accounts d)" "acc_type ea = MILESTONE_ESCROW" "acc_milestone ea = Some (ms_id m)"
    and full: "account_balance_minor (acc_id ea) d = ms_amount m" "escrow_bal (ms_id m) d = ms_amount m"
    and ps: "ps = mk_posting ea ''DEBIT'' (ms_amount m) # cs" "\<forall>p\<in>set cs. po_direction p = ''CREDIT''" "valid_postings ps"
    and cs: "\<forall>p\<in>set cs. po_account p \<in> set (accounts d) \<and> acc_type (po_account p) \<noteq> MILESTONE_ESCROW"
    and new: "find_journal rt ref oper d = None"
    and eq: "accounts d' = accounts d" "escrows d' = escrows d"
      "journals d' = journals d @ [mk_journal (next_uuid d) oper rt ref ps meta None]"
      "milestones d' = put_row ms_id (m\<lparr>ms_status := MS_RELEASED\<rparr>) (milestones d)"
      "intents d' = intents d" "payouts d' = payouts d" "next_uuid d < next_uuid d'"
    and refunds: "\<And>mid. reserved mid d' = reserved mid d" "fresh_ids rf_id (refunds d') (next_uuid d')"
      "stays rf_id (\<lambda>r. rf_status r = RF_FAILED) (refunds d) (refunds d')"
      "\<forall>r\<in>set (refunds d'). r \<in> set (refunds d) \<or>
         0 < rf_amount r \<and> rf_milestone r = ms_id m \<and> rf_status r = RF_SUCCEEDED"
    and disputes: "fresh_ids dp_id (disputes d') (next_uuid d')"
      "stays dp_id (\<lambda>x. dp_status x = DS_RESOLVED) (disputes d) (disputes d')"
    and jok: "journal_ok d' (mk_journal (next_uuid d) oper rt ref ps meta None)"
  shows "sys_inv d'"
proof (rule inv_journal[OF inv eq(1,2,3) ps _ new _ _ _ _ jok])
  show mem: "\<forall>p\<in>set ps. po_account p \<in> set (accounts d)" using ea cs by (auto simp: ps(1))
  show ev: "evolves d d'"
    using stays_status[OF inv m(1,2)] eq refunds(3) disputes(2) by (simp add: evolves_def)
  show "ids_ok d'"
    using inv_ids[OF inv] eq refunds(2) disputes(1) by (auto simp: ids_ok_def elim: fresh_ids_mono)
  have "escrow_flow cs mid = 0" for mid using cs by (intro escrow_flow_none) auto
  then have flow: "escrow_bal mid d' = escrow_bal mid d - (if mid = ms_id m then ms_amount m else 0)" for mid
    using escrow_bal_journal[OF inv_parts(1,2)[OF inv] mem eq(3,2), of mid] ea by (auto simp: ps(1))
  have "reserved (ms_id m) d = 0"
    using inv_milestone[OF inv m(1)] m(2,3) full(2) by (simp add: milestone_ok_def)
  then have "milestone_ok d' (m\<lparr>ms_status := MS_RELEASED\<rparr>)"
    using inv_milestone[OF inv m(1)] full(2) by (simp add: milestone_ok_def flow refunds(1))
  then have "\<forall>m\<in>set (milestones d'). milestone_ok d' m"
    by (intro milestones_frame[OF inv eq(4)]) (auto simp: flow refunds(1))
  moreover have "m\<lparr>ms_status := MS_RELEASED\<rparr> \<in> set (milestones d')"
    unfolding eq by (rule put_row_mem[OF m(1)]) simp
  then have "refund_ok d' r" if "r \<in> set (refunds d')" "r \<notin> set (refunds d)" for r
    using refunds(4) that by (auto simp: refund_ok_def intro!: bexI[of _ "m\<lparr>ms_status := MS_RELEASED\<rparr>"])
  ultimately show "rows_ok d d'" by (auto simp: rows_ok_def eq(5))
qed (use full(1) in simp)

lemma escrow_account_facts:
  assumes inv: "sys_inv d" and e: "find_escrow mid d = Some e" and ea: "account_by_id (es_account e) d = Some ea"
  shows "ea \<in> set (accounts d)" "acc_type ea = MILESTONE_ESCROW" "acc_milestone ea = Some mid"
    "escrow_bal mid d = account_balance_minor (acc_id ea) d" "acc_id ea = es_account e"
proof -
  show m: "ea \<in> set (accounts d)" and i: "acc_id ea = es_account e"
    using ea account_by_id_Some_iff[OF inv_parts(1)[OF inv]] by simp_all
  then show "acc_type ea = MILESTONE_ESCROW" "acc_milestone ea = Some mid"
    using escrow_account_iff[OF inv_parts(1,2)[OF inv] m, of mid] e by auto
  show "escrow_bal mid d = account_balance_minor (acc_id ea) d"
    using e i by (simp add: escrow_bal_def)
qed


lemma inv_release:
  assumes inv: "sys_inv d" and m: "m \<in> set (milestones d)" "ms_status m = MS_APPROVED" "ref = ms_id m"
    and e: "\<exists>e. find_escrow ref d = Some e \<and> es_account e = acc_id ea" "ea \<in> set (accounts d)"
    and full: "account_balance_minor (acc_id ea) d = ms_amount m"
    and wallet: "wallet \<in> set (accounts d)" "acc_type wallet = FREELANCER_WALLET"
    and platform: "platform \<in> set (accounts d)" "acc_type platform = PLATFORM_COMMISSION"
    and ps: "valid_postings (release_postings ea wallet platform n fee)" and n: "n = ms_amount m" "i = next_uuid d"
  shows "sys_inv (put_milestone (m\<lparr>ms_status := MS_RELEASED\<rparr>) (add_journal (mk_journal i
      MILESTONE_RELEASE rt ref (release_postings ea wallet platform n fee) meta None) d))"
    (is "sys_inv ?d")
proof -
  let ?ps = "release_postings ea wallet platform n fee"
  obtain e where e': "find_escrow (ms_id m) d = Some e" "account_by_id (es_account e) d = Some ea"
    using e m(3) account_by_id_Some_iff[OF inv_parts(1)[OF inv]] by auto
  note ea = escrow_account_facts[OF inv e']
  note defs = put_milestone_def add_journal_def
  have mid: "ms_id m < next_uuid d" using inv_ids(1)[OF inv] m(1) by (simp add: fresh_ids_def)
  show ?thesis unfolding n(2)
  proof (rule inv_drain[OF inv m(1) _ _ ea(1-3) full, where ps = ?ps and ref = ref])
    show "?ps = mk_posting ea ''DEBIT'' (ms_amount m) # tl ?ps" by (simp add: release_postings_def n(1))
    show "find_journal rt ref MILESTONE_RELEASE d = None"
      using no_release_journal[OF inv m(1)] m(2,3) by simp
    have "m\<lparr>ms_status := MS_RELEASED\<rparr> \<in> set (milestones ?d)"
      using put_row_mem[OF m(1), of ms_id "m\<lparr>ms_status := MS_RELEASED\<rparr>"] by (simp add: defs)
    then have "\<exists>x\<in>set (milestones ?d). ms_id x = ref \<and> ms_status x = MS_RELEASED"
      using m(3) by (intro bexI) simp_all
    moreover have "ref < next_uuid ?d" using mid m(3) by (simp add: defs)
    ultimately show "journal_ok (put_milestone (m\<lparr>ms_status := MS_RELEASED\<rparr>) (add_journal (mk_journal (next_uuid d)
      MILESTONE_RELEASE rt ref ?ps meta None) d)) (mk_journal (next_uuid d) MILESTONE_RELEASE rt ref ?ps meta None)"
      by (simp add: journal_ok_def mk_journal_def n(2))
    show "reserved mid (put_milestone (m\<lparr>ms_status := MS_RELEASED\<rparr>) (add_journal (mk_journal (next_uuid d)
      MILESTONE_RELEASE rt ref ?ps meta None) d)) = reserved mid d" for mid by (simp add: reserved_def defs)
  qed (use m(2) ps full ea(4) wallet platform inv_ids[OF inv] in \<open>auto simp: defs release_postings_def\<close>)
qed

section \<open>Refunds\<close>

text \<open>A reservation is for the whole amount of its milestone.\<close>

lemma reserved_full:
  assumes inv: "sys_inv d" and m: "m \<in> set (milestones d)" and "reserved (ms_id m) d < ms_amount m"
  shows "reserved (ms_id m) d = 0"
proof (rule ccontr)
  assume "reserved (ms_id m) d \<noteq> 0"
  then obtain r where r: "r \<in> set (refunds d)" "reserved_of (ms_id m) r \<noteq> 0"
    unfolding reserved_def by (metis (no_types, lifting) map_eq_conv sum_list_0)
  then have p: "rf_milestone r = ms_id m" "rf_status r = RF_PENDING" by (auto simp: reserved_of_def split: if_splits)
  then obtain x where "x \<in> set (milestones d)" "ms_id x = ms_id m" "rf_amount r = ms_amount x"
    using inv_refund[OF inv r(1)] by (auto simp: refund_ok_def)
  then have "reserved_of (ms_id m) r = ms_amount m"
    using p fresh_ids_eqI[OF inv_ids(1)[OF inv] _ m] by (auto simp: reserved_of_def)
  with reserved_ge[OF inv r(1), of "ms_id m"] assms(3) show False by simp
qed

lemma inv_reserve_refund:
  assumes inv: "sys_inv d" and m: "m \<in> set (milestones d)" "ms_status m = MS_FUNDED"
    and ea: "ea \<in> set (accounts d)" "acc_type ea = MILESTONE_ESCROW" "acc_milestone ea = Some (ms_id m)"
    and full: "account_balance_minor (acc_id ea) d = n" "escrow_bal (ms_id m) d = n" "0 < n"
    and clearing: "clearing \<in> set (accounts d)" "acc_type clearing = PROVIDER_CLEARING"
    and ps: "ps = [mk_posting ea ''DEBIT'' n, mk_posting clearing ''CREDIT'' n]" "valid_postings ps"
    and r: "rf_id r < next_uuid d" "unused (rf_id r) d" "rf_milestone r = ms_id m"
      "rf_status r = RF_PENDING" "rf_amount r = n"
  shows "sys_inv (add_refund r (add_journal (mk_journal (next_uuid d) MILESTONE_REFUND ''refund'' (rf_id r) ps meta None) d))"
    (is "sys_inv (add_refund r (add_journal ?j d))")
proof -
  let ?d = "add_refund r (add_journal ?j d)"
  have eq: "accounts ?d = accounts d" "escrows ?d = escrows d" "journals ?d = journals d @ [?j]"
    "milestones ?d = milestones d" "intents ?d = intents d" "payouts ?d = payouts d" "disputes ?d = disputes d"
    "refunds ?d = refunds d @ [r]" "next_uuid ?d = Suc (next_uuid d)"
    by (simp_all add: add_refund_def add_journal_def)
  have mem: "\<forall>p\<in>set ps. po_account p \<in> set (accounts d)" using ea clearing by (simp add: ps(1))
  have res: "reserved mid ?d = reserved mid d + (if mid = ms_id m then n else 0)" for mid
    using reserved_append[OF eq(8)] r by (simp add: reserved_of_def)
  have flow: "escrow_bal mid ?d = escrow_bal mid d - (if mid = ms_id m then n else 0)" for mid
    using escrow_bal_journal[OF inv_parts(1,2)[OF inv] mem eq(3,2), of mid] ea clearing by (auto simp: ps(1))
  have zero: "reserved (ms_id m) d = 0" and n: "n = ms_amount m"
  proof -
    have s: "n + reserved (ms_id m) d = ms_amount m"
      using inv_milestone[OF inv m(1)] m(2) full(2) by (simp add: milestone_ok_def)
    with full(3) show z: "reserved (ms_id m) d = 0" by (intro reserved_full[OF inv m(1)]) simp
    with s show "n = ms_amount m" by simp
  qed
  show ?thesis
  proof (rule inv_journal[OF inv eq(1,2,3) ps(1) _ ps(2) mem unused_journal[OF r(2)]])
    show "evolves d ?d" by (simp add: evolves_def eq)
    show "ids_ok ?d"
      using inv_ids[OF inv] r(1,2) by (auto simp: ids_ok_def eq fresh_ids_def unused_def)
    have "ms_status x \<notin> work_states" if "x \<in> set (milestones d)" "ms_id x = ms_id m" for x
      using fresh_ids_eqI[OF inv_ids(1)[OF inv] that(1) m(1) that(2)] m(2) by (simp add: work_states_def)
    then have "\<forall>m\<in>set (milestones ?d). milestone_ok ?d m"
      using inv_milestone[OF inv]
      by (intro milestones_shift[OF inv eq(4)]) (auto simp: flow res milestone_ok_def)
    then show "rows_ok d ?d"
      using m(1) n full(3) r(3-5) by (auto simp: rows_ok_def refund_ok_def eq(4,5,8))
    show "journal_ok ?d ?j"
      using r(1) unfolding journal_ok_def eq by (simp add: mk_journal_def)
  qed (use full(1) in \<open>simp_all add: ps(1)\<close>)
qed

text \<open>Rewriting a refund that is not terminal.\<close>

lemma inv_put_refund:
  assumes inv: "sys_inv d" and r: "r \<in> set (refunds d)" "rf_status r = RF_PENDING"
    and r': "rf_id r' = rf_id r" "rf_milestone r' = rf_milestone r" "rf_amount r' = rf_amount r" "rf_status r' = RF_PENDING"
  shows "sys_inv (put_refund r' d)"
proof (rule inv_plain[OF inv])
  let ?d = "put_refund r' d"
  show ev: "evolves d ?d"
    using stays_put_old[OF inv_ids(3)[OF inv] r(1) r'(1), of "\<lambda>r. rf_status r = RF_FAILED"] r(2)
    by (simp add: evolves_def put_refund_def)
  show "ids_ok ?d" using inv_ids[OF inv] by (simp add: ids_ok_def put_refund_def)
  have "distinct (map rf_id (refunds d))" using inv_ids(3)[OF inv] by (simp add: fresh_ids_def)
  from reserved_put[OF this r(1) r'(1)[symmetric]] have "reserved mid ?d = reserved mid d" for mid
    using r r' by (simp add: put_refund_def reserved_of_def)
  then have "\<forall>m\<in>set (milestones ?d). milestone_ok ?d m"
    by (intro plain_milestones[OF inv]) (simp_all add: put_refund_def)
  moreover have "refund_ok ?d r'"
    using refund_ok_evolves[OF inv_refund[OF inv r(1)] ev] r(2) r' by (simp add: refund_ok_def)
  ultimately show "rows_ok d ?d" by (auto simp: rows_ok_def put_refund_def dest: put_row_memD)
qed (simp_all add: put_refund_def)

text \<open>The provider has paid the refund: the milestone can be funded again.\<close>

lemma inv_complete_refund:
  assumes inv: "sys_inv d" and r: "r \<in> set (refunds d)" "rf_status r = RF_PENDING"
    and r': "rf_id r' = rf_id r" "rf_milestone r' = rf_milestone r" "rf_amount r' = rf_amount r" "rf_status r' = RF_SUCCEEDED"
    and m: "m \<in> set (milestones d)" "ms_id m = rf_milestone r" "ms_status m = MS_FUNDED"
  shows "sys_inv (put_milestone (m\<lparr>ms_status := MS_CREATED\<rparr>) (put_refund r' d))"
proof (rule inv_plain[OF inv])
  let ?d = "put_milestone (m\<lparr>ms_status := MS_CREATED\<rparr>) (put_refund r' d)"
  have eq: "milestones ?d = put_row ms_id (m\<lparr>ms_status := MS_CREATED\<rparr>) (milestones d)"
    "refunds ?d = put_row rf_id r' (refunds d)" "intents ?d = intents d" "payouts ?d = payouts d"
    "disputes ?d = disputes d" "next_uuid ?d = next_uuid d"
    by (simp_all add: put_milestone_def put_refund_def)
  show ev: "evolves d ?d"
    using stays_put_old[OF inv_ids(3)[OF inv] r(1) r'(1), of "\<lambda>r. rf_status r = RF_FAILED"] r(2)
      stays_status[OF inv m(1)] m(3)
    by (simp add: evolves_def eq)
  show "ids_ok ?d" using inv_ids[OF inv] by (simp add: ids_ok_def eq)
  have "distinct (map rf_id (refunds d))" using inv_ids(3)[OF inv] by (simp add: fresh_ids_def)
  from reserved_put[OF this r(1) r'(1)[symmetric] eq(2)]
  have res: "reserved mid ?d = reserved mid d - (if mid = ms_id m then rf_amount r else 0)" for mid
    using r r' m(2) by (simp add: reserved_of_def)
  have esc: "escrow_bal mid ?d = escrow_bal mid d" for mid
    by (rule escrow_bal_cong) (simp_all add: put_milestone_def put_refund_def)
  have n: "rf_amount r = ms_amount m"
    using inv_refund[OF inv r(1)] r(2) fresh_ids_eqI[OF inv_ids(1)[OF inv] m(1)] m(2) by (auto simp: refund_ok_def)
  have "milestone_ok ?d (m\<lparr>ms_status := MS_CREATED\<rparr>)"
    using inv_milestone[OF inv m(1)] m(3) n by (simp add: milestone_ok_def res esc work_states_def)
  then have "\<forall>m\<in>set (milestones ?d). milestone_ok ?d m"
    by (intro milestones_frame[OF inv eq(1)]) (auto simp: res esc)
  moreover have "refund_ok ?d r'"
    using refund_ok_evolves[OF inv_refund[OF inv r(1)] ev] r(2) r' by (auto simp: refund_ok_def)
  ultimately show "rows_ok d ?d" by (auto simp: rows_ok_def eq(2,3) dest: put_row_memD)
qed (simp_all add: put_milestone_def put_refund_def)

text \<open>The provider has refused the refund: the reservation is reversed into the escrow.\<close>

lemma inv_fail_refund:
  assumes inv: "sys_inv d" and r: "r \<in> set (refunds d)" "rf_status r = RF_PENDING"
    and r': "rf_id r' = rf_id r" "rf_milestone r' = rf_milestone r" "rf_amount r' = rf_amount r" "rf_status r' = RF_FAILED"
    and ea: "ea \<in> set (accounts d)" "acc_type ea = MILESTONE_ESCROW" "acc_milestone ea = Some (rf_milestone r)"
    and clearing: "clearing \<in> set (accounts d)" "acc_type clearing = PROVIDER_CLEARING"
    and ps: "ps = [mk_posting clearing ''DEBIT'' (rf_amount r), mk_posting ea ''CREDIT'' (rf_amount r)]" "valid_postings ps"
  shows "sys_inv (put_refund r' (add_journal (mk_journal (next_uuid d) REVERSAL ''refund'' (rf_id r) ps meta reverses) d))"
    (is "sys_inv (put_refund r' (add_journal ?j d))")
proof -
  let ?d = "put_refund r' (add_journal ?j d)"
  have eq: "accounts ?d = accounts d" "escrows ?d = escrows d" "journals ?d = journals d @ [?j]"
    "milestones ?d = milestones d" "intents ?d = intents d" "payouts ?d = payouts d" "disputes ?d = disputes d"
    "refunds ?d = put_row rf_id r' (refunds d)" "next_uuid ?d = Suc (next_uuid d)"
    by (simp_all add: put_refund_def add_journal_def)
  have mem: "\<forall>p\<in>set ps. po_account p \<in> set (accounts d)" using ea clearing by (simp add: ps(1))
  have "distinct (map rf_id (refunds d))" using inv_ids(3)[OF inv] by (simp add: fresh_ids_def)
  from reserved_put[OF this r(1) r'(1)[symmetric] eq(8)]
  have res: "reserved mid ?d = reserved mid d - (if mid = rf_milestone r then rf_amount r else 0)" for mid
    using r r' by (simp add: reserved_of_def)
  have flow: "escrow_bal mid ?d = escrow_bal mid d + (if mid = rf_milestone r then rf_amount r else 0)" for mid
    using escrow_bal_journal[OF inv_parts(1,2)[OF inv] mem eq(3,2), of mid] ea clearing by (auto simp: ps(1))
  have pos: "0 < rf_amount r" using inv_refund[OF inv r(1)] by (simp add: refund_ok_def)
  have busy: "0 < reserved (rf_milestone r) d"
    using reserved_ge[OF inv r(1), of "rf_milestone r"] pos r(2) by (simp add: reserved_of_def)
  show ?thesis
  proof (rule inv_journal[OF inv eq(1,2,3) ps(1) _ ps(2) mem])
    show "find_journal ''refund'' (rf_id r) REVERSAL d = None"
      using no_refund_reversal[OF inv r(1)] r(2) by simp
    show ev: "evolves d ?d"
      using stays_put_old[OF inv_ids(3)[OF inv] r(1) r'(1), of "\<lambda>r. rf_status r = RF_FAILED"] r(2)
      by (simp add: evolves_def eq)
    show "ids_ok ?d" using inv_ids[OF inv] by (simp add: ids_ok_def eq)
    have idle: "ms_status m \<notin> work_states" if "m \<in> set (milestones d)" "ms_id m = rf_milestone r" for m
      using inv_milestone[OF inv that(1)] busy that(2) by (auto simp: milestone_ok_def)
    have "\<forall>m\<in>set (milestones ?d). milestone_ok ?d m"
      using inv_milestone[OF inv] idle
      by (intro milestones_shift[OF inv eq(4)]) (auto simp: flow res milestone_ok_def)
    moreover have "refund_ok ?d r'"
      using refund_ok_evolves[OF inv_refund[OF inv r(1)] ev] r(2) r' by (auto simp: refund_ok_def)
    ultimately show "rows_ok d ?d" by (auto simp: rows_ok_def eq(5,8) dest: put_row_memD)
    show "journal_ok ?d ?j"
      using inv_ids(3)[OF inv] r r' put_row_mem[OF r(1) r'(1)]
      unfolding journal_ok_def eq by (auto simp: mk_journal_def fresh_ids_def)
  qed (use clearing in \<open>simp_all add: ps(1)\<close>)
qed

section \<open>Payouts\<close>

text \<open>A journal between accounts that are not escrow accounts leaves the milestones alone.\<close>

lemma outside_milestones:
  assumes "sys_inv d" and "\<forall>p\<in>set ps. po_account p \<in> set (accounts d) \<and> acc_type (po_account p) \<noteq> MILESTONE_ESCROW"
    and "journals d' = journals d @ [mk_journal i oper rt ref ps meta reverses]" and "escrows d' = escrows d"
    and "milestones d' = milestones d" and "refunds d' = refunds d"
  shows "\<forall>m\<in>set (milestones d'). milestone_ok d' m"
proof -
  have "escrow_bal mid d' = escrow_bal mid d" for mid
    using escrow_bal_journal[OF inv_parts(1,2)[OF assms(1)] _ assms(3,4), of mid] assms(2)
      escrow_flow_none[of ps mid] by simp
  then show ?thesis
    using inv_milestone[OF assms(1)] assms(5) reserved_cong[OF assms(6)] by (simp add: milestone_ok_def)
qed

lemma inv_reserve_payout:
  assumes inv: "sys_inv d"
    and wallet: "wallet \<in> set (accounts d)" "acc_type wallet = FREELANCER_WALLET" "n \<le> account_balance_minor (acc_id wallet) d"
    and clearing: "clearing \<in> set (accounts d)" "acc_type clearing = PROVIDER_CLEARING"
    and ps: "ps = [mk_posting wallet ''DEBIT'' n, mk_posting clearing ''CREDIT'' n]" "valid_postings ps"
    and p: "po_id p < next_uuid d" "unused (po_id p) d"
  shows "sys_inv (add_payout p (add_journal (mk_journal (next_uuid d) PAYOUT ''payout'' (po_id p) ps meta None) d))"
    (is "sys_inv (add_payout p (add_journal ?j d))")
proof -
  let ?d = "add_payout p (add_journal ?j d)"
  have eq: "accounts ?d = accounts d" "escrows ?d = escrows d" "journals ?d = journals d @ [?j]"
    "milestones ?d = milestones d" "intents ?d = intents d" "refunds ?d = refunds d" "disputes ?d = disputes d"
    "payouts ?d = payouts d @ [p]" "next_uuid ?d = Suc (next_uuid d)"
    by (simp_all add: add_payout_def add_journal_def)
  have mem: "\<forall>p\<in>set ps. po_account p \<in> set (accounts d) \<and> acc_type (po_account p) \<noteq> MILESTONE_ESCROW"
    using wallet clearing by (simp add: ps(1))
  show ?thesis
  proof (rule inv_journal[OF inv eq(1,2,3) ps(1) _ ps(2) _ unused_journal[OF p(2)]])
    show "evolves d ?d" by (simp add: evolves_def eq)
    show "ids_ok ?d" using inv_ids[OF inv] p by (auto simp: ids_ok_def eq fresh_ids_def unused_def)
    show "rows_ok d ?d"
      using outside_milestones[OF inv mem eq(3,2,4,6)] by (auto simp: rows_ok_def eq(5,6))
    show "journal_ok ?d ?j"
      using p(1) unfolding journal_ok_def eq by (simp add: mk_journal_def)
  qed (use mem wallet in \<open>simp_all add: ps(1)\<close>)
qed

lemma evolves_put_payout:
  assumes "sys_inv d" and "p \<in> set (payouts d)" and "po_id p' = po_id p" and "po_status p \<noteq> PO_FAILED"
  shows "stays po_id (\<lambda>p. po_status p = PO_FAILED) (payouts d) (put_row po_id p' (payouts d))"
  using stays_put_old[OF inv_ids(4)[OF assms(1)] assms(2,3), of "\<lambda>p. po_status p = PO_FAILED"] assms(4) by simp

lemma inv_put_payout:
  assumes "sys_inv d" and "p \<in> set (payouts d)" and "po_status p \<noteq> PO_FAILED" and "po_id p' = po_id p"
  shows "sys_inv (put_payout p' d)"
proof (rule inv_plain[OF assms(1)])
  let ?d = "put_payout p' d"
  show "evolves d ?d"
    using evolves_put_payout[OF assms(1,2,4,3)] by (simp add: evolves_def put_payout_def)
  show "ids_ok ?d" using inv_ids[OF assms(1)] by (simp add: ids_ok_def put_payout_def)
  have "\<forall>m\<in>set (milestones ?d). milestone_ok ?d m"
    by (rule plain_milestones[OF assms(1)]) (simp_all add: put_payout_def reserved_def)
  then show "rows_ok d ?d" unfolding rows_ok_def by (simp add: put_payout_def)
qed (simp_all add: put_payout_def)

lemma inv_fail_payout:
  assumes inv: "sys_inv d" and p: "p \<in> set (payouts d)" "po_status p = PO_PENDING"
    and p': "po_id p' = po_id p" "po_status p' = PO_FAILED"
    and wallet: "wallet \<in> set (accounts d)" "acc_type wallet = FREELANCER_WALLET"
    and clearing: "clearing \<in> set (accounts d)" "acc_type clearing = PROVIDER_CLEARING"
    and ps: "ps = [mk_posting clearing ''DEBIT'' n, mk_posting wallet ''CREDIT'' n]" "valid_postings ps"
  shows "sys_inv (put_payout p' (add_journal (mk_journal (next_uuid d) REVERSAL ''payout'' (po_id p) ps meta reverses) d))"
    (is "sys_inv (put_payout p' (add_journal ?j d))")
proof -
  let ?d = "put_payout p' (add_journal ?j d)"
  have eq: "accounts ?d = accounts d" "escrows ?d = escrows d" "journals ?d = journals d @ [?j]"
    "milestones ?d = milestones d" "intents ?d = intents d" "refunds ?d = refunds d" "disputes ?d = disputes d"
    "payouts ?d = put_row po_id p' (payouts d)" "next_uuid ?d = Suc (next_uuid d)"
    by (simp_all add: put_payout_def add_journal_def)
  have mem: "\<forall>p\<in>set ps. po_account p \<in> set (accounts d) \<and> acc_type (po_account p) \<noteq> MILESTONE_ESCROW"
    using wallet clearing by (simp add: ps(1))
  show ?thesis
  proof (rule inv_journal[OF inv eq(1,2,3) ps(1) _ ps(2)])
    show "find_journal ''payout'' (po_id p) REVERSAL d = None"
      using no_payout_reversal[OF inv p(1)] p(2) by simp
    show "evolves d ?d"
      using evolves_put_payout[OF inv p(1) p'(1)] p(2) by (simp add: evolves_def eq)
    show "ids_ok ?d" using inv_ids[OF inv] by (simp add: ids_ok_def eq)
    show "rows_ok d ?d"
      using outside_milestones[OF inv mem eq(3,2,4,6)] by (auto simp: rows_ok_def eq(5,6))
    show "journal_ok ?d ?j"
      using inv_ids(4)[OF inv] p p' put_row_mem[OF p(1) p'(1)]
      unfolding journal_ok_def eq by (auto simp: mk_journal_def fresh_ids_def)
  qed (use mem clearing in \<open>simp_all add: ps(1)\<close>)
qed

section \<open>Disputes\<close>

lemma inv_add_dispute:
  assumes "sys_inv d" and "unused (dp_id x) d" and "dp_id x < next_uuid d"
  shows "sys_inv (add_dispute x ps d)"
proof (rule inv_plain[OF assms(1)])
  let ?d = "add_dispute x ps d"
  show "evolves d ?d" by (simp add: evolves_def add_dispute_def)
  show "ids_ok ?d"
    using inv_ids[OF assms(1)] assms(2,3) by (auto simp: ids_ok_def add_dispute_def unused_def fresh_ids_def)
  have "\<forall>m\<in>set (milestones ?d). milestone_ok ?d m"
    by (rule plain_milestones[OF assms(1)]) (simp_all add: reserved_def add_dispute_def)
  then show "rows_ok d ?d" unfolding rows_ok_def by (simp add: add_dispute_def)
qed (simp_all add: add_dispute_def)

lemma inv_put_dispute:
  assumes "sys_inv d" and "x \<in> set (disputes d)" and "dp_status x \<noteq> DS_RESOLVED" and "dp_id x' = dp_id x"
  shows "sys_inv (put_dispute x' d)"
proof (rule inv_plain[OF assms(1)])
  let ?d = "put_dispute x' d"
  show "evolves d ?d"
    using stays_put_old[OF inv_ids(5)[OF assms(1)] assms(2,4), of "\<lambda>x. dp_status x = DS_RESOLVED"] assms(3)
    by (simp add: evolves_def put_dispute_def)
  show "ids_ok ?d" using inv_ids[OF assms(1)] by (simp add: ids_ok_def put_dispute_def)
  have "\<forall>m\<in>set (milestones ?d). milestone_ok ?d m"
    by (rule plain_milestones[OF assms(1)]) (simp_all add: put_dispute_def reserved_def)
  then show "rows_ok d ?d" unfolding rows_ok_def by (simp add: put_dispute_def)
qed (simp_all add: put_dispute_def)

end
