(* ===== verification/Handlers.thy ===== *)
theory Handlers
  imports Transitions
begin

text \<open>
  Every request handler that touches money keeps the invariant \<open>sys_inv\<close>, on every path,
  errors included. The rules below give the effect of the shared steps of the handlers (the
  claim of an idempotency key, the accounts they create, the journal they post) on a state
  that satisfies the invariant; side tables are peeled off by simplification and the rest is
  a transition of theory \<open>Transitions\<close>.
\<close>

section \<open>Shared steps\<close>

lemma wpI_claim_inv:
  assumes "sys_inv w"
    and "\<And>x n ks. sys_inv (w\<lparr>next_uuid := n, idempotency_keys := ks\<rparr>) \<Longrightarrow> next_uuid w \<le> n \<Longrightarrow>
      Q x (c, w\<lparr>next_uuid := n, idempotency_keys := ks\<rparr>)"
    and "\<And>e. E e (c, w)"
  shows "wp (claim_idempotency env u oper raw payload) Q E (c, w)"
proof (rule wpI_claim_idempotency)
  have *: "sys_inv (w\<lparr>next_uuid := n, idempotency_keys := ks\<rparr>)" if "next_uuid w \<le> n" for n ks
    by (rule sys_inv_cong[OF inv_bump[OF assms(1) that]]) (simp add: same_core_def)
  show "Q (x, False) (c, w)" for x
    using assms(2)[OF *[of "next_uuid w" "idempotency_keys w"]] by simp
  show "Q (r, True) (c, add_key r w)" for r
    unfolding add_key_def using assms(2)[OF *[of "Suc (next_uuid w)"]] by simp
qed (rule assms(3))

lemma wpI_account_inv:
  assumes "sys_inv w" and "ty \<noteq> MILESTONE_ESCROW" and "\<And>i. account_ok \<lparr>acc_id = i, acc_key = k, acc_type = ty, acc_owner = owner, acc_milestone = ms, acc_currency = cur\<rparr>"
    and "\<And>a n as. sys_inv (w\<lparr>next_uuid := n, accounts := as\<rparr>) \<Longrightarrow> next_uuid w \<le> n \<Longrightarrow> set (accounts w) \<subseteq> set as \<Longrightarrow>
      a \<in> set as \<Longrightarrow> acc_type a = ty \<Longrightarrow> acc_currency a = cur \<Longrightarrow> acc_owner a = owner \<Longrightarrow>
      Q a (c, w\<lparr>next_uuid := n, accounts := as\<rparr>)"
    and "E RuntimeError (c, w)"
  shows "wp (get_or_create_account k ty cur owner ms) Q E (c, w)"
proof (rule wpI_get_or_create_account)
  fix a assume "a \<in> set (accounts w)" "acc_key a = k" "account_identity_ok a ty cur owner ms"
  then show "Q a (c, w)"
    using assms(1) assms(4)[where a = a and n = "next_uuid w" and as = "accounts w"] by (simp add: account_identity_ok_def)
next
  fix a assume a: "a = new_account k ty cur owner ms w" "k \<notin> set (map acc_key (accounts w))"
  then have "sys_inv (add_account a w)"
    using inv_add_account[OF assms(1) a _ assms(2)] assms(3) by (simp add: new_account_def)
  then show "Q a (c, add_account a w)"
    unfolding add_account_def using assms(4)[where a = a and n = "Suc (next_uuid w)" and as = "accounts w @ [a]"]
    by (simp add: a(1) new_account_def subset_eq)
qed (rule assms(5))


lemma wpI_uuid4_inv:
  assumes "sys_inv w"
    and "\<And>i. sys_inv (w\<lparr>next_uuid := Suc i\<rparr>) \<Longrightarrow> i = next_uuid w \<Longrightarrow> unused i w \<Longrightarrow> Q i (c, w\<lparr>next_uuid := Suc i\<rparr>)"
  shows "wp uuid4 Q E (c, w)"
  unfolding wp_uuid4 by (rule assms(2)) (simp_all add: inv_bump[OF assms(1)] inv_unused[OF assms(1)])

lemma unused_cong [simp]:
  "unused i (w\<lparr>next_uuid := n\<rparr>) = unused i w" "unused i (w\<lparr>accounts := as\<rparr>) = unused i w"
  "unused i (w\<lparr>idempotency_keys := ks\<rparr>) = unused i w"
  by (simp_all add: unused_def)

lemma wpI_finish:
  "Q (body, st) (complete_keys (ik_id idem) st body w, complete_keys (ik_id idem) st body w) \<Longrightarrow>
    wp (finish idem body st) Q E (c, w)"
  by (simp add: finish_def complete_idempotency_def wp_eqs)

lemma wpI_financial_state:
  "(\<And>body. Q body (c, w)) \<Longrightarrow> E RuntimeError (c, w) \<Longrightarrow> wp (financial_state m) Q E (c, w)"
  by (simp add: financial_state_def escrow_balance_def wp_eqs split: option.split)

lemma wpI_locked_milestone:
  "(\<And>m. m \<in> set (milestones w) \<Longrightarrow> ms_id m = mid \<Longrightarrow> Q m (c, w)) \<Longrightarrow> (\<And>e. E e (c, w)) \<Longrightarrow>
    wp (locked_milestone mid) Q E (c, w)"
  by (auto simp: locked_milestone_def wp_eqs split: option.split dest: row_by_SomeD)

lemma wpI_version_of: "(\<And>v. Q v (c, w)) \<Longrightarrow> (\<And>e. E e (c, w)) \<Longrightarrow> wp (version_of m) Q E (c, w)"
  by (simp add: version_of_def wp_eqs split: option.split)

lemma wpI_locked_contract: "(\<And>k. Q k (c, w)) \<Longrightarrow> (\<And>e. E e (c, w)) \<Longrightarrow> wp (locked_contract cid) Q E (c, w)"
  by (simp add: locked_contract_def wp_eqs split: option.split)

lemma wpI_contract_of: "(\<And>k. Q k (c, w)) \<Longrightarrow> (\<And>e. E e (c, w)) \<Longrightarrow> wp (contract_of m) Q E (c, w)"
  by (simp add: contract_of_def version_of_def wp_eqs split: option.split)

lemma wpI_require_active_contract:
  "Q () (c, w) \<Longrightarrow> (\<And>e. E e (c, w)) \<Longrightarrow> wp (require_active_contract k) Q E (c, w)"
  by (simp add: require_active_contract_def wp_eqs)

lemma wpI_require_escrow:
  "(\<And>e. find_escrow mid w = Some e \<Longrightarrow> Q e (c, w)) \<Longrightarrow> (\<And>e. E e (c, w)) \<Longrightarrow> wp (require_escrow mid) Q E (c, w)"
  by (simp add: require_escrow_def wp_eqs split: option.split)

lemma wpI_set_milestone_status:
  "Q (m\<lparr>ms_status := st\<rparr>) (c, put_milestone (m\<lparr>ms_status := st\<rparr>) w) \<Longrightarrow> wp (set_milestone_status m st) Q E (c, w)"
  by (simp add: set_milestone_status_def wp_eqs)

lemma wpI_log_milestone_event:
  "(\<And>e. Q () (c, add_milestone_event e w)) \<Longrightarrow> wp (log_milestone_event m u a b note) Q E (c, w)"
  by (simp add: log_milestone_event_def wp_eqs)

text \<open>Side tables do not matter to the invariant.\<close>

lemma sys_inv_iff: "same_core d d' \<Longrightarrow> same_core d' d \<Longrightarrow> sys_inv d = sys_inv d'"
  using sys_inv_cong by blast

lemma sys_inv_frame [simp]:
  "sys_inv (complete_keys i st body d) = sys_inv d"
  "sys_inv (append_audit es d) = sys_inv d"
  "sys_inv (append_outbox os d) = sys_inv d"
  "sys_inv (add_milestone_event e d) = sys_inv d"
  "sys_inv (add_funding f d) = sys_inv d"
  "sys_inv (add_provider_event pe d) = sys_inv d"
  "sys_inv (mark_event_processed t pe d) = sys_inv d"
  "sys_inv (put_payout_account pa d) = sys_inv d"
  "sys_inv (add_payout_account pa d) = sys_inv d"
  "sys_inv (add_dispute_event de d) = sys_inv d"
  by (rule sys_inv_iff; simp add: same_core_def complete_keys_def append_audit_def append_outbox_def
      add_milestone_event_def add_funding_def add_provider_event_def mark_event_processed_def
      put_payout_account_def add_payout_account_def add_dispute_event_def)+


lemma wpI_post_new:
  assumes "find_journal rt ref oper w = None" and "E ValueError (c, w)"
    and "valid_postings ps \<Longrightarrow> Q (mk_journal (next_uuid w) oper rt ref ps meta reverses)
      (c, add_journal (mk_journal (next_uuid w) oper rt ref ps meta reverses) w)"
  shows "wp (post_journal oper rt ref ps meta reverses) Q E (c, w)"
  using assms by (auto intro!: wpI_post_journal)

lemma wpI_account_by_id:
  "(\<And>a. a \<in> set (accounts w) \<Longrightarrow> acc_id a = i \<Longrightarrow> Q (Some a) (c, w)) \<Longrightarrow> Q None (c, w) \<Longrightarrow>
    wp (query (account_by_id i)) Q E (c, w)"
  by (cases "account_by_id i w") (auto simp: wp_eqs account_by_id_def dest: row_by_SomeD)

lemma committed_inv: "sys_inv c \<Longrightarrow> sys_inv (fst (c, w))"
  by simp

lemma wpI_found_known:
  "Q x s \<Longrightarrow> wp (found e (Some x)) Q E s" "E e s \<Longrightarrow> wp (found e None) Q E s"
  by (simp_all add: wp_eqs)

lemmas handler_rules = wpI_account_by_id wpI_found_known wp_rules wpI_claim_inv wpI_complete_idempotency wp_record_audit_event
  wp_enqueue_outbox_event wpI_account_inv wpI_post_new wpI_uuid4_inv
  wpI_finish wpI_financial_state wpI_locked_milestone wpI_version_of wpI_locked_contract wpI_contract_of
  wpI_require_active_contract wpI_require_escrow wpI_set_milestone_status wpI_log_milestone_event

lemma put_row_twice: "key r' = key r \<Longrightarrow> put_row key r (put_row key r' rows) = put_row key r rows"
  by (simp add: put_row_def)

lemma update_order [simp]:
  "put_milestone m (add_milestone_event e d) = add_milestone_event e (put_milestone m d)"
  "put_milestone m (add_funding f d) = add_funding f (put_milestone m d)"
  "put_intent i (add_funding f d) = add_funding f (put_intent i d)"
  "ms_id m = ms_id m' \<Longrightarrow> put_milestone m (put_milestone m' d) = put_milestone m d"
  "rf_id r = rf_id r' \<Longrightarrow> put_refund r (put_refund r' d) = put_refund r d"
  by (simp_all add: put_milestone_def add_milestone_event_def add_funding_def put_intent_def put_refund_def put_row_twice)

lemma read_updates [simp]:
  "account_balance_minor a (d\<lparr>next_uuid := n\<rparr>) = account_balance_minor a d"
  "account_balance_minor a (d\<lparr>accounts := as\<rparr>) = account_balance_minor a d"
  "account_balance_minor a (d\<lparr>escrows := es\<rparr>) = account_balance_minor a d"
  "account_balance_minor a (d\<lparr>idempotency_keys := ks\<rparr>) = account_balance_minor a d"
  "find_escrow mid (d\<lparr>next_uuid := n\<rparr>) = find_escrow mid d"
  "find_escrow mid (d\<lparr>accounts := as\<rparr>) = find_escrow mid d"
  "find_escrow mid (d\<lparr>idempotency_keys := ks\<rparr>) = find_escrow mid d"
  by (simp_all add: find_escrow_def account_balance_minor_def entries_def)

lemmas peel = fst_conv sys_inv_frame update_order

section \<open>Release\<close>

lemma keeps_release_milestone: "keeps sys_inv (release_milestone env user mid key)"
  apply (rule keepsI)
  apply (unfold release_milestone_def wallet_account_def commission_account_def)
  apply (rule handler_rules | (rule committed_inv, assumption) | assumption
    | (simp, rule inv_release; auto; fail)
    | (rule no_release_journal; simp; fail) | (simp add: account_ok_def; fail))+
  done

section \<open>Funding\<close>

lemma wpI_insert_intent:
  "(0 < pi_amount i \<Longrightarrow> Q () (c, add_intent i w)) \<Longrightarrow> E IntegrityError (c, w) \<Longrightarrow> wp (insert_intent i) Q E (c, w)"
  by (auto simp: insert_intent_def wp_eqs)

lemma keeps_fund_milestone: "keeps sys_inv (fund_milestone env user mid prov key)"
  apply (rule keepsI)
  apply (unfold fund_milestone_def)
  apply (rule handler_rules wpI_insert_intent | (simp; fail)
    | (simp only: peel, rule inv_add_intent; auto; fail))+
  done

section \<open>Capture and webhooks\<close>

lemma contract_commission_bps_range: "contract_commission_bps v = Inr b \<Longrightarrow> 0 \<le> b \<and> b \<le> 10000"
  by (auto simp: contract_commission_bps_def split: json.splits if_splits)

lemma new_escrow_state:
  assumes inv: "sys_inv w" and m: "m \<in> set (milestones w)" and none: "find_escrow (ms_id m) w = None"
    and a: "a = new_account (''milestone:'' @ str_uuid (ms_id m) @ '':escrow:'' @ ms_currency m)
      MILESTONE_ESCROW (ms_currency m) None (Some (ms_id m)) w" "acc_key a \<notin> set (map acc_key (accounts w))"
    and e: "es_milestone e = ms_id m" "es_account e = acc_id a" "0 \<le> es_commission_bps e" "es_commission_bps e \<le> 10000"
    and n: "next_uuid w < n"
  shows "sys_inv (w\<lparr>next_uuid := n, accounts := accounts w @ [a], escrows := escrows w @ [e]\<rparr>)" (is "sys_inv ?d")
    and "escrow_bal (ms_id m) (w\<lparr>next_uuid := n, accounts := accounts w @ [a], escrows := escrows w @ [e]\<rparr>) =
      account_balance_minor (acc_id a) w"
proof -
  let ?k = "''milestone:'' @ str_uuid (ms_id m) @ '':escrow:'' @ ms_currency m"
  have k: "acc_key a = ?k" by (simp add: a(1) new_account_def)
  have "?d = add_escrow e (add_account a w\<lparr>next_uuid := n\<rparr>)" by (simp add: add_escrow_def add_account_def)
  moreover have "sys_inv (add_escrow e (add_account a w\<lparr>next_uuid := n\<rparr>))"
  proof (rule inv_add_escrow[OF inv a(1) _ _ none e])
    show "?k \<notin> set (map acc_key (accounts w))" using a(2) k by simp
    show "account_ok a" by (simp add: a(1) new_account_def account_ok_def)
    show "ms_id m \<in> ms_id ` set (milestones w)" using m by simp
    show "next_uuid (add_account a w) \<le> n" using n by (simp add: add_account_def)
  qed
  ultimately show "sys_inv ?d" by simp
  have "find_escrow (ms_id m) ?d = Some e"
    using none e(1) by (simp add: find_escrow_def row_by_append)
  then show "escrow_bal (ms_id m) ?d = account_balance_minor (acc_id a) w"
    using e(2) balance_cong[of ?d w] by (simp add: escrow_bal_def)
qed

lemma next_add_account: "next_uuid (add_account a w) = Suc (next_uuid w)"
  by (simp add: add_account_def)

lemma wpI_escrow_for_capture:
  assumes inv: "sys_inv w" and m: "m \<in> set (milestones w)"
    and Q: "\<And>e acc n as es. sys_inv (w\<lparr>next_uuid := n, accounts := as, escrows := es\<rparr>) \<Longrightarrow> next_uuid w \<le> n \<Longrightarrow>
      set (accounts w) \<subseteq> set as \<Longrightarrow> acc \<in> set as \<Longrightarrow> acc_type acc = MILESTONE_ESCROW \<Longrightarrow> acc_milestone acc = Some (ms_id m) \<Longrightarrow>
      escrow_bal (ms_id m) (w\<lparr>next_uuid := n, accounts := as, escrows := es\<rparr>) = account_balance_minor (acc_id acc) w \<Longrightarrow>
      Q (e, acc) (c, w\<lparr>next_uuid := n, accounts := as, escrows := es\<rparr>)"
    and E: "\<And>e s. fst s = c \<Longrightarrow> E e s"
  shows "wp (escrow_for_capture m v) Q E (c, w)"
proof (cases "find_escrow (ms_id m) w")
  case (Some e)
  show ?thesis
  proof (cases "account_by_id (es_account e) w")
    case None
    then show ?thesis using Some E by (simp add: escrow_for_capture_def wp_eqs)
  next
    case acc: (Some acc)
    have "Q (e, acc) (c, w\<lparr>next_uuid := next_uuid w, accounts := accounts w, escrows := escrows w\<rparr>)"
      using inv escrow_account_facts[OF inv Some acc] by (intro Q) simp_all
    with Some acc show ?thesis by (simp add: escrow_for_capture_def wp_eqs)
  qed
next
  case None
  let ?a = "new_account (''milestone:'' @ str_uuid (ms_id m) @ '':escrow:'' @ ms_currency m)
      MILESTONE_ESCROW (ms_currency m) None (Some (ms_id m)) w"
  have no: "\<not> account_identity_ok a MILESTONE_ESCROW (ms_currency m) None (Some (ms_id m))" if "a \<in> set (accounts w)" for a
    using escrow_account_iff[OF inv_parts(1,2)[OF inv] that, of "ms_id m"] None by (simp add: account_identity_ok_def)
  have new: "Q (e, ?a) (c, w\<lparr>next_uuid := n, accounts := accounts w @ [?a], escrows := escrows w @ [e]\<rparr>)"
    if "find_account (acc_key ?a) w = None" "es_milestone e = ms_id m" "es_account e = acc_id ?a"
      "0 \<le> es_commission_bps e" "es_commission_bps e \<le> 10000" "next_uuid w < n" for e n
  proof -
    have "acc_key ?a \<notin> set (map acc_key (accounts w))"
      using that(1) by (auto simp: find_account_def dest: find_NoneD)
    note st = new_escrow_state[OF inv m None refl this that(2-6)]
    show ?thesis using that(6) st by (intro Q) (auto simp: new_account_def)
  qed
  let ?k = "''milestone:'' @ str_uuid (ms_id m) @ '':escrow:'' @ ms_currency m"
  note run = escrow_for_capture_def wp_eqs wp_get_or_create_account Let_def
  show ?thesis
  proof (cases "find_account ?k w")
    case (Some b)
    then have "b \<in> set (accounts w)" by (auto simp: find_account_def dest: find_SomeD)
    from no[OF this] show ?thesis using None Some E by (simp only: run option.case if_False fst_conv)
  next
    case fresh: None
    show ?thesis
    proof (cases "contract_commission_bps v")
      case (Inl x)
      then show ?thesis using None fresh E by (simp only: run option.case sum.case fst_conv)
    next
      case (Inr b)
      let ?e = "\<lparr>es_id = Suc (next_uuid w), es_milestone = ms_id m, es_account = acc_id ?a, es_commission_bps = b\<rparr>"
      have "Q (?e, ?a) (c, w\<lparr>next_uuid := Suc (Suc (next_uuid w)), accounts := accounts w @ [?a], escrows := escrows w @ [?e]\<rparr>)"
        using fresh contract_commission_bps_range[OF Inr] by (intro new) (simp_all add: new_account_def)
      moreover have "w\<lparr>next_uuid := Suc (Suc (next_uuid w)), accounts := accounts w @ [?a], escrows := escrows w @ [?e]\<rparr> =
          add_escrow ?e (add_account ?a w\<lparr>next_uuid := Suc (Suc (next_uuid w))\<rparr>)"
        by (simp add: add_escrow_def add_account_def)
      ultimately have "Q (?e, ?a) (c, add_escrow ?e (add_account ?a w\<lparr>next_uuid := Suc (Suc (next_uuid w))\<rparr>))"
        by (simp only:)
      then show ?thesis
        using None fresh Inr next_add_account by (simp only: run option.case sum.case)
    qed
  qed
qed

text \<open>A capture is safe unless a refund is reserved on the milestone of an uncaptured intent.\<close>

definition capture_safe :: "db \<Rightarrow> bool" where
  "capture_safe d \<longleftrightarrow> (\<forall>m\<in>set (milestones d). \<forall>i\<in>set (intents d).
     ms_status m = MS_FUNDED \<and> pi_milestone i = ms_id m \<and> pi_status i \<noteq> PI_CAPTURED \<longrightarrow> reserved (ms_id m) d = 0)"

lemma capture_created:
  assumes inv: "sys_inv d" and m: "m \<in> set (milestones d)" "ms_id m = pi_milestone i" "ms_status m \<in> {MS_CREATED, MS_FUNDED}"
    and i: "i \<in> set (intents d)" "pi_status i \<noteq> PI_CAPTURED" and safe: "capture_safe d"
    and bal: "escrow_bal (ms_id m) d = b" "b + pi_amount i \<le> ms_amount m"
  shows "ms_status m = MS_CREATED \<and> b = 0 \<and> ms_amount m = pi_amount i"
proof -
  obtain x where "x \<in> set (milestones d)" "ms_id x = pi_milestone i" "ms_amount x = pi_amount i" and pos: "0 < pi_amount i"
    using inv_intent[OF inv i(1)] by (auto simp: intent_ok_def)
  then have amt: "ms_amount m = pi_amount i"
    using fresh_ids_eqI[OF inv_ids(1)[OF inv] _ m(1), of x] m(2) by simp
  have "ms_status m \<noteq> MS_FUNDED"
  proof
    assume f: "ms_status m = MS_FUNDED"
    with safe m(1,2) i have "reserved (ms_id m) d = 0" unfolding capture_safe_def by metis
    with inv_milestone[OF inv m(1)] f bal(1) have "b = ms_amount m" by (simp add: milestone_ok_def)
    with bal(2) pos show False by simp
  qed
  with m(3) have c: "ms_status m = MS_CREATED" by auto
  with inv_milestone[OF inv m(1)] reserved_nonneg[OF inv, of "ms_id m"] escrow_bal_nonneg[OF inv, of "ms_id m"]
  have "escrow_bal (ms_id m) d = 0" by (simp add: milestone_ok_def)
  with bal(1) c amt show ?thesis by simp
qed

lemma capture_safe_cong [simp]:
  "capture_safe (d\<lparr>next_uuid := n\<rparr>) = capture_safe d" "capture_safe (d\<lparr>accounts := as\<rparr>) = capture_safe d"
  "capture_safe (d\<lparr>escrows := es\<rparr>) = capture_safe d"
  by (simp_all add: capture_safe_def reserved_def)

lemma inv_capture_created:
  assumes inv: "sys_inv d" and m: "m \<in> set (milestones d)" "ms_id m = pi_milestone i" "ms_status m = MS_CREATED"
      "ms_amount m = pi_amount i"
    and i: "i \<in> set (intents d)" "pi_status i \<noteq> PI_CAPTURED"
    and ea: "ea \<in> set (accounts d)" "acc_type ea = MILESTONE_ESCROW" "acc_milestone ea = Some (ms_id m)"
    and clearing: "clearing \<in> set (accounts d)" "acc_type clearing = PROVIDER_CLEARING"
    and ps: "valid_postings [mk_posting clearing ''DEBIT'' (pi_amount i), mk_posting ea ''CREDIT'' (pi_amount i)]"
  shows "sys_inv (put_milestone (m\<lparr>ms_status := MS_FUNDED\<rparr>) (put_intent (i\<lparr>pi_status := PI_CAPTURED, pi_captured_at := t\<rparr>)
    (add_journal (mk_journal (next_uuid d) MILESTONE_FUND ''payment_intent'' (pi_id i)
      [mk_posting clearing ''DEBIT'' (pi_amount i), mk_posting ea ''CREDIT'' (pi_amount i)] meta None) d)))"
  using assms by (intro inv_capture[where clearing = clearing and ea = ea]) simp_all

lemma wpI_escrow_for_intent:
  assumes inv: "sys_inv w" and m: "m \<in> set (milestones w)" "ms_id m = pi_milestone i" "\<not> ms_status m \<notin> {MS_CREATED, MS_FUNDED}"
    and i: "i \<in> set (intents w)" "pi_status i \<noteq> PI_CAPTURED" and safe: "capture_safe w"
    and Q: "\<And>e acc n as es. sys_inv (w\<lparr>next_uuid := n, accounts := as, escrows := es\<rparr>) \<Longrightarrow>
      acc \<in> set as \<Longrightarrow> acc_type acc = MILESTONE_ESCROW \<Longrightarrow> acc_milestone acc = Some (ms_id m) \<Longrightarrow>
      account_balance_minor (acc_id acc) w + pi_amount i \<le> ms_amount m \<longrightarrow>
        ms_status m = MS_CREATED \<and> account_balance_minor (acc_id acc) w = 0 \<and> ms_amount m = pi_amount i \<Longrightarrow>
      Q (e, acc) (c, w\<lparr>next_uuid := n, accounts := as, escrows := es\<rparr>)"
    and E: "\<And>e s. fst s = c \<Longrightarrow> E e s"
  shows "wp (escrow_for_capture m v) Q E (c, w)"
proof (rule wpI_escrow_for_capture[OF inv m(1) _ E])
  fix e acc n as es
  let ?d = "w\<lparr>next_uuid := n, accounts := as, escrows := es\<rparr>"
  assume a: "sys_inv ?d" "acc \<in> set as" "acc_type acc = MILESTONE_ESCROW" "acc_milestone acc = Some (ms_id m)"
    "escrow_bal (ms_id m) ?d = account_balance_minor (acc_id acc) w"
  have "ms_status m = MS_CREATED \<and> account_balance_minor (acc_id acc) w = 0 \<and> ms_amount m = pi_amount i"
    if "account_balance_minor (acc_id acc) w + pi_amount i \<le> ms_amount m"
    using m i safe that by (intro capture_created[OF a(1) _ m(2) _ _ i(2) _ a(5)]) simp_all
  with a(1-4) show "Q (e, acc) (c, ?d)" by (intro Q) simp_all
qed

lemma wpI_capture_intent:
  assumes inv: "sys_inv w" and i: "i \<in> set (intents w)" and safe: "capture_safe w"
    and Q: "\<And>b w'. sys_inv w' \<Longrightarrow> Q b (c, w')" and E: "\<And>e s. fst s = c \<Longrightarrow> E e s"
  shows "wp (capture_intent env i actor) Q E (c, w)"
  unfolding capture_intent_def provider_clearing_account_def
  apply (insert inv i safe)
  apply (rule handler_rules wpI_escrow_for_intent | (rule E; simp; fail) | (rule Q; simp; fail) | (assumption | simp; fail)
    | (simp add: account_ok_def; fail) | (rule no_fund_journal; simp; fail)
    | (rule Q, simp only: peel, rule inv_capture_created; auto; fail))+
  done

lemma capture_safe_event [simp]: "capture_safe (add_provider_event e d) = capture_safe d"
  by (simp add: capture_safe_def add_provider_event_def reserved_def)

lemma wpI_intent_by_reference:
  "(\<And>i. i \<in> set (intents w) \<Longrightarrow> Q (Some i) (c, w)) \<Longrightarrow> Q None (c, w) \<Longrightarrow>
    wp (query (intent_by_reference prov reference)) Q E (c, w)"
  by (cases "intent_by_reference prov reference w") (auto simp: wp_eqs intent_by_reference_def dest: find_SomeD)

lemma wpI_apply_captured:
  assumes inv: "sys_inv w" and safe: "capture_safe w"
    and Q: "\<And>w'. sys_inv w' \<Longrightarrow> Q () (c, w')" and E: "\<And>e s. fst s = c \<Longrightarrow> E e s"
  shows "wp (apply_captured env p data) Q E (c, w)"
  unfolding apply_captured_def
  apply (insert inv safe)
  apply (rule wpI_intent_by_reference wp_rules wpI_capture_intent | (rule E; simp; fail) | (rule Q; simp; fail)
    | assumption | (simp; fail))+
  done

lemma wpI_apply_failed:
  assumes inv: "sys_inv w"
    and Q: "\<And>w'. sys_inv w' \<Longrightarrow> Q () (c, w')" and E: "\<And>e s. fst s = c \<Longrightarrow> E e s"
  shows "wp (apply_failed p data) Q E (c, w)"
  unfolding apply_failed_def
  apply (insert inv)
  apply (rule wpI_intent_by_reference wp_rules | (rule E; simp; fail) | (rule Q; simp; fail)
    | (rule Q, rule inv_put_intent; simp; fail) | assumption | (simp; fail))+
  done

lemma wpI_insert_provider_event:
  "Q () (c, add_provider_event e w) \<Longrightarrow> E IntegrityError (c, w) \<Longrightarrow> wp (insert_provider_event e) Q E (c, w)"
  by (simp add: insert_provider_event_def wp_eqs split: option.split)

lemma wpI_duplicate_provider_event:
  "(\<And>x. Q x (c, w)) \<Longrightarrow> (\<And>e. E e (c, w)) \<Longrightarrow> wp (duplicate_provider_event ev h) Q E (c, w)"
  by (simp add: duplicate_provider_event_def wp_eqs)

lemma if_exnI: "(e = e' \<Longrightarrow> P) \<Longrightarrow> (e \<noteq> e' \<Longrightarrow> R) \<Longrightarrow> if e = (e'::exn) then P else R"
  by simp

lemma webhook_keeps_inv:
  assumes "sys_inv d" and "capture_safe d"
  shows "wp (process_provider_webhook env prov payload sig) (\<lambda>_ s. sys_inv (fst s)) (\<lambda>_ s. sys_inv (fst s)) (d, d)"
  unfolding process_provider_webhook_def
  apply (insert assms)
  apply (rule wpI_insert_provider_event wpI_duplicate_provider_event wp_rules wpI_apply_captured wpI_apply_failed
    | (simp; fail) | rule if_exnI)+
  done

section \<open>Refunds\<close>

lemma wpI_insert_refund:
  "(0 < rf_amount r \<Longrightarrow> Q () (c, add_refund r w)) \<Longrightarrow> E IntegrityError (c, w) \<Longrightarrow> wp (insert_refund r) Q E (c, w)"
  by (auto simp: insert_refund_def wp_eqs)

lemma wpI_set_refund_reference:
  "Q (r\<lparr>rf_reference := Some reference\<rparr>) (c, put_refund (r\<lparr>rf_reference := Some reference\<rparr>) w) \<Longrightarrow>
    E IntegrityError (c, w) \<Longrightarrow> wp (set_refund_reference r reference) Q E (c, w)"
  by (auto simp: set_refund_reference_def wp_eqs Let_def)

lemma wpI_locked_refund:
  "(\<And>r. r \<in> set (refunds w) \<Longrightarrow> rf_id r = i \<Longrightarrow> Q r (c, w)) \<Longrightarrow> E RuntimeError (c, w) \<Longrightarrow>
    wp (locked_refund i) Q E (c, w)"
  by (auto simp: locked_refund_def wp_eqs split: option.split dest: row_by_SomeD)

lemma wpI_key_by_id: "(\<And>k. Q k (c, w)) \<Longrightarrow> (\<And>e. E e (c, w)) \<Longrightarrow> wp (key_by_id i) Q E (c, w)"
  by (simp add: key_by_id_def wp_eqs split: option.split)

lemma wp_finish [wp_eqs]:
  "wp (finish idem body st) Q E (c, w) =
    Q (body, st) (complete_keys (ik_id idem) st body w, complete_keys (ik_id idem) st body w)"
  by (simp add: finish_def complete_idempotency_def wp_eqs)

lemma wpI_complete_refund_replay:
  "(\<And>x w'. sys_inv w' \<Longrightarrow> Q (Some x) (w', w')) \<Longrightarrow> (rf_status r = RF_PENDING \<Longrightarrow> Q None (c, w)) \<Longrightarrow> sys_inv w \<Longrightarrow>
    wp (complete_refund_replay r idem) Q E (c, w)"
  by (cases "rf_status r") (simp_all add: complete_refund_replay_def wp_eqs)

lemma wpI_replay_terminal_refund:
  "(\<And>x w'. sys_inv w' \<Longrightarrow> Q x (w', w')) \<Longrightarrow> (\<And>e. E e (c, w)) \<Longrightarrow> sys_inv w \<Longrightarrow>
    wp (replay_terminal_refund r) Q E (c, w)"
  unfolding replay_terminal_refund_def
  by (rule wpI_bnd wpI_key_by_id wpI_complete_refund_replay | (simp add: wp_eqs; fail))+

text \<open>An account found under a key has the type its key stands for.\<close>

lemma account_type_of_key:
  assumes "sys_inv d" and "a \<in> set (accounts d)"
  shows "take 2 (acc_key a) = ''pr'' \<Longrightarrow> acc_type a = PROVIDER_CLEARING"
    and "take 2 (acc_key a) = ''us'' \<Longrightarrow> acc_type a = FREELANCER_WALLET"
proof -
  have "account_ok a" using assms by (simp add: sys_inv_def accounts_inv_def)
  then show "take 2 (acc_key a) = ''pr'' \<Longrightarrow> acc_type a = PROVIDER_CLEARING"
    and "take 2 (acc_key a) = ''us'' \<Longrightarrow> acc_type a = FREELANCER_WALLET"
    by (auto simp: account_ok_def split: account_type.splits)
qed

text \<open>The state after a provider's refusal was recorded.\<close>

lemma found_account:
  assumes "sys_inv d" and "find_account k d = Some a"
  shows "a \<in> set (accounts d)" "take 2 k = ''pr'' \<Longrightarrow> acc_type a = PROVIDER_CLEARING"
    "take 2 k = ''us'' \<Longrightarrow> acc_type a = FREELANCER_WALLET"
  using assms(2) account_type_of_key[OF assms(1), of a] by (auto simp: find_account_def dest: find_SomeD)

lemma inv_refund_failed:
  assumes inv: "sys_inv d" and r: "r \<in> set (refunds d)" "\<not> rf_status r \<noteq> RF_PENDING" "ref = rf_id r"
    and ea: "\<exists>e. find_escrow (rf_milestone r) d = Some e \<and> es_account e = acc_id ea" "ea \<in> set (accounts d)"
    and clearing: "find_account (''provider:'' @ rf_provider r @ '':clearing:'' @ rf_currency r) d = Some clearing"
    and ps: "valid_postings [mk_posting clearing ''DEBIT'' (rf_amount r), mk_posting ea ''CREDIT'' (rf_amount r)]"
  shows "sys_inv (put_refund (r\<lparr>rf_status := RF_FAILED\<rparr>) (add_journal (mk_journal (next_uuid d) REVERSAL ''refund'' ref
    [mk_posting clearing ''DEBIT'' (rf_amount r), mk_posting ea ''CREDIT'' (rf_amount r)] meta reverses) d))"
proof -
  obtain e where e: "find_escrow (rf_milestone r) d = Some e" "account_by_id (es_account e) d = Some ea" 
    using ea account_by_id_Some_iff[OF inv_parts(1)[OF inv]] by auto
  show ?thesis unfolding r(3)
    using ps found_account[OF inv clearing] escrow_account_facts[OF inv e] r(2)
    by (intro inv_fail_refund[OF inv r(1), where ea = ea and clearing = clearing]) simp_all
qed

lemma wpI_fail_refund:
  assumes inv: "sys_inv w" and Q: "\<And>x w'. sys_inv w' \<Longrightarrow> Q x (w', w')" and E: "\<And>e s. fst s = c \<Longrightarrow> E e s"
  shows "wp (fail_refund env rid actor) Q E (c, w)"
  unfolding fail_refund_def
  apply (insert inv)
  apply (rule handler_rules wpI_locked_refund wpI_replay_terminal_refund wpI_key_by_id
    | (rule E; simp; fail) | (rule Q; simp; fail) | (assumption | simp; fail)
    | (rule no_refund_reversal; simp; fail)
    | (rule Q, simp only: peel, rule inv_refund_failed; auto; fail))+
  done

lemma wpI_captured_funding_intent:
  "(\<And>i. Q i (c, w)) \<Longrightarrow> (\<And>e. E e (c, w)) \<Longrightarrow> wp (captured_funding_intent mid prov) Q E (c, w)"
  by (simp add: captured_funding_intent_def wp_eqs split: option.split)

lemma inv_refund_reserved:
  assumes inv: "sys_inv d" and m: "\<exists>m\<in>set (milestones d). ms_id m = rf_milestone r \<and> ms_status m = MS_FUNDED"
    and e: "\<exists>e. find_escrow (rf_milestone r) d = Some e \<and> es_account e = acc_id ea" "ea \<in> set (accounts d)"
    and full: "account_balance_minor (acc_id ea) d = n" "0 < n"
    and clearing: "clearing \<in> set (accounts d)" "acc_type clearing = PROVIDER_CLEARING"
    and ps: "valid_postings [mk_posting ea ''DEBIT'' n, mk_posting clearing ''CREDIT'' n]"
    and r: "unused (rf_id r) d" "rf_id r < next_uuid d" "rf_status r = RF_PENDING" "rf_amount r = n" "i = rf_id r"
  shows "sys_inv (add_refund r (add_journal (mk_journal (next_uuid d) MILESTONE_REFUND ''refund'' i
      [mk_posting ea ''DEBIT'' n, mk_posting clearing ''CREDIT'' n] meta None) d))"
proof -
  obtain x where x: "x \<in> set (milestones d)" "ms_id x = rf_milestone r" "ms_status x = MS_FUNDED" using m by blast
  obtain e' where e': "find_escrow (ms_id x) d = Some e'" "account_by_id (es_account e') d = Some ea"
    using e x(2) account_by_id_Some_iff[OF inv_parts(1)[OF inv]] by auto
  show ?thesis unfolding r(5)
    using full clearing ps r x escrow_account_facts[OF inv e']
    by (intro inv_reserve_refund[OF inv x(1), where ea = ea and clearing = clearing and n = n]) simp_all
qed

lemma keeps_refund_prepare: "keeps sys_inv (refund_prepare env user mid prov key)"
  apply (rule keepsI)
  apply (unfold refund_prepare_def reserve_refund_def provider_clearing_account_def)
  apply (rule handler_rules wpI_insert_refund wpI_captured_funding_intent wpI_complete_refund_replay
    | (rule committed_inv, assumption) | assumption | (rule unused_journal; simp; fail)
    | (simp only: peel, rule inv_refund_reserved; auto; fail) | (simp add: account_ok_def; fail))+
  done

lemma inv_refund_done:
  assumes inv: "sys_inv d" and r: "r \<in> set (refunds d)" "\<not> rf_status r \<noteq> RF_PENDING"
    and m: "m \<in> set (milestones d)" "ms_id m = rf_milestone r" "\<not> ms_status m \<noteq> MS_FUNDED"
  shows "sys_inv (put_milestone (m\<lparr>ms_status := MS_CREATED\<rparr>)
    (put_refund (r\<lparr>rf_reference := x, rf_status := RF_SUCCEEDED\<rparr>) d))"
  using r m by (intro inv_complete_refund[OF inv r(1)]) simp_all

lemma inv_refund_referenced:
  assumes "sys_inv d" and "r \<in> set (refunds d)" "\<not> rf_status r \<noteq> RF_PENDING"
  shows "sys_inv (put_refund (r\<lparr>rf_reference := x\<rparr>) d)"
  using assms by (intro inv_put_refund) simp_all

text \<open>The refund row belongs to the milestone of the request.\<close>

definition refund_of :: "uuid \<Rightarrow> uuid \<Rightarrow> db \<Rightarrow> bool" where
  "refund_of rid mid d \<longleftrightarrow> (\<forall>r\<in>set (refunds d). rf_id r = rid \<longrightarrow> rf_milestone r = mid)"

lemma wpI_refund_row:
  "(\<And>r. r \<in> set (refunds w) \<Longrightarrow> rf_id r = i \<Longrightarrow> Q (Some r) (c, w)) \<Longrightarrow> Q None (c, w) \<Longrightarrow>
    wp (query (\<lambda>d. row_by rf_id i (refunds d))) Q E (c, w)"
  by (cases "row_by rf_id i (refunds w)") (auto simp: wp_eqs dest: row_by_SomeD)

lemma wpI_refund_record:
  assumes inv: "sys_inv w" and mine: "refund_of rid mid w"
    and Q: "\<And>x w'. sys_inv w' \<Longrightarrow> Q x (w', w')" and E: "\<And>e s. fst s = c \<Longrightarrow> E e s"
  shows "wp (refund_record env user mid rid result) Q E (c, w)"
  unfolding refund_record_def
  apply (insert inv mine[unfolded refund_of_def])
  apply (rule wpI_refund_row handler_rules wpI_replay_terminal_refund wpI_fail_refund wpI_set_refund_reference wpI_key_by_id
    | (rule E; simp; fail) | (rule Q; assumption) | assumption
    | (rule Q, simp, rule inv_refund_done; simp; fail)
    | (rule Q, rule inv_refund_referenced; simp; fail)
    | (rule inv_refund_referenced; simp; fail))+
  done

lemma wpI_exn:
  assumes "\<And>t st. e = ApiError t st \<Longrightarrow> wp (f1 t st) Q E s" "e = ValidationError \<Longrightarrow> wp f2 Q E s"
    "e = RuntimeError \<Longrightarrow> wp f3 Q E s" "e = ValueError \<Longrightarrow> wp f4 Q E s" "e = AttributeError \<Longrightarrow> wp f5 Q E s"
    "e = IndexError \<Longrightarrow> wp f6 Q E s" "e = KeyError \<Longrightarrow> wp f12 Q E s" "e = IntegrityError \<Longrightarrow> wp f7 Q E s"
    "e = TypeError \<Longrightarrow> wp f8 Q E s" "e = OSError \<Longrightarrow> wp f9 Q E s"
    "e = ProviderTemporaryError \<Longrightarrow> wp f10 Q E s" "e = ProviderOtherError \<Longrightarrow> wp f11 Q E s"
  shows "wp (case_exn f1 f2 f3 f4 f5 f6 f12 f7 f8 f9 f10 f11 e) Q E s"
  using assms by (cases e) simp_all

lemma refund_settle_keeps_inv:
  assumes "sys_inv d" and "refund_of (rf_id r) mid d"
  shows "wp (refund_settle env user mid key r fi) (\<lambda>_ s. sys_inv (fst s)) (\<lambda>_ s. sys_inv (fst s)) (d, d)"
  unfolding refund_settle_def
  apply (insert assms)
  apply (rule wp_rules wpI_refund_record wpI_fail_refund wpI_exn | (simp; fail))+
  done

section \<open>Payouts\<close>

lemma wpI_insert_payout:
  "Q () (c, add_payout p w) \<Longrightarrow> E IntegrityError (c, w) \<Longrightarrow> wp (insert_payout p) Q E (c, w)"
  by (simp add: insert_payout_def wp_eqs)

lemma wpI_locked_payout:
  "(\<And>p. p \<in> set (payouts w) \<Longrightarrow> po_id p = i \<Longrightarrow> Q p (c, w)) \<Longrightarrow> E RuntimeError (c, w) \<Longrightarrow>
    wp (locked_payout i) Q E (c, w)"
  by (auto simp: locked_payout_def wp_eqs split: option.split dest: row_by_SomeD)

lemma wpI_complete_terminal_replay:
  "(\<And>x w'. sys_inv w' \<Longrightarrow> Q (Some x) (w', w')) \<Longrightarrow> (po_status p = PO_PENDING \<Longrightarrow> Q None (c, w)) \<Longrightarrow> sys_inv w \<Longrightarrow>
    wp (complete_terminal_replay p idem) Q E (c, w)"
  by (cases "po_status p") (simp_all add: complete_terminal_replay_def wp_eqs)

lemma wpI_replay_terminal_payout:
  "(\<And>x w'. sys_inv w' \<Longrightarrow> Q x (w', w')) \<Longrightarrow> (\<And>e. E e (c, w)) \<Longrightarrow> sys_inv w \<Longrightarrow>
    wp (replay_terminal_payout p) Q E (c, w)"
  unfolding replay_terminal_payout_def
  by (rule wpI_bnd wpI_key_by_id wpI_complete_terminal_replay | (simp add: wp_eqs; fail))+

lemma inv_payout_failed:
  assumes inv: "sys_inv d" and p: "p \<in> set (payouts d)" "\<not> po_status p \<noteq> PO_PENDING" "ref = po_id p"
    and wallet: "find_account (''user:'' @ str_uuid (po_freelancer p) @ '':wallet:'' @ po_currency p) d = Some wallet"
    and clearing: "find_account (''provider:'' @ po_provider p @ '':clearing:'' @ po_currency p) d = Some clearing"
    and ps: "valid_postings [mk_posting clearing ''DEBIT'' n, mk_posting wallet ''CREDIT'' n]"
  shows "sys_inv (put_payout (p\<lparr>po_reversal := x, po_status := PO_FAILED, po_completed_at := t\<rparr>)
    (add_journal (mk_journal (next_uuid d) REVERSAL ''payout'' ref
      [mk_posting clearing ''DEBIT'' n, mk_posting wallet ''CREDIT'' n] meta reverses) d))"
  unfolding p(3) using ps found_account[OF inv wallet] found_account[OF inv clearing] p(1,2)
  by (intro inv_fail_payout[OF inv p(1), where wallet = wallet and clearing = clearing and n = n]) simp_all

lemma wpI_fail_payout:
  assumes inv: "sys_inv w" and Q: "\<And>x w'. sys_inv w' \<Longrightarrow> Q x (w', w')" and E: "\<And>e s. fst s = c \<Longrightarrow> E e s"
  shows "wp (fail_payout env pid actor) Q E (c, w)"
  unfolding fail_payout_def
  apply (insert inv)
  apply (rule handler_rules wpI_locked_payout wpI_replay_terminal_payout wpI_key_by_id
    | (rule E; simp; fail) | (rule Q; assumption) | assumption
    | (rule no_payout_reversal; simp; fail)
    | (rule Q, simp only: peel, rule inv_payout_failed; simp; fail) | (simp; fail))+
  done

lemma wpI_find_payout:
  "(\<And>p. p \<in> set (payouts w) \<Longrightarrow> Q (Some p) (c, w)) \<Longrightarrow> Q None (c, w) \<Longrightarrow>
    wp (query (\<lambda>d. List.find P (payouts d))) Q E (c, w)"
  by (cases "List.find P (payouts w)") (auto simp: wp_eqs dest: find_SomeD)

lemma wpI_find_wallet:
  "(\<And>a. a \<in> set (accounts w) \<Longrightarrow> acc_type a = FREELANCER_WALLET \<Longrightarrow> Q (Some a) (c, w)) \<Longrightarrow> Q None (c, w) \<Longrightarrow>
    wp (query (find_wallet k)) Q E (c, w)"
  by (cases "find_wallet k w") (auto simp: wp_eqs find_wallet_def dest: find_SomeD)

lemma wpI_resolve_payout_destination:
  "(\<And>x. Q x (c, w)) \<Longrightarrow> (\<And>e. E e (c, w)) \<Longrightarrow> wp (resolve_payout_destination u prov) Q E (c, w)"
  by (simp add: resolve_payout_destination_def wp_eqs Let_def split: option.split)

lemma wpI_require_sufficient_balance:
  "(n \<le> account_balance_minor (acc_id a) w \<Longrightarrow> Q () (c, w)) \<Longrightarrow> (\<And>e. E e (c, w)) \<Longrightarrow>
    wp (require_sufficient_balance a n) Q E (c, w)"
  by (simp add: wp_eqs)

lemma wpI_upgrade_legacy_destination_snapshot:
  assumes "sys_inv w" and "p \<in> set (payouts w)" and "po_status p = PO_PENDING"
    and "\<And>x w'. sys_inv w' \<Longrightarrow> Q x (w', w')" and "\<And>x. Q x (c, w)" and "\<And>e. E e (c, w)"
  shows "wp (upgrade_legacy_destination_snapshot p) Q E (c, w)"
  using assms by (auto simp: upgrade_legacy_destination_snapshot_def wp_eqs Let_def intro!: assms(4) inv_put_payout)

lemma inv_payout_reserved:
  assumes inv: "sys_inv d"
    and wallet: "wallet \<in> set (accounts d)" "acc_type wallet = FREELANCER_WALLET" "n \<le> account_balance_minor (acc_id wallet) d"
    and clearing: "clearing \<in> set (accounts d)" "acc_type clearing = PROVIDER_CLEARING"
    and ps: "valid_postings [mk_posting wallet ''DEBIT'' n, mk_posting clearing ''CREDIT'' n]"
    and p: "po_id p < next_uuid d" "unused (po_id p) d" "ref = po_id p"
  shows "sys_inv (add_payout p (add_journal (mk_journal (next_uuid d) PAYOUT ''payout'' ref
      [mk_posting wallet ''DEBIT'' n, mk_posting clearing ''CREDIT'' n] meta None) d))"
  unfolding p(3) using assms by (intro inv_reserve_payout[where wallet = wallet and clearing = clearing and n = n]) simp_all

lemma keeps_payout_prepare: "keeps sys_inv (payout_prepare env user n cur prov key)"
  apply (rule keepsI)
  apply (unfold payout_prepare_def reserve_payout_def provider_clearing_account_def)
  apply (rule wpI_find_payout wpI_find_wallet handler_rules wpI_insert_payout wpI_resolve_payout_destination
      wpI_require_sufficient_balance wpI_complete_terminal_replay wpI_upgrade_legacy_destination_snapshot
    | (rule committed_inv, assumption) | assumption | (rule unused_journal; simp; fail)
    | (simp only: peel, rule inv_payout_reserved; auto; fail) | (simp add: account_ok_def; fail))+
  done

lemma inv_payout_succeeded:
  assumes "sys_inv d" and "p \<in> set (payouts d)" "\<not> po_status p \<noteq> PO_PENDING"
  shows "sys_inv (put_payout (p\<lparr>po_reference := x, po_status := PO_SUCCEEDED, po_completed_at := t\<rparr>) d)"
  using assms by (intro inv_put_payout) simp_all

lemma wpI_set_payout_succeeded:
  "(\<And>x t. Q (p\<lparr>po_reference := x, po_status := PO_SUCCEEDED, po_completed_at := t\<rparr>)
      (c, put_payout (p\<lparr>po_reference := x, po_status := PO_SUCCEEDED, po_completed_at := t\<rparr>) w)) \<Longrightarrow>
    E IntegrityError (c, w) \<Longrightarrow> wp (set_payout_succeeded env p reference) Q E (c, w)"
  by (simp add: set_payout_succeeded_def wp_eqs Let_def)

lemma wpI_payout_record:
  assumes inv: "sys_inv w" and Q: "\<And>x w'. sys_inv w' \<Longrightarrow> Q x (w', w')" and E: "\<And>e s. fst s = c \<Longrightarrow> E e s"
  shows "wp (payout_record env user pid result) Q E (c, w)"
  unfolding payout_record_def
  apply (insert inv)
  apply (rule handler_rules wpI_locked_payout wpI_replay_terminal_payout wpI_key_by_id wpI_fail_payout
      wpI_set_payout_succeeded
    | (rule E; simp; fail) | (rule Q; assumption) | assumption
    | (rule Q, simp only: peel, rule inv_payout_succeeded; simp; fail) | (simp; fail))+
  done

lemma payout_settle_keeps_inv: "keeps sys_inv (payout_settle env user key p)"
  apply (rule keepsI)
  apply (unfold payout_settle_def)
  apply (rule wp_rules wpI_payout_record wpI_fail_payout wpI_locked_payout wpI_exn | (simp; fail))+
  done

lemma keeps_configure_payout_provider_account:
  "keeps sys_inv (configure_payout_provider_account env administrator fid prov reference)"
  apply (rule keepsI)
  apply (unfold configure_payout_provider_account_def)
  apply (rule handler_rules | (rule committed_inv, assumption) | assumption | (simp; fail))+
  done

lemma keeps_disable_payout_provider_account:
  "keeps sys_inv (disable_payout_provider_account env administrator fid prov)"
  apply (rule keepsI)
  apply (unfold disable_payout_provider_account_def)
  apply (rule handler_rules | (rule committed_inv, assumption) | assumption | (simp; fail))+
  done

end
