(* ===== verification/Casework.thy ===== *)
theory Casework
  imports Handlers
begin

text \<open>
  The second half of the handlers: milestone execution, contracts, proposals and disputes keep
  the invariant \<open>sys_inv\<close>. The resolution of a dispute is the one request whose journal has
  postings of three kinds; its steps are abstracted one by one before they are put together.
\<close>

section \<open>Milestone execution\<close>

lemma inv_work_step:
  assumes "sys_inv d" and "m \<in> set (milestones d)" and "ms_status m \<in> work_states" and "st \<in> work_states"
  shows "sys_inv (put_milestone (m\<lparr>ms_status := st\<rparr>) d)"
  using assms inv_milestone[OF assms(1,2)]
  by (intro inv_put_milestone[OF assms(1,2) refl]) (auto simp: milestone_ok_def work_states_def)

lemma inv_start_step:
  assumes "sys_inv d" and "m \<in> set (milestones d)" and "ms_status m = MS_FUNDED" and "escrow_bal (ms_id m) d = ms_amount m"
  shows "sys_inv (put_milestone (m\<lparr>ms_status := MS_IN_PROGRESS\<rparr>) d)"
  using assms inv_milestone[OF assms(1,2)]
  by (intro inv_put_milestone[OF assms(1,2) refl]) (auto simp: milestone_ok_def work_states_def)

text \<open>The pairs of action and target status with which the four services call \<open>_transition\<close>.\<close>

definition user_action :: "milestone_action \<Rightarrow> milestone_status \<Rightarrow> bool" where
  "user_action act target \<longleftrightarrow> (act, target) \<in> {(Start, MS_IN_PROGRESS), (Submit, MS_SUBMITTED),
     (Request_changes, MS_CHANGES_REQUESTED), (Approve, MS_APPROVED)}"

lemma inv_user_action:
  assumes "sys_inv d" and "user_action act target" and "m \<in> set (milestones d)"
    and "ms_status m \<in> user_transitions act" and "act = Start \<longrightarrow> escrow_bal (ms_id m) d = ms_amount m"
  shows "sys_inv (put_milestone (m\<lparr>ms_status := target\<rparr>) d)"
proof (cases "act = Start")
  case True
  with assms show ?thesis by (auto simp: user_action_def intro: inv_start_step)
next
  case False
  with assms show ?thesis
    by (intro inv_work_step) (auto simp: user_action_def work_states_def)
qed

lemma wpI_require_milestone_fully_funded:
  assumes "sys_inv w" and "escrow_bal (ms_id m) w = ms_amount m \<Longrightarrow> Q () (c, w)" and "\<And>e. E e (c, w)"
  shows "wp (require_milestone_fully_funded m) Q E (c, w)"
  using assms escrow_account_facts[OF assms(1)]
  by (auto simp: require_milestone_fully_funded_def require_escrow_def wp_eqs split: option.split)

lemma keeps_milestone_transition:
  assumes "user_action act target"
  shows "keeps sys_inv (milestone_transition env user mid act target note worker)"
  apply (rule keepsI)
  apply (insert assms)
  apply (unfold milestone_transition_def)
  apply (rule handler_rules wpI_require_milestone_fully_funded | (rule committed_inv, assumption) | assumption
    | (simp (no_asm) only: peel, rule inv_user_action; blast))+
  done

section \<open>Contracts and proposals\<close>

lemma sys_inv_contract_tables [simp]:
  "sys_inv (put_contract k d) = sys_inv d" "sys_inv (add_signature s d) = sys_inv d"
  "sys_inv (put_proposal p d) = sys_inv d"
  "sys_inv (d\<lparr>contracts := cs\<rparr>) = sys_inv d" "sys_inv (d\<lparr>contract_parties := ps\<rparr>) = sys_inv d"
  "sys_inv (d\<lparr>contract_versions := vs\<rparr>) = sys_inv d" "sys_inv (d\<lparr>proposals := prs\<rparr>) = sys_inv d"
  by (rule sys_inv_iff; simp add: same_core_def put_contract_def add_signature_def put_proposal_def)+

lemma wpI_insert_milestone:
  assumes "sys_inv w" and "\<And>e w'. E e (c, w')"
  shows "wp (insert_milestone vid cur term) (\<lambda>_ s. \<exists>w'. s = (c, w') \<and> sys_inv w') E (c, w)"
proof -
  obtain q t a n where tm: "term = (q, t, a, n)" by (cases "term") auto
  have "sys_inv (add_milestone \<lparr>ms_id = next_uuid w, ms_version_id = vid, ms_sequence = q, ms_title = t, ms_amount = a,
      ms_currency = cur, ms_delivery_days = n, ms_status = MS_CREATED\<rparr> (w\<lparr>next_uuid := Suc (next_uuid w)\<rparr>))" if "0 \<le> a"
    using inv_bump[OF assms(1), of "Suc (next_uuid w)"] inv_unused[OF assms(1)] that
    by (intro inv_add_milestone) simp_all
  then show ?thesis using assms(2) by (simp add: insert_milestone_def tm wp_eqs)
qed

lemma wpI_insert_contract:
  "(\<And>w'. sys_inv w' \<Longrightarrow> Q () (c, w')) \<Longrightarrow> E IntegrityError (c, w) \<Longrightarrow> sys_inv w \<Longrightarrow> wp (insert_contract k) Q E (c, w)"
  by (simp add: insert_contract_def wp_eqs)

lemma wpI_current_contract_version:
  "(\<And>v. Q v (c, w)) \<Longrightarrow> (\<And>e. E e (c, w)) \<Longrightarrow> wp (current_contract_version k) Q E (c, w)"
  by (simp add: current_contract_version_def wp_eqs split: option.split)

lemma wpI_get_contract: "(\<And>k. Q k (c, w)) \<Longrightarrow> (\<And>e. E e (c, w)) \<Longrightarrow> wp (get_contract cid) Q E (c, w)"
  by (simp add: get_contract_def wp_eqs split: option.split)

lemma wpI_get_proposal: "(\<And>p. Q p (c, w)) \<Longrightarrow> (\<And>e. E e (c, w)) \<Longrightarrow> wp (get_proposal pid) Q E (c, w)"
  by (simp add: get_proposal_def wp_eqs split: option.split)

lemma wpI_get_project: "(\<And>p. Q p (c, w)) \<Longrightarrow> (\<And>e. E e (c, w)) \<Longrightarrow> wp (get_project pid) Q E (c, w)"
  by (simp add: get_project_def wp_eqs split: option.split)

lemma wpI_create_contract:
  assumes "sys_inv w" and Q: "\<And>k w'. sys_inv w' \<Longrightarrow> Q k (c, w')" and E: "\<And>e w'. E e (c, w')"
  shows "wp (create_contract_from_accepted_proposal env p pj actor) Q E (c, w)"
  unfolding create_contract_from_accepted_proposal_def
  apply (insert assms(1))
  apply (rule wpI_insert_contract handler_rules | (rule E) | (rule Q; assumption) | assumption
    | (rule wpI_for_each[where I = sys_inv and c = c]) | (rule wpI_insert_milestone) | (simp; fail) | (rule Q; simp; fail))+
  done

lemma wpI_set_proposal_status:
  "Q () (c, put_proposal (p\<lparr>pr_status := st\<rparr>) w) \<Longrightarrow> E IntegrityError (c, w) \<Longrightarrow> wp (set_proposal_status p st) Q E (c, w)"
  by (simp add: set_proposal_status_def wp_eqs)

lemma keeps_transition_proposal: "keeps sys_inv (transition_proposal env user prid target)"
  apply (rule keepsI)
  apply (unfold transition_proposal_def)
  apply (rule wpI_get_proposal wpI_get_project wpI_create_contract wpI_set_proposal_status wpI_exn handler_rules
    | (rule committed_inv, assumption) | assumption | (simp; fail))+
  done

lemma keeps_sign_contract: "keeps sys_inv (sign_contract env user cid key hash ref ip risk)"
  apply (rule keepsI)
  apply (unfold sign_contract_def insert_signature_def)
  apply (rule wpI_get_contract wpI_current_contract_version handler_rules
    | (rule committed_inv, assumption) | assumption | (simp; fail) | rule if_exnI)+
  done

lemma keeps_cancel_contract: "keeps sys_inv (cancel_contract env user cid)"
  apply (rule keepsI)
  apply (unfold cancel_contract_def)
  apply (rule wpI_get_contract wpI_current_contract_version handler_rules
    | (rule committed_inv, assumption) | assumption | (simp; fail))+
  done

lemma wpI_new_version:
  "sys_inv w \<Longrightarrow> (\<And>v w'. sys_inv w' \<Longrightarrow> Q v (c, w')) \<Longrightarrow> (\<And>e. E e (c, w)) \<Longrightarrow>
    wp (new_version number amount cur days letter ms) Q E (c, w)"
  by (simp add: new_version_def wp_eqs inv_bump)

lemma keeps_create_proposal: "keeps sys_inv (create_proposal env user pid amount cur days letter ms)"
  apply (rule keepsI)
  apply (unfold create_proposal_def insert_proposal_def)
  apply (rule wpI_get_proposal wpI_get_project wpI_new_version handler_rules
    | (rule committed_inv, assumption) | assumption | (simp; fail) | rule if_exnI)+
  done

lemma keeps_add_proposal_version: "keeps sys_inv (add_proposal_version env user prid amount cur days letter ms)"
  apply (rule keepsI)
  apply (unfold add_proposal_version_def)
  apply (rule wpI_get_proposal wpI_get_project wpI_new_version handler_rules
    | (rule committed_inv, assumption) | assumption | (simp; fail))+
  done

section \<open>Disputes\<close>

lemma sys_inv_dispute_tables [simp]:
  "sys_inv (d\<lparr>dispute_evidence := es\<rparr>) = sys_inv d" "sys_inv (d\<lparr>dispute_decisions := ds\<rparr>) = sys_inv d"
  by (rule sys_inv_iff; simp add: same_core_def)+

lemma inv_dispute_opened:
  assumes inv: "sys_inv d" and x: "unused (dp_id x) d" "dp_id x < next_uuid d"
    and m: "m \<in> set (milestones d)" "\<not> ms_status m \<notin> openable_milestone_states"
  shows "sys_inv (put_milestone (m\<lparr>ms_status := MS_DISPUTED\<rparr>) (add_dispute x ps d))"
proof -
  have D: "sys_inv (add_dispute x ps d)" by (rule inv_add_dispute[OF inv x])
  have m': "m \<in> set (milestones (add_dispute x ps d))" using m(1) by (simp add: add_dispute_def)
  show ?thesis
    using inv_milestone[OF D m'] m(2)
    by (intro inv_put_milestone[OF D m' refl]) (auto simp: milestone_ok_def openable_milestone_states_def work_states_def)
qed

lemma wpI_notify:
  "(\<And>os. Q () (c, append_outbox os w)) \<Longrightarrow> wp (notification_event did ty title body u) Q E (c, w)"
  unfolding notification_event_def by (rule wp_enqueue_outbox_event)

lemma append_outbox_nil: "append_outbox [] d = d" "append_outbox a (append_outbox b d) = append_outbox (b @ a) d"
  by (simp_all add: append_outbox_def)

lemma wpI_notify_other_party:
  "(\<And>os. Q () (c, append_outbox os w)) \<Longrightarrow> wp (notify_other_party did actor ty title body) Q E (c, w)"
  unfolding notify_other_party_def
  by (rule wpI_bnd wpI_query wpI_for_each[where I = "\<lambda>w'. \<exists>os. w' = append_outbox os w"] wpI_if wpI_notify wpI_ret
      | (auto simp: append_outbox_nil intro: exI[of _ "[]"]; fail) | (elim exE, hypsubst))+

lemma wpI_notify_all_parties:
  "(\<And>os. Q () (c, append_outbox os w)) \<Longrightarrow> wp (notify_all_parties did ty title body) Q E (c, w)"
  unfolding notify_all_parties_def
  by (rule wpI_bnd wpI_query wpI_for_each[where I = "\<lambda>w'. \<exists>os. w' = append_outbox os w"] wpI_notify
      | (auto simp: append_outbox_nil intro: exI[of _ "[]"]; fail) | (elim exE, hypsubst))+

lemma wpI_audit_state_change:
  "(\<And>es. Q () (c, append_audit es w)) \<Longrightarrow> E ValueError (c, w) \<Longrightarrow>
    wp (audit_state_change env action did actor reason before after extra) Q E (c, w)"
  unfolding audit_state_change_def by (rule wp_record_audit_event)

lemma wpI_log_dispute_event:
  "(\<And>e. Q () (c, add_dispute_event e w)) \<Longrightarrow> wp (log_dispute_event env did u ty a b r x y) Q E (c, w)"
  by (simp add: log_dispute_event_def wp_eqs)

lemma wpI_insert_dispute:
  "(\<And>ps. Q () (c, add_dispute x ps w)) \<Longrightarrow> E IntegrityError (c, w) \<Longrightarrow> wp (insert_dispute x k) Q E (c, w)"
  by (simp add: insert_dispute_def wp_eqs)

lemma keeps_open_dispute: "keeps sys_inv (open_dispute env user mid reason)"
  apply (rule keepsI)
  apply (unfold open_dispute_def require_party_def)
  apply (rule wpI_insert_dispute wpI_log_dispute_event wpI_audit_state_change wpI_notify_other_party handler_rules
    | (rule committed_inv, assumption) | assumption
    | (simp only: peel, rule inv_dispute_opened; simp; fail) | (simp; fail) | rule if_exnI)+
  done

lemma keeps_add_evidence: "keeps sys_inv (add_evidence env user did fid note)"
  apply (rule keepsI)
  apply (unfold add_evidence_def locked_dispute_def insert_evidence_def)
  apply (rule wpI_log_dispute_event handler_rules
    | (rule committed_inv, assumption) | assumption | (simp; fail) | rule if_exnI)+
  done

lemma wpI_locked_dispute:
  "(\<And>x. x \<in> set (disputes w) \<Longrightarrow> dp_id x = did \<Longrightarrow> Q x (c, w)) \<Longrightarrow> (\<And>e. E e (c, w)) \<Longrightarrow>
    wp (locked_dispute did) Q E (c, w)"
  by (auto simp: locked_dispute_def wp_eqs split: option.split dest: row_by_SomeD)

lemma inv_dispute_moved:
  assumes "sys_inv d" and "x \<in> set (disputes d)" and "\<not> to_status \<notin> admin_transitions (dp_status x)"
  shows "sys_inv (put_dispute (x\<lparr>dp_status := to_status\<rparr>) d)"
  using assms by (intro inv_put_dispute[OF assms(1,2)]) (cases "dp_status x"; auto)+

lemma keeps_admin_transition: "keeps sys_inv (admin_transition env administrator did target reason)"
  apply (rule keepsI)
  apply (unfold admin_transition_def require_admin_def)
  apply (rule wpI_locked_dispute wpI_log_dispute_event wpI_audit_state_change handler_rules
    | (rule committed_inv, assumption) | assumption
    | (simp only: peel, rule inv_dispute_moved; simp; fail) | (simp; fail))+
  done

section \<open>Resolution\<close>

definition outside_credits :: "ledger_account list \<Rightarrow> posting list \<Rightarrow> bool" where
  "outside_credits as ps \<longleftrightarrow> (\<forall>p\<in>set ps. po_account p \<in> set as \<and> acc_type (po_account p) \<noteq> MILESTONE_ESCROW \<and>
     po_direction p = ''CREDIT'')"

lemma outside_credits_simps [simp]:
  "outside_credits as []" "outside_credits as (ps @ qs) \<longleftrightarrow> outside_credits as ps \<and> outside_credits as qs"
  by (auto simp: outside_credits_def)

lemma outside_credits_mono: "outside_credits as ps \<Longrightarrow> set as \<subseteq> set as' \<Longrightarrow> outside_credits as' ps"
  by (auto simp: outside_credits_def)

lemma wpI_freelancer_postings:
  assumes inv: "sys_inv w"
    and Q: "\<And>ps n as. sys_inv (w\<lparr>next_uuid := n, accounts := as\<rparr>) \<Longrightarrow> set (accounts w) \<subseteq> set as \<Longrightarrow>
      outside_credits as ps \<Longrightarrow> Q ps (c, w\<lparr>next_uuid := n, accounts := as\<rparr>)"
    and E: "\<And>e s. fst s = c \<Longrightarrow> E e s"
  shows "wp (freelancer_postings u cur net fee) Q E (c, w)"
proof -
  have two: "w\<lparr>next_uuid := n, accounts := as, next_uuid := n', accounts := as'\<rparr> = w\<lparr>next_uuid := n', accounts := as'\<rparr>" for n as n' as'
    by simp
  have fees: "wp (bnd (if fee \<noteq> 0 then bnd (commission_account cur) (\<lambda>a. ret [mk_posting a ''CREDIT'' fee]) else ret [])
      (\<lambda>qs. ret (ps @ qs))) Q E (c, w\<lparr>next_uuid := n, accounts := as\<rparr>)"
    if w: "sys_inv (w\<lparr>next_uuid := n, accounts := as\<rparr>)" "set (accounts w) \<subseteq> set as" "outside_credits as ps" for ps n as
    unfolding commission_account_def
    apply (insert w)
    apply (rule wpI_bnd wpI_if wpI_ret wpI_account_inv | assumption | (rule E; simp; fail)
      | (simp only: two, rule Q; auto simp: outside_credits_def; fail) | (rule Q; auto; fail)
      | (simp add: account_ok_def; fail))+
    done
  have first: "wp (ret []) (\<lambda>ps. wp (bnd (if fee \<noteq> 0 then bnd (commission_account cur) (\<lambda>a. ret [mk_posting a ''CREDIT'' fee]) else ret [])
      (\<lambda>qs. ret (ps @ qs))) Q E) E (c, w)"
    using fees[where n = "next_uuid w" and as = "accounts w" and ps = "[]"] inv by (simp add: wp_eqs)
  show ?thesis
    unfolding freelancer_postings_def wallet_account_def
    apply (rule wpI_bnd)
    apply (rule wpI_if)
     apply (rule wpI_bnd wpI_account_inv[OF inv] | (rule E; simp; fail)
      | (rule wpI_ret, rule fees; auto simp: outside_credits_def; fail) | (simp add: account_ok_def; fail))+
    apply (rule first)
    done
qed

lemma wpI_confirm_provider_refund:
  assumes inv: "sys_inv w"
    and Q: "\<And>p r post n as. sys_inv (w\<lparr>next_uuid := n, accounts := as\<rparr>) \<Longrightarrow> set (accounts w) \<subseteq> set as \<Longrightarrow>
      outside_credits as [post] \<Longrightarrow> Q (p, r, post) (c, w\<lparr>next_uuid := n, accounts := as\<rparr>)"
    and E: "\<And>e s. fst s = c \<Longrightarrow> E e s"
  shows "wp (confirm_provider_refund env x m amount key) Q E (c, w)"
  unfolding confirm_provider_refund_def latest_captured_intent_def provider_clearing_account_def
  apply (insert inv)
  apply (rule handler_rules | assumption | (rule E; simp; fail)
    | (rule Q; auto simp: outside_credits_def; fail) | (simp add: account_ok_def; fail))+
  done

lemma inv_resolved:
  assumes inv: "sys_inv d" and x: "x \<in> set (disputes d)" "dp_status x \<noteq> DS_RESOLVED" "ref = dp_id x"
    and m: "m \<in> set (milestones d)" "\<not> ms_status m \<noteq> MS_DISPUTED"
    and e: "\<exists>e. find_escrow (ms_id m) d = Some e \<and> es_account e = acc_id ea" "ea \<in> set (accounts d)"
    and full: "account_balance_minor (acc_id ea) d = ms_amount m" "n = ms_amount m"
    and cs: "outside_credits (accounts d) cs" and ps: "valid_postings (mk_posting ea ''DEBIT'' n # cs)"
    and r: "rs = [] \<or> (\<exists>r. rs = [r] \<and> rf_id r = Suc (next_uuid d) \<and> rf_id r < k \<and> 0 < rf_amount r \<and>
      rf_milestone r = ms_id m \<and> rf_status r = RF_SUCCEEDED)" and k: "Suc (next_uuid d) \<le> k"
    and core: "same_core (d\<lparr>next_uuid := k, refunds := refunds d @ rs,
      milestones := put_row ms_id (m\<lparr>ms_status := MS_RELEASED\<rparr>) (milestones d),
      disputes := put_row dp_id (x\<lparr>dp_status := DS_RESOLVED, dp_resolved_at := t\<rparr>) (disputes d),
      journals := journals d @ [mk_journal (next_uuid d) DISPUTE_RESOLUTION ''dispute'' ref (mk_posting ea ''DEBIT'' n # cs) meta None]\<rparr>) d'"
  shows "sys_inv d'"
proof -
  obtain e' where e': "find_escrow (ms_id m) d = Some e'" "account_by_id (es_account e') d = Some ea"
    using e account_by_id_Some_iff[OF inv_parts(1)[OF inv]] by auto
  note ea = escrow_account_facts[OF inv e']
  let ?x = "x\<lparr>dp_status := DS_RESOLVED, dp_resolved_at := t\<rparr>"
  have eq: "refunds d' = refunds d @ rs" "disputes d' = put_row dp_id ?x (disputes d)" "next_uuid d' = k"
    "accounts d' = accounts d" "escrows d' = escrows d" "intents d' = intents d" "payouts d' = payouts d"
    "milestones d' = put_row ms_id (m\<lparr>ms_status := MS_RELEASED\<rparr>) (milestones d)"
    "journals d' = journals d @ [mk_journal (next_uuid d) DISPUTE_RESOLUTION ''dispute'' ref (mk_posting ea ''DEBIT'' n # cs) meta None]"
    using core by (simp_all add: same_core_def)
  have res: "reserved mid d' = reserved mid d" for mid
    using r by (auto simp: eq reserved_def reserved_of_def)
  have rf: "fresh_ids rf_id (refunds d @ rs) k"
    using r k inv_ids(3)[OF inv] by (auto simp: fresh_ids_def)
  have x': "?x \<in> set (disputes d')"
    using put_row_mem[OF x(1), of dp_id ?x] by (simp add: eq)
  have ref: "ref < next_uuid d'"
    using k x(1,3) inv_ids(5)[OF inv] by (auto simp: eq fresh_ids_def)
  have jok: "journal_ok d' (mk_journal (next_uuid d) DISPUTE_RESOLUTION ''dispute'' ref (mk_posting ea ''DEBIT'' n # cs) meta None)"
    using ref x(3) bexI[OF _ x', of "\<lambda>y. dp_id y = ref \<and> dp_status y = DS_RESOLVED"]
    by (simp add: journal_ok_def mk_journal_def)
  show ?thesis
  proof (rule inv_drain[OF inv m(1) _ _ ea(1-3) full(1), where cs = cs])
    show "find_journal ''dispute'' ref DISPUTE_RESOLUTION d = None"
      using no_resolution_journal[OF inv x(1,2)] x(3) by simp
    show "stays dp_id (\<lambda>x. dp_status x = DS_RESOLVED) (disputes d) (disputes d')"
      using stays_put_old[OF inv_ids(5)[OF inv] x(1), of ?x] by (simp add: eq)
    show "fresh_ids dp_id (disputes d') (next_uuid d')"
      using k inv_ids(5)[OF inv] by (auto simp: eq elim: fresh_ids_mono)
    show "journal_ok d' (mk_journal (next_uuid d) DISPUTE_RESOLUTION ''dispute'' ref (mk_posting ea ''DEBIT'' n # cs) meta None)"
      by (rule jok)
    show "\<forall>r\<in>set (refunds d'). r \<in> set (refunds d) \<or> 0 < rf_amount r \<and> rf_milestone r = ms_id m \<and> rf_status r = RF_SUCCEEDED"
      using r by (auto simp: eq)
    show "stays rf_id (\<lambda>r. rf_status r = RF_FAILED) (refunds d) (refunds d')" by (simp add: eq)
  qed (use m(2) ps full ea(4) cs rf res k in \<open>auto simp: eq outside_credits_def\<close>)
qed


lemma wpI_locked_funded_escrow:
  assumes "sys_inv w"
    and "\<And>e ea. find_escrow (ms_id m) w = Some e \<Longrightarrow> es_account e = acc_id ea \<Longrightarrow> ea \<in> set (accounts w) \<Longrightarrow>
      account_balance_minor (acc_id ea) w = ms_amount m \<Longrightarrow> 0 < ms_amount m \<Longrightarrow> Q (e, ea) (c, w)"
    and "\<And>e. E e (c, w)"
  shows "wp (locked_funded_escrow m) Q E (c, w)"
  unfolding locked_funded_escrow_def
  apply (insert assms(1))
  apply (rule handler_rules assms(3) | (rule assms(2); simp; fail))+
  done

lemma wpI_refund_leg:
  assumes inv: "sys_inv w"
    and Q: "\<And>p r ps n as. sys_inv (w\<lparr>next_uuid := n, accounts := as\<rparr>) \<Longrightarrow> set (accounts w) \<subseteq> set as \<Longrightarrow>
      outside_credits as ps \<Longrightarrow> Q (p, r, ps) (c, w\<lparr>next_uuid := n, accounts := as\<rparr>)"
    and E: "\<And>e s. fst s = c \<Longrightarrow> E e s"
  shows "wp (if amount \<noteq> 0 then bnd (confirm_provider_refund env x m amount key) (\<lambda>(p, r, post). ret (Some p, Some r, [post]))
    else ret (None, None, [])) Q E (c, w)"
proof (cases "amount = 0")
  case True
  then show ?thesis using Q[where n = "next_uuid w" and as = "accounts w" and ps = "[]"] inv by (simp add: wp_eqs)
next
  case False
  have "wp (bnd (confirm_provider_refund env x m amount key) (\<lambda>(p, r, post). ret (Some p, Some r, [post]))) Q E (c, w)"
    by (rule wpI_bnd, rule wpI_confirm_provider_refund[OF inv]) (simp_all add: wp_eqs Q E)
  with False show ?thesis by simp
qed

lemma wpI_persist_resolution_refund:
  assumes Q: "\<And>i rs n. rs = [] \<or> (\<exists>r. rs = [r] \<and> rf_id r = next_uuid w \<and> rf_id r < n \<and> 0 < rf_amount r \<and>
        rf_milestone r = ms_id m \<and> rf_status r = RF_SUCCEEDED) \<Longrightarrow> next_uuid w \<le> n \<Longrightarrow>
      Q i (c, w\<lparr>next_uuid := n, refunds := refunds w @ rs\<rparr>)"
    and E: "\<And>e s. fst s = c \<Longrightarrow> E e s"
  shows "wp (persist_resolution_refund m u k j amount p reference) Q E (c, w)"
proof -
  have none: "Q i (c, w)" for i using Q[of "[]" "next_uuid w"] by simp
  have some: "Q i (c, add_refund r (w\<lparr>next_uuid := Suc (next_uuid w)\<rparr>))"
    if "rf_id r = next_uuid w" "0 < rf_amount r" "rf_milestone r = ms_id m" "rf_status r = RF_SUCCEEDED" for i r
    using Q[of "[r]" "Suc (next_uuid w)"] that by (simp add: add_refund_def)
  show ?thesis
    unfolding persist_resolution_refund_def
    by (auto simp: wp_eqs none E split: option.split intro!: wpI_insert_refund some)
qed

lemma wpI_uuid4_plain: "Q (next_uuid w) (c, w\<lparr>next_uuid := Suc (next_uuid w)\<rparr>) \<Longrightarrow> wp uuid4 Q E (c, w)"
  by (simp add: wp_eqs)

lemma wpI_require_reviewable_dispute:
  "(dp_status x \<noteq> DS_RESOLVED \<Longrightarrow> Q () (c, w)) \<Longrightarrow> (\<And>e. E e (c, w)) \<Longrightarrow> wp (require_reviewable_dispute x) Q E (c, w)"
  by (simp add: require_reviewable_dispute_def wp_eqs)

lemma next_add_journal: "next_uuid (add_journal j w) = Suc (next_uuid w)"
  by (simp add: add_journal_def)

lemma committed_inv_fst: "fst s = c \<Longrightarrow> sys_inv c \<Longrightarrow> sys_inv (fst s)"
  by simp

lemmas resolve_rules = wpI_locked_dispute wpI_locked_funded_escrow wpI_require_reviewable_dispute wpI_freelancer_postings
  wpI_refund_leg wpI_persist_resolution_refund wpI_uuid4_plain wpI_log_dispute_event
  wpI_audit_state_change wpI_notify_all_parties handler_rules

lemma keeps_resolve_dispute: "keeps sys_inv (resolve_dispute env administrator did oc reason award refund key)"
  apply (rule keepsI)
  apply (unfold resolve_dispute_def require_admin_def)
  apply (rule resolve_rules | (rule committed_inv, assumption) | assumption | (rule no_resolution_journal; simp; fail))+
  subgoal premises p for d x oc_text reason_text claimed n1 ks1 idem outcome m e1 ea1 e ea amounts award_minor refund_minor fee net k fps n2 as2 p1 r1 ps1 n3 as3
      prov rest reference rps rid rs n4
    apply (simp only: fst_conv sys_inv_frame sys_inv_dispute_tables p)
    apply (rule inv_resolved[where d = "d\<lparr>next_uuid := n1, idempotency_keys := ks1, next_uuid := n2, accounts := as2,
        next_uuid := n3, accounts := as3\<rparr>" and x = x and m = m and ea = ea and cs = "fps @ rps" and rs = rs and
        k = "Suc n4" and t = "Some (env_now env)"])
    apply (use p in \<open>simp_all add: next_add_journal outside_credits_mono\<close>)
    apply (auto simp: same_core_def put_dispute_def add_milestone_event_def put_milestone_def add_journal_def)
    done
  apply (rule resolve_rules | (rule committed_inv, assumption) | assumption | (rule committed_inv_fst, assumption, assumption)
    | (rule no_resolution_journal; simp; fail))+
  done

end
