(* ===== verification/Logs.thy ===== *)
theory Logs
  imports Casework "HOL-Library.Sublist"
begin

text \<open>
  The append-only records. \<open>extends d d'\<close>: the journals, the audit log and the outbox of \<open>d\<close>
  are prefixes of those of \<open>d'\<close>, a complete audit log stays complete, and the tables of users,
  projects and files, which other services write, are the same. Every handler only extends the
  committed logs, whatever it returns; no part of the invariant is needed.
\<close>

definition extends :: "db \<Rightarrow> db \<Rightarrow> bool" where
  "extends d d' \<longleftrightarrow> prefix (journals d) (journals d') \<and> prefix (audit_events d) (audit_events d') \<and>
     prefix (outbox d) (outbox d') \<and> (audit_complete d \<longrightarrow> audit_complete d') \<and>
     users d' = users d \<and> projects d' = projects d \<and> file_objects d' = file_objects d"

lemma extends_refl: "extends d d"
  by (simp add: extends_def)

lemma extends_trans: "extends d e \<Longrightarrow> extends e f \<Longrightarrow> extends d f"
  by (auto simp: extends_def intro: prefix_order.trans)

lemma extends_same_logs:
  "journals d = journals d' \<Longrightarrow> audit_events d = audit_events d' \<Longrightarrow> outbox d = outbox d' \<Longrightarrow> users d = users d' \<Longrightarrow>
    projects d = projects d' \<Longrightarrow> file_objects d = file_objects d' \<Longrightarrow> extends b d = extends b d'"
  by (simp add: extends_def audit_complete_def)

lemma extends_frame [simp]:
  "extends b (complete_keys i st body d) = extends b d" "extends b (add_milestone_event e d) = extends b d"
  "extends b (add_funding f d) = extends b d" "extends b (add_provider_event pe d) = extends b d"
  "extends b (mark_event_processed t pe d) = extends b d" "extends b (put_payout_account pa d) = extends b d"
  "extends b (add_payout_account pa d) = extends b d" "extends b (add_dispute_event de d) = extends b d"
  "extends b (put_milestone m d) = extends b d" "extends b (put_intent pi d) = extends b d"
  "extends b (put_refund r d) = extends b d" "extends b (put_payout p d) = extends b d"
  "extends b (put_dispute x d) = extends b d" "extends b (add_intent pi d) = extends b d"
  "extends b (add_refund r d) = extends b d" "extends b (add_payout p d) = extends b d"
  "extends b (add_dispute x ps d) = extends b d" "extends b (add_milestone m d) = extends b d"
  "extends b (put_contract k d) = extends b d" "extends b (add_signature s d) = extends b d"
  "extends b (put_proposal pr d) = extends b d" "extends b (add_escrow ew d) = extends b d"
  by (rule extends_same_logs; simp add: complete_keys_def add_milestone_event_def add_funding_def
      add_provider_event_def mark_event_processed_def put_payout_account_def add_payout_account_def
      add_dispute_event_def put_milestone_def put_intent_def put_refund_def put_payout_def put_dispute_def
      add_intent_def add_refund_def add_payout_def add_dispute_def add_milestone_def put_contract_def
      add_signature_def put_proposal_def add_escrow_def)+

lemma extends_updates [simp]:
  "extends b (d\<lparr>next_uuid := n\<rparr>) = extends b d" "extends b (d\<lparr>accounts := as\<rparr>) = extends b d"
  "extends b (d\<lparr>escrows := es\<rparr>) = extends b d" "extends b (d\<lparr>idempotency_keys := ks\<rparr>) = extends b d"
  "extends b (d\<lparr>refunds := rs\<rparr>) = extends b d" "extends b (d\<lparr>contracts := cs\<rparr>) = extends b d"
  "extends b (d\<lparr>contract_parties := ps\<rparr>) = extends b d" "extends b (d\<lparr>contract_versions := vs\<rparr>) = extends b d"
  "extends b (d\<lparr>proposals := prs\<rparr>) = extends b d" "extends b (d\<lparr>dispute_evidence := ev\<rparr>) = extends b d"
  "extends b (d\<lparr>dispute_decisions := ds\<rparr>) = extends b d"
  by (rule extends_same_logs; simp)+

lemma extends_add_journal: "extends b d \<Longrightarrow> extends b (add_journal j d)"
  by (simp add: extends_def add_journal_def prefix_append audit_complete_def)

lemma extends_append_audit:
  "extends b d \<Longrightarrow> \<forall>e\<in>set es. ae_action e \<in> set state_hash_required_actions \<longrightarrow>
    ae_previous_hash e \<noteq> None \<and> ae_new_hash e \<noteq> None \<Longrightarrow> extends b (append_audit es d)"
  by (auto simp: extends_def audit_complete_append) (simp_all add: append_audit_def prefix_append)

lemma extends_append_outbox: "extends b d \<Longrightarrow> extends b (append_outbox os d)"
  by (simp add: extends_def append_outbox_def prefix_append audit_complete_def)

section \<open>Shared steps\<close>

lemma wpI_claim_any:
  assumes "\<And>x n ks. Q x (c, w\<lparr>next_uuid := n, idempotency_keys := ks\<rparr>)" and "\<And>e. E e (c, w)"
  shows "wp (claim_idempotency env u oper raw payload) Q E (c, w)"
  using assms(1)[where n = "next_uuid w" and ks = "idempotency_keys w"] assms
  by (auto simp: add_key_def intro!: wpI_claim_idempotency)

lemma wpI_account_any:
  assumes "\<And>a n as. Q a (c, w\<lparr>next_uuid := n, accounts := as\<rparr>)" and "\<And>e. E e (c, w)"
  shows "wp (get_or_create_account k ty cur owner ms) Q E (c, w)"
  using assms(1)[where n = "next_uuid w" and as = "accounts w"] assms
  by (auto simp: add_account_def intro!: wpI_get_or_create_account)

lemma wpI_post_any:
  "(\<And>j. Q j (c, w)) \<Longrightarrow> (\<And>j. Q j (c, add_journal j w)) \<Longrightarrow> (\<And>e. E e (c, w)) \<Longrightarrow>
    wp (post_journal oper rt ref ps meta reverses) Q E (c, w)"
  by (auto intro!: wpI_post_journal)

lemma wpI_refund_replay_any:
  "(\<And>x i st body. Q (Some x) (complete_keys i st body w, complete_keys i st body w)) \<Longrightarrow> Q None (c, w) \<Longrightarrow>
    wp (complete_refund_replay r idem) Q E (c, w)"
  by (cases "rf_status r") (simp_all add: complete_refund_replay_def wp_eqs)

lemma wpI_payout_replay_any:
  "(\<And>x i st body. Q (Some x) (complete_keys i st body w, complete_keys i st body w)) \<Longrightarrow> Q None (c, w) \<Longrightarrow>
    wp (complete_terminal_replay p idem) Q E (c, w)"
  by (cases "po_status p") (simp_all add: complete_terminal_replay_def wp_eqs)

lemma wpI_insert_milestone_log:
  "extends b w \<Longrightarrow> (\<And>e w'. E e (c, w')) \<Longrightarrow>
    wp (insert_milestone vid cur term) (\<lambda>_ s. \<exists>w'. s = (c, w') \<and> extends b w') E (c, w)"
  by (cases "term" rule: prod_cases4) (simp add: insert_milestone_def wp_eqs)

lemma committed_extends: "extends b c \<Longrightarrow> extends b (fst (c, w))"
  by simp

lemmas log_rules = wpI_claim_any wpI_account_any wp_record_audit_event wpI_post_any wp_enqueue_outbox_event wpI_uuid4_plain
  wpI_finish wpI_financial_state wpI_locked_milestone wpI_version_of wpI_locked_contract wpI_contract_of
  wpI_require_active_contract wpI_require_escrow wpI_set_milestone_status wpI_log_milestone_event
  wpI_key_by_id wpI_insert_intent wpI_insert_refund wpI_set_refund_reference wpI_locked_refund
  wpI_captured_funding_intent wpI_insert_payout wpI_locked_payout wpI_resolve_payout_destination
  wpI_require_sufficient_balance wpI_set_payout_succeeded wpI_insert_provider_event wpI_duplicate_provider_event
  wpI_get_contract wpI_current_contract_version wpI_get_proposal wpI_get_project wpI_set_proposal_status
  wpI_insert_dispute wpI_log_dispute_event wpI_locked_dispute wpI_require_reviewable_dispute wpI_exn
  wpI_refund_replay_any wpI_payout_replay_any wpI_notify_other_party wpI_notify_all_parties
  wp_rules if_exnI

lemmas log_updates = extends_append_audit extends_append_outbox extends_add_journal

section \<open>Every handler\<close>

lemma extends_release_milestone: "keeps (extends b) (release_milestone env user mid key)"
  apply (rule keepsI)
  apply (unfold release_milestone_def wallet_account_def commission_account_def)
  apply (rule log_rules | (rule committed_extends, assumption) | (simp add: log_updates; fail))+
  done

lemma extends_fund_milestone: "keeps (extends b) (fund_milestone env user mid prov key)"
  apply (rule keepsI)
  apply (unfold fund_milestone_def)
  apply (rule log_rules | (rule committed_extends, assumption) | (simp add: log_updates; fail))+
  done

lemma extends_process_provider_webhook: "keeps (extends b) (process_provider_webhook env prov payload sig)"
  apply (rule keepsI)
  apply (unfold process_provider_webhook_def apply_captured_def apply_failed_def capture_intent_def escrow_for_capture_def provider_clearing_account_def)
  apply (rule log_rules | (rule committed_extends, assumption) | (simp add: log_updates; fail))+
  done

lemma extends_refund_prepare: "keeps (extends b) (refund_prepare env user mid prov key)"
  apply (rule keepsI)
  apply (unfold refund_prepare_def reserve_refund_def provider_clearing_account_def)
  apply (rule log_rules | (rule committed_extends, assumption) | (simp add: log_updates; fail))+
  done

lemma extends_refund_settle: "keeps (extends b) (refund_settle env user mid key r fi)"
  apply (rule keepsI)
  apply (unfold refund_settle_def refund_record_def fail_refund_def replay_terminal_refund_def)
  apply (rule log_rules | (rule committed_extends, assumption) | (simp add: log_updates; fail))+
  done

lemma extends_payout_prepare: "keeps (extends b) (payout_prepare env user n cur prov key)"
  apply (rule keepsI)
  apply (unfold payout_prepare_def reserve_payout_def provider_clearing_account_def upgrade_legacy_destination_snapshot_def)
  apply (rule log_rules | (rule committed_extends, assumption) | (simp add: log_updates; fail))+
  done

lemma extends_payout_settle: "keeps (extends b) (payout_settle env user key p)"
  apply (rule keepsI)
  apply (unfold payout_settle_def payout_record_def fail_payout_def replay_terminal_payout_def)
  apply (rule log_rules | (rule committed_extends, assumption) | (simp add: log_updates; fail))+
  done

lemma extends_configure_payout_provider_account: "keeps (extends b) (configure_payout_provider_account env admin fid prov reference)"
  apply (rule keepsI)
  apply (unfold configure_payout_provider_account_def)
  apply (rule log_rules | (rule committed_extends, assumption) | (simp add: log_updates; fail))+
  done

lemma extends_disable_payout_provider_account: "keeps (extends b) (disable_payout_provider_account env admin fid prov)"
  apply (rule keepsI)
  apply (unfold disable_payout_provider_account_def)
  apply (rule log_rules | (rule committed_extends, assumption) | (simp add: log_updates; fail))+
  done

lemma extends_milestone_transition: "keeps (extends b) (milestone_transition env user mid act target note worker)"
  apply (rule keepsI)
  apply (unfold milestone_transition_def require_milestone_fully_funded_def)
  apply (rule log_rules | (rule committed_extends, assumption) | (simp add: log_updates; fail))+
  done

lemma extends_create_proposal: "keeps (extends b) (create_proposal env user pid n cur days letter ms)"
  apply (rule keepsI)
  apply (unfold create_proposal_def new_version_def insert_proposal_def)
  apply (rule log_rules | (rule committed_extends, assumption) | (simp add: log_updates; fail))+
  done

lemma extends_add_proposal_version: "keeps (extends b) (add_proposal_version env user prid n cur days letter ms)"
  apply (rule keepsI)
  apply (unfold add_proposal_version_def new_version_def)
  apply (rule log_rules | (rule committed_extends, assumption) | (simp add: log_updates; fail))+
  done

lemma extends_transition_proposal: "keeps (extends b) (transition_proposal env user prid target)"
  apply (rule keepsI)
  apply (unfold transition_proposal_def create_contract_from_accepted_proposal_def insert_contract_def)
  apply (rule log_rules wpI_for_each[where I = "extends b"] wpI_insert_milestone_log | (rule committed_extends, assumption) | (simp add: log_updates; fail))+
  done

lemma extends_sign_contract: "keeps (extends b) (sign_contract env user cid key hash ref ip risk)"
  apply (rule keepsI)
  apply (unfold sign_contract_def insert_signature_def)
  apply (rule log_rules | (rule committed_extends, assumption) | (simp add: log_updates; fail))+
  done

lemma extends_cancel_contract: "keeps (extends b) (cancel_contract env user cid)"
  apply (rule keepsI)
  apply (unfold cancel_contract_def)
  apply (rule log_rules | (rule committed_extends, assumption) | (simp add: log_updates; fail))+
  done

lemma extends_open_dispute: "keeps (extends b) (open_dispute env user mid reason)"
  apply (rule keepsI)
  apply (unfold open_dispute_def require_party_def audit_state_change_def)
  apply (rule log_rules | (rule committed_extends, assumption) | (simp add: log_updates; fail))+
  done

lemma extends_add_evidence: "keeps (extends b) (add_evidence env user did fid note)"
  apply (rule keepsI)
  apply (unfold add_evidence_def insert_evidence_def)
  apply (rule log_rules | (rule committed_extends, assumption) | (simp add: log_updates; fail))+
  done

lemma extends_admin_transition: "keeps (extends b) (admin_transition env user did target reason)"
  apply (rule keepsI)
  apply (unfold admin_transition_def require_admin_def audit_state_change_def)
  apply (rule log_rules | (rule committed_extends, assumption) | (simp add: log_updates; fail))+
  done

lemma extends_resolve_dispute: "keeps (extends b) (resolve_dispute env user did oc reason award refund key)"
  apply (rule keepsI)
  apply (unfold resolve_dispute_def require_admin_def audit_state_change_def locked_funded_escrow_def freelancer_postings_def confirm_provider_refund_def latest_captured_intent_def provider_clearing_account_def wallet_account_def commission_account_def persist_resolution_refund_def)
  apply (rule log_rules | (rule committed_extends, assumption) | (simp add: log_updates; fail))+
  done

end
