(* ===== verification/System.thy ===== *)
theory System
  imports Logs
begin

text \<open>
  The platform as a transition system: a step is one transaction of a request handler, with
  the two transactions of a refund and of a payout as separate steps, so that requests
  interleave wherever the code commits. \<open>invariant_system\<close> is the interface of a transition
  system with an inductive invariant; it is interpreted on the platform with \<open>sys_inv\<close>, and
  the system-wide properties are its consequences in every reachable state.
\<close>

section \<open>Reachable states and invariants\<close>

inductive reachable :: "('s \<Rightarrow> bool) \<Rightarrow> ('s \<Rightarrow> 's \<Rightarrow> bool) \<Rightarrow> 's \<Rightarrow> bool"
  for init :: "'s \<Rightarrow> bool" and step :: "'s \<Rightarrow> 's \<Rightarrow> bool" where
  start: "init s \<Longrightarrow> reachable init step s"
| continue: "reachable init step s \<Longrightarrow> step s s' \<Longrightarrow> reachable init step s'"

locale invariant_system =
  fixes init :: "'s \<Rightarrow> bool" and step :: "'s \<Rightarrow> 's \<Rightarrow> bool" and inv :: "'s \<Rightarrow> bool"
  assumes init_inv: "init s \<Longrightarrow> inv s" and step_inv: "step s s' \<Longrightarrow> inv s \<Longrightarrow> inv s'"
begin

lemma reachable_inv: "reachable init step s \<Longrightarrow> inv s"
  by (induction rule: reachable.induct) (auto intro: init_inv step_inv)

lemma reachable_steps: "step\<^sup>*\<^sup>* s s' \<Longrightarrow> reachable init step s \<Longrightarrow> reachable init step s'"
  by (induction rule: rtranclp_induct) (auto intro: reachable.continue)

lemma inv_steps: "step\<^sup>*\<^sup>* s s' \<Longrightarrow> inv s \<Longrightarrow> inv s'"
  by (induction rule: rtranclp_induct) (auto intro: step_inv)

end

text \<open>A relation between the two states of a step that is kept by every sequence of steps.\<close>

locale progress_system = invariant_system +
  fixes rel :: "'s \<Rightarrow> 's \<Rightarrow> bool"
  assumes rel_refl: "rel s s" and rel_trans: "rel s t \<Longrightarrow> rel t u \<Longrightarrow> rel s u"
    and rel_step: "inv s \<Longrightarrow> step s s' \<Longrightarrow> rel s s'"
begin

lemma rel_steps: "step\<^sup>*\<^sup>* s s' \<Longrightarrow> inv s \<Longrightarrow> rel s s'"
proof (induction rule: rtranclp_induct)
  case base
  show ?case by (rule rel_refl)
next
  case (step y z)
  then have "inv y" using inv_steps by blast
  with step show ?case using rel_step rel_trans by blast
qed

end

section \<open>The platform\<close>

definition after :: "'a dbop \<Rightarrow> db \<Rightarrow> db" where
  "after m d = snd (run_request m d)"

inductive platform_step :: "db \<Rightarrow> db \<Rightarrow> bool" where
  fund: "platform_step d (after (fund_milestone env user mid prov key) d)"
| webhook: "capture_safe d \<Longrightarrow> platform_step d (after (process_provider_webhook env prov payload sig) d)"
| release: "platform_step d (after (release_milestone env user mid key) d)"
| refund_1: "platform_step d (after (refund_prepare env user mid prov key) d)"
| refund_2: "refund_of (rf_id r) mid d \<Longrightarrow> platform_step d (after (refund_settle env user mid key r fi) d)"
| payout_1: "platform_step d (after (payout_prepare env user n cur prov key) d)"
| payout_2: "platform_step d (after (payout_settle env user key p) d)"
| payout_account: "platform_step d (after (configure_payout_provider_account env admin fid prov reference) d)"
| payout_disable: "platform_step d (after (disable_payout_provider_account env admin fid prov) d)"
| work: "user_action act target \<Longrightarrow> platform_step d (after (milestone_transition env user mid act target note worker) d)"
| propose: "platform_step d (after (create_proposal env user pid n cur days letter ms) d)"
| revise: "platform_step d (after (add_proposal_version env user prid n cur days letter ms) d)"
| decide: "platform_step d (after (transition_proposal env user prid target_text) d)"
| sign: "platform_step d (after (sign_contract env user cid key hash ref ip risk) d)"
| cancel: "platform_step d (after (cancel_contract env user cid) d)"
| dispute: "platform_step d (after (open_dispute env user mid reason) d)"
| evidence: "platform_step d (after (add_evidence env user did fid note) d)"
| arbitrate: "platform_step d (after (admin_transition env user did target_text reason) d)"
| resolve: "platform_step d (after (resolve_dispute env user did oc reason award refund key) d)"

inductive_cases platform_stepE: "platform_step d d'"

text \<open>The start: no contract, no milestone, no account and no money movement; users, projects and
  proposals that are not accepted may exist.\<close>

definition fresh_platform :: "db \<Rightarrow> bool" where
  "fresh_platform d \<longleftrightarrow> milestones d = [] \<and> accounts d = [] \<and> journals d = [] \<and> intents d = [] \<and>
     escrows d = [] \<and> refunds d = [] \<and> payouts d = [] \<and> disputes d = [] \<and> contracts d = [] \<and>
     contract_versions d = [] \<and> contract_parties d = [] \<and> contract_signatures d = [] \<and>
     fresh_ids pr_id (proposals d) (next_uuid d) \<and> (\<forall>p\<in>set (proposals d). pr_status p \<noteq> PR_ACCEPTED)"

lemma fresh_platform_inv: "fresh_platform d \<Longrightarrow> sys_inv d"
  by (simp add: fresh_platform_def sys_inv_def wf_ledger_def accounts_inv_def solvent_def ids_ok_def fresh_ids_def)

lemma after_keeps: "keeps sys_inv m \<Longrightarrow> sys_inv d \<Longrightarrow> sys_inv (after m d)"
  by (simp add: after_def keeps_run_request)

lemma after_wp:
  assumes "wp m (\<lambda>_ s. sys_inv (fst s)) (\<lambda>_ s. sys_inv (fst s)) (d, d)"
  shows "sys_inv (after m d)"
  using assms by (auto simp: after_def wp_def run_request_def split: prod.splits sum.splits)

lemmas handlers_keep = keeps_fund_milestone keeps_release_milestone keeps_refund_prepare keeps_payout_prepare
  payout_settle_keeps_inv keeps_configure_payout_provider_account keeps_disable_payout_provider_account
  keeps_milestone_transition keeps_create_proposal keeps_add_proposal_version keeps_transition_proposal
  keeps_sign_contract keeps_cancel_contract keeps_open_dispute keeps_add_evidence keeps_admin_transition
  keeps_resolve_dispute

lemma platform_step_inv:
  assumes "platform_step d d'" and "sys_inv d"
  shows "sys_inv d'"
  using assms
  by (cases rule: platform_step.cases)
    (auto intro: after_keeps handlers_keep after_wp webhook_keeps_inv refund_settle_keeps_inv)

lemma after_extends: "(\<And>b. keeps (extends b) m) \<Longrightarrow> extends d (after m d)"
  using keeps_run_request[of "extends d" m d] by (simp add: after_def extends_refl)

lemmas handlers_extend = extends_fund_milestone extends_process_provider_webhook extends_release_milestone
  extends_refund_prepare extends_refund_settle extends_payout_prepare extends_payout_settle
  extends_configure_payout_provider_account extends_disable_payout_provider_account extends_milestone_transition
  extends_create_proposal extends_add_proposal_version extends_transition_proposal extends_sign_contract
  extends_cancel_contract extends_open_dispute extends_add_evidence extends_admin_transition extends_resolve_dispute

lemma platform_step_extends: "platform_step d d' \<Longrightarrow> extends d d'"
  by (cases rule: platform_step.cases) (auto intro: after_extends handlers_extend)

interpretation platform: progress_system fresh_platform platform_step sys_inv extends
  by unfold_locales
    (auto intro: fresh_platform_inv platform_step_inv extends_refl extends_trans platform_step_extends)

section \<open>Consequences of the invariant\<close>

definition reachable_db :: "db \<Rightarrow> bool" where
  "reachable_db d \<longleftrightarrow> reachable fresh_platform platform_step d"

lemma reachable_sys_inv: "reachable_db d \<Longrightarrow> sys_inv d"
  unfolding reachable_db_def by (rule platform.reachable_inv)

lemma two_reservations:
  assumes "distinct rs" and "r \<in> set rs" and "r' \<in> set rs" and "r \<noteq> r'" and "\<And>x. x \<in> set rs \<Longrightarrow> (0::int) \<le> f x"
  shows "f r + f r' \<le> sum_list (map f rs)"
proof -
  have "sum f {r, r'} \<le> sum f (set rs)" using assms by (intro sum_mono2) auto
  then show ?thesis using assms(1,4) by (simp add: sum_list_distinct_conv_sum_set)
qed

end
