(* ===== verification/Atomicity.thy ===== *)
theory Atomicity
  imports Casework
begin

text \<open>
  A failed request leaves no trace. \<open>quiet m\<close>: the operation \<open>m\<close> does not touch the committed
  database; \<open>sure m\<close>: it cannot fail; \<open>atomic m\<close>: when it fails, the committed database is what
  it was. The three are closed under the combinators of the handlers, so that a handler which
  commits once, at its end, is atomic.
\<close>

definition quiet :: "('d, 'a) op \<Rightarrow> bool" where
  "quiet m \<longleftrightarrow> (\<forall>c w r c' w'. m (c, w) = (r, (c', w')) \<longrightarrow> c' = c)"

definition sure :: "('d, 'a) op \<Rightarrow> bool" where
  "sure m \<longleftrightarrow> (\<forall>s e s'. m s \<noteq> (Inl e, s'))"

definition atomic :: "('d, 'a) op \<Rightarrow> bool" where
  "atomic m \<longleftrightarrow> (\<forall>c w e c' w'. m (c, w) = (Inl e, (c', w')) \<longrightarrow> c' = c)"

named_theorems quiet_rules "operations that do not commit"

lemma quiet_basic [quiet_rules]:
  "quiet (ret x)" "quiet (raise e)" "quiet (query f)" "quiet (modify g)" "quiet (require b e)"
  "quiet (found e r)" "quiet (lift_result v)" "quiet uuid4"
  by (auto simp: quiet_def ret_def raise_def query_def modify_def require_def found_def lift_result_def
      uuid4_def bnd_def seq_def split: option.splits sum.splits)

lemma quiet_bnd [quiet_rules]: "quiet m \<Longrightarrow> (\<And>x. quiet (f x)) \<Longrightarrow> quiet (bnd m f)"
  unfolding quiet_def bnd_def by (fastforce split: prod.splits sum.splits)

lemma quiet_seq [quiet_rules]: "quiet m \<Longrightarrow> quiet n \<Longrightarrow> quiet (seq m n)"
  unfolding seq_def by (rule quiet_bnd)

lemma quiet_savepoint [quiet_rules]: "quiet m \<Longrightarrow> quiet h \<Longrightarrow> quiet (savepoint m h)"
  unfolding quiet_def savepoint_def by (fastforce split: prod.splits sum.splits exn.splits)

lemma quiet_if [quiet_rules]: "(b \<Longrightarrow> quiet m) \<Longrightarrow> (\<not> b \<Longrightarrow> quiet n) \<Longrightarrow> quiet (if b then m else n)"
  by simp

lemma quiet_let [quiet_rules]: "(\<And>x. quiet (f x)) \<Longrightarrow> quiet (let x = v in f x)"
  by simp

lemma quiet_option [quiet_rules]:
  "quiet m \<Longrightarrow> (\<And>x. quiet (f x)) \<Longrightarrow> quiet (case r of None \<Rightarrow> m | Some x \<Rightarrow> f x)"
  by (cases r) auto

lemma quiet_prod [quiet_rules]: "(\<And>x y. quiet (f x y)) \<Longrightarrow> quiet (case p of (x, y) \<Rightarrow> f x y)"
  by (cases p) auto

lemma quiet_for_each [quiet_rules]: "(\<And>x. quiet (f x)) \<Longrightarrow> quiet (for_each xs f)"
  by (induction xs) (auto intro: quiet_rules)

lemma quiet_atomic: "quiet m \<Longrightarrow> atomic m"
  by (auto simp: quiet_def atomic_def)

lemma sure_atomic: "sure m \<Longrightarrow> atomic m"
  by (auto simp: sure_def atomic_def)

lemma sure_basic: "sure (ret x)" "sure commit" "sure (modify g)" "sure (query f)"
  by (auto simp: sure_def ret_def commit_def modify_def query_def)

lemma sure_bnd: "sure m \<Longrightarrow> (\<And>x. sure (f x)) \<Longrightarrow> sure (bnd m f)"
  unfolding sure_def bnd_def by (auto split: prod.splits sum.splits)

lemma sure_seq: "sure m \<Longrightarrow> sure n \<Longrightarrow> sure (seq m n)"
  unfolding seq_def by (rule sure_bnd)

lemma atomic_bnd: "quiet m \<Longrightarrow> (\<And>x. atomic (f x)) \<Longrightarrow> atomic (bnd m f)"
  unfolding quiet_def atomic_def bnd_def
  by (fastforce split: prod.splits sum.splits)

lemma atomic_seq: "quiet m \<Longrightarrow> atomic n \<Longrightarrow> atomic (seq m n)"
  unfolding seq_def by (rule atomic_bnd)

lemma atomic_then: "atomic m \<Longrightarrow> (\<And>x. sure (f x)) \<Longrightarrow> atomic (bnd m f)"
  unfolding sure_def atomic_def bnd_def
  by (fastforce split: prod.splits sum.splits)

lemma atomic_if: "(b \<Longrightarrow> atomic m) \<Longrightarrow> (\<not> b \<Longrightarrow> atomic n) \<Longrightarrow> atomic (if b then m else n)"
  by simp

lemma atomic_let: "(\<And>x. atomic (f x)) \<Longrightarrow> atomic (let x = v in f x)"
  by simp

lemma atomic_option: "atomic m \<Longrightarrow> (\<And>x. atomic (f x)) \<Longrightarrow> atomic (case r of None \<Rightarrow> m | Some x \<Rightarrow> f x)"
  by (cases r) auto

lemma atomic_prod: "(\<And>x y. atomic (f x y)) \<Longrightarrow> atomic (case p of (x, y) \<Rightarrow> f x y)"
  by (cases p) auto

lemma sure_finish: "sure (finish idem body st)"
  by (simp add: finish_def complete_idempotency_def sure_seq sure_basic)

lemma atomic_commit_ret: "atomic (seq commit (ret x))"
  by (simp add: sure_atomic sure_seq sure_basic)

lemma atomic_raise: "atomic (raise e)" "atomic (ret x)"
  by (simp_all add: quiet_atomic quiet_rules)

lemmas atomic_rules = atomic_commit_ret sure_atomic [OF sure_finish] atomic_raise
  atomic_if atomic_let atomic_option atomic_prod

section \<open>The shared steps\<close>

lemma quiet_shared [quiet_rules]:
  "quiet (locked_milestone mid)" "quiet (version_of m)" "quiet (contract_of m)" "quiet (locked_contract cid)"
  "quiet (require_active_contract c)" "quiet (require_escrow mid)" "quiet (escrow_balance r)"
  "quiet (record_audit_event env action rtype actor rid prev new meta)" "quiet (enqueue_outbox_event ty agg aid payload)"
  by (unfold locked_milestone_def version_of_def contract_of_def locked_contract_def require_active_contract_def
      require_escrow_def escrow_balance_def record_audit_event_def enqueue_outbox_event_def; intro quiet_rules)+

lemma quiet_ledger [quiet_rules]:
  "quiet (insert_account a)" "quiet (get_or_create_account k ty cur owner ms)"
  "quiet (post_journal oper rt ref ps meta reverses)" "quiet (require_sufficient_balance a n)"
  by (unfold insert_account_def get_or_create_account_def post_journal_def require_sufficient_balance_def;
      intro quiet_rules; (unfold insert_account_def; intro quiet_rules)?)+

lemma quiet_keys [quiet_rules]:
  "quiet (insert_idempotency r)" "quiet (claim_idempotency env u oper raw payload)" "quiet (key_by_id i)"
  by (unfold insert_idempotency_def claim_idempotency_def key_by_id_def; intro quiet_rules;
      (unfold insert_idempotency_def; intro quiet_rules)?)+

lemma quiet_rows [quiet_rules]:
  "quiet (financial_state m)" "quiet (log_milestone_event m u a b note)" "quiet (set_milestone_status m st)"
  "quiet (insert_intent i)" "quiet (insert_provider_event e)" "quiet (insert_refund r)" "quiet (insert_payout p)"
  "quiet (insert_dispute x c)" "quiet (insert_evidence ev)" "quiet (provider_clearing_account prov cur)"
  "quiet (wallet_account owner cur)" "quiet (commission_account cur)" "quiet (log_dispute_event env did who ty f t why x' y)"
  "quiet (audit_state_change env action did actor reason before after extra)" "quiet (captured_funding_intent mid prov)"
  "quiet (resolve_payout_destination owner prov)" "quiet (locked_dispute did)" "quiet (latest_captured_intent mid)"
  "quiet (duplicate_provider_event e h)"
  by (unfold financial_state_def log_milestone_event_def set_milestone_status_def insert_intent_def
      insert_provider_event_def insert_refund_def insert_payout_def insert_dispute_def insert_evidence_def
      provider_clearing_account_def wallet_account_def commission_account_def log_dispute_event_def
      audit_state_change_def captured_funding_intent_def resolve_payout_destination_def locked_dispute_def
      latest_captured_intent_def duplicate_provider_event_def; intro quiet_rules)+

lemma quiet_steps [quiet_rules]:
  "quiet (escrow_for_capture m v)" "quiet (notify_other_party did u ty title body)"
  "quiet (notify_all_parties did ty title body)" "quiet (locked_funded_escrow m)"
  "quiet (require_reviewable_dispute x)" "quiet (freelancer_postings u cur net fee)"
  "quiet (confirm_provider_refund env x m amount key)" "quiet (persist_resolution_refund m u k j amount p reference)"
  "quiet (require_admin who)" "quiet (require_party who a b)"
  by (unfold escrow_for_capture_def notify_other_party_def notify_all_parties_def notification_event_def
      locked_funded_escrow_def require_reviewable_dispute_def freelancer_postings_def confirm_provider_refund_def
      persist_resolution_refund_def require_admin_def require_party_def; intro quiet_rules)+

lemma quiet_capture [quiet_rules]: "quiet (capture_intent env i actor)" "quiet (apply_captured env p data)" "quiet (apply_failed p data)"
  by (unfold capture_intent_def apply_captured_def apply_failed_def; intro quiet_rules;
      (unfold capture_intent_def; intro quiet_rules)?)+

section \<open>The handlers\<close>

lemma atomic_handlers:
  "atomic (fund_milestone env user mid prov key)" "atomic (release_milestone env user mid key)"
  "atomic (open_dispute env user mid reason)" "atomic (add_evidence env user did fid note)"
  "atomic (admin_transition env user did target reason)" "atomic (resolve_dispute env user did oc reason award back key)"
  "atomic (configure_payout_provider_account env user fid prov reference)"
  "atomic (disable_payout_provider_account env user fid prov)"
  by (unfold fund_milestone_def release_milestone_def open_dispute_def add_evidence_def admin_transition_def
      resolve_dispute_def configure_payout_provider_account_def disable_payout_provider_account_def;
      (rule atomic_rules | (rule atomic_bnd atomic_seq, intro quiet_rules))+)+

lemma atomic_webhook: "atomic (process_provider_webhook env prov payload sig)"
  unfolding process_provider_webhook_def
  by (rule atomic_rules | (rule atomic_bnd atomic_seq, intro quiet_rules) | (rule quiet_atomic, intro quiet_rules))+

lemma sure_then_some: "sure m \<Longrightarrow> atomic (bnd m (\<lambda>x. ret (Some x)))"
  by (intro sure_atomic sure_bnd sure_basic)

lemma atomic_reserve_refund: "atomic (reserve_refund env user m prov idem)"
  unfolding reserve_refund_def
  by (rule atomic_rules | (rule atomic_bnd atomic_seq, intro quiet_rules))+

lemma atomic_reserve_payout: "atomic (reserve_payout env user n cur prov idem)"
  unfolding reserve_payout_def
  by (rule atomic_rules | (rule atomic_bnd atomic_seq, intro quiet_rules))+

lemma bnd_some: "bnd (bnd m (\<lambda>x. ret (Some x))) (\<lambda>t. case t of None \<Rightarrow> n | Some x \<Rightarrow> f x) = bnd m f"
  by (rule ext) (auto simp: bnd_def ret_def split: prod.splits sum.splits)

lemma bnd_none: "bnd (ret None) (\<lambda>t. case t of None \<Rightarrow> n | Some x \<Rightarrow> f x) = n"
  by (rule ext) (auto simp: bnd_def ret_def)

lemma atomic_refund_replay:
  assumes "quiet n"
  shows "atomic (bnd (complete_refund_replay r idem) (\<lambda>t. case t of None \<Rightarrow> n | Some x \<Rightarrow> ret (f x)))"
  using assms
  by (cases "rf_status r")
    (auto simp: complete_refund_replay_def bnd_some bnd_none intro: quiet_atomic sure_atomic sure_bnd sure_finish sure_basic)

lemma atomic_payout_replay:
  assumes "atomic n"
  shows "atomic (bnd (complete_terminal_replay p idem) (\<lambda>t. case t of None \<Rightarrow> n | Some x \<Rightarrow> ret (f x)))"
  using assms
  by (cases "po_status p")
    (auto simp: complete_terminal_replay_def bnd_some bnd_none intro: sure_atomic sure_bnd sure_finish sure_basic)

lemma atomic_upgrade: "atomic (upgrade_legacy_destination_snapshot p)"
  unfolding upgrade_legacy_destination_snapshot_def
  by (rule atomic_rules | (rule atomic_bnd atomic_seq, intro quiet_rules))+

lemma atomic_prepare:
  "atomic (refund_prepare env user mid prov key)" "atomic (payout_prepare env user n cur prov key)"
  unfolding refund_prepare_def payout_prepare_def
  by (rule atomic_rules atomic_refund_replay atomic_payout_replay
      | (rule atomic_then, rule atomic_reserve_refund atomic_reserve_payout atomic_upgrade, rule sure_basic)
      | (rule atomic_bnd atomic_seq, intro quiet_rules) | intro quiet_rules)+

lemma atomic_request: "atomic m \<Longrightarrow> run_request m d = (Inl e, d') \<Longrightarrow> d' = d"
  unfolding atomic_def run_request_def by (auto split: prod.splits) blast

end
