(* ===== verification/Effects.thy ===== *)
theory Effects
  imports System Atomicity
begin

text \<open>
  Exact rules for the steps of a handler, for properties that say what a request did: the
  contract a milestone belongs to, a key claimed for the first time, the row a lookup returns,
  and the balances under the updates a handler makes.
\<close>

lemma wpI_contract_exact:
  "(\<And>k. contract_of m (c, w) = (Inr k, (c, w)) \<Longrightarrow> Q k (c, w)) \<Longrightarrow> (\<And>e. E e (c, w)) \<Longrightarrow> wp (contract_of m) Q E (c, w)"
  apply (auto simp: contract_of_def version_of_def wp_eqs split: option.splits)
  apply (auto simp: bnd_def query_def found_def ret_def)
  done

lemma wpI_claim_new:
  assumes "find_idempotency u oper (env_sha256 env (strip raw)) w = None"
    and "\<And>r. r = new_key env u oper raw payload w \<Longrightarrow> Q (r, True) (c, add_key r w)" and "\<And>e. E e (c, w)"
  shows "wp (claim_idempotency env u oper raw payload) Q E (c, w)"
  using assms by (simp add: wp_claim_idempotency Let_def)

lemma sys_inv_add_key: "sys_inv d \<Longrightarrow> sys_inv (add_key r d)"
  by (rule sys_inv_cong [OF inv_bump [of d "Suc (next_uuid d)"]]) (auto simp: add_key_def same_core_def)

lemma wpI_require_active_exact:
  "(con_status k = CON_ACTIVE \<Longrightarrow> Q () (c, w)) \<Longrightarrow> (\<And>e. E e (c, w)) \<Longrightarrow> wp (require_active_contract k) Q E (c, w)"
  by (auto simp: require_active_contract_def wp_eqs)

lemma balance_frame [simp]:
  "account_balance_minor a (complete_keys i st body d) = account_balance_minor a d"
  "account_balance_minor a (append_audit es d) = account_balance_minor a d"
  "account_balance_minor a (append_outbox os d) = account_balance_minor a d"
  "account_balance_minor a (add_milestone_event e d) = account_balance_minor a d"
  "account_balance_minor a (put_milestone m d) = account_balance_minor a d"
  "account_balance_minor a (put_refund r d) = account_balance_minor a d"
  "account_balance_minor a (put_payout p d) = account_balance_minor a d"
  "account_balance_minor a (add_refund r d) = account_balance_minor a d"
  "account_balance_minor a (add_payout p d) = account_balance_minor a d"
  "account_balance_minor a (add_key k d) = account_balance_minor a d"
  by (rule balance_cong; simp add: complete_keys_def append_audit_def append_outbox_def add_milestone_event_def
      put_milestone_def put_refund_def put_payout_def add_refund_def add_payout_def add_key_def)+

lemma add_key_sel [simp]:
  "milestones (add_key r d) = milestones d" "accounts (add_key r d) = accounts d" "escrows (add_key r d) = escrows d"
  "find_escrow mid (add_key r d) = find_escrow mid d"
  by (simp_all add: add_key_def find_escrow_def)

lemma balance_posted [simp]: 
  "account_balance_minor a (add_journal (mk_journal i oper rt ref ps meta reverses) d) = account_balance_minor a d + posting_net ps a"
  by (rule balance_add_journal)

lemma accounts_frame [simp]:
  "accounts (complete_keys i st body d) = accounts d" "accounts (append_audit es d) = accounts d"
  "accounts (append_outbox os d) = accounts d" "accounts (add_milestone_event e d) = accounts d"
  "accounts (put_milestone m d) = accounts d" "accounts (put_refund r d) = accounts d"
  "accounts (put_payout p d) = accounts d" "accounts (add_refund r d) = accounts d"
  "accounts (add_payout p d) = accounts d" "accounts (add_journal j d) = accounts d"
  by (simp_all add: complete_keys_def append_audit_def append_outbox_def add_milestone_event_def
      put_milestone_def put_refund_def put_payout_def add_refund_def add_payout_def add_journal_def)

lemma wpI_locked_row: "row_by ms_id mid (milestones w) = Some m \<Longrightarrow> Q m (c, w) \<Longrightarrow> wp (locked_milestone mid) Q E (c, w)"
  by (simp add: locked_milestone_def wp_eqs)

end
