(* ===== verification/Scenario.thy ===== *)
theory Scenario
  imports System
begin

text \<open>
  One engagement from an accepted proposal to a paid-out wallet, run through the handlers
  under the sandbox provider: \<open>demo0\<close> to \<open>demo6\<close> are the successive databases up to the start of the
  work. Theory \<open>Scenario_Release\<close> goes on to the payout, \<open>Scenario_Refund\<close> refunds the funded
  milestone instead, and \<open>Scenario_Dispute\<close> resolves a dispute about it with a split. Every
  state is reachable; the states are evaluated by simplification with the handlers' definitions
  (\<open>demo*_state\<close>), so the properties can be applied to databases in every phase.
\<close>

section \<open>The environment\<close>

text \<open>SHA-256 and HMAC are instantiated by injective functions, \<open>json.loads\<close> by a function
  that knows one webhook body, and the Stripe adapter by one that always refuses.\<close>

definition demo_stripe :: provider where
  "demo_stripe = \<lparr>pv_name = ''stripe'', pv_create_payment = (\<lambda>_ _ _. Inl ProviderOtherError),
     pv_verify_payment = (\<lambda>_. Inl ProviderOtherError), pv_get_payment_action = (\<lambda>_. Inl ProviderOtherError),
     pv_refund = (\<lambda>_ _ _ _. Inl ProviderOtherError), pv_verify_refund = (\<lambda>_. Inl ProviderOtherError),
     pv_validate_destination = (\<lambda>_. Inl ProviderOtherError), pv_payout = (\<lambda>_ _ _ _. Inl ProviderOtherError),
     pv_get_transaction = (\<lambda>_. Inl ProviderOtherError), pv_verify_webhook = (\<lambda>_ _. Inl ProviderOtherError)\<rparr>"

definition demo_reference :: string where
  "demo_reference = ''sandbox_pay_100_USD_fund''"

definition demo_capture :: json where
  "demo_capture = JObj [(''id'', JStr ''evt''), (''type'', JStr ''payment.captured''),
     (''data'', JObj [(''provider_reference'', JStr demo_reference), (''amount_minor'', JInt 100),
                      (''currency'', JStr ''usd'')])]"

definition demo_env :: env where
  "demo_env = \<lparr>env_now = 7, env_sha256 = (\<lambda>s. s), env_hmac = (\<lambda>k s. k @ s),
     env_json_loads = (\<lambda>s. if s = ''captured'' then Some demo_capture else None),
     env_iso = (\<lambda>t. str_int (int t)), env_request_id = None, env_runtime_enabled = True,
     env_webhook_secret = ''k'', env_commission_bps = None, env_stripe = demo_stripe\<rparr>"

definition employer :: user where "employer = \<lparr>user_id = 1, user_roles = [''employer'']\<rparr>"
definition freelancer :: user where "freelancer = \<lparr>user_id = 2, user_roles = [''freelancer'']\<rparr>"
definition arbiter :: user where "arbiter = \<lparr>user_id = 3, user_roles = [''admin'']\<rparr>"

definition demo_project :: project where
  "demo_project = \<lparr>pj_id = 4, pj_employer = 1, pj_title = ''site'', pj_description = ''a site'',
     pj_budget_min = Some 50, pj_budget_max = Some 150, pj_currency = Some ''USD'', pj_status = PJ_OPEN\<rparr>"

definition demo_version :: proposal_version where
  "demo_version = \<lparr>pv_id = 6, pv_number = 1, pv_amount = 100, pv_currency = ''USD'', pv_delivery_days = 5,
     pv_cover_letter = ''hello'', pv_milestones = []\<rparr>"

definition demo_proposal :: proposal where
  "demo_proposal = \<lparr>pr_id = 5, pr_project_id = 4, pr_freelancer = 2, pr_status = PR_SUBMITTED,
     pr_current_version = 1, pr_versions = [demo_version]\<rparr>"

definition demo_snapshot :: json where
  "demo_snapshot = build_snapshot demo_project demo_proposal demo_version
     [(1, ''Full contract delivery'', 100, 5)] [] 1000"

definition demo_hash :: string where
  "demo_hash = document_hash demo_env demo_snapshot"

section \<open>The run\<close>

definition demo0 :: db where
  "demo0 = empty_db\<lparr>next_uuid := 10, users := [employer, freelancer, arbiter],
     projects := [demo_project], proposals := [demo_proposal]\<rparr>"
definition demo1 :: db where
  "demo1 = after (transition_proposal demo_env employer 5 ''ACCEPTED'') demo0"
definition demo2 :: db where
  "demo2 = after (sign_contract demo_env employer 10 ''k1'' demo_hash None JNull JNull) demo1"
definition demo3 :: db where
  "demo3 = after (sign_contract demo_env freelancer 10 ''k2'' demo_hash None JNull JNull) demo2"
definition demo4 :: db where
  "demo4 = after (fund_milestone demo_env employer 12 ''sandbox'' ''fund'') demo3"
definition demo5 :: db where
  "demo5 = after (process_provider_webhook demo_env ''sandbox'' ''captured'' ''kcaptured'') demo4"
definition demo6 :: db where
  "demo6 = after (start_milestone demo_env freelancer 12) demo5"
section \<open>Evaluation\<close>

lemmas run_defs = after_def run_request_def ret_def raise_def bnd_def seq_def query_def modify_def commit_def
  rollback_def require_def found_def lift_result_def savepoint_def catch_def uuid4_def Let_def
  row_by_def put_row_def record_audit_event_def audit_states_def state_hash_required_actions_def
  metadata_state_def jget_def enqueue_outbox_event_def

lemma demo_rows:
  "user_id employer = 1" "user_id freelancer = 2" "user_id arbiter = 3" "user_roles arbiter = [''admin'']"
  "pj_id demo_project = 4" "pj_employer demo_project = 1" "pj_status demo_project = PJ_OPEN"
  "pv_number demo_version = 1" "pv_amount demo_version = 100" "pv_currency demo_version = ''USD''"
  "pv_milestones demo_version = []" "pv_delivery_days demo_version = 5" "pr_id demo_proposal = 5"
  "pr_project_id demo_proposal = 4" "pr_freelancer demo_proposal = 2" "pr_status demo_proposal = PR_SUBMITTED"
  "pr_current_version demo_proposal = 1" "pr_versions demo_proposal = [demo_version]"
  by (simp_all add: employer_def freelancer_def arbiter_def demo_project_def demo_version_def demo_proposal_def)

lemma demo_env_sel: "env_sha256 demo_env s = s" "env_now demo_env = 7" "env_runtime_enabled demo_env"
  by (simp_all add: demo_env_def)

lemma demo_texts:
  "upper ''ACCEPTED'' = ''ACCEPTED''" "lower ''ACCEPTED'' = ''accepted''" "upper ''usd'' = ''USD''"
  "lower ''sandbox'' = ''sandbox''" "strip ''sandbox'' = ''sandbox''" "strip ''USD'' = ''USD''" "upper ''USD'' = ''USD''"
  "strip ''fund'' = ''fund''" "strip ''release'' = ''release''" "strip ''payout'' = ''payout''"
  "strip ''refund'' = ''refund''" "strip ''late'' = ''late''" "strip ''SPLIT'' = ''SPLIT''" "upper ''SPLIT'' = ''SPLIT''"
  "strip ''resolve'' = ''resolve''" "upper (strip ''EVIDENCE_COLLECTION'') = ''EVIDENCE_COLLECTION''"
  "upper (strip ''UNDER_REVIEW'') = ''UNDER_REVIEW''" "lower ''IN_PROGRESS'' = ''in_progress''"
  "lower ''SUBMITTED'' = ''submitted''" "lower ''APPROVED'' = ''approved''"
  by code_simp+

lemma demo_commission: "commission_bps demo_env = Inr 1000"
  by (simp add: commission_bps_def demo_env_def py_int_def strip_def is_space_def is_digit_def digits_val_def digit_val_def)

lemma demo_payment:
  "sandbox_create_payment demo_env 100 ''USD'' ''fund'' = Inr \<lparr>res_reference = demo_reference,
     res_status = ''PENDING'', res_amount = 100, res_currency = ''USD''\<rparr>"
  unfolding demo_env_def demo_reference_def by code_simp

lemma demo_provider: "get_provider demo_env ''sandbox'' = Inr (sandbox_provider demo_env)"
  by (simp add: get_provider_def demo_env_sel demo_texts)

lemma sandbox_provider_sel:
  "pv_name (sandbox_provider e) = ''sandbox''" "pv_create_payment (sandbox_provider e) = sandbox_create_payment e"
  "pv_verify_webhook (sandbox_provider e) = sandbox_verify_webhook e" "pv_payout (sandbox_provider e) = sandbox_payout e"
  "pv_refund (sandbox_provider e) = sandbox_refund e"
  by (simp_all add: sandbox_provider_def)

lemma demo_webhook:
  "sandbox_verify_webhook demo_env ''captured'' ''kcaptured'' = Inr \<lparr>vw_event_id = ''evt'',
     vw_event_type = ''payment.captured'', vw_data = JObj [(''provider_reference'', JStr demo_reference),
       (''amount_minor'', JInt 100), (''currency'', JStr ''usd'')]\<rparr>"
  by (simp add: sandbox_verify_webhook_def demo_env_def demo_capture_def nonempty_str_def jget_def jhas_def
      normalize_webhook_data_def)

lemma demo_reference_nonempty: "demo_reference \<noteq> []"
  by (simp add: demo_reference_def)

lemma demo_snapshot_commission:
  "contract_commission_bps \<lparr>cv_id = i, cv_contract_id = j, cv_number = k, cv_snapshot = demo_snapshot,
     cv_document_hash = h\<rparr> = Inr 1000"
  by (simp add: contract_commission_bps_def demo_snapshot_def build_snapshot_def jget_def)

lemmas ledger_defs = get_or_create_account_def find_account_def insert_account_def account_balance_minor_def
  entries_def post_journal_def mk_posting_def find_journal_def mk_journal_def entry_of_def signed_def
  require_sufficient_balance_def account_identity_ok_def

lemmas claim_defs = claim_idempotency_def find_idempotency_def insert_idempotency_def stored_response_def finish_def
  complete_idempotency_def complete_keys_def set_response_def

lemmas milestone_defs = locked_milestone_def version_of_def contract_of_def locked_contract_def require_active_contract_def
  find_escrow_def require_escrow_def escrow_balance_def account_by_id_def set_milestone_status_def put_milestone_def
  log_milestone_event_def add_milestone_event_def milestone_event_of_def financial_state_def

lemmas demo_defs = run_defs ledger_defs claim_defs milestone_defs demo_rows demo_env_sel demo_texts demo_commission
  demo_payment demo_provider sandbox_provider_sel demo_webhook demo_reference_nonempty demo_snapshot_commission

lemma demo_reference_parses: "parse_reference ''pay'' demo_reference = Inr (100, ''USD'')"
  unfolding demo_reference_def by code_simp

text \<open>The definitions the run goes through are simplification rules for the rest of this section.\<close>

lemmas accept_defs = demo0_def empty_db_def transition_proposal_def get_proposal_def
  get_project_def proposal_status_of_def all_proposal_statuses_def can_manage_proposal_def
  create_contract_from_accepted_proposal_def current_proposal_version_def milestone_terms_def
  demo_snapshot_def[symmetric] demo_hash_def[symmetric] insert_contract_def insert_milestone_def
  add_milestone_def set_proposal_status_def put_proposal_def

lemmas sign_defs = sign_contract_def get_contract_def is_contract_party_def current_contract_version_def
  insert_signature_def add_signature_def required_user_ids_def signed_user_ids_def put_contract_def

lemmas fund_defs = fund_milestone_def can_fund_milestone_def active_intent_def insert_intent_def add_intent_def
  process_provider_webhook_def find_provider_event_def insert_provider_event_def add_provider_event_def
  mark_event_processed_def apply_captured_def webhook_string_def webhook_int_def intent_by_reference_def
  capture_intent_def escrow_for_capture_def add_escrow_def provider_clearing_account_def add_funding_def put_intent_def

lemmas work_defs = start_milestone_def submit_milestone_def approve_milestone_def milestone_transition_def
  can_work_on_milestone_def can_review_milestone_def require_milestone_fully_funded_def
  release_milestone_def can_release_or_refund_def wallet_account_def commission_account_def commission_minor_def
  release_postings_def

lemmas demo_run = demo_defs accept_defs sign_defs fund_defs work_defs

declare demo_run [simp]

lemmas demo1_state [simp] = demo1_def [simplified]
lemmas demo2_state [simp] = demo2_def [simplified]
lemmas demo3_state [simp] = demo3_def [simplified]
lemmas demo4_state [simp] = demo4_def [simplified]
lemmas demo5_state [simp] = demo5_def [simplified]
lemmas demo6_state [simp] = demo6_def [simplified]

lemmas demo_states = demo1_state demo2_state demo3_state demo4_state demo5_state demo6_state

declare demo_run [simp del] demo_states [simp del]

section \<open>Reachability\<close>

lemma reachable_step: "reachable_db d \<Longrightarrow> platform_step d d' \<Longrightarrow> reachable_db d'"
  unfolding reachable_db_def by (rule reachable.continue)

lemma demo_reachable_0: "reachable_db demo0"
  unfolding reachable_db_def by (rule reachable.start) (simp add: demo0_def empty_db_def fresh_platform_def fresh_ids_def demo_rows)

lemma demo_safe: "capture_safe demo4"
  by (simp add: demo4_state capture_safe_def)

lemma demo_reachable:
  shows demo_reachable_1: "reachable_db demo1" and demo_reachable_2: "reachable_db demo2"
    and demo_reachable_3: "reachable_db demo3" and demo_reachable_4: "reachable_db demo4"
    and demo_reachable_5: "reachable_db demo5" and demo_reachable_6: "reachable_db demo6"
proof -
  show 1: "reachable_db demo1" unfolding demo1_def by (rule reachable_step [OF demo_reachable_0 platform_step.decide])
  show 2: "reachable_db demo2" unfolding demo2_def by (rule reachable_step [OF 1 platform_step.sign])
  show 3: "reachable_db demo3" unfolding demo3_def by (rule reachable_step [OF 2 platform_step.sign])
  show 4: "reachable_db demo4" unfolding demo4_def by (rule reachable_step [OF 3 platform_step.fund])
  show 5: "reachable_db demo5" unfolding demo5_def
    by (rule reachable_step [OF 4 platform_step.webhook [OF demo_safe]])
  show "reachable_db demo6" unfolding demo6_def start_milestone_def
    by (rule reachable_step [OF 5 platform_step.work]) (simp add: user_action_def)
qed

end
