(* ===== verification/Scenario_Release.thy ===== *)
theory Scenario_Release
  imports Scenario
begin

text \<open>The run of theory \<open>Scenario\<close> continued: the work is submitted and approved, the escrow
  is released with ten per cent commission, and part of the wallet is paid out.\<close>

definition demo7 :: db where
  "demo7 = after (submit_milestone demo_env freelancer 12 ''done'') demo6"
definition demo8 :: db where
  "demo8 = after (approve_milestone demo_env employer 12) demo7"
definition demo9 :: db where
  "demo9 = after (release_milestone demo_env employer 12 ''release'') demo8"
definition demo10 :: db where
  "demo10 = after (payout_prepare demo_env freelancer 40 ''USD'' ''sandbox'' ''payout'') demo9"

text \<open>The provider completes the payout.\<close>

definition demo11 :: db where
  "demo11 = after (payout_settle demo_env freelancer ''payout'' (hd (payouts demo10))) demo10"

lemmas payout_defs = payout_prepare_def reserve_payout_def resolve_payout_destination_def find_wallet_def
  insert_payout_def add_payout_def payout_settle_def sandbox_payout_def payout_record_def locked_payout_def
  set_payout_succeeded_def put_payout_def key_by_id_def

declare demo_run [simp] demo_states [simp] payout_defs [simp]

lemmas demo7_state [simp] = demo7_def [simplified]
lemmas demo8_state [simp] = demo8_def [simplified]
lemmas demo9_state [simp] = demo9_def [simplified]
lemmas demo10_state [simp] = demo10_def [simplified]
lemmas demo11_state [simp] = demo11_def [simplified]

lemmas release_states = demo7_state demo8_state demo9_state demo10_state demo11_state

declare demo_run [simp del] demo_states [simp del] payout_defs [simp del] release_states [simp del]

lemma demo_release_reachable:
  shows demo_reachable_7: "reachable_db demo7" and demo_reachable_8: "reachable_db demo8"
    and demo_reachable_9: "reachable_db demo9" and demo_reachable_10: "reachable_db demo10"
    and demo_reachable_11: "reachable_db demo11"
proof -
  show 7: "reachable_db demo7" unfolding demo7_def submit_milestone_def
    by (rule reachable_step [OF demo_reachable_6 platform_step.work]) (simp add: user_action_def)
  show 8: "reachable_db demo8" unfolding demo8_def approve_milestone_def
    by (rule reachable_step [OF 7 platform_step.work]) (simp add: user_action_def)
  show 9: "reachable_db demo9" unfolding demo9_def by (rule reachable_step [OF 8 platform_step.release])
  show 10: "reachable_db demo10" unfolding demo10_def by (rule reachable_step [OF 9 platform_step.payout_1])
  show "reachable_db demo11" unfolding demo11_def by (rule reachable_step [OF 10 platform_step.payout_2])
qed

end
