(* ===== verification/Scenario_Refund.thy ===== *)
theory Scenario_Refund
  imports Scenario
begin

text \<open>The run of theory \<open>Scenario\<close> with a refund of the funded milestone: the reservation is
  committed first, then the provider confirms it.\<close>

text \<open>A refund instead of the work.\<close>

definition demo5_reserved :: db where
  "demo5_reserved = after (refund_prepare demo_env employer 12 ''sandbox'' ''refund'') demo5"
definition demo5_refunded :: db where
  "demo5_refunded = after (refund_settle demo_env employer 12 ''refund'' (hd (refunds demo5_reserved))
     (hd (intents demo5_reserved))) demo5_reserved"

lemmas refund_defs = refund_prepare_def reserve_refund_def captured_funding_intent_def
  latest_captured_def insert_refund_def add_refund_def refund_settle_def sandbox_refund_def demo_reference_parses
  refund_record_def set_refund_reference_def put_refund_def

declare demo_run [simp] demo_states [simp] refund_defs [simp]

lemmas demo5_reserved_state [simp] = demo5_reserved_def [simplified]
lemmas demo5_refunded_state [simp] = demo5_refunded_def [simplified]

declare demo_run [simp del] demo_states [simp del] refund_defs [simp del] demo5_reserved_state [simp del]
  demo5_refunded_state [simp del]

lemma demo_refund_reachable:
  shows demo_reachable_reserved: "reachable_db demo5_reserved" and demo_reachable_refunded: "reachable_db demo5_refunded"
proof -
  show r: "reachable_db demo5_reserved" unfolding demo5_reserved_def
    by (rule reachable_step [OF demo_reachable_5 platform_step.refund_1])
  show "reachable_db demo5_refunded" unfolding demo5_refunded_def
    by (rule reachable_step [OF r platform_step.refund_2]) (simp add: refund_of_def demo5_reserved_state)
qed

end
