(* ===== verification/Scenario_Dispute.thy ===== *)
theory Scenario_Dispute
  imports Scenario
begin

text \<open>The run of theory \<open>Scenario\<close> with a dispute about the work: it is opened, moved to
  review and resolved by a split, sixty to the freelancer and forty back to the client.\<close>

text \<open>A dispute about the work, decided by a split.\<close>

definition demo6_disputed :: db where
  "demo6_disputed = after (open_dispute demo_env employer 12 ''late'') demo6"
definition demo6_evidence :: db where
  "demo6_evidence = after (admin_transition demo_env arbiter 21 ''EVIDENCE_COLLECTION'' ''late'') demo6_disputed"
definition demo6_review :: db where
  "demo6_review = after (admin_transition demo_env arbiter 21 ''UNDER_REVIEW'' ''late'') demo6_evidence"
definition demo6_resolved :: db where
  "demo6_resolved = after (resolve_dispute demo_env arbiter 21 ''SPLIT'' ''late'' (Some 60) (Some 40) ''resolve'') demo6_review"

lemmas dispute_defs = open_dispute_def required_text_def require_party_def openable_milestone_states_def
  insert_dispute_def add_dispute_def log_dispute_event_def add_dispute_event_def audit_state_change_def
  notify_other_party_def notification_event_def parties_of_def state_snapshot_def j_opt_def admin_transition_def require_admin_def is_admin_def
  locked_dispute_def dispute_status_of_def all_dispute_statuses_def put_dispute_def
  resolve_dispute_def require_reviewable_dispute_def decision_of_def dispute_outcome_of_def locked_funded_escrow_def
  resolution_amounts_def freelancer_postings_def confirm_provider_refund_def latest_captured_intent_def
  persist_resolution_refund_def notify_all_parties_def serialize_dispute_def

lemmas dispute_refund_defs = latest_captured_def sandbox_refund_def demo_reference_parses insert_refund_def add_refund_def

declare demo_run [simp] demo_states [simp] dispute_defs [simp] dispute_refund_defs [simp]

lemmas demo6_disputed_state [simp] = demo6_disputed_def [simplified]
lemmas demo6_evidence_state [simp] = demo6_evidence_def [simplified]
lemmas demo6_review_state [simp] = demo6_review_def [simplified]
lemmas demo6_resolved_state [simp] = demo6_resolved_def [simplified]

lemmas dispute_states = demo6_disputed_state demo6_evidence_state demo6_review_state demo6_resolved_state

declare demo_run [simp del] demo_states [simp del] dispute_defs [simp del] dispute_refund_defs [simp del]
  dispute_states [simp del]

lemma demo_dispute_reachable:
  shows demo_reachable_disputed: "reachable_db demo6_disputed" and demo_reachable_evidence: "reachable_db demo6_evidence"
    and demo_reachable_review: "reachable_db demo6_review" and demo_reachable_resolved: "reachable_db demo6_resolved"
proof -
  show 1: "reachable_db demo6_disputed" unfolding demo6_disputed_def
    by (rule reachable_step [OF demo_reachable_6 platform_step.dispute])
  show 2: "reachable_db demo6_evidence" unfolding demo6_evidence_def
    by (rule reachable_step [OF 1 platform_step.arbitrate])
  show 3: "reachable_db demo6_review" unfolding demo6_review_def
    by (rule reachable_step [OF 2 platform_step.arbitrate])
  show "reachable_db demo6_resolved" unfolding demo6_resolved_def
    by (rule reachable_step [OF 3 platform_step.resolve])
qed

end
