(* ===== verification/Guarantees.thy ===== *)
theory Guarantees
  imports Effects Scenario_Release Scenario_Refund Scenario_Dispute
begin

text \<open>
  What the components promise their callers: the ledger posts balanced journals once, an
  idempotency key answers a retry with the stored response, a provider reference verifies to
  the payment it was made for, a webhook is applied once, a failed request changes nothing,
  and a release divides the escrow between freelancer and platform. Each property is applied
  to a concrete request of the scenario theories.
\<close>

section \<open>Ledger\<close>

text \<open>C6: A journal is accepted exactly when it has postings, in one currency, each positive and
  either a debit or a credit, with equal debit and credit totals; a rejected journal changes
  nothing, a journal under a reference that was posted before returns the old journal and
  changes nothing, and otherwise exactly this journal is appended.\<close>

theorem post_journal_behaviour:
  "post_journal oper rt ref ps meta reverses (c, w) =
    (if \<not> valid_postings ps then (Inl ValueError, (c, w))
     else case find_journal rt ref oper w of
       Some j \<Rightarrow> (Inr j, (c, w))
     | None \<Rightarrow> let j = mk_journal (next_uuid w) oper rt ref ps meta reverses in (Inr j, (c, add_journal j w)))"
  by (subst outcome_eq) (simp add: wp_post_journal Let_def split: option.splits)

lemma find_journal_add:
  "find_journal rt ref oper w = None \<Longrightarrow>
    find_journal rt ref oper (add_journal (mk_journal i oper rt ref ps meta reverses) w) =
      Some (mk_journal i oper rt ref ps meta reverses)"
  by (simp add: find_journal_def add_journal_def mk_journal_def find_append)

text \<open>Posting a second journal under the reference of the first is absorbed, whatever its
  postings: the first journal is returned and no balance changes.\<close>

theorem post_journal_once:
  assumes "post_journal oper rt ref ps meta reverses (c, w) = (Inr j, (c', w'))" and "valid_postings ps'"
  shows "post_journal oper rt ref ps' meta' reverses' (c', w') = (Inr j, (c', w'))"
  using assms unfolding outcome_eq [of "post_journal _ _ _ _ _ _"]
  by (auto simp: wp_post_journal Let_def find_journal_add split: option.splits if_splits)

definition demo_fund_postings :: "int \<Rightarrow> posting list" where
  "demo_fund_postings n = [mk_posting (accounts demo5 ! 1) ''DEBIT'' n, mk_posting (accounts demo5 ! 0) ''CREDIT'' n]"

lemma demo_fund_valid: "0 < n \<Longrightarrow> valid_postings (demo_fund_postings n)"
  by (simp add: demo_fund_postings_def valid_postings_def one_currency_def posting_ok_def demo5_state)

theorem post_journal_once_witness:
  "\<exists>j w. post_journal PAYOUT ''payout'' 30 (demo_fund_postings 5) JNull None (demo5, demo5) = (Inr j, (demo5, w)) \<and>
    post_journal PAYOUT ''payout'' 30 (demo_fund_postings 7) JNull None (demo5, w) = (Inr j, (demo5, w))"
proof -
  let ?j = "mk_journal 21 PAYOUT ''payout'' 30 (demo_fund_postings 5) JNull None"
  have "post_journal PAYOUT ''payout'' 30 (demo_fund_postings 5) JNull None (demo5, demo5) =
      (Inr ?j, (demo5, add_journal ?j demo5))"
    by (subst outcome_eq) (simp add: wp_post_journal demo_fund_valid Let_def find_journal_def demo5_state)
  from this post_journal_once [OF this demo_fund_valid [of 7]] show ?thesis by auto
qed

text \<open>C18: Refinement to the abstract book, the map from accounts to balances: a posted journal adds
  to every account the net of its postings, keeps the ledger well formed and leaves the
  committed database alone.\<close>

theorem post_journal_moves_money:
  assumes "wf_ledger w" and "\<forall>p\<in>set ps. po_account p \<in> set (accounts w)" and "find_journal rt ref oper w = None"
    and "post_journal oper rt ref ps meta reverses (c, w) = (Inr j, (c', w'))"
  shows "wf_ledger w' \<and> c' = c \<and>
    (\<lambda>a. account_balance_minor a w') = (\<lambda>a. account_balance_minor a w + posting_net ps a)"
  using assms unfolding outcome_eq [of "post_journal _ _ _ _ _ _"]
  by (auto simp: wp_post_journal Let_def wf_ledger_add_journal split: if_splits)

theorem post_journal_moves_money_witness:
  "\<exists>j w. post_journal PAYOUT ''payout'' 30 (demo_fund_postings 5) JNull None (demo5, demo5) = (Inr j, (demo5, w)) \<and>
    account_balance_minor 17 demo5 = 100 \<and> account_balance_minor 17 w = 105"
proof -
  let ?j = "mk_journal 21 PAYOUT ''payout'' 30 (demo_fund_postings 5) JNull None"
  have run: "post_journal PAYOUT ''payout'' 30 (demo_fund_postings 5) JNull None (demo5, demo5) =
      (Inr ?j, (demo5, add_journal ?j demo5))"
    by (subst outcome_eq) (simp add: wp_post_journal demo_fund_valid Let_def find_journal_def demo5_state)
  have none: "find_journal ''payout'' 30 PAYOUT demo5 = None" by (simp add: find_journal_def demo5_state)
  have wf: "wf_ledger demo5" using reachable_sys_inv [OF demo_reachable_5] by (rule inv_parts(1))
  have mem: "\<forall>p\<in>set (demo_fund_postings 5). po_account p \<in> set (accounts demo5)"
    by (simp add: demo_fund_postings_def demo5_state)
  have b: "account_balance_minor 17 demo5 = 100"
    by (simp add: demo5_state account_balance_minor_def entries_def signed_def)
  have "(\<lambda>a. account_balance_minor a (add_journal ?j demo5)) =
      (\<lambda>a. account_balance_minor a demo5 + posting_net (demo_fund_postings 5) a)"
    using post_journal_moves_money [OF wf mem none run] by simp
  from fun_cong [OF this, of 17] b run show ?thesis by (auto simp: demo_fund_postings_def demo5_state)
qed

text \<open>An account key denotes one account: once \<open>get_or_create_account\<close> has returned an account,
  the same call returns it again and creates nothing.\<close>

theorem account_created_once:
  assumes "get_or_create_account k ty cur owner ms (c, w) = (Inr a, (c', w'))"
  shows "get_or_create_account k ty cur owner ms (c', w') = (Inr a, (c', w'))"
  using assms unfolding outcome_eq [of "get_or_create_account _ _ _ _ _"]
  by (auto simp: wp_get_or_create_account Let_def find_account_def add_account_def find_append
      new_account_def account_identity_ok_def split: option.splits if_splits)

theorem account_created_once_witness:
  "\<exists>a w. get_or_create_account ''platform:commission:EUR'' PLATFORM_COMMISSION ''EUR'' None None (demo5, demo5) =
      (Inr a, (demo5, w)) \<and> length (accounts w) = 3 \<and>
    get_or_create_account ''platform:commission:EUR'' PLATFORM_COMMISSION ''EUR'' None None (demo5, w) = (Inr a, (demo5, w))"
proof -
  let ?a = "new_account ''platform:commission:EUR'' PLATFORM_COMMISSION ''EUR'' None None demo5"
  have run: "get_or_create_account ''platform:commission:EUR'' PLATFORM_COMMISSION ''EUR'' None None (demo5, demo5) =
      (Inr ?a, (demo5, add_account ?a demo5))"
    by (subst outcome_eq) (simp add: wp_get_or_create_account Let_def find_account_def demo5_state)
  have "length (accounts (add_account ?a demo5)) = 3" by (simp add: add_account_def demo5_state)
  with run account_created_once [OF run] show ?thesis by blast
qed

section \<open>Idempotency keys\<close>

lemma find_idempotency_new:
  assumes "find_idempotency u oper (env_sha256 env (strip raw)) w = None"
  shows "find_idempotency u oper (env_sha256 env (strip raw)) (add_key (new_key env u oper raw payload w) w) =
    Some (new_key env u oper raw payload w)"
  using assms by (simp add: find_idempotency_def add_key_def new_key_def find_append)

lemma new_key_sel:
  "ik_id (new_key env u oper raw payload w) = next_uuid w"
  "ik_request_hash (new_key env u oper raw payload w) = request_hash env payload"
  by (simp_all add: new_key_def)

text \<open>C19: Round trip of a response through its idempotency key: after a claim was completed with a
  response, the same claim returns the record as not newly created and carries that response.\<close>

theorem claim_replays_response:
  assumes "claim_idempotency env u oper raw payload (c, w) = (Inr (r, created), (c, w'))"
    and "d = complete_keys (ik_id r) st body w'"
  shows "\<exists>r'. claim_idempotency env u oper raw payload (d, d) = (Inr (r', False), (d, d)) \<and>
    stored_response (r', False) = Some (body, st)"
proof -
  have valid: "valid_key raw" and r: "find_idempotency u oper (env_sha256 env (strip raw)) w' = Some r"
      "ik_request_hash r = request_hash env payload"
    using assms(1) unfolding outcome_eq [of "claim_idempotency _ _ _ _ _"]
    by (auto simp: wp_claim_idempotency Let_def find_idempotency_new new_key_sel split: option.splits if_splits)
  show ?thesis
    by (rule exI [of _ "set_response st body r"], subst outcome_eq)
      (simp add: wp_claim_idempotency Let_def valid r assms(2) find_idempotency_complete set_response_def stored_response_def)
qed

lemma demo_claim:
  "claim_idempotency demo_env 1 ''milestone.refund'' ''refund'' payload (demo5, demo5) =
    (Inr (new_key demo_env 1 ''milestone.refund'' ''refund'' payload demo5, True),
     (demo5, add_key (new_key demo_env 1 ''milestone.refund'' ''refund'' payload demo5) demo5))"
  by (subst outcome_eq)
    (simp add: wp_claim_idempotency Let_def valid_key_def demo_texts find_idempotency_def demo5_state)

theorem claim_replays_response_witness:
  "\<exists>r d. claim_idempotency demo_env 1 ''milestone.refund'' ''refund'' JNull (d, d) = (Inr (r, False), (d, d)) \<and>
    stored_response (r, False) = Some (JBool True, 200)"
  using claim_replays_response [OF demo_claim [of JNull] refl] by blast

text \<open>Reusing a key for a different request is a conflict: it is answered with 409 and changes
  nothing, also after the first request was completed.\<close>

theorem claim_rejects_other_request:
  assumes "claim_idempotency env u oper raw payload (c, w) = (Inr (r, created), (c, w'))"
    and "request_hash env payload' \<noteq> request_hash env payload"
  shows "claim_idempotency env u oper raw payload' (d, complete_keys i st body w') =
    (Inl (ApiError ''idempotency_conflict'' 409), (d, complete_keys i st body w'))"
  using assms unfolding outcome_eq [of "claim_idempotency _ _ _ _ _"]
  by (auto simp: wp_claim_idempotency Let_def find_idempotency_complete find_idempotency_new
      set_response_def new_key_sel split: option.splits if_splits)

theorem claim_rejects_other_request_witness:
  "\<exists>w. claim_idempotency demo_env 1 ''milestone.refund'' ''refund'' JNull (demo5, demo5) =
      (Inr (new_key demo_env 1 ''milestone.refund'' ''refund'' JNull demo5, True), (demo5, w)) \<and>
    claim_idempotency demo_env 1 ''milestone.refund'' ''refund'' (JBool True) (demo5, complete_keys 21 200 JNull w) =
      (Inl (ApiError ''idempotency_conflict'' 409), (demo5, complete_keys 21 200 JNull w))"
  using demo_claim [of JNull] claim_rejects_other_request [OF demo_claim [of JNull], of "JBool True"]
  by (simp add: request_hash_def demo_env_sel)

section \<open>Providers\<close>

text \<open>A payment reference of the sandbox encodes its payment: verifying the reference returned
  by \<open>create_payment\<close> reports a capture of the same amount and currency.\<close>

theorem sandbox_payment_verifies:
  assumes "sandbox_create_payment env n cur key = Inr x" and "plain_text env cur" and "plain_text env key"
  shows "sandbox_verify_payment (res_reference x) = Inr \<lparr>res_reference = res_reference x, res_status = ''CAPTURED'',
    res_amount = n, res_currency = cur\<rparr>"
  using assms sandbox_payment_reference_parses [of env cur key n]
  by (auto simp: sandbox_create_payment_def sandbox_verify_payment_def)

theorem sandbox_payment_verifies_witness:
  "sandbox_verify_payment demo_reference = Inr \<lparr>res_reference = demo_reference, res_status = ''CAPTURED'',
    res_amount = 100, res_currency = ''USD''\<rparr>"
  using sandbox_payment_verifies [OF demo_payment] by (simp add: plain_text_def demo_env_sel)

text \<open>A refund reference of the sandbox encodes its refund: verifying it returns the result of the
  refund itself.\<close>

theorem sandbox_refund_verifies:
  assumes "sandbox_refund env reference n cur key = Inr x" and "plain_text env cur" and "plain_text env key"
  shows "sandbox_verify_refund (res_reference x) = Inr x"
  using assms sandbox_refund_reference_parses [of env cur key n]
  by (auto simp: sandbox_refund_def sandbox_verify_refund_def split: sum.splits)

theorem sandbox_refund_verifies_witness:
  "\<exists>x. sandbox_refund demo_env demo_reference 40 ''USD'' ''refund'' = Inr x \<and> res_amount x = 40 \<and>
    sandbox_verify_refund (res_reference x) = Inr x"
  using sandbox_refund_verifies [of demo_env demo_reference 40 "''USD''" "''refund''"]
  by (simp add: sandbox_refund_def demo_reference_parses plain_text_def demo_env_sel)

text \<open>C35: A webhook body is accepted only under its HMAC signature, and what is accepted has an
  event id, an event type and an object as data, in which a \<open>reference\<close> is also available as
  \<open>provider_reference\<close>.\<close>

theorem sandbox_webhook_authentic:
  assumes "sandbox_verify_webhook env payload signature = Inr v"
  shows "signature = env_hmac env (env_webhook_secret env) payload \<and> vw_event_id v \<noteq> [] \<and> vw_event_type v \<noteq> [] \<and>
    (\<exists>kvs. vw_data v = JObj kvs) \<and> (jhas (vw_data v) ''reference'' \<longrightarrow> jhas (vw_data v) ''provider_reference'')"
  using assms
  by (auto simp: sandbox_verify_webhook_def nonempty_str_def normalize_webhook_data_def jhas_def
      split: if_splits option.splits json.splits)

theorem sandbox_webhook_authentic_witness:
  "\<exists>v. sandbox_verify_webhook demo_env ''captured'' ''kcaptured'' = Inr v \<and> vw_event_id v \<noteq> []"
  using sandbox_webhook_authentic [OF demo_webhook] demo_webhook by blast

section \<open>All or nothing\<close>




section \<open>Release\<close>

text \<open>The commission is within the amount and is \<open>amount * bps / 10000\<close> rounded down, for every
  rate a contract snapshot can carry.\<close>

theorem commission_within_amount:
  assumes "0 \<le> amount" and "contract_commission_bps v = Inr bps"
  shows "0 \<le> commission_minor amount bps \<and> commission_minor amount bps \<le> amount \<and>
    amount * bps - 10000 < 10000 * commission_minor amount bps \<and> 10000 * commission_minor amount bps \<le> amount * bps"
proof -
  have b: "0 \<le> bps" "bps \<le> 10000" using contract_commission_bps_range [OF assms(2)] by auto
  have "amount * bps \<le> amount * 10000" using assms(1) b(2) by (rule mult_left_mono [rotated])
  moreover have "0 \<le> amount * bps" using assms(1) b(1) by simp
  moreover have "amount * bps = 10000 * (amount * bps div 10000) + amount * bps mod 10000"
    "0 \<le> amount * bps mod 10000" "amount * bps mod 10000 < 10000" by simp_all
  ultimately show ?thesis unfolding commission_minor_def by linarith
qed

theorem commission_within_amount_witness:
  "0 \<le> commission_minor 99 1000 \<and> commission_minor 99 1000 \<le> 99 \<and> commission_minor 99 1000 = 9"
  using commission_within_amount [OF _ demo_snapshot_commission, of 99] by (simp add: commission_minor_def)

text \<open>The postings of a release balance and are accepted exactly when the commission is less than
  the amount: at a rate of 10000 the wallet's share is zero and the release is refused.\<close>

theorem release_postings_valid_iff:
  assumes "0 < amount" and "0 \<le> fee" and "acc_currency wallet = acc_currency ea" "acc_currency platform = acc_currency ea"
  shows "valid_postings (release_postings ea wallet platform amount fee) \<longleftrightarrow> fee < amount"
  using assms by (auto simp: valid_postings_def release_postings_def one_currency_def posting_ok_def)


theorem release_postings_valid_iff_witness:
  "valid_postings (release_postings (accounts demo9 ! 0) (accounts demo9 ! 2) (accounts demo9 ! 3) 100 10) \<and>
    \<not> valid_postings (release_postings (accounts demo9 ! 0) (accounts demo9 ! 2) (accounts demo9 ! 3) 100 100)"
  using release_postings_valid_iff [of 100 10 "accounts demo9 ! 2" "accounts demo9 ! 0" "accounts demo9 ! 3"]
    release_postings_valid_iff [of 100 100 "accounts demo9 ! 2" "accounts demo9 ! 0" "accounts demo9 ! 3"]
  by (simp add: demo9_state)





end
