(* ===== verification/History.thy ===== *)
theory History
  imports Prelude
begin

text \<open>
  The life of a row. \<open>develops key step\<close> relates two states of a table: every row of the first
  is still in the second, under the same key, and got there by steps of the row's own state
  machine. The locale \<open>row_history\<close> states what such a table promises.
\<close>

section \<open>Tables over time\<close>

definition develops :: "('r \<Rightarrow> 'k) \<Rightarrow> ('r \<Rightarrow> 'r \<Rightarrow> bool) \<Rightarrow> 'r list \<Rightarrow> 'r list \<Rightarrow> bool" where
  "develops key step rows rows' \<longleftrightarrow>
    (\<forall>k r. row_by key k rows = Some r \<longrightarrow> (\<exists>r'. row_by key k rows' = Some r' \<and> step\<^sup>*\<^sup>* r r'))"

locale row_history =
  fixes key :: "'r \<Rightarrow> 'k" and step :: "'r \<Rightarrow> 'r \<Rightarrow> bool"
  assumes step_key: "step r r' \<Longrightarrow> key r' = key r"
begin

lemma steps_key: "step\<^sup>*\<^sup>* r r' \<Longrightarrow> key r' = key r"
  by (induction rule: rtranclp_induct) (simp_all add: step_key)

lemma refl [simp]: "develops key step rows rows"
  by (auto simp: develops_def)

lemma trans: "develops key step rs ss \<Longrightarrow> develops key step ss ts \<Longrightarrow> develops key step rs ts"
  unfolding develops_def by (meson rtranclp_trans)

lemma put [simp]:
  assumes "develops key step rs ss" and "\<exists>r. row_by key (key r') ss = Some r \<and> (r' = r \<or> step r r')"
  shows "develops key step rs (put_row key r' ss)"
  using assms unfolding develops_def row_by_put_row
  by (metis option.simps(9) option.sel rtranclp.rtrancl_into_rtrancl)

lemma append [simp]: "develops key step rs ss \<Longrightarrow> develops key step rs (ss @ ts)"
  by (force simp: develops_def row_by_append)

text \<open>A property of a row that its machine never leaves.\<close>

lemma stable:
  assumes "develops key step rs ss" and "row_by key k rs = Some r" and "P r"
    and "\<And>r r'. P r \<Longrightarrow> step r r' \<Longrightarrow> P r'"
  shows "\<exists>r'. row_by key k ss = Some r' \<and> P r'"
proof -
  obtain r' where r': "row_by key k ss = Some r'" "step\<^sup>*\<^sup>* r r'" using assms(1,2) by (auto simp: develops_def)
  from r'(2) assms(3) have "P r'" by (induction rule: rtranclp_induct) (auto intro: assms(4))
  with r'(1) show ?thesis by blast
qed

end

lemma row_memD: "develops key step rows rows' \<Longrightarrow> distinct (map key rows) \<Longrightarrow> r \<in> set rows \<Longrightarrow>
    \<exists>r'. r' \<in> set rows' \<and> step\<^sup>*\<^sup>* r r'"
  unfolding develops_def using row_by_Some_iff [of key rows] row_by_SomeD [of key _ rows'] by blast

lemma row_final:
  "develops key step rows rows' \<Longrightarrow> distinct (map key rows) \<Longrightarrow> r \<in> set rows \<Longrightarrow> (\<And>r'. step\<^sup>*\<^sup>* r r' \<Longrightarrow> r' = r) \<Longrightarrow>
    r \<in> set rows'"
  using row_memD by metis

text \<open>A row at the end of its machine is never written again.\<close>

lemma stuck: "step\<^sup>*\<^sup>* r r' \<Longrightarrow> (\<And>x. \<not> step r x) \<Longrightarrow> r' = r"
  by (erule converse_rtranclpE) auto

end
