(* ===== verification/Lifecycle.thy ===== *)
theory Lifecycle
  imports Effects History
begin

text \<open>
  The life of the platform's rows. The locale \<open>row_history\<close> is interpreted on milestones,
  contracts, proposals, disputes, refunds, payouts and payment intents, whose row steps fix
  everything but the status and the columns that go with it. Every handler moves rows only
  along these machines and never touches a signed document.
\<close>

section \<open>The row machines\<close>

inductive milestone_edge :: "milestone_status \<Rightarrow> milestone_status \<Rightarrow> bool" where
  captured: "milestone_edge MS_CREATED MS_FUNDED"
| refunded: "milestone_edge MS_FUNDED MS_CREATED"
| worked: "user_action act target \<Longrightarrow> s \<in> user_transitions act \<Longrightarrow> milestone_edge s target"
| disputed: "s \<in> openable_milestone_states \<Longrightarrow> milestone_edge s MS_DISPUTED"
| pending: "milestone_edge MS_APPROVED MS_RELEASE_PENDING"
| released: "milestone_edge MS_RELEASE_PENDING MS_RELEASED"
| resolved: "milestone_edge MS_DISPUTED MS_RELEASED"

inductive_cases milestone_edgeE: "milestone_edge s s'"

definition milestone_step :: "milestone \<Rightarrow> milestone \<Rightarrow> bool" where
  "milestone_step m m' \<longleftrightarrow> milestone_edge (ms_status m) (ms_status m') \<and> m' = m\<lparr>ms_status := ms_status m'\<rparr>"

definition contract_step :: "contract \<Rightarrow> contract \<Rightarrow> bool" where
  "contract_step c c' \<longleftrightarrow> con_status c \<noteq> CON_CANCELLED \<and> con_status c' \<noteq> CON_PENDING_SIGNATURES \<and>
     c' = c\<lparr>con_status := con_status c', con_activated_at := con_activated_at c', con_cancelled_at := con_cancelled_at c'\<rparr>"

definition proposal_step :: "proposal \<Rightarrow> proposal \<Rightarrow> bool" where
  "proposal_step p p' \<longleftrightarrow>
     pr_status p' \<in> allowed_transitions (pr_status p) \<and> p' = p\<lparr>pr_status := pr_status p'\<rparr> \<or>
     pr_status p \<in> {PR_DRAFT, PR_UNDER_NEGOTIATION} \<and>
       (\<exists>v. p' = p\<lparr>pr_current_version := pr_current_version p + 1, pr_versions := pr_versions p @ [v]\<rparr>)"

definition dispute_step :: "dispute \<Rightarrow> dispute \<Rightarrow> bool" where
  "dispute_step x x' \<longleftrightarrow>
     (dp_status x' \<in> admin_transitions (dp_status x) \<or> dp_status x = DS_UNDER_REVIEW \<and> dp_status x' = DS_RESOLVED) \<and>
     x' = x\<lparr>dp_status := dp_status x', dp_resolved_at := dp_resolved_at x'\<rparr>"

definition refund_step :: "refund \<Rightarrow> refund \<Rightarrow> bool" where
  "refund_step r r' \<longleftrightarrow> rf_status r = RF_PENDING \<and>
     r' = r\<lparr>rf_status := rf_status r', rf_reference := rf_reference r'\<rparr>"

definition payout_step :: "payout \<Rightarrow> payout \<Rightarrow> bool" where
  "payout_step p p' \<longleftrightarrow> po_status p = PO_PENDING \<and>
     p' = p\<lparr>po_status := po_status p', po_reference := po_reference p', po_reversal := po_reversal p',
       po_destination := po_destination p', po_completed_at := po_completed_at p'\<rparr>"

definition intent_step :: "payment_intent \<Rightarrow> payment_intent \<Rightarrow> bool" where
  "intent_step i i' \<longleftrightarrow> pi_status i \<noteq> PI_CAPTURED \<and>
     i' = i\<lparr>pi_status := pi_status i', pi_captured_at := pi_captured_at i'\<rparr>"

lemmas row_steps = milestone_step_def contract_step_def proposal_step_def dispute_step_def refund_step_def
  payout_step_def intent_step_def

lemma arg_eq: "x = f y \<Longrightarrow> g (f y) = g y \<Longrightarrow> g x = g y"
  by simp

interpretation milestone_rows: row_history ms_id milestone_step
  by unfold_locales (auto simp: row_steps elim!: arg_eq)

interpretation contract_rows: row_history con_id contract_step
  by unfold_locales (auto simp: row_steps elim!: arg_eq)

interpretation proposal_rows: row_history pr_id proposal_step
  by unfold_locales (auto simp: row_steps elim!: arg_eq)

interpretation dispute_rows: row_history dp_id dispute_step
  by unfold_locales (auto simp: row_steps elim!: arg_eq)

interpretation refund_rows: row_history rf_id refund_step
  by unfold_locales (auto simp: row_steps elim!: arg_eq)

interpretation payout_rows: row_history po_id payout_step
  by unfold_locales (auto simp: row_steps elim!: arg_eq)

interpretation intent_rows: row_history pi_id intent_step
  by unfold_locales (auto simp: row_steps elim!: arg_eq)

lemma step_intros:
  "milestone_edge (ms_status m) s \<Longrightarrow> milestone_step m (m\<lparr>ms_status := s\<rparr>)"
  "con_status c \<noteq> CON_CANCELLED \<Longrightarrow> contract_step c (c\<lparr>con_status := CON_ACTIVE, con_activated_at := t\<rparr>)"
  "con_status c \<noteq> CON_CANCELLED \<Longrightarrow> contract_step c (c\<lparr>con_status := CON_CANCELLED, con_cancelled_at := t\<rparr>)"
  "st \<in> allowed_transitions (pr_status p) \<Longrightarrow> proposal_step p (p\<lparr>pr_status := st\<rparr>)"
  "pr_status p = PR_DRAFT \<or> pr_status p = PR_UNDER_NEGOTIATION \<Longrightarrow>
    proposal_step p (p\<lparr>pr_current_version := pr_current_version p + 1, pr_versions := pr_versions p @ [v]\<rparr>)"
  "ds \<in> admin_transitions (dp_status x) \<Longrightarrow> dispute_step x (x\<lparr>dp_status := ds\<rparr>)"
  "dp_status x = DS_UNDER_REVIEW \<Longrightarrow> dispute_step x (x\<lparr>dp_status := DS_RESOLVED, dp_resolved_at := t\<rparr>)"
  "rf_status r = RF_PENDING \<Longrightarrow> refund_step r (r\<lparr>rf_status := rs\<rparr>)"
  "rf_status r = RF_PENDING \<Longrightarrow> refund_step r (r\<lparr>rf_reference := ref\<rparr>)"
  "rf_status r = RF_PENDING \<Longrightarrow> refund_step r (r\<lparr>rf_reference := ref, rf_status := rs\<rparr>)"
  "po_status q = PO_PENDING \<Longrightarrow> payout_step q (q\<lparr>po_destination := dst\<rparr>)"
  "po_status q = PO_PENDING \<Longrightarrow> payout_step q (q\<lparr>po_reference := ref, po_status := ps, po_completed_at := t\<rparr>)"
  "po_status q = PO_PENDING \<Longrightarrow> payout_step q (q\<lparr>po_reversal := rv, po_status := ps, po_completed_at := t\<rparr>)"
  "pi_status i \<noteq> PI_CAPTURED \<Longrightarrow> intent_step i (i\<lparr>pi_status := is\<rparr>)"
  "pi_status i \<noteq> PI_CAPTURED \<Longrightarrow> intent_step i (i\<lparr>pi_status := is, pi_captured_at := t\<rparr>)"
  "milestone_edge s s' \<Longrightarrow> milestone_step (m\<lparr>ms_status := s\<rparr>) (m\<lparr>ms_status := s'\<rparr>)"
  "rf_status r = RF_PENDING \<Longrightarrow> refund_step (r\<lparr>rf_reference := ref\<rparr>) (r\<lparr>rf_reference := ref, rf_status := rs\<rparr>)"
  by (auto simp: row_steps)

definition history :: "db \<Rightarrow> db \<Rightarrow> bool" where
  "history d d' \<longleftrightarrow> develops ms_id milestone_step (milestones d) (milestones d') \<and>
     develops con_id contract_step (contracts d) (contracts d') \<and>
     develops pr_id proposal_step (proposals d) (proposals d') \<and>
     develops dp_id dispute_step (disputes d) (disputes d') \<and>
     develops rf_id refund_step (refunds d) (refunds d') \<and>
     develops po_id payout_step (payouts d) (payouts d') \<and>
     develops pi_id intent_step (intents d) (intents d') \<and>
     prefix (contract_versions d) (contract_versions d') \<and>
     prefix (contract_signatures d) (contract_signatures d')"

lemma history_refl: "history d d"
  by (simp add: history_def)

lemma history_trans: "history d e \<Longrightarrow> history e f \<Longrightarrow> history d f"
  unfolding history_def
  by (blast intro: milestone_rows.trans contract_rows.trans proposal_rows.trans dispute_rows.trans
      refund_rows.trans payout_rows.trans intent_rows.trans prefix_order.trans)

section \<open>Rows read under their lock\<close>

lemma row_of_member: "distinct (map key rows) \<Longrightarrow> r \<in> set rows \<Longrightarrow> row_by key (key r) rows = Some r"
  by (simp add: row_by_Some_iff)

lemma wpI_milestone_row:
  "(\<And>m. row_by ms_id (ms_id m) (milestones w) = Some m \<Longrightarrow> Q m (c, w)) \<Longrightarrow> (\<And>e. E e (c, w)) \<Longrightarrow>
    wp (locked_milestone mid) Q E (c, w)"
  by (auto simp: locked_milestone_def wp_eqs split: option.split dest: row_by_SomeD)

lemma wpI_contract_row:
  "(\<And>k. row_by con_id (con_id k) (contracts w) = Some k \<Longrightarrow> Q k (c, w)) \<Longrightarrow> (\<And>e. E e (c, w)) \<Longrightarrow>
    wp (get_contract cid) Q E (c, w)"
  by (auto simp: get_contract_def wp_eqs split: option.split dest: row_by_SomeD)

lemma wpI_proposal_row:
  "(\<And>p. row_by pr_id (pr_id p) (proposals w) = Some p \<Longrightarrow> Q p (c, w)) \<Longrightarrow> (\<And>e. E e (c, w)) \<Longrightarrow>
    wp (get_proposal prid) Q E (c, w)"
  by (auto simp: get_proposal_def wp_eqs split: option.split dest: row_by_SomeD)

lemma wpI_dispute_row:
  "(\<And>x. row_by dp_id (dp_id x) (disputes w) = Some x \<Longrightarrow> Q x (c, w)) \<Longrightarrow> (\<And>e. E e (c, w)) \<Longrightarrow>
    wp (locked_dispute did) Q E (c, w)"
  by (auto simp: locked_dispute_def wp_eqs split: option.split dest: row_by_SomeD)

lemma wpI_refund_locked_row:
  "(\<And>r. row_by rf_id (rf_id r) (refunds w) = Some r \<Longrightarrow> Q r (c, w)) \<Longrightarrow> (\<And>e. E e (c, w)) \<Longrightarrow>
    wp (locked_refund i) Q E (c, w)"
  by (auto simp: locked_refund_def wp_eqs split: option.split dest: row_by_SomeD)

lemma wpI_refund_query_row:
  "(\<And>r. row_by rf_id (rf_id r) (refunds w) = Some r \<Longrightarrow> Q (Some r) (c, w)) \<Longrightarrow> Q None (c, w) \<Longrightarrow>
    wp (query (\<lambda>d. row_by rf_id i (refunds d))) Q E (c, w)"
  by (cases "row_by rf_id i (refunds w)") (auto simp: wp_eqs dest: row_by_SomeD)

lemma wpI_payout_row:
  "(\<And>p. row_by po_id (po_id p) (payouts w) = Some p \<Longrightarrow> Q p (c, w)) \<Longrightarrow> (\<And>e. E e (c, w)) \<Longrightarrow>
    wp (locked_payout i) Q E (c, w)"
  by (auto simp: locked_payout_def wp_eqs split: option.split dest: row_by_SomeD)

lemma wpI_payout_query_row:
  "distinct (map po_id (payouts w)) \<Longrightarrow> (\<And>p. row_by po_id (po_id p) (payouts w) = Some p \<Longrightarrow> Q (Some p) (c, w)) \<Longrightarrow>
    Q None (c, w) \<Longrightarrow> wp (query (\<lambda>d. List.find P (payouts d))) Q E (c, w)"
  by (cases "List.find P (payouts w)") (auto simp: wp_eqs row_of_member dest: find_SomeD)

lemma wpI_intent_query_row:
  "distinct (map pi_id (intents w)) \<Longrightarrow> (\<And>i. row_by pi_id (pi_id i) (intents w) = Some i \<Longrightarrow> Q (Some i) (c, w)) \<Longrightarrow>
    Q None (c, w) \<Longrightarrow> wp (query (intent_by_reference prov ref)) Q E (c, w)"
  by (cases "intent_by_reference prov ref w") (auto simp: wp_eqs row_of_member intent_by_reference_def dest: find_SomeD)

lemma wpI_reviewable_exact:
  "(dp_status x = DS_UNDER_REVIEW \<Longrightarrow> Q () (c, w)) \<Longrightarrow> (\<And>e. E e (c, w)) \<Longrightarrow> wp (require_reviewable_dispute x) Q E (c, w)"
  by (simp add: require_reviewable_dispute_def wp_eqs)

lemma wpI_payout_replay_exact:
  "(\<And>x i st body. Q (Some x) (complete_keys i st body w, complete_keys i st body w)) \<Longrightarrow>
    (po_status p = PO_PENDING \<Longrightarrow> Q None (c, w)) \<Longrightarrow> wp (complete_terminal_replay p idem) Q E (c, w)"
  by (cases "po_status p") (simp_all add: complete_terminal_replay_def wp_eqs)

lemmas row_rules = wpI_milestone_row wpI_contract_row wpI_proposal_row wpI_dispute_row wpI_refund_locked_row
  wpI_refund_query_row wpI_payout_row wpI_payout_query_row wpI_intent_query_row wpI_reviewable_exact
  wpI_payout_replay_exact

lemmas table_updates = complete_keys_def append_audit_def append_outbox_def add_milestone_event_def add_funding_def
  add_provider_event_def mark_event_processed_def put_payout_account_def add_payout_account_def add_dispute_event_def
  put_milestone_def put_intent_def put_refund_def put_payout_def put_dispute_def add_intent_def add_refund_def
  add_payout_def add_dispute_def add_milestone_def put_contract_def add_signature_def put_proposal_def add_escrow_def
  add_journal_def

lemma history_leaf: "history d w \<Longrightarrow> history d (fst (w, w'))"
  by simp

section \<open>Every handler\<close>

definition obeys :: "'a dbop \<Rightarrow> db \<Rightarrow> bool" where
  "obeys m d \<longleftrightarrow> wp m (\<lambda>_ s. history d (fst s)) (\<lambda>_ s. history d (fst s)) (d, d)"

lemma obeysI: "wp m (\<lambda>_ s. history d (fst s)) (\<lambda>_ s. history d (fst s)) (d, d) \<Longrightarrow> obeys m d"
  by (simp add: obeys_def)

lemma ids_distinct:
  assumes "sys_inv d"
  shows "distinct (map po_id (payouts d))" "distinct (map pi_id (intents d))"
  using inv_ids [OF assms] by (simp_all add: fresh_ids_def)

lemma wpI_insert_milestone_history:
  "history d w \<and> proposals w = proposals d \<Longrightarrow> (\<And>e w'. E e (c, w')) \<Longrightarrow> wp (insert_milestone vid cur term)
    (\<lambda>_ s. \<exists>w'. s = (c, w') \<and> history d w' \<and> proposals w' = proposals d) E (c, w)"
  by (cases "term" rule: prod_cases4) (simp add: insert_milestone_def wp_eqs history_def table_updates)

lemmas history_simps = history_def table_updates row_by_put_row milestone_edge.intros
lemmas history_rules = row_rules log_rules

lemma obeys_fund_milestone: "sys_inv d \<Longrightarrow> obeys (fund_milestone env user mid prov key) d"
  apply (rule obeysI, frule ids_distinct(1), drule ids_distinct(2))
  apply (unfold fund_milestone_def)
  apply (rule history_rules | (simp add: history_simps step_intros; fail))+
  done

lemma obeys_release_milestone: "sys_inv d \<Longrightarrow> obeys (release_milestone env user mid key) d"
  apply (rule obeysI, frule ids_distinct(1), drule ids_distinct(2))
  apply (unfold release_milestone_def wallet_account_def commission_account_def)
  apply (rule history_rules | (simp add: history_simps step_intros; fail))+
  done

lemma obeys_refund_prepare: "sys_inv d \<Longrightarrow> obeys (refund_prepare env user mid prov key) d"
  apply (rule obeysI, frule ids_distinct(1), drule ids_distinct(2))
  apply (unfold refund_prepare_def reserve_refund_def provider_clearing_account_def)
  apply (rule history_rules | (simp add: history_simps step_intros; fail))+
  done

lemma obeys_refund_settle: "sys_inv d \<Longrightarrow> obeys (refund_settle env user mid key r fi) d"
  apply (rule obeysI, frule ids_distinct(1), drule ids_distinct(2))
  apply (unfold refund_settle_def refund_record_def fail_refund_def replay_terminal_refund_def)
  apply (rule history_rules | (simp add: history_simps step_intros; fail))+
  done

lemma obeys_payout_prepare: "sys_inv d \<Longrightarrow> obeys (payout_prepare env user n cur prov key) d"
  apply (rule obeysI, frule ids_distinct(1), drule ids_distinct(2))
  apply (unfold payout_prepare_def reserve_payout_def provider_clearing_account_def upgrade_legacy_destination_snapshot_def)
  apply (rule history_rules | (simp add: history_simps step_intros; fail))+
  done

lemma obeys_payout_settle: "sys_inv d \<Longrightarrow> obeys (payout_settle env user key p) d"
  apply (rule obeysI, frule ids_distinct(1), drule ids_distinct(2))
  apply (unfold payout_settle_def payout_record_def fail_payout_def replay_terminal_payout_def)
  apply (rule history_rules | (simp add: history_simps step_intros; fail))+
  done

lemma obeys_configure_payout_provider_account: "sys_inv d \<Longrightarrow> obeys (configure_payout_provider_account env admin fid prov reference) d"
  apply (rule obeysI, frule ids_distinct(1), drule ids_distinct(2))
  apply (unfold configure_payout_provider_account_def)
  apply (rule history_rules | (simp add: history_simps step_intros; fail))+
  done

lemma obeys_disable_payout_provider_account: "sys_inv d \<Longrightarrow> obeys (disable_payout_provider_account env admin fid prov) d"
  apply (rule obeysI, frule ids_distinct(1), drule ids_distinct(2))
  apply (unfold disable_payout_provider_account_def)
  apply (rule history_rules | (simp add: history_simps step_intros; fail))+
  done

lemma wpI_capture_history:
  assumes "row_by pi_id (pi_id i) (intents w) = Some i" and "history d w"
    and Q: "\<And>x w'. history d w' \<Longrightarrow> Q x (c, w')" and E: "\<And>e s. fst s = c \<Longrightarrow> E e s"
  shows "wp (capture_intent env i actor) Q E (c, w)"
  unfolding capture_intent_def escrow_for_capture_def provider_clearing_account_def
  apply (insert assms(1) assms(2) [unfolded history_def])
  apply (rule history_rules | (rule E; simp; fail) | (rule Q, simp add: history_simps step_intros; fail))+
  done
lemma wpI_apply_captured_history:
  assumes "distinct (map pi_id (intents w))" and "history d w"
    and Q: "\<And>w'. history d w' \<Longrightarrow> Q () (c, w')" and E: "\<And>e s. fst s = c \<Longrightarrow> E e s"
  shows "wp (apply_captured env p data) Q E (c, w)"
  unfolding apply_captured_def
  apply (insert assms(1,2))
  apply (rule wpI_capture_history [where d = d] history_rules Q | assumption | (rule E; simp; fail) | (simp; fail))+
  done

lemma wpI_apply_failed_history:
  assumes "distinct (map pi_id (intents w))" and "history d w"
    and Q: "\<And>w'. history d w' \<Longrightarrow> Q () (c, w')" and E: "\<And>e s. fst s = c \<Longrightarrow> E e s"
  shows "wp (apply_failed p data) Q E (c, w)"
  unfolding apply_failed_def
  apply (insert assms(1) assms(2) [unfolded history_def])
  apply (rule history_rules | assumption | (rule E; simp; fail) | (rule Q, simp add: history_simps step_intros; fail))+
  done

lemma obeys_process_provider_webhook: "sys_inv d \<Longrightarrow> obeys (process_provider_webhook env prov payload sig) d"
  apply (rule obeysI, drule ids_distinct(2))
  apply (unfold process_provider_webhook_def)
  apply (rule wpI_apply_captured_history [where d = d] wpI_apply_failed_history [where d = d] history_rules
    | (simp add: history_simps; fail))+
  done

lemma obeys_milestone_transition: "sys_inv d \<Longrightarrow> user_action act target \<Longrightarrow> obeys (milestone_transition env user mid act target note worker) d"
  apply (rule obeysI, frule ids_distinct(1), drule ids_distinct(2))
  apply (unfold milestone_transition_def require_milestone_fully_funded_def)
  apply (rule history_rules | (simp add: history_simps step_intros; fail))+
  done

lemma obeys_create_proposal: "sys_inv d \<Longrightarrow> obeys (create_proposal env user pid n cur days letter ms) d"
  apply (rule obeysI, frule ids_distinct(1), drule ids_distinct(2))
  apply (unfold create_proposal_def new_version_def insert_proposal_def)
  apply (rule history_rules | (simp add: history_simps step_intros; fail))+
  done

lemma obeys_add_proposal_version: "sys_inv d \<Longrightarrow> obeys (add_proposal_version env user prid n cur days letter ms) d"
  apply (rule obeysI, frule ids_distinct(1), drule ids_distinct(2))
  apply (unfold add_proposal_version_def new_version_def)
  apply (rule history_rules | (simp add: history_simps step_intros; fail))+
  done

lemma obeys_transition_proposal: "sys_inv d \<Longrightarrow> obeys (transition_proposal env user prid target) d"
  apply (rule obeysI, frule ids_distinct(1), drule ids_distinct(2))
  apply (unfold transition_proposal_def create_contract_from_accepted_proposal_def insert_contract_def)
  apply (rule history_rules wpI_for_each [where I = "\<lambda>w. history d w \<and> proposals w = proposals d"] wpI_insert_milestone_history | (simp add: history_simps step_intros; fail))+
  done

lemma obeys_sign_contract: "sys_inv d \<Longrightarrow> obeys (sign_contract env user cid key hash ref ip risk) d"
  apply (rule obeysI, frule ids_distinct(1), drule ids_distinct(2))
  apply (unfold sign_contract_def insert_signature_def)
  apply (rule history_rules | (simp add: history_simps step_intros; fail))+
  done

lemma obeys_cancel_contract: "sys_inv d \<Longrightarrow> obeys (cancel_contract env user cid) d"
  apply (rule obeysI, frule ids_distinct(1), drule ids_distinct(2))
  apply (unfold cancel_contract_def)
  apply (rule history_rules | (simp add: history_simps step_intros; fail))+
  done

lemma obeys_open_dispute: "sys_inv d \<Longrightarrow> obeys (open_dispute env user mid reason) d"
  apply (rule obeysI, frule ids_distinct(1), drule ids_distinct(2))
  apply (unfold open_dispute_def require_party_def audit_state_change_def)
  apply (rule history_rules | (simp add: history_simps step_intros; fail))+
  done

lemma obeys_add_evidence: "sys_inv d \<Longrightarrow> obeys (add_evidence env user did fid note) d"
  apply (rule obeysI, frule ids_distinct(1), drule ids_distinct(2))
  apply (unfold add_evidence_def insert_evidence_def)
  apply (rule history_rules | (simp add: history_simps step_intros; fail))+
  done

lemma obeys_admin_transition: "sys_inv d \<Longrightarrow> obeys (admin_transition env user did target reason) d"
  apply (rule obeysI, frule ids_distinct(1), drule ids_distinct(2))
  apply (unfold admin_transition_def require_admin_def audit_state_change_def)
  apply (rule history_rules | (simp add: history_simps step_intros; fail))+
  done

lemma obeys_resolve_dispute: "sys_inv d \<Longrightarrow> obeys (resolve_dispute env user did oc reason award refund key) d"
  apply (rule obeysI)
  apply (unfold resolve_dispute_def require_admin_def)
  apply (rule wpI_milestone_row wpI_dispute_row wpI_reviewable_exact wpI_post_any resolve_rules
     | assumption | (simp add: history_simps step_intros; fail))+
  done

lemmas handlers_obey = obeys_fund_milestone obeys_process_provider_webhook obeys_release_milestone obeys_refund_prepare
  obeys_refund_settle obeys_payout_prepare obeys_payout_settle obeys_configure_payout_provider_account
  obeys_disable_payout_provider_account obeys_milestone_transition obeys_create_proposal obeys_add_proposal_version
  obeys_transition_proposal obeys_sign_contract obeys_cancel_contract obeys_open_dispute obeys_add_evidence
  obeys_admin_transition obeys_resolve_dispute

lemma obeys_after: "obeys m d \<Longrightarrow> history d (after m d)"
  by (auto simp: obeys_def after_def wp_def run_request_def split: prod.splits sum.splits)

lemma platform_step_history: "sys_inv d \<Longrightarrow> platform_step d d' \<Longrightarrow> history d d'"
  by (erule platform_stepE) (simp_all add: obeys_after handlers_obey)

interpretation life: progress_system fresh_platform platform_step sys_inv history
  by unfold_locales (auto intro: history_refl history_trans platform_step_history)

section \<open>Along a run\<close>

text \<open>Where a row of a reachable database is after further steps.\<close>

lemma run_history: "reachable_db d \<Longrightarrow> platform_step\<^sup>*\<^sup>* d d' \<Longrightarrow> history d d'"
  by (intro life.rel_steps reachable_sys_inv)

lemma milestone_step_eq: "milestone_step m m' \<longleftrightarrow> (\<exists>s. milestone_edge (ms_status m) s \<and> m' = m\<lparr>ms_status := s\<rparr>)"
  by (force simp: milestone_step_def)

lemma milestone_terms_kept:
  "milestone_step\<^sup>*\<^sup>* m m' \<Longrightarrow> \<exists>s. milestone_edge\<^sup>*\<^sup>* (ms_status m) s \<and> m' = m\<lparr>ms_status := s\<rparr>"
proof (induction rule: rtranclp_induct)
  case base
  show ?case by (rule exI [of _ "ms_status m"]) simp
next
  case (step m1 m2)
  then obtain a b where "milestone_edge\<^sup>*\<^sup>* (ms_status m) a" "milestone_edge a b" "m2 = m\<lparr>ms_status := b\<rparr>"
    by (auto simp: milestone_step_eq)
  then show ?case by (intro exI [of _ b]) (auto intro: rtranclp.rtrancl_into_rtrancl)
qed

lemma released_stays: "milestone_edge\<^sup>*\<^sup>* MS_RELEASED s \<Longrightarrow> s = MS_RELEASED"
  by (induction rule: rtranclp_induct)
    (auto simp: user_action_def openable_milestone_states_def elim!: milestone_edgeE)

lemma finished_rows:
  "rf_status r \<noteq> RF_PENDING \<Longrightarrow> refund_step\<^sup>*\<^sup>* r r' \<Longrightarrow> r' = r"
  "po_status p \<noteq> PO_PENDING \<Longrightarrow> payout_step\<^sup>*\<^sup>* p p' \<Longrightarrow> p' = p"
  "pi_status i = PI_CAPTURED \<Longrightarrow> intent_step\<^sup>*\<^sup>* i i' \<Longrightarrow> i' = i"
  "dp_status x = DS_RESOLVED \<Longrightarrow> dispute_step\<^sup>*\<^sup>* x x' \<Longrightarrow> x' = x"
  "con_status c = CON_CANCELLED \<Longrightarrow> contract_step\<^sup>*\<^sup>* c c' \<Longrightarrow> c' = c"
  "pr_status q \<in> {PR_WITHDRAWN, PR_REJECTED, PR_ACCEPTED} \<Longrightarrow> proposal_step\<^sup>*\<^sup>* q q' \<Longrightarrow> q' = q"
  by (erule stuck; auto simp: row_steps)+

end
