(* ===== verification/Deals.thy ===== *)
theory Deals
  imports Lifecycle
begin

text \<open>
  Agreements between the parties: \<open>deals_inv\<close> says that a project has one contract and one
  accepted proposal at most, that a contract has one version, which both of its parties must
  sign, and that it is active only when both have signed the hash of that very document.
  Fourteen handlers leave these tables alone (\<open>same_deals\<close>); the other five keep the invariant.
\<close>

section \<open>The invariant\<close>

definition signature_ok :: "db \<Rightarrow> contract_signature \<Rightarrow> bool" where
  "signature_ok d s \<longleftrightarrow>
    (\<exists>v\<in>set (contract_versions d). cv_id v = cs_version_id s \<and> cv_document_hash v = cs_document_hash s)"

definition contract_ok :: "db \<Rightarrow> contract \<Rightarrow> bool" where
  "contract_ok d c \<longleftrightarrow> con_employer c \<noteq> con_freelancer c \<and>
     required_user_ids (con_id c) d = [con_employer c, con_freelancer c] \<and>
     (\<exists>v\<in>set (contract_versions d). cv_contract_id v = con_id c \<and> cv_number v = con_current_version c \<and>
        (con_status c = CON_ACTIVE \<longrightarrow> {con_employer c, con_freelancer c} \<subseteq> set (signed_user_ids (cv_id v) d)))"

definition one_accepted :: "proposal list \<Rightarrow> bool" where
  "one_accepted ps \<longleftrightarrow> (\<forall>p\<in>set ps. \<forall>q\<in>set ps. pr_status p = PR_ACCEPTED \<longrightarrow> pr_status q = PR_ACCEPTED \<longrightarrow>
     pr_project_id p = pr_project_id q \<longrightarrow> p = q)"

definition deals_inv :: "db \<Rightarrow> bool" where
  "deals_inv d \<longleftrightarrow> fresh_ids con_id (contracts d) (next_uuid d) \<and> distinct (map con_project_id (contracts d)) \<and>
     fresh_ids cv_id (contract_versions d) (next_uuid d) \<and> distinct (map cv_contract_id (contract_versions d)) \<and>
     (\<forall>v\<in>set (contract_versions d). cv_contract_id v < next_uuid d) \<and>
     (\<forall>p\<in>set (contract_parties d). cp_contract_id p < next_uuid d) \<and>
     (\<forall>c\<in>set (contracts d). contract_ok d c) \<and> (\<forall>s\<in>set (contract_signatures d). signature_ok d s) \<and>
     fresh_ids pr_id (proposals d) (next_uuid d) \<and> one_accepted (proposals d)"

definition same_deals :: "db \<Rightarrow> db \<Rightarrow> bool" where
  "same_deals d d' \<longleftrightarrow> contracts d' = contracts d \<and> contract_versions d' = contract_versions d \<and>
     contract_parties d' = contract_parties d \<and> contract_signatures d' = contract_signatures d \<and>
     proposals d' = proposals d \<and> next_uuid d \<le> next_uuid d'"

lemma ids_mono: "fresh_ids key rows n \<Longrightarrow> n \<le> n' \<Longrightarrow> fresh_ids key rows n'"
  by (rule fresh_ids_mono)

lemma deals_cong: "deals_inv d \<Longrightarrow> same_deals d d' \<Longrightarrow> deals_inv d'"
  by (auto simp: deals_inv_def same_deals_def contract_ok_def signature_ok_def required_user_ids_def
      signed_user_ids_def intro: fresh_ids_mono)

lemma same_deals_refl: "same_deals d d"
  by (simp add: same_deals_def)

section \<open>Handlers that leave the agreements alone\<close>

lemma wpI_claim_mono:
  assumes "\<And>x n ks. next_uuid w \<le> n \<Longrightarrow> Q x (c, w\<lparr>next_uuid := n, idempotency_keys := ks\<rparr>)" and "\<And>e. E e (c, w)"
  shows "wp (claim_idempotency env u oper raw payload) Q E (c, w)"
  using assms(1)[where n = "next_uuid w" and ks = "idempotency_keys w"] assms
  by (auto simp: add_key_def intro!: wpI_claim_idempotency)

lemma wpI_account_mono:
  assumes "\<And>a n as. next_uuid w \<le> n \<Longrightarrow> Q a (c, w\<lparr>next_uuid := n, accounts := as\<rparr>)" and "\<And>e. E e (c, w)"
  shows "wp (get_or_create_account k ty cur owner ms) Q E (c, w)"
  using assms(1)[where n = "next_uuid w" and as = "accounts w"] assms
  by (auto simp: add_account_def intro!: wpI_get_or_create_account)

lemma same_deals_eq:
  "contracts d' = contracts d \<Longrightarrow> contract_versions d' = contract_versions d \<Longrightarrow> contract_parties d' = contract_parties d \<Longrightarrow>
    contract_signatures d' = contract_signatures d \<Longrightarrow> proposals d' = proposals d \<Longrightarrow> next_uuid d' = next_uuid d \<Longrightarrow>
    same_deals b d' = same_deals b d"
  by (simp add: same_deals_def)

lemma same_deals_frame [simp]:
  "same_deals b (complete_keys i st body d) = same_deals b d" "same_deals b (add_milestone_event e d) = same_deals b d"
  "same_deals b (add_funding f d) = same_deals b d" "same_deals b (add_provider_event pe d) = same_deals b d"
  "same_deals b (mark_event_processed t pe d) = same_deals b d" "same_deals b (put_payout_account pa d) = same_deals b d"
  "same_deals b (add_payout_account pa d) = same_deals b d" "same_deals b (add_dispute_event de d) = same_deals b d"
  "same_deals b (put_milestone m d) = same_deals b d" "same_deals b (put_intent pi d) = same_deals b d"
  "same_deals b (put_refund r d) = same_deals b d" "same_deals b (put_payout p d) = same_deals b d"
  "same_deals b (put_dispute x d) = same_deals b d" "same_deals b (add_intent pi d) = same_deals b d"
  "same_deals b (add_refund r d) = same_deals b d" "same_deals b (add_payout p d) = same_deals b d"
  "same_deals b (add_dispute x ps d) = same_deals b d" "same_deals b (add_escrow ew d) = same_deals b d"
  "same_deals b (append_audit es d) = same_deals b d" "same_deals b (append_outbox os d) = same_deals b d"
  "same_deals b (d\<lparr>accounts := as\<rparr>) = same_deals b d" "same_deals b (d\<lparr>idempotency_keys := ks\<rparr>) = same_deals b d"
  "same_deals b (d\<lparr>dispute_evidence := ev\<rparr>) = same_deals b d" "same_deals b (d\<lparr>dispute_decisions := ds\<rparr>) = same_deals b d"
  by (rule same_deals_eq; simp add: table_updates)+

lemma same_deals_mono:
  "same_deals b d \<Longrightarrow> next_uuid d \<le> n \<Longrightarrow> same_deals b (d\<lparr>next_uuid := n\<rparr>)"
  "same_deals b d \<Longrightarrow> same_deals b (add_journal j d)"
  by (simp_all add: same_deals_def add_journal_def)

lemmas deal_rules = wpI_claim_mono wpI_account_mono log_rules

lemma deals_fund_milestone: "keeps (same_deals b) (fund_milestone env user mid prov key)"
  apply (rule keepsI)
  apply (unfold fund_milestone_def)
  apply (rule deal_rules | (simp add: same_deals_mono; fail))+
  done

lemma deals_process_provider_webhook: "keeps (same_deals b) (process_provider_webhook env prov payload sig)"
  apply (rule keepsI)
  apply (unfold process_provider_webhook_def apply_captured_def apply_failed_def capture_intent_def escrow_for_capture_def provider_clearing_account_def)
  apply (rule deal_rules | (simp add: same_deals_mono; fail))+
  done

lemma deals_release_milestone: "keeps (same_deals b) (release_milestone env user mid key)"
  apply (rule keepsI)
  apply (unfold release_milestone_def wallet_account_def commission_account_def)
  apply (rule deal_rules | (simp add: same_deals_mono; fail))+
  done

lemma deals_refund_prepare: "keeps (same_deals b) (refund_prepare env user mid prov key)"
  apply (rule keepsI)
  apply (unfold refund_prepare_def reserve_refund_def provider_clearing_account_def)
  apply (rule deal_rules | (simp add: same_deals_mono; fail))+
  done

lemma deals_refund_settle: "keeps (same_deals b) (refund_settle env user mid key r fi)"
  apply (rule keepsI)
  apply (unfold refund_settle_def refund_record_def fail_refund_def replay_terminal_refund_def)
  apply (rule deal_rules | (simp add: same_deals_mono; fail))+
  done

lemma deals_payout_prepare: "keeps (same_deals b) (payout_prepare env user n cur prov key)"
  apply (rule keepsI)
  apply (unfold payout_prepare_def reserve_payout_def provider_clearing_account_def upgrade_legacy_destination_snapshot_def)
  apply (rule deal_rules | (simp add: same_deals_mono; fail))+
  done

lemma deals_payout_settle: "keeps (same_deals b) (payout_settle env user key p)"
  apply (rule keepsI)
  apply (unfold payout_settle_def payout_record_def fail_payout_def replay_terminal_payout_def)
  apply (rule deal_rules | (simp add: same_deals_mono; fail))+
  done

lemma deals_configure_payout_provider_account: "keeps (same_deals b) (configure_payout_provider_account env admin fid prov reference)"
  apply (rule keepsI)
  apply (unfold configure_payout_provider_account_def)
  apply (rule deal_rules | (simp add: same_deals_mono; fail))+
  done

lemma deals_disable_payout_provider_account: "keeps (same_deals b) (disable_payout_provider_account env admin fid prov)"
  apply (rule keepsI)
  apply (unfold disable_payout_provider_account_def)
  apply (rule deal_rules | (simp add: same_deals_mono; fail))+
  done

lemma deals_milestone_transition: "keeps (same_deals b) (milestone_transition env user mid act target note worker)"
  apply (rule keepsI)
  apply (unfold milestone_transition_def require_milestone_fully_funded_def)
  apply (rule deal_rules | (simp add: same_deals_mono; fail))+
  done

lemma deals_open_dispute: "keeps (same_deals b) (open_dispute env user mid reason)"
  apply (rule keepsI)
  apply (unfold open_dispute_def require_party_def audit_state_change_def)
  apply (rule deal_rules | (simp add: same_deals_mono; fail))+
  done

lemma deals_add_evidence: "keeps (same_deals b) (add_evidence env user did fid note)"
  apply (rule keepsI)
  apply (unfold add_evidence_def insert_evidence_def)
  apply (rule deal_rules | (simp add: same_deals_mono; fail))+
  done

lemma deals_admin_transition: "keeps (same_deals b) (admin_transition env user did target reason)"
  apply (rule keepsI)
  apply (unfold admin_transition_def require_admin_def audit_state_change_def)
  apply (rule deal_rules | (simp add: same_deals_mono; fail))+
  done

lemma deals_resolve_dispute: "keeps (same_deals b) (resolve_dispute env user did oc reason award back key)"
  apply (rule keepsI)
  apply (unfold resolve_dispute_def require_admin_def audit_state_change_def locked_funded_escrow_def freelancer_postings_def confirm_provider_refund_def latest_captured_intent_def provider_clearing_account_def wallet_account_def commission_account_def persist_resolution_refund_def)
  apply (rule deal_rules | (simp add: same_deals_mono; fail))+
  done

lemmas deals_untouched = deals_fund_milestone deals_process_provider_webhook deals_release_milestone deals_refund_prepare deals_refund_settle deals_payout_prepare deals_payout_settle deals_configure_payout_provider_account deals_disable_payout_provider_account deals_milestone_transition deals_open_dispute deals_add_evidence deals_admin_transition deals_resolve_dispute

section \<open>Proposals\<close>

lemma deals_proposals:
  assumes "deals_inv d" and "contracts d' = contracts d" "contract_versions d' = contract_versions d"
    "contract_parties d' = contract_parties d" "contract_signatures d' = contract_signatures d" "next_uuid d \<le> next_uuid d'"
    and "fresh_ids pr_id (proposals d') (next_uuid d')" "one_accepted (proposals d')"
  shows "deals_inv d'"
  using assms by (auto simp: deals_inv_def contract_ok_def signature_ok_def required_user_ids_def
      signed_user_ids_def intro: fresh_ids_mono)

lemma one_accepted_put:
  "one_accepted ps \<Longrightarrow> (pr_status p = PR_ACCEPTED \<Longrightarrow> \<forall>x\<in>set ps. pr_id x \<noteq> pr_id p \<longrightarrow> pr_project_id x = pr_project_id p \<longrightarrow>
    pr_status x \<noteq> PR_ACCEPTED) \<Longrightarrow> one_accepted (put_row pr_id p ps)"
  unfolding one_accepted_def by (metis put_row_memD)

lemma one_accepted_append: "one_accepted ps \<Longrightarrow> pr_status p \<noteq> PR_ACCEPTED \<Longrightarrow> one_accepted (ps @ [p])"
  by (auto simp: one_accepted_def)

lemma deals_add_proposal:
  "deals_inv d \<Longrightarrow> next_uuid d \<le> pr_id p \<Longrightarrow> pr_id p < n \<Longrightarrow> pr_status p \<noteq> PR_ACCEPTED \<Longrightarrow>
    deals_inv (d\<lparr>next_uuid := n, proposals := proposals d @ [p]\<rparr>)"
  by (rule deals_proposals [of d]) (simp_all add: deals_inv_def one_accepted_append fresh_ids_append [of _ _ "next_uuid d"])

lemma deals_put_proposal:
  "deals_inv d \<Longrightarrow> pr_status p = PR_ACCEPTED \<longrightarrow> (\<forall>x\<in>set (proposals d). pr_id x \<noteq> pr_id p \<longrightarrow>
    pr_project_id x = pr_project_id p \<longrightarrow> pr_status x \<noteq> PR_ACCEPTED) \<Longrightarrow> deals_inv (put_proposal p d)"
  by (rule deals_proposals [of d]) (simp_all add: deals_inv_def put_proposal_def one_accepted_put)

lemma wpI_set_proposal_status_exact:
  "(st = PR_ACCEPTED \<longrightarrow> (\<forall>x\<in>set (proposals w). pr_id x \<noteq> pr_id p \<longrightarrow> pr_project_id x = pr_project_id p \<longrightarrow>
    pr_status x \<noteq> PR_ACCEPTED) \<Longrightarrow> Q () (c, put_proposal (p\<lparr>pr_status := st\<rparr>) w)) \<Longrightarrow> E IntegrityError (c, w) \<Longrightarrow>
    wp (set_proposal_status p st) Q E (c, w)"
  by (auto simp: set_proposal_status_def wp_eqs list_ex_iff)

lemma deals_bump [simp]: "deals_inv d \<Longrightarrow> next_uuid d \<le> n \<Longrightarrow> deals_inv (d\<lparr>next_uuid := n\<rparr>)"
  by (erule deals_cong) (simp add: same_deals_def)

lemma deals_frame [simp]:
  "deals_inv (append_audit es d) = deals_inv d" "deals_inv (append_outbox os d) = deals_inv d"
  by (intro iffI; erule deals_cong; simp add: same_deals_def append_audit_def append_outbox_def)+

section \<open>Contracts\<close>

lemma deals_parts:
  assumes "deals_inv d"
  shows "fresh_ids con_id (contracts d) (next_uuid d)" "distinct (map con_project_id (contracts d))"
    "fresh_ids cv_id (contract_versions d) (next_uuid d)" "distinct (map cv_contract_id (contract_versions d))"
    "c \<in> set (contracts d) \<Longrightarrow> contract_ok d c"
  using assms by (simp_all add: deals_inv_def)

lemma deals_signatures: "deals_inv d \<Longrightarrow> \<forall>s\<in>set (contract_signatures d). signature_ok d s"
  by (simp add: deals_inv_def)

lemma deals_put_contract:
  assumes inv: "deals_inv d" and c0: "row_by con_id (con_id c) (contracts d) = Some c0"
    and pj: "con_project_id c = con_project_id c0" and ok: "contract_ok d c"
  shows "deals_inv (put_contract c d)"
proof -
  have d: "distinct (map con_id (contracts d))" using deals_parts(1) [OF inv] by (simp add: fresh_ids_def)
  have "map con_project_id (put_row con_id c (contracts d)) = map con_project_id (contracts d)"
    using d c0 pj by (auto simp: put_row_def row_by_Some_iff distinct_map) (metis inj_onD)
  moreover have "contract_ok (put_contract c d) x = contract_ok d x" for x
    by (simp add: contract_ok_def put_contract_def required_user_ids_def signed_user_ids_def)
  moreover have "\<forall>x\<in>set (put_row con_id c (contracts d)). contract_ok d x"
    using ok deals_parts(5) [OF inv] by (auto dest: put_row_memD)
  ultimately show ?thesis
    using inv ok by (auto simp: deals_inv_def put_contract_def signature_ok_def)
qed

lemma deals_cancel:
  "deals_inv d \<Longrightarrow> row_by con_id (con_id c) (contracts d) = Some c \<Longrightarrow>
    deals_inv (put_contract (c\<lparr>con_status := CON_CANCELLED, con_cancelled_at := t\<rparr>) d)"
  using deals_parts(5) [of d c]
  by (intro deals_put_contract [of d _ c]) (auto simp: contract_ok_def dest: row_by_SomeD)

lemma version_unique:
  assumes "deals_inv d" "v \<in> set (contract_versions d)" "v' \<in> set (contract_versions d)" "cv_contract_id v = cv_contract_id v'"
  shows "v = v'"
  using deals_parts(4) [OF assms(1)] assms(2-) by (auto simp: distinct_map inj_on_def)

lemma deals_activate:
  assumes inv: "deals_inv d" and c: "row_by con_id (con_id c) (contracts d) = Some c"
    and v: "v \<in> set (contract_versions d)" "cv_contract_id v = con_id c"
    and all: "set (required_user_ids (con_id c) d) \<subseteq> set (signed_user_ids (cv_id v) d)"
  shows "deals_inv (put_contract (c\<lparr>con_status := CON_ACTIVE, con_activated_at := t\<rparr>) d)"
proof (rule deals_put_contract [OF inv])
  have ok: "contract_ok d c" using c deals_parts(5) [OF inv] by (auto dest: row_by_SomeD)
  then obtain v' where v': "v' \<in> set (contract_versions d)" "cv_contract_id v' = con_id c" "cv_number v' = con_current_version c"
    by (auto simp: contract_ok_def)
  then have "v' = v" using version_unique [OF inv _ v(1)] v(2) by simp
  with ok v v' all show "contract_ok d (c\<lparr>con_status := CON_ACTIVE, con_activated_at := t\<rparr>)"
    by (auto simp: contract_ok_def intro!: bexI [of _ v])
qed (use c in simp_all)

lemma contract_ok_signed:
  assumes "contract_ok d c"
  shows "contract_ok (add_signature s d) c"
proof -
  obtain v where "v \<in> set (contract_versions d)" "cv_contract_id v = con_id c" "cv_number v = con_current_version c"
      "con_status c = CON_ACTIVE \<longrightarrow> {con_employer c, con_freelancer c} \<subseteq> set (signed_user_ids (cv_id v) d)"
    using assms by (auto simp: contract_ok_def)
  moreover have "set (signed_user_ids i d) \<subseteq> set (signed_user_ids i (add_signature s d))" for i
    by (auto simp: signed_user_ids_def add_signature_def)
  ultimately show ?thesis
    using assms by (auto simp: contract_ok_def required_user_ids_def add_signature_def intro!: bexI [of _ v])
qed

lemma deals_add_signature:
  assumes "deals_inv d" and "v \<in> set (contract_versions d)" "cv_id v = cs_version_id s" "cv_document_hash v = cs_document_hash s"
  shows "deals_inv (add_signature s d)"
proof -
  have "\<forall>c\<in>set (contracts d). contract_ok (add_signature s d) c" using assms(1) contract_ok_signed by (auto simp: deals_inv_def)
  then show ?thesis using assms by (auto simp: deals_inv_def add_signature_def signature_ok_def)
qed

lemma contract_ok_extend:
  assumes "contract_ok d c" and "con_id c \<noteq> con_id k" and "contract_versions d' = contract_versions d @ [v]"
    and "contract_parties d' = contract_parties d @ ps" "\<forall>p\<in>set ps. cp_contract_id p = con_id k"
    and "contract_signatures d' = contract_signatures d"
  shows "contract_ok d' c"
proof -
  have "filter (\<lambda>p. cp_contract_id p = con_id c \<and> cp_required_signature p) ps = []" using assms(2,5) by (auto simp: filter_empty_conv)
  then have "required_user_ids (con_id c) d' = required_user_ids (con_id c) d" using assms by (simp add: required_user_ids_def)
  then show ?thesis using assms by (auto simp: contract_ok_def signed_user_ids_def)
qed

lemma deals_new_contract:
  assumes inv: "deals_inv d" and k: "next_uuid d \<le> con_id k" "con_id k < cv_id v" "cv_id v < n" "cv_contract_id v = con_id k"
      "cv_number v = con_current_version k" "con_status k = CON_PENDING_SIGNATURES" "con_employer k \<noteq> con_freelancer k"
    and new: "con_project_id k \<notin> con_project_id ` set (contracts d)"
    and ps: "ps = [\<lparr>cp_contract_id = con_id k, cp_user_id = con_employer k, cp_role = r1, cp_required_signature = True\<rparr>,
        \<lparr>cp_contract_id = con_id k, cp_user_id = con_freelancer k, cp_role = r2, cp_required_signature = True\<rparr>]"
    and d': "contracts d' = contracts d @ [k]" "contract_versions d' = contract_versions d @ [v]"
      "contract_parties d' = contract_parties d @ ps" "contract_signatures d' = contract_signatures d"
      "proposals d' = proposals d" "next_uuid d' = n"
  shows "deals_inv d'"
proof -
  have less: "\<forall>c\<in>set (contracts d). con_id c < con_id k" "\<forall>p\<in>set (contract_parties d). cp_contract_id p < con_id k"
      "\<forall>v\<in>set (contract_versions d). cv_contract_id v < con_id k"
    using inv k(1) by (fastforce simp: deals_inv_def fresh_ids_def)+
  have "contract_ok d' c" if "c \<in> set (contracts d)" for c
    using that less inv by (intro contract_ok_extend [OF _ _ d'(2,3) _ d'(4)]) (auto simp: deals_inv_def ps)
  moreover have "contract_ok d' k"
  proof -
    have "filter (\<lambda>p. cp_contract_id p = con_id k \<and> cp_required_signature p) (contract_parties d) = []"
      using less by (auto simp: filter_empty_conv)
    then have "required_user_ids (con_id k) d' = [con_employer k, con_freelancer k]"
      by (simp add: required_user_ids_def d'(3) ps)
    then show ?thesis using k by (simp add: contract_ok_def d'(2))
  qed
  ultimately show ?thesis
    using inv k new less d' unfolding deals_inv_def
    by (auto simp: signature_ok_def ps intro: fresh_ids_append fresh_ids_mono)
qed

section \<open>The five handlers\<close>

lemma deals_sel [simp]:
  "proposals (append_audit es d) = proposals d"
  "contracts (append_audit es d) = contracts d" "contract_versions (append_audit es d) = contract_versions d"
  "required_user_ids i (append_audit es d) = required_user_ids i d" "signed_user_ids i (append_audit es d) = signed_user_ids i d"
  "contracts (add_signature s d) = contracts d" "contract_versions (add_signature s d) = contract_versions d"
  by (simp_all add: append_audit_def add_signature_def required_user_ids_def signed_user_ids_def)

lemma wpI_find_version:
  "(\<And>v. v \<in> set (contract_versions w) \<Longrightarrow> cv_contract_id v = con_id k \<Longrightarrow> Q v (c, w)) \<Longrightarrow> (\<And>e. E e (c, w)) \<Longrightarrow>
    wp (current_contract_version k) Q E (c, w)"
  by (auto simp: current_contract_version_def wp_eqs split: option.split dest: find_SomeD)

lemma wpI_insert_contract_exact:
  "(\<forall>x\<in>set (contracts w). con_project_id x \<noteq> con_project_id k \<Longrightarrow> con_employer k \<noteq> con_freelancer k \<Longrightarrow>
     Q () (c, w\<lparr>contracts := contracts w @ [k], contract_parties := contract_parties w @
       [\<lparr>cp_contract_id = con_id k, cp_user_id = con_employer k, cp_role = ''EMPLOYER'', cp_required_signature = True\<rparr>,
        \<lparr>cp_contract_id = con_id k, cp_user_id = con_freelancer k, cp_role = ''FREELANCER'', cp_required_signature = True\<rparr>]\<rparr>)) \<Longrightarrow>
   E IntegrityError (c, w) \<Longrightarrow> wp (insert_contract k) Q E (c, w)"
  by (auto simp: insert_contract_def wp_eqs list_ex_iff)

lemma wpI_insert_milestone_deals:
  "deals_inv w \<and> proposals w = ps \<Longrightarrow> (\<And>e w'. E e (c, w')) \<Longrightarrow> wp (insert_milestone vid cur term)
    (\<lambda>_ s. \<exists>w'. s = (c, w') \<and> deals_inv w' \<and> proposals w' = ps) E (c, w)"
  by (cases "term" rule: prod_cases4)
    (auto simp: insert_milestone_def wp_eqs table_updates elim!: deals_cong simp: same_deals_def)

lemma wpI_create_contract_deals:
  assumes inv: "deals_inv w" and Q: "\<And>k w'. deals_inv w' \<Longrightarrow> proposals w' = proposals w \<Longrightarrow> Q k (c, w')"
    and E: "\<And>e w'. E e (c, w')"
  shows "wp (create_contract_from_accepted_proposal env p pj actor) Q E (c, w)"
  unfolding create_contract_from_accepted_proposal_def
  apply (insert inv)
  apply (rule wpI_insert_contract_exact wpI_for_each [where I = "\<lambda>w'. deals_inv w' \<and> proposals w' = proposals w" and c = c]
      wpI_insert_milestone_deals log_rules | (rule E) | assumption
    | (rule Q; simp; fail)
    | (intro conjI, rule deals_new_contract [where n = "Suc (Suc (next_uuid w))"]; auto; fail))+
  done

lemma keeps_deals_transition_proposal: "keeps deals_inv (transition_proposal env user prid target)"
  apply (rule keepsI)
  apply (unfold transition_proposal_def)
  apply (rule wpI_create_contract_deals wpI_set_proposal_status_exact deal_rules | assumption
     | (simp add: deals_put_proposal; fail))+
  done

lemma keeps_deals_create_proposal: "keeps deals_inv (create_proposal env user pid n cur days letter ms)"
  apply (rule keepsI)
  apply (unfold create_proposal_def new_version_def insert_proposal_def)
  apply (rule deal_rules | (simp add: deals_add_proposal; fail))+
  done

lemma keeps_deals_add_proposal_version: "keeps deals_inv (add_proposal_version env user prid n cur days letter ms)"
  apply (rule keepsI)
  apply (unfold add_proposal_version_def new_version_def)
  apply (rule deal_rules | (auto intro!: deals_put_proposal; fail))+
  done

lemma keeps_deals_sign_contract: "keeps deals_inv (sign_contract env user cid key hash ref ip risk)"
  apply (rule keepsI)
  apply (unfold sign_contract_def insert_signature_def)
  apply (rule wpI_contract_row wpI_find_version deal_rules | (simp add: deals_add_signature deals_activate; fail))+
  done

lemma keeps_deals_cancel_contract: "keeps deals_inv (cancel_contract env user cid)"
  apply (rule keepsI)
  apply (unfold cancel_contract_def)
  apply (rule wpI_contract_row wpI_find_version deal_rules | (simp add: deals_cancel; fail))+
  done

lemma same_deals_after: "(\<And>b. keeps (same_deals b) m) \<Longrightarrow> deals_inv d \<Longrightarrow> deals_inv (after m d)"
  using keeps_run_request [of "same_deals d" m d] by (auto simp: after_def same_deals_refl intro: deals_cong)

lemma deals_after: "keeps deals_inv m \<Longrightarrow> deals_inv d \<Longrightarrow> deals_inv (after m d)"
  by (simp add: after_def keeps_run_request)

lemmas deals_changed = keeps_deals_transition_proposal keeps_deals_create_proposal keeps_deals_add_proposal_version
  keeps_deals_sign_contract keeps_deals_cancel_contract

lemma platform_step_deals: "platform_step d d' \<Longrightarrow> deals_inv d \<Longrightarrow> deals_inv d'"
  by (erule platform_stepE) (simp_all add: same_deals_after deals_untouched deals_after deals_changed)

lemma fresh_platform_deals: "fresh_platform d \<Longrightarrow> deals_inv d"
  by (simp add: fresh_platform_def deals_inv_def one_accepted_def fresh_ids_def)

interpretation deals: invariant_system fresh_platform platform_step deals_inv
  by unfold_locales (auto intro: fresh_platform_deals platform_step_deals)

lemma reachable_deals: "reachable_db d \<Longrightarrow> deals_inv d"
  unfolding reachable_db_def by (rule deals.reachable_inv)

end
