(* ===== verification/Site.thy ===== *)
theory Site
  imports System History
begin

text \<open>
  Services beside the money core (messaging, calls, files, identity, risk) have tables of their
  own and use the core's database for lookups, the audit log and the outbox. A \<open>site\<close> is the
  core's database with the tables of such a service; both are committed and rolled back
  together. \<open>on_core\<close> runs an operation of the core inside a request of the service, and
  \<open>beside\<close> bounds what the service did to the core.
\<close>

record 'c site =
  core :: db
  own :: 'c

type_synonym ('c, 'a) sop = "('c site, 'a) op"

definition on_core :: "'a dbop \<Rightarrow> ('c, 'a) sop" where
  "on_core m = (\<lambda>(c, w). case m (core c, core w) of (r, (c', w')) \<Rightarrow> (r, (c\<lparr>core := c'\<rparr>, w\<lparr>core := w'\<rparr>)))"

definition query_own :: "('c \<Rightarrow> 'a) \<Rightarrow> ('c, 'a) sop" where
  "query_own f = query (\<lambda>s. f (own s))"

definition query_core :: "(db \<Rightarrow> 'a) \<Rightarrow> ('c, 'a) sop" where
  "query_core f = query (\<lambda>s. f (core s))"

definition modify_own :: "('c \<Rightarrow> 'c) \<Rightarrow> ('c, unit) sop" where
  "modify_own f = modify (\<lambda>s. s\<lparr>own := f (own s)\<rparr>)"

definition modify_core :: "(db \<Rightarrow> db) \<Rightarrow> ('c, unit) sop" where
  "modify_core f = on_core (modify f)"

text \<open>\<open>db.session.flush()\<close>: the pending rows meet the constraints of their tables.\<close>

definition flush_own :: "('c \<Rightarrow> bool) \<Rightarrow> ('c, unit) sop" where
  "flush_own ok = bnd (query_own ok) (\<lambda>b. require b IntegrityError)"

text \<open>\<open>uuid.UUID(text)\<close> of a canonical spelling; other spellings are produced nowhere and count as
  malformed.\<close>

definition hex_value :: "char \<Rightarrow> nat option" where
  "hex_value c = (let n = (of_char c :: nat) in
     if 48 \<le> n \<and> n \<le> 57 then Some (n - 48) else if 97 \<le> n \<and> n \<le> 102 then Some (n - 87)
     else if 65 \<le> n \<and> n \<le> 70 then Some (n - 55) else None)"

definition parse_uuid :: "string \<Rightarrow> uuid option" where
  "parse_uuid s = (let h = map hex_value (filter (\<lambda>c. c \<noteq> CHR ''-'') s) in
     if length h = 32 \<and> list_all (\<lambda>v. v \<noteq> None) h then Some (foldl (\<lambda>a v. 16 * a + the v) 0 h) else None)"

lemma wp_on_core:
  "wp (on_core m) Q E (c, w) =
    wp m (\<lambda>x s. Q x (c\<lparr>core := fst s\<rparr>, w\<lparr>core := snd s\<rparr>)) (\<lambda>e s. E e (c\<lparr>core := fst s\<rparr>, w\<lparr>core := snd s\<rparr>)) (core c, core w)"
  by (auto simp: wp_def on_core_def split: prod.split sum.split)

lemma site_same [simp]: "s\<lparr>core := core s\<rparr> = (s :: 'c site)" "s\<lparr>own := own s\<rparr> = s"
  by simp_all

lemma wp_query_own [wp_eqs]: "wp (query_own f) Q E (c, w) = Q (f (own w)) (c, w)"
  by (simp add: query_own_def wp_eqs)

lemma wp_query_core [wp_eqs]: "wp (query_core f) Q E (c, w) = Q (f (core w)) (c, w)"
  by (simp add: query_core_def wp_eqs)

lemma wp_modify_own [wp_eqs]: "wp (modify_own f) Q E (c, w) = Q () (c, w\<lparr>own := f (own w)\<rparr>)"
  by (simp add: modify_own_def wp_eqs)

lemma wp_flush_own [wp_eqs]:
  "wp (flush_own ok) Q E (c, w) = (if ok (own w) then Q () (c, w) else E IntegrityError (c, w))"
  by (simp add: flush_own_def wp_eqs)

section \<open>What a service may do to the core\<close>

text \<open>
  \<open>beside d d'\<close>: a service appends to the audit log (with its hashes) and to the outbox, and may
  write the tables of users, projects and files, which the money tables do not depend on.
\<close>

definition peripheral :: "db \<Rightarrow> db \<Rightarrow> db" where
  "peripheral p d = d\<lparr>next_uuid := max (next_uuid d) (next_uuid p), users := users p, projects := projects p,
     file_objects := file_objects p\<rparr>"

definition beside :: "db \<Rightarrow> db \<Rightarrow> bool" where
  "beside d d' \<longleftrightarrow> (\<exists>es os p. d' = append_outbox os (append_audit es (peripheral p d)) \<and>
     (\<forall>e\<in>set es. ae_action e \<in> set state_hash_required_actions \<longrightarrow> ae_previous_hash e \<noteq> None \<and> ae_new_hash e \<noteq> None))"

lemma peripheral_self [simp]: "peripheral d d = d"
  by (simp add: peripheral_def)

lemma beside_refl [simp]: "beside d d"
  unfolding beside_def by (rule exI [of _ "[]"], rule exI [of _ "[]"], rule exI [of _ d])
    (simp add: append_audit_def append_outbox_def)

lemma beside_audit:
  "\<forall>e\<in>set es. ae_action e \<in> set state_hash_required_actions \<longrightarrow>
    ae_previous_hash e \<noteq> None \<and> ae_new_hash e \<noteq> None \<Longrightarrow> beside d (append_audit es d)"
  unfolding beside_def by (rule exI [of _ es], rule exI [of _ "[]"], rule exI [of _ d])
    (simp add: append_outbox_def)

lemma beside_outbox: "beside d (append_outbox os d)"
  unfolding beside_def by (rule exI [of _ "[]"], rule exI [of _ os], rule exI [of _ d])
    (simp add: append_audit_def)

lemma beside_rows:
  "beside d (d\<lparr>users := us\<rparr>)" "beside d (d\<lparr>projects := ps\<rparr>)" "beside d (d\<lparr>file_objects := fs\<rparr>)"
  "beside d (d\<lparr>next_uuid := Suc (next_uuid d)\<rparr>)"
proof -
  have eq: "peripheral p d = append_outbox [] (append_audit [] (peripheral p d))" for p
    by (simp add: append_audit_def append_outbox_def)
  have "beside d (peripheral p d)" for p
    unfolding beside_def by (rule exI [of _ "[]"], rule exI [of _ "[]"], rule exI [of _ p]) (simp add: eq [symmetric])
  note this [of "d\<lparr>users := us\<rparr>"] this [of "d\<lparr>projects := ps\<rparr>"] this [of "d\<lparr>file_objects := fs\<rparr>"]
    this [of "d\<lparr>next_uuid := Suc (next_uuid d)\<rparr>"]
  then show "beside d (d\<lparr>users := us\<rparr>)" "beside d (d\<lparr>projects := ps\<rparr>)" "beside d (d\<lparr>file_objects := fs\<rparr>)"
    "beside d (d\<lparr>next_uuid := Suc (next_uuid d)\<rparr>)" by (simp_all add: peripheral_def)
qed

lemma beside_trans:
  assumes "beside a b" and "beside b c"
  shows "beside a c"
proof -
  obtain es os p where b: "b = append_outbox os (append_audit es (peripheral p a))"
      "\<forall>e\<in>set es. ae_action e \<in> set state_hash_required_actions \<longrightarrow> ae_previous_hash e \<noteq> None \<and> ae_new_hash e \<noteq> None"
    using assms(1) unfolding beside_def by blast
  obtain es' os' q where c: "c = append_outbox os' (append_audit es' (peripheral q b))"
      "\<forall>e\<in>set es'. ae_action e \<in> set state_hash_required_actions \<longrightarrow> ae_previous_hash e \<noteq> None \<and> ae_new_hash e \<noteq> None"
    using assms(2) unfolding beside_def by blast
  show ?thesis unfolding beside_def
    by (rule exI [of _ "es @ es'"], rule exI [of _ "os @ os'"], rule exI [of _ "q\<lparr>next_uuid := max (next_uuid p) (next_uuid q)\<rparr>"])
      (use b(2) c(2) in \<open>auto simp: b(1) c(1) append_audit_def append_outbox_def peripheral_def max.assoc\<close>)
qed

lemma beside_inv:
  assumes "beside d d'" and "sys_inv d"
  shows "sys_inv d'"
proof -
  obtain es os p where d': "d' = append_outbox os (append_audit es (peripheral p d))"
    using assms(1) unfolding beside_def by blast
  have "sys_inv (d\<lparr>next_uuid := max (next_uuid d) (next_uuid p)\<rparr>)" using assms(2) by (rule inv_bump) simp
  then have "sys_inv (peripheral p d)" by (rule sys_inv_cong) (simp add: same_core_def peripheral_def)
  then show ?thesis by (simp add: d')
qed

text \<open>During a request from \<open>d\<close>: the service's invariant holds, and the core was left \<open>beside d\<close>.\<close>

definition site_ok :: "('c site \<Rightarrow> bool) \<Rightarrow> db \<Rightarrow> 'c site \<Rightarrow> bool" where
  "site_ok I d s \<longleftrightarrow> I s \<and> beside d (core s)"

definition same_rows :: "db \<Rightarrow> db \<Rightarrow> bool" where
  "same_rows d d' \<longleftrightarrow> users d' = users d \<and> projects d' = projects d \<and> file_objects d' = file_objects d"

lemma same_rows_logs: "same_rows d (append_audit es d)" "same_rows d (append_outbox os d)"
  by (simp_all add: same_rows_def append_audit_def append_outbox_def)

lemma wpI_site_audit:
  assumes "\<And>k. beside (core w) k \<Longrightarrow> same_rows (core w) k \<Longrightarrow> Q () (c, w\<lparr>core := k\<rparr>)" and "E ValueError (c, w)"
  shows "wp (on_core (record_audit_event env action rtype actor rid prev new meta)) Q E (c, w)"
  unfolding wp_on_core by (rule wp_record_audit_event) (use assms in \<open>simp_all add: beside_audit same_rows_logs\<close>)

lemma wpI_site_outbox:
  assumes "\<And>k. beside (core w) k \<Longrightarrow> same_rows (core w) k \<Longrightarrow> Q () (c, w\<lparr>core := k\<rparr>)"
  shows "wp (on_core (enqueue_outbox_event ty agg aid payload)) Q E (c, w)"
  unfolding wp_on_core by (rule wp_enqueue_outbox_event) (use assms in \<open>simp add: beside_outbox same_rows_logs\<close>)

lemma wpI_query_own: "Q (f (own w)) (c, w) \<Longrightarrow> wp (query_own f) Q E (c, w)"
  by (simp add: wp_eqs)

lemma wpI_query_core: "Q (f (core w)) (c, w) \<Longrightarrow> wp (query_core f) Q E (c, w)"
  by (simp add: wp_eqs)

lemma wpI_modify_own: "Q () (c, w\<lparr>own := f (own w)\<rparr>) \<Longrightarrow> wp (modify_own f) Q E (c, w)"
  by (simp add: wp_eqs)

lemma wpI_modify_core: "Q () (c, w\<lparr>core := f (core w)\<rparr>) \<Longrightarrow> wp (modify_core f) Q E (c, w)"
  by (simp add: modify_core_def wp_on_core wp_eqs)

lemma wpI_flush_own: "(ok (own w) \<Longrightarrow> Q () (c, w)) \<Longrightarrow> E IntegrityError (c, w) \<Longrightarrow> wp (flush_own ok) Q E (c, w)"
  by (simp add: wp_eqs)

lemmas site_rules = wpI_query_own wpI_query_core wpI_modify_own wpI_modify_core wpI_flush_own wpI_site_audit wpI_site_outbox wp_rules if_exnI

lemma site_keepsI:
  assumes "\<And>s. I s \<Longrightarrow> beside d (core s) \<Longrightarrow>
    wp m (\<lambda>_ s. site_ok I d (fst s)) (\<lambda>_ s. site_ok I d (fst s)) (s, s)"
  shows "keeps (site_ok I d) m"
  by (rule keepsI) (use assms in \<open>simp add: site_ok_def\<close>)

section \<open>A service beside the running platform\<close>

text \<open>
  A service and the platform run side by side: a step is a request of the service or a step of
  the platform on the shared core. \<open>site_service\<close> is the contract of a service: its requests keep
  its invariant and leave the core \<open>beside\<close> what it was, and the invariant does not depend on
  what the platform does. A service that meets it is an \<open>invariant_system\<close>, and the invariant of
  the money core holds beside it.
\<close>

definition site_after :: "('c, 'a) sop \<Rightarrow> 'c site \<Rightarrow> 'c site" where
  "site_after m s = snd (run_request m s)"

inductive site_step :: "('c site \<Rightarrow> 'c site \<Rightarrow> bool) \<Rightarrow> 'c site \<Rightarrow> 'c site \<Rightarrow> bool"
  for request :: "'c site \<Rightarrow> 'c site \<Rightarrow> bool" where
  served: "request s s' \<Longrightarrow> site_step request s s'"
| platform_moved: "platform_step (core s) d \<Longrightarrow> site_step request s (s\<lparr>core := d\<rparr>)"

inductive_cases site_stepE: "site_step request s s'"

definition site_start :: "('c site \<Rightarrow> bool) \<Rightarrow> 'c site \<Rightarrow> bool" where
  "site_start blank s \<longleftrightarrow> fresh_platform (core s) \<and> blank s"

definition site_inv :: "('c site \<Rightarrow> bool) \<Rightarrow> 'c site \<Rightarrow> bool" where
  "site_inv I s \<longleftrightarrow> sys_inv (core s) \<and> I s"

locale site_service =
  fixes blank :: "'c site \<Rightarrow> bool" and request :: "'c site \<Rightarrow> 'c site \<Rightarrow> bool" and I :: "'c site \<Rightarrow> bool"
  assumes blank_ok: "blank s \<Longrightarrow> I s"
    and request_ok: "request s s' \<Longrightarrow> I s \<Longrightarrow> I s' \<and> beside (core s) (core s')"
    and platform_ok: "I s \<Longrightarrow> extends (core s) d \<Longrightarrow> I (s\<lparr>core := d\<rparr>)"
begin

lemma step_keeps: "site_step request s s' \<Longrightarrow> site_inv I s \<Longrightarrow> site_inv I s'"
  using request_ok beside_inv platform_ok platform_step_inv platform_step_extends
  by (auto simp: site_inv_def elim!: site_stepE)

end

sublocale site_service \<subseteq> system: invariant_system "site_start blank" "site_step request" "site_inv I"
proof
  show "site_inv I s" if "site_start blank s" for s
    using that blank_ok fresh_platform_inv by (auto simp: site_start_def site_inv_def)
qed (rule step_keeps)

text \<open>A service that also promises how its tables develop.\<close>

locale site_history = site_service +
  fixes rel :: "'a site \<Rightarrow> 'a site \<Rightarrow> bool"
  assumes rel_refl: "rel s s" and rel_trans: "rel s t \<Longrightarrow> rel t u \<Longrightarrow> rel s u"
    and request_rel: "request s s' \<Longrightarrow> I s \<Longrightarrow> rel s s'"
    and platform_rel: "extends (core s) d \<Longrightarrow> rel s (s\<lparr>core := d\<rparr>)"
begin

lemma step_rel: "site_step request s s' \<Longrightarrow> site_inv I s \<Longrightarrow> rel s s'"
  using request_rel platform_rel platform_step_extends by (auto simp: site_inv_def elim!: site_stepE)

end

sublocale site_history \<subseteq> history: progress_system "site_start blank" "site_step request" "site_inv I" rel
  by unfold_locales (fact rel_refl, fact rel_trans, rule step_rel)

text \<open>Every reachable database of the platform can be the core of a service that has not served yet,
  where the tables the service starts from are those of the core's start.\<close>

lemma reachable_beside:
  assumes "reachable_db d" and "\<And>d'. file_objects d' = file_objects d \<Longrightarrow> blank \<lparr>core = d', own = t\<rparr>"
  shows "reachable (site_start blank) (site_step request) \<lparr>core = d, own = t\<rparr>"
  using assms unfolding reachable_db_def
proof induction
  case (start d)
  then show ?case by (intro reachable.start) (simp add: site_start_def)
next
  case (continue d d')
  have step: "site_step request \<lparr>core = d, own = t\<rparr> \<lparr>core = d', own = t\<rparr>"
    using site_step.platform_moved [of "\<lparr>core = d, own = t\<rparr>" d' request] continue.hyps(2) by simp
  have same: "file_objects d' = file_objects d"
    using platform_step_extends [OF continue.hyps(2)] by (simp add: extends_def)
  have "reachable (site_start blank) (site_step request) \<lparr>core = d, own = t\<rparr>"
    by (rule continue.IH) (use continue.prems same in simp)
  then show ?case using step by (rule reachable.continue)
qed

lemma site_after_keeps:
  assumes "keeps (site_ok I (core s)) m" and "I s"
  shows "I (site_after m s) \<and> beside (core s) (core (site_after m s))"
  using keeps_run_request [OF assms(1), of s] assms(2) by (simp add: site_ok_def site_after_def)

end
