(* ===== verification/Messaging.thy ===== *)
theory Messaging
  imports Site
begin

text \<open>
  Conversations between the parties of a contract (\<open>app/messaging/service.py\<close>): messages are
  numbered without gaps under the lock of their conversation, a client message id makes sending
  retry-safe, and delivery and read receipts follow a cursor. Latency metrics are left out.
\<close>

section \<open>Tables\<close>

datatype receipt_type = DELIVERED | READ

record member =
  mb_user :: uuid
  mb_joined :: nat
  mb_last_read :: int

record conversation =
  cn_id :: uuid
  cn_contract :: "uuid option"
  cn_next :: int
  cn_created :: nat
  cn_members :: "member list"

record message =
  mg_id :: uuid
  mg_conversation :: uuid
  mg_sender :: uuid
  mg_sequence :: int
  mg_client_id :: string
  mg_body :: string
  mg_attachments :: "uuid list"
  mg_created :: nat

record receipt =
  rc_message :: uuid
  rc_user :: uuid
  rc_type :: receipt_type
  rc_created :: nat

record chat =
  chat_next_id :: nat
  conversations :: "conversation list"
  messages :: "message list"
  receipts :: "receipt list"

type_synonym 'a chat_op = "(chat, 'a) sop"

definition chat_id :: "uuid chat_op" where
  "chat_id = bnd (query_own chat_next_id) (\<lambda>i. seq (modify_own (\<lambda>t. t\<lparr>chat_next_id := Suc i\<rparr>)) (ret i))"

definition put_conversation :: "conversation \<Rightarrow> chat \<Rightarrow> chat" where
  "put_conversation k t = t\<lparr>conversations := put_row cn_id k (conversations t)\<rparr>"

definition add_conversation :: "conversation \<Rightarrow> chat \<Rightarrow> chat" where
  "add_conversation k t = t\<lparr>conversations := conversations t @ [k]\<rparr>"

definition add_message :: "message \<Rightarrow> chat \<Rightarrow> chat" where
  "add_message m t = t\<lparr>messages := messages t @ [m]\<rparr>"

definition add_receipts :: "receipt list \<Rightarrow> chat \<Rightarrow> chat" where
  "add_receipts rs t = t\<lparr>receipts := receipts t @ rs\<rparr>"

text \<open>The UNIQUE, PRIMARY KEY and CHECK constraints of the tables.\<close>

definition conversations_valid :: "chat \<Rightarrow> bool" where
  "conversations_valid t \<longleftrightarrow> distinct (filter (\<lambda>x. x \<noteq> None) (map cn_contract (conversations t))) \<and>
     list_all (\<lambda>k. 1 \<le> cn_next k \<and> distinct (map mb_user (cn_members k)) \<and>
       list_all (\<lambda>b. 0 \<le> mb_last_read b) (cn_members k)) (conversations t)"

definition messages_valid :: "chat \<Rightarrow> bool" where
  "messages_valid t \<longleftrightarrow> distinct (map (\<lambda>m. (mg_conversation m, mg_sequence m)) (messages t)) \<and>
     distinct (map (\<lambda>m. (mg_conversation m, mg_sender m, mg_client_id m)) (messages t)) \<and>
     list_all (\<lambda>m. 1 \<le> mg_sequence m \<and> distinct (mg_attachments m)) (messages t)"

definition receipts_valid :: "chat \<Rightarrow> bool" where
  "receipts_valid t \<longleftrightarrow> distinct (map (\<lambda>r. (rc_message r, rc_user r, rc_type r)) (receipts t))"

section \<open>Conversations\<close>

definition is_conversation_member :: "user \<Rightarrow> conversation \<Rightarrow> bool" where
  "is_conversation_member u k \<longleftrightarrow> list_ex (\<lambda>b. mb_user b = user_id u) (cn_members k)"

definition find_conversation :: "uuid \<Rightarrow> conversation chat_op" where
  "find_conversation i = bnd (query_own (\<lambda>t. row_by cn_id i (conversations t)))
     (found (ApiError ''conversation_not_found'' 404))"

definition get_conversation_for_user :: "user \<Rightarrow> uuid \<Rightarrow> conversation chat_op" where
  "get_conversation_for_user user i = bnd (find_conversation i) (\<lambda>k.
     if \<not> is_conversation_member user k then raise (ApiError ''forbidden'' 403) else ret k)"

definition contract_conversation :: "uuid \<Rightarrow> chat \<Rightarrow> conversation option" where
  "contract_conversation cid t = List.find (\<lambda>k. cn_contract k = Some cid) (conversations t)"

definition get_or_create_contract_conversation :: "env \<Rightarrow> user \<Rightarrow> uuid \<Rightarrow> conversation chat_op" where
  "get_or_create_contract_conversation env user cid =
    bnd (query_core (\<lambda>d. row_by con_id cid (contracts d))) (\<lambda>r.
    bnd (found (ApiError ''contract_not_found'' 404) r) (\<lambda>con.
    if user_id user \<notin> {con_employer con, con_freelancer con} then raise (ApiError ''forbidden'' 403) else
    bnd (query_own (contract_conversation (con_id con))) (\<lambda>existing.
    case existing of Some k \<Rightarrow> ret k | None \<Rightarrow>
    bnd chat_id (\<lambda>i.
    let member = (\<lambda>u. \<lparr>mb_user = u, mb_joined = env_now env, mb_last_read = 0\<rparr>);
        k = \<lparr>cn_id = i, cn_contract = Some (con_id con), cn_next = 1, cn_created = env_now env,
             cn_members = [member (con_employer con), member (con_freelancer con)]\<rparr> in
    seq (modify_own (add_conversation k)) (
    seq (on_core (record_audit_event env ''conversation.created'' ''conversation'' (Some (user_id user))
          (Some (str_uuid i)) None None (JObj [(''contract_id'', j_id (con_id con))]))) (
    bnd (catch (seq (flush_own conversations_valid) (seq commit (ret None)))
      (\<lambda>e. if e = IntegrityError
           then seq rollback (bnd (query_own (contract_conversation (con_id con))) (\<lambda>concurrent.
                bnd (found IntegrityError concurrent) (\<lambda>k'. ret (Some k'))))
           else raise e)) (\<lambda>race.
    case race of Some k' \<Rightarrow> ret k' | None \<Rightarrow> get_conversation_for_user user i)))))))"

definition list_conversations :: "user \<Rightarrow> conversation list chat_op" where
  "list_conversations user = query_own (\<lambda>t. sort_key (\<lambda>k. - int (cn_created k))
     (filter (is_conversation_member user) (conversations t)))"

definition list_messages :: "user \<Rightarrow> uuid \<Rightarrow> int \<Rightarrow> int \<Rightarrow> message list chat_op" where
  "list_messages user i since limit =
    bnd (get_conversation_for_user user i) (\<lambda>_.
    if since < 0 then raise (ApiError ''validation_error'' 422)
    else if limit < 1 \<or> limit > 100 then raise (ApiError ''validation_error'' 422)
    else query_own (\<lambda>t. take (nat limit) (sort_key mg_sequence
      (filter (\<lambda>m. mg_conversation m = i \<and> since < mg_sequence m) (messages t)))))"

section \<open>Sending\<close>

definition max_message_body :: nat where "max_message_body = 8000"
definition max_attachments :: nat where "max_attachments = 10"

text \<open>The loop over the attached files raises at the first file, in table order, that fails a test.\<close>

fun check_attachments :: "user \<Rightarrow> file_object list \<Rightarrow> exn + unit" where
  "check_attachments user [] = Inr ()"
| "check_attachments user (f # fs) =
     (if fo_owner f \<noteq> user_id user then Inl (ApiError ''forbidden'' 403)
      else if fo_status f \<noteq> ''SAFE'' then Inl (ApiError ''unsafe_attachment'' 409)
      else if fo_purpose f \<noteq> ''MESSAGE_ATTACHMENT'' then Inl (ApiError ''invalid_attachment_purpose'' 409)
      else check_attachments user fs)"

definition validated_attachments :: "user \<Rightarrow> uuid list \<Rightarrow> uuid list chat_op" where
  "validated_attachments user ids =
    (if ids = [] then ret [] else
     bnd (query_core (\<lambda>d. filter (\<lambda>f. fo_id f \<in> set ids) (file_objects d))) (\<lambda>files.
     if length files \<noteq> length ids then raise (ApiError ''file_not_found'' 404) else
     bnd (lift_result (check_attachments user files)) (\<lambda>_. ret ids)))"

definition prior_message :: "uuid \<Rightarrow> uuid \<Rightarrow> string \<Rightarrow> chat \<Rightarrow> message option" where
  "prior_message i u client_id t = List.find (\<lambda>m. mg_conversation m = i \<and> mg_sender m = u \<and>
     mg_client_id m = client_id) (messages t)"

definition message_notification :: "message \<Rightarrow> uuid \<Rightarrow> json" where
  "message_notification m recipient = JObj
     [(''user_id'', j_id recipient), (''event_type'', JStr ''message.created''), (''title'', JStr ''New message''),
      (''body'', JStr (if take 160 (mg_body m) = [] then ''New attachment'' else take 160 (mg_body m))),
      (''dedupe_key'', JStr (''message:'' @ str_uuid (mg_id m))),
      (''payload'', JObj [(''conversation_id'', j_id (mg_conversation m)), (''message_id'', j_id (mg_id m)),
                          (''sequence'', JInt (mg_sequence m))])]"

definition send_message :: "env \<Rightarrow> user \<Rightarrow> uuid \<Rightarrow> string \<Rightarrow> string \<Rightarrow> uuid list \<Rightarrow> message chat_op" where
  "send_message env user i client_message_id body attachment_ids =
    (let client_id = strip client_message_id; text = strip body in
    if client_id = [] \<or> length client_id > 80 then raise (ApiError ''validation_error'' 422)
    else if length text > max_message_body then raise (ApiError ''validation_error'' 422)
    else if length attachment_ids > max_attachments \<or> length (remdups attachment_ids) \<noteq> length attachment_ids
    then raise (ApiError ''validation_error'' 422)
    else if text = [] \<and> attachment_ids = [] then raise (ApiError ''validation_error'' 422) else
    bnd (find_conversation i) (\<lambda>k.
    if \<not> is_conversation_member user k then raise (ApiError ''forbidden'' 403) else
    bnd (query_own (prior_message (cn_id k) (user_id user) client_id)) (\<lambda>prior.
    case prior of
      Some m \<Rightarrow> if mg_body m \<noteq> text \<or> sort (map str_uuid (mg_attachments m)) \<noteq> sort (map str_uuid attachment_ids)
                then raise (ApiError ''client_message_id_reused'' 409) else ret m
    | None \<Rightarrow>
    bnd (validated_attachments user attachment_ids) (\<lambda>files.
    let sequence = cn_next k in
    seq (modify_own (put_conversation (k\<lparr>cn_next := sequence + 1\<rparr>))) (
    bnd chat_id (\<lambda>mid.
    let m = \<lparr>mg_id = mid, mg_conversation = cn_id k, mg_sender = user_id user, mg_sequence = sequence,
             mg_client_id = client_id, mg_body = text, mg_attachments = files, mg_created = env_now env\<rparr>;
        recipients = filter (\<lambda>u. u \<noteq> user_id user) (map mb_user (cn_members k)) in
    seq (modify_own (add_message m)) (
    seq (flush_own messages_valid) (
    seq (on_core (enqueue_outbox_event ''message.created'' ''conversation'' (str_uuid (cn_id k))
          (JObj [(''message_id'', j_id mid), (''conversation_id'', j_id (cn_id k)),
                 (''sender_user_id'', j_id (user_id user)),
                 (''recipient_user_ids'', JList (map j_id recipients)), (''sequence'', JInt sequence)]))) (
    seq (for_each recipients (\<lambda>u. on_core
          (enqueue_outbox_event ''notification.requested'' ''message'' (str_uuid mid) (message_notification m u)))) (
    seq (on_core (record_audit_event env ''message.created'' ''message'' (Some (user_id user))
          (Some (str_uuid mid)) None None
          (JObj [(''conversation_id'', j_id (cn_id k)), (''sequence'', JInt sequence)]))) (
    seq commit (
    bnd (query_own (\<lambda>t. row_by mg_id mid (messages t))) (\<lambda>r.
    ret (case r of Some x \<Rightarrow> x | None \<Rightarrow> m))))))))))))))"

section \<open>Receipts\<close>

definition new_receipts :: "env \<Rightarrow> uuid \<Rightarrow> receipt_type list \<Rightarrow> message list \<Rightarrow> receipt list \<Rightarrow> receipt list" where
  "new_receipts env u types ms existing =
     concat (map (\<lambda>m. map (\<lambda>ty. \<lparr>rc_message = mg_id m, rc_user = u, rc_type = ty, rc_created = env_now env\<rparr>)
       (filter (\<lambda>ty. \<not> list_ex (\<lambda>r. rc_message r = mg_id m \<and> rc_user r = u \<and> rc_type r = ty) existing) types)) ms)"

definition set_last_read :: "uuid \<Rightarrow> int \<Rightarrow> conversation \<Rightarrow> conversation" where
  "set_last_read u n k = k\<lparr>cn_members :=
     map (\<lambda>b. if mb_user b = u then b\<lparr>mb_last_read := n\<rparr> else b) (cn_members k)\<rparr>"

definition mark_receipts :: "env \<Rightarrow> user \<Rightarrow> uuid \<Rightarrow> int \<Rightarrow> receipt_type list \<Rightarrow> bool \<Rightarrow> int chat_op" where
  "mark_receipts env user i through types update_cursor =
    bnd (find_conversation i) (\<lambda>k.
    bnd (found (ApiError ''forbidden'' 403) (List.find (\<lambda>b. mb_user b = user_id user) (cn_members k))) (\<lambda>b.
    if through < 0 \<or> through > max 0 (cn_next k - 1) then raise (ApiError ''validation_error'' 422)
    else if update_cursor \<and> through \<le> mb_last_read b then ret (mb_last_read b) else
    bnd (query_own (\<lambda>t. filter (\<lambda>m. mg_conversation m = cn_id k \<and> mg_sequence m \<le> through \<and>
          mg_sender m \<noteq> user_id user) (messages t))) (\<lambda>ms.
    bnd (query_own (\<lambda>t. filter (\<lambda>r. rc_user r = user_id user \<and> rc_type r \<in> set types \<and>
          rc_message r \<in> set (map mg_id ms)) (receipts t))) (\<lambda>existing.
    seq (modify_own (add_receipts (new_receipts env (user_id user) types ms existing))) (
    seq (if update_cursor then modify_own (put_conversation (set_last_read (user_id user) through k)) else ret ()) (
    seq (on_core (enqueue_outbox_event (if update_cursor then ''message.read'' else ''message.delivered'')
          ''conversation'' (str_uuid (cn_id k))
          (JObj [(''user_id'', j_id (user_id user)), (''through_sequence'', JInt through)]))) (
    seq (flush_own receipts_valid) (
    seq commit (ret through)))))))))"

definition mark_delivered :: "env \<Rightarrow> user \<Rightarrow> uuid \<Rightarrow> int \<Rightarrow> int chat_op" where
  "mark_delivered env user i through = mark_receipts env user i through [DELIVERED] False"

definition mark_read :: "env \<Rightarrow> user \<Rightarrow> uuid \<Rightarrow> int \<Rightarrow> int chat_op" where
  "mark_read env user i through = mark_receipts env user i through [DELIVERED, READ] True"

section \<open>Responses\<close>

fun receipt_type_str :: "receipt_type \<Rightarrow> string" where
  "receipt_type_str DELIVERED = ''DELIVERED''"
| "receipt_type_str READ = ''READ''"

definition serialize_conversation :: "env \<Rightarrow> conversation \<Rightarrow> json" where
  "serialize_conversation env k = JObj
     [(''id'', j_id (cn_id k)), (''contract_id'', j_opt j_id (cn_contract k)),
      (''next_sequence'', JInt (cn_next k)),
      (''members'', JList (map (\<lambda>b. JObj [(''user_id'', j_id (mb_user b)),
         (''last_read_sequence'', JInt (mb_last_read b)), (''joined_at'', JStr (env_iso env (mb_joined b)))])
         (cn_members k))),
      (''created_at'', JStr (env_iso env (cn_created k)))]"

definition serialize_message :: "env \<Rightarrow> message \<Rightarrow> chat \<Rightarrow> json" where
  "serialize_message env m t = JObj
     [(''id'', j_id (mg_id m)), (''conversation_id'', j_id (mg_conversation m)),
      (''sender_user_id'', j_id (mg_sender m)), (''sequence'', JInt (mg_sequence m)),
      (''client_message_id'', JStr (mg_client_id m)), (''body'', JStr (mg_body m)),
      (''attachments'', JList (map j_id (mg_attachments m))),
      (''receipts'', JList (map (\<lambda>r. JObj [(''user_id'', j_id (rc_user r)),
         (''type'', JStr (receipt_type_str (rc_type r))), (''created_at'', JStr (env_iso env (rc_created r)))])
         (filter (\<lambda>r. rc_message r = mg_id m) (receipts t)))),
      (''created_at'', JStr (env_iso env (mg_created m)))]"

end
