(* ===== verification/Chat.thy ===== *)
theory Chat
  imports Messaging
begin

text \<open>
  Messaging keeps its tables in order on every path: the messages of a conversation are numbered
  1, 2, 3 and so on without gap, senders are members, and a read cursor is justified by read
  receipts. The invariant \<open>chat_ok\<close> is kept by every request and by every change of the core.
\<close>

section \<open>The invariant\<close>

definition conv_messages :: "uuid \<Rightarrow> chat \<Rightarrow> message list" where
  "conv_messages i t = filter (\<lambda>m. mg_conversation m = i) (messages t)"

definition has_read :: "chat \<Rightarrow> uuid \<Rightarrow> uuid \<Rightarrow> bool" where
  "has_read t u i \<longleftrightarrow> (\<exists>r\<in>set (receipts t). rc_message r = i \<and> rc_user r = u \<and> rc_type r = READ)"

definition cursor_ok :: "chat \<Rightarrow> conversation \<Rightarrow> member \<Rightarrow> bool" where
  "cursor_ok t k b \<longleftrightarrow> 0 \<le> mb_last_read b \<and> mb_last_read b < cn_next k \<and>
     (\<forall>m\<in>set (conv_messages (cn_id k) t). mg_sender m \<noteq> mb_user b \<and> mg_sequence m \<le> mb_last_read b \<longrightarrow>
        has_read t (mb_user b) (mg_id m))"

definition conversation_ok :: "chat \<Rightarrow> conversation \<Rightarrow> bool" where
  "conversation_ok t k \<longleftrightarrow> map mg_sequence (conv_messages (cn_id k) t) = [1..cn_next k - 1] \<and> 1 \<le> cn_next k \<and>
     distinct (map mb_user (cn_members k)) \<and>
     (\<forall>m\<in>set (conv_messages (cn_id k) t). mg_sender m \<in> mb_user ` set (cn_members k)) \<and>
     (\<forall>b\<in>set (cn_members k). cursor_ok t k b)"

definition chat_ok :: "chat \<Rightarrow> bool" where
  "chat_ok t \<longleftrightarrow> fresh_ids cn_id (conversations t) (chat_next_id t) \<and> fresh_ids mg_id (messages t) (chat_next_id t) \<and>
     (\<forall>m\<in>set (messages t). mg_conversation m < chat_next_id t) \<and> (\<forall>k\<in>set (conversations t). conversation_ok t k)"

lemma chat_parts:
  assumes "chat_ok t"
  shows "fresh_ids cn_id (conversations t) (chat_next_id t)" "fresh_ids mg_id (messages t) (chat_next_id t)"
    "\<forall>m\<in>set (messages t). mg_conversation m < chat_next_id t"
    "k \<in> set (conversations t) \<Longrightarrow> conversation_ok t k"
  using assms by (simp_all add: chat_ok_def)

section \<open>Table updates\<close>

lemma chat_new_conversation:
  assumes inv: "chat_ok t" and k: "cn_id k = chat_next_id t" "cn_next k = 1" "\<forall>b\<in>set (cn_members k). mb_last_read b = 0"
    and valid: "conversations_valid (add_conversation k (t\<lparr>chat_next_id := Suc (chat_next_id t)\<rparr>))"
  shows "chat_ok (add_conversation k (t\<lparr>chat_next_id := Suc (chat_next_id t)\<rparr>))" (is "chat_ok ?t")
proof -
  have msgs: "conv_messages i ?t = conv_messages i t" "has_read ?t u i = has_read t u i" for i u
    by (simp_all add: conv_messages_def has_read_def add_conversation_def)
  have "conv_messages (cn_id k) t = []"
    using chat_parts(3) [OF inv] k(1) by (auto simp: conv_messages_def filter_empty_conv)
  moreover have "distinct (map mb_user (cn_members k))" using valid by (simp add: conversations_valid_def add_conversation_def)
  ultimately have "conversation_ok ?t k" using k by (simp add: conversation_ok_def cursor_ok_def msgs)
  moreover have "conversation_ok ?t x = conversation_ok t x" for x
    by (simp add: conversation_ok_def cursor_ok_def msgs)
  ultimately show ?thesis
    using inv k(1) unfolding chat_ok_def
    by (auto simp: add_conversation_def less_Suc_eq intro: fresh_ids_append fresh_ids_mono)
qed

lemma conversation_row:
  "chat_ok t \<Longrightarrow> row_by cn_id i (conversations t) = Some k \<Longrightarrow> conversation_ok t k \<and> k \<in> set (conversations t)"
  using chat_parts(4) by (auto dest: row_by_SomeD)

lemma conv_messages_add:
  "conv_messages i (add_message m t) = conv_messages i t @ (if mg_conversation m = i then [m] else [])"
  by (simp add: conv_messages_def add_message_def)

lemma chat_sent:
  assumes inv: "chat_ok t" and k: "row_by cn_id (cn_id k) (conversations t) = Some k"
    and m: "mg_id m = chat_next_id t" "mg_conversation m = cn_id k" "mg_sequence m = cn_next k"
      "mg_sender m \<in> mb_user ` set (cn_members k)"
  shows "chat_ok (add_message m (put_conversation (k\<lparr>cn_next := cn_next k + 1\<rparr>) t\<lparr>chat_next_id := Suc (chat_next_id t)\<rparr>))"
    (is "chat_ok ?t")
proof -
  let ?k = "k\<lparr>cn_next := cn_next k + 1\<rparr>"
  have ok: "conversation_ok t k" and kin: "k \<in> set (conversations t)" using conversation_row [OF inv k] by auto
  have old: "conv_messages i ?t = conv_messages i t @ (if cn_id k = i then [m] else [])" "has_read ?t u j = has_read t u j" for i u j
    by (simp_all add: conv_messages_def has_read_def add_message_def put_conversation_def m(2))
  have "[1..cn_next k] = [1..cn_next k - 1] @ [cn_next k]"
    using ok upto_rec2 [of 1 "cn_next k"] by (simp add: conversation_ok_def)
  then have "conversation_ok ?t ?k"
    using ok m(3,4) by (auto simp: conversation_ok_def cursor_ok_def old)
  moreover have "conversation_ok ?t x = conversation_ok t x" if "cn_id x \<noteq> cn_id k" for x
    using that by (auto simp: conversation_ok_def cursor_ok_def old)
  moreover have "x = ?k \<or> x \<in> set (conversations t) \<and> cn_id x \<noteq> cn_id k" if "x \<in> set (conversations ?t)" for x
    using that by (auto simp: add_message_def put_conversation_def dest!: put_row_memD)
  ultimately have "\<forall>x\<in>set (conversations ?t). conversation_ok ?t x" using chat_parts(4) [OF inv] by blast
  moreover have "cn_id k < chat_next_id t" using chat_parts(1) [OF inv] kin by (auto simp: fresh_ids_def)
  ultimately show ?thesis
    using inv m(1,2) unfolding chat_ok_def
    by (auto simp: add_message_def put_conversation_def less_Suc_eq intro: fresh_ids_append fresh_ids_mono)
qed

lemma has_read_mono: "has_read t u i \<Longrightarrow> has_read (add_receipts rs t) u i"
  by (auto simp: has_read_def add_receipts_def)

lemma chat_receipts_added:
  assumes "chat_ok t"
  shows "chat_ok (add_receipts rs t)"
proof -
  have "conv_messages i (add_receipts rs t) = conv_messages i t" for i
    by (simp add: conv_messages_def add_receipts_def)
  then have "conversation_ok t k \<Longrightarrow> conversation_ok (add_receipts rs t) k" for k
    by (auto simp: conversation_ok_def cursor_ok_def intro: has_read_mono)
  then show ?thesis using assms by (auto simp: chat_ok_def add_receipts_def)
qed

lemma new_receipts_read:
  assumes "m \<in> set ms" and "READ \<in> set types"
    and "existing = filter (\<lambda>r. rc_user r = u \<and> rc_type r \<in> set types \<and> rc_message r \<in> set (map mg_id ms)) (receipts t)"
  shows "has_read (add_receipts (new_receipts env u types ms existing) t) u (mg_id m)"
proof (cases "list_ex (\<lambda>r. rc_message r = mg_id m \<and> rc_user r = u \<and> rc_type r = READ) existing")
  case True
  then show ?thesis using assms(3) by (auto simp: has_read_def add_receipts_def list_ex_iff)
next
  case False
  then have "\<lparr>rc_message = mg_id m, rc_user = u, rc_type = READ, rc_created = env_now env\<rparr> \<in>
      set (new_receipts env u types ms existing)"
    using assms(1,2) by (auto simp: new_receipts_def intro!: bexI [of _ m])
  then show ?thesis by (auto simp: has_read_def add_receipts_def intro!: bexI)
qed

lemma chat_cursor_moved:
  assumes inv: "chat_ok t" and k: "row_by cn_id (cn_id k) (conversations t) = Some k"
    and n: "0 \<le> n" "n \<le> max 0 (cn_next k - 1)"
    and read: "\<forall>m\<in>set (conv_messages (cn_id k) t). mg_sender m \<noteq> u \<and> mg_sequence m \<le> n \<longrightarrow> has_read t u (mg_id m)"
  shows "chat_ok (put_conversation (set_last_read u n k) t)" (is "chat_ok ?t")
proof -
  let ?k = "set_last_read u n k"
  have ok: "conversation_ok t k" using conversation_row [OF inv k] by auto
  have same: "conv_messages i (put_conversation x t) = conv_messages i t"
      "has_read (put_conversation x t) v j = has_read t v j" for i v j x
    by (simp_all add: conv_messages_def has_read_def put_conversation_def)
  have sel: "cn_id ?k = cn_id k" "cn_next ?k = cn_next k" by (simp_all add: set_last_read_def)
  have names: "map mb_user (cn_members ?k) = map mb_user (cn_members k)" by (simp add: set_last_read_def)
  then have users: "mb_user ` set (cn_members ?k) = mb_user ` set (cn_members k)" by (metis list.set_map)
  have "conversation_ok ?t ?k"
    using ok n read unfolding conversation_ok_def same sel users names
    by (auto simp: cursor_ok_def same sel set_last_read_def)
  moreover have "conversation_ok ?t x = conversation_ok t x" for x
    by (simp add: conversation_ok_def cursor_ok_def same)
  ultimately show ?thesis
    using inv unfolding chat_ok_def
    by (auto simp: put_conversation_def sel dest!: put_row_memD)
qed

section \<open>How the tables develop\<close>

definition conversation_step :: "conversation \<Rightarrow> conversation \<Rightarrow> bool" where
  "conversation_step k k' \<longleftrightarrow> k' = k\<lparr>cn_next := cn_next k', cn_members := cn_members k'\<rparr> \<and> cn_next k \<le> cn_next k' \<and>
     list_all2 (\<lambda>b b'. b' = b\<lparr>mb_last_read := mb_last_read b'\<rparr> \<and> mb_last_read b \<le> mb_last_read b') (cn_members k) (cn_members k')"

interpretation conversation_rows: row_history cn_id conversation_step
  by unfold_locales (simp add: conversation_step_def, metis conversation.select_convs(1) conversation.surjective conversation.update_convs(3) conversation.update_convs(5))

definition chat_kept :: "chat \<Rightarrow> chat \<Rightarrow> bool" where
  "chat_kept t t' \<longleftrightarrow> prefix (messages t) (messages t') \<and> prefix (receipts t) (receipts t') \<and>
     develops cn_id conversation_step (conversations t) (conversations t')"

definition chat_good :: "chat \<Rightarrow> chat \<Rightarrow> bool" where
  "chat_good t0 t \<longleftrightarrow> chat_ok t \<and> chat_kept t0 t"

lemma members_refl: "list_all2 (\<lambda>b b'. b' = b\<lparr>mb_last_read := mb_last_read b'\<rparr> \<and> mb_last_read b \<le> mb_last_read b') ms ms"
  by (rule list_all2_refl) simp

lemma step_numbered: "conversation_step k (k\<lparr>cn_next := cn_next k + 1\<rparr>)"
  by (simp add: conversation_step_def members_refl)

lemma step_read:
  assumes "distinct (map mb_user (cn_members k))" and "List.find (\<lambda>b. mb_user b = u) (cn_members k) = Some b"
    and "mb_last_read b \<le> n"
  shows "conversation_step k (set_last_read u n k)"
proof -
  have "x = b" if "x \<in> set (cn_members k)" "mb_user x = u" for x
    using that assms(1) find_SomeD [OF assms(2)] by (auto simp: distinct_map dest: inj_onD)
  then show ?thesis using assms(3)
    by (auto simp: conversation_step_def set_last_read_def list_all2_conv_all_nth) (metis nth_mem)
qed

lemma good_new_conversation:
  "chat_good t0 t \<Longrightarrow> cn_id k = chat_next_id t \<Longrightarrow> cn_next k = 1 \<Longrightarrow> \<forall>b\<in>set (cn_members k). mb_last_read b = 0 \<Longrightarrow>
    conversations_valid (add_conversation k (t\<lparr>chat_next_id := Suc (chat_next_id t)\<rparr>)) \<Longrightarrow>
    chat_good t0 (add_conversation k (t\<lparr>chat_next_id := Suc (chat_next_id t)\<rparr>))"
  using chat_new_conversation [of t k] by (simp add: chat_good_def chat_kept_def) (simp add: add_conversation_def)

lemma good_sent:
  assumes good: "chat_good t0 t" and row: "row_by cn_id (cn_id k) (conversations t) = Some k"
    and m: "is_conversation_member user k" "mg_id m = chat_next_id t" "mg_conversation m = cn_id k"
      "mg_sequence m = cn_next k" "mg_sender m = user_id user"
  shows "chat_good t0 (add_message m ((put_conversation (k\<lparr>cn_next := cn_next k + 1\<rparr>) t)\<lparr>chat_next_id := Suc (chat_next_id t)\<rparr>))"
proof -
  have "mg_sender m \<in> mb_user ` set (cn_members k)" using m(1,5) by (force simp: is_conversation_member_def list_ex_iff)
  then show ?thesis using good row chat_sent [OF _ row m(2-4)] step_numbered [of k]
    by (auto simp: chat_good_def chat_kept_def add_message_def put_conversation_def intro!: conversation_rows.put)
qed

lemma good_receipts: "chat_good t0 t \<Longrightarrow> chat_good t0 (add_receipts rs t)"
  using chat_receipts_added [of t rs] by (simp add: chat_good_def chat_kept_def) (simp add: add_receipts_def)

lemma chat_marked:
  assumes inv: "chat_ok t" and k: "row_by cn_id (cn_id k) (conversations t) = Some k" and "READ \<in> set types"
    and n: "0 \<le> n" "n \<le> max 0 (cn_next k - 1)"
    and ms: "ms = filter (\<lambda>m. mg_conversation m = cn_id k \<and> mg_sequence m \<le> n \<and> mg_sender m \<noteq> u) (messages t)"
    and old: "existing = filter (\<lambda>r. rc_user r = u \<and> rc_type r \<in> set types \<and> rc_message r \<in> set (map mg_id ms)) (receipts t)"
  shows "chat_ok (put_conversation (set_last_read u n k) (add_receipts (new_receipts env u types ms existing) t))"
    (is "chat_ok (put_conversation _ ?t)")
proof (rule chat_cursor_moved [OF chat_receipts_added [OF inv] _ n])
  have "has_read ?t u (mg_id m)"
    if "m \<in> set (conv_messages (cn_id k) t)" "mg_sender m \<noteq> u" "mg_sequence m \<le> n" for m
    by (rule new_receipts_read) (use that assms(3) old in \<open>auto simp: ms conv_messages_def\<close>)
  then show "\<forall>m\<in>set (conv_messages (cn_id k) ?t). mg_sender m \<noteq> u \<and> mg_sequence m \<le> n \<longrightarrow> has_read ?t u (mg_id m)"
    by (auto simp: conv_messages_def add_receipts_def)
qed (use k in \<open>simp add: add_receipts_def\<close>)

lemma good_marked:
  assumes good: "chat_good t0 t" and row: "row_by cn_id (cn_id k) (conversations t) = Some k" and "READ \<in> set types"
    and b: "List.find (\<lambda>b. mb_user b = u) (cn_members k) = Some b" "mb_last_read b \<le> n"
    and n: "0 \<le> n" "n \<le> max 0 (cn_next k - 1)"
    and ms: "ms = filter (\<lambda>m. mg_conversation m = cn_id k \<and> mg_sequence m \<le> n \<and> mg_sender m \<noteq> u) (messages t)"
    and old: "existing = filter (\<lambda>r. rc_user r = u \<and> rc_type r \<in> set types \<and> rc_message r \<in> set (map mg_id ms)) (receipts t)"
  shows "chat_good t0 (put_conversation (set_last_read u n k) (add_receipts (new_receipts env u types ms existing) t))"
proof -
  have ok: "chat_ok t" using good by (simp add: chat_good_def)
  have "distinct (map mb_user (cn_members k))" using conversation_row [OF ok row] by (simp add: conversation_ok_def)
  then have "conversation_step k (set_last_read u n k)" using b by (rule step_read)
  then show ?thesis using good row chat_marked [OF ok row assms(3) n ms old]
    by (auto simp: chat_good_def chat_kept_def add_receipts_def put_conversation_def set_last_read_def
        intro!: conversation_rows.put)
qed

section \<open>The requests\<close>

lemma wpI_chat_id:
  "Q (chat_next_id (own w)) (c, w\<lparr>own := (own w)\<lparr>chat_next_id := Suc (chat_next_id (own w))\<rparr>\<rparr>) \<Longrightarrow> wp chat_id Q E (c, w)"
  by (simp add: chat_id_def wp_eqs)

lemma wpI_find_conversation:
  "(\<And>k. row_by cn_id (cn_id k) (conversations (own w)) = Some k \<Longrightarrow> Q k (c, w)) \<Longrightarrow> (\<And>e. E e (c, w)) \<Longrightarrow>
    wp (find_conversation i) Q E (c, w)"
  by (auto simp: find_conversation_def wp_eqs split: option.split dest: row_by_SomeD)

lemma wpI_validated_attachments:
  "(\<And>x. Q ids (c, w)) \<Longrightarrow> (\<And>e. E e (c, w)) \<Longrightarrow> wp (validated_attachments u ids) Q E (c, w)"
  by (auto simp: validated_attachments_def wp_eqs split: sum.split)

lemma wpI_notify_recipients:
  assumes "\<And>k. beside (core w) k \<Longrightarrow> same_rows (core w) k \<Longrightarrow> Q () (c, w\<lparr>core := k\<rparr>)"
  shows "wp (for_each us (\<lambda>u. on_core (enqueue_outbox_event ty agg aid (f u)))) Q E (c, w)"
proof (rule wpI_for_each [where I = "\<lambda>w'. \<exists>k. beside (core w) k \<and> same_rows (core w) k \<and> w' = w\<lparr>core := k\<rparr>"])
  show "\<exists>k. beside (core w) k \<and> same_rows (core w) k \<and> w = w\<lparr>core := k\<rparr>"
    by (rule exI [of _ "core w"]) (simp add: same_rows_def)
next
  fix u w' assume "\<exists>k. beside (core w) k \<and> same_rows (core w) k \<and> w' = w\<lparr>core := k\<rparr>"
  then obtain k where k: "beside (core w) k" "same_rows (core w) k" "w' = w\<lparr>core := k\<rparr>" by blast
  show "wp (on_core (enqueue_outbox_event ty agg aid (f u)))
      (\<lambda>_ s. \<exists>w'. s = (c, w') \<and> (\<exists>k. beside (core w) k \<and> same_rows (core w) k \<and> w' = w\<lparr>core := k\<rparr>)) E (c, w')"
    by (rule wpI_site_outbox) (use k in \<open>auto intro: beside_trans simp: same_rows_def\<close>)
qed (use assms in auto)

lemmas chat_rules = wpI_chat_id wpI_find_conversation wpI_validated_attachments wpI_notify_recipients site_rules

lemma keeps_get_conversation_for_user: "keeps (site_ok (\<lambda>s. chat_good t0 (own s)) d) (get_conversation_for_user user i)"
  apply (rule site_keepsI)
  apply (unfold get_conversation_for_user_def)
  apply (rule chat_rules | (simp add: site_ok_def; fail))+
  done

lemma keeps_get_or_create_contract_conversation:
  "keeps (site_ok (\<lambda>s. chat_good t0 (own s)) d) (get_or_create_contract_conversation env user cid)"
  apply (rule site_keepsI)
  apply (unfold get_or_create_contract_conversation_def get_conversation_for_user_def)
  apply (rule chat_rules | (simp add: site_ok_def; fail)
    | (simp add: site_ok_def, intro conjI good_new_conversation; (assumption | simp; fail | meson beside_trans)))+
  done

lemma chat_next_id_put [simp]: "chat_next_id (put_conversation k t) = chat_next_id t"
  by (simp add: put_conversation_def)

lemma keeps_send_message: "keeps (site_ok (\<lambda>s. chat_good t0 (own s)) d) (send_message env user i client_id body ids)"
  apply (rule site_keepsI)
  apply (unfold send_message_def)
  apply (rule chat_rules | (simp add: site_ok_def; fail)
    | (simp add: site_ok_def, intro conjI good_sent; (assumption | simp | meson beside_trans)))+
  done

lemma keeps_mark_receipts:
  "cursor \<longrightarrow> READ \<in> set types \<Longrightarrow> keeps (site_ok (\<lambda>s. chat_good t0 (own s)) d) (mark_receipts env user i n types cursor)"
  apply (rule site_keepsI)
  apply (unfold mark_receipts_def)
  apply (rule chat_rules | (simp add: site_ok_def; fail)
    | (simp add: site_ok_def, intro conjI good_marked good_receipts; (assumption | rule refl | simp; fail | meson beside_trans)))+
  done

lemma keeps_mark_delivered: "keeps (site_ok (\<lambda>s. chat_good t0 (own s)) d) (mark_delivered env user i n)"
  unfolding mark_delivered_def by (rule keeps_mark_receipts) simp

lemma keeps_mark_read: "keeps (site_ok (\<lambda>s. chat_good t0 (own s)) d) (mark_read env user i n)"
  unfolding mark_read_def by (rule keeps_mark_receipts) simp

section \<open>Messaging beside the platform\<close>

inductive chat_request :: "chat site \<Rightarrow> chat site \<Rightarrow> bool" where
  open_chat: "chat_request s (site_after (get_or_create_contract_conversation env user cid) s)"
| send: "chat_request s (site_after (send_message env user i client_id body ids) s)"
| delivered: "chat_request s (site_after (mark_delivered env user i n) s)"
| read: "chat_request s (site_after (mark_read env user i n) s)"

definition empty_chat :: "chat \<Rightarrow> bool" where
  "empty_chat t \<longleftrightarrow> conversations t = [] \<and> messages t = [] \<and> receipts t = []"

lemma chat_kept_refl: "chat_kept t t"
  by (simp add: chat_kept_def)

lemma chat_kept_trans: "chat_kept t u \<Longrightarrow> chat_kept u v \<Longrightarrow> chat_kept t v"
  unfolding chat_kept_def by (meson conversation_rows.trans prefix_order.trans)

lemmas chat_requests_keep = keeps_get_or_create_contract_conversation keeps_send_message keeps_mark_delivered keeps_mark_read

lemma chat_request_good:
  "chat_request s s' \<Longrightarrow> chat_ok (own s) \<Longrightarrow> chat_good (own s) (own s') \<and> beside (core s) (core s')"
  by (erule chat_request.cases; hypsubst; rule site_after_keeps [where I = "\<lambda>t. chat_good (own s) (own t)"], rule chat_requests_keep; simp add: chat_good_def chat_kept_refl)

lemma empty_chat_ok: "empty_chat t \<Longrightarrow> chat_ok t"
  by (simp add: empty_chat_def chat_ok_def fresh_ids_def)

interpretation chat: site_history "\<lambda>s. empty_chat (own s)" chat_request "\<lambda>s. chat_ok (own s)" "\<lambda>s s'. chat_kept (own s) (own s')"
  by unfold_locales (use chat_request_good chat_kept_refl chat_kept_trans empty_chat_ok in \<open>auto simp: chat_good_def\<close>)

definition reachable_chat :: "chat site \<Rightarrow> bool" where
  "reachable_chat s \<longleftrightarrow> reachable (site_start (\<lambda>s. empty_chat (own s))) (site_step chat_request) s"

lemma reachable_chat_ok: "reachable_chat s \<Longrightarrow> chat_ok (own s) \<and> sys_inv (core s)"
  unfolding reachable_chat_def by (drule chat.system.reachable_inv) (simp add: site_inv_def)

section \<open>Retries\<close>

lemma send_message_replay:
  assumes "strip client_id \<noteq> []" "length (strip client_id) \<le> 80" "length (strip body) \<le> max_message_body"
    "length ids \<le> max_attachments" "distinct ids" "strip body \<noteq> [] \<or> ids \<noteq> []"
    and "row_by cn_id i (conversations (own s)) = Some k" "is_conversation_member user k"
    and "prior_message (cn_id k) (user_id user) (strip client_id) (own s) = Some m"
    and "mg_body m = strip body" "sort (map str_uuid (mg_attachments m)) = sort (map str_uuid ids)"
  shows "run_request (send_message env user i client_id body ids) s = (Inr m, s)"
  using assms
  by (auto simp: run_request_def send_message_def find_conversation_def Let_def bnd_def query_own_def query_def found_def
      raise_def ret_def distinct_card[symmetric] length_remdups_card_conv)

lemma wpI_find_conversation_exact:
  "(\<And>k. row_by cn_id i (conversations (own w)) = Some k \<Longrightarrow> cn_id k = i \<Longrightarrow> Q k (c, w)) \<Longrightarrow> (\<And>e. E e (c, w)) \<Longrightarrow>
    wp (find_conversation i) Q E (c, w)"
  by (auto simp: find_conversation_def wp_eqs split: option.split dest: row_by_SomeD)

lemma prior_message_sent:
  assumes "prior_message i u cid t = None" and "mg_conversation m = i" "mg_sender m = u" "mg_client_id m = cid"
  shows "prior_message i u cid (add_message m ((put_conversation k t)\<lparr>chat_next_id := n\<rparr>)) = Some m"
  using assms by (simp add: prior_message_def add_message_def put_conversation_def find_append)

lemma new_message_row:
  assumes "chat_ok t" and "mg_id m = chat_next_id t"
  shows "row_by mg_id (chat_next_id t) (messages (add_message m ((put_conversation k t)\<lparr>chat_next_id := n\<rparr>))) = Some m"
proof -
  have "row_by mg_id (chat_next_id t) (messages t) = None"
    using chat_parts(2) [OF assms(1)] by (cases "row_by mg_id (chat_next_id t) (messages t)") (auto simp: fresh_ids_def dest!: row_by_SomeD)
  then show ?thesis using assms(2) by (simp add: add_message_def put_conversation_def row_by_append)
qed

lemma conversation_sent:
  assumes "row_by cn_id i (conversations t) = Some k" and "cn_id k = i"
  shows "row_by cn_id i (conversations (add_message m ((put_conversation (k\<lparr>cn_next := a\<rparr>) t)\<lparr>chat_next_id := n\<rparr>))) = Some (k\<lparr>cn_next := a\<rparr>)"
  using assms by (simp add: add_message_def put_conversation_def row_by_put_row)

lemma sent_message_replays:
  assumes "strip client_id \<noteq> []" "length (strip client_id) \<le> 80" "length (strip body) \<le> max_message_body"
    "length ids \<le> max_attachments" "distinct ids" "strip body \<noteq> [] \<or> ids \<noteq> []"
    and row: "row_by cn_id i (conversations t) = Some k" "cn_id k = i" and mem: "is_conversation_member user k"
    and new: "prior_message i (user_id user) (strip client_id) t = None"
    and m: "mg_conversation m = i" "mg_sender m = user_id user" "mg_client_id m = strip client_id"
      "mg_body m = strip body" "mg_attachments m = ids"
    and s: "own s = add_message m ((put_conversation (k\<lparr>cn_next := a\<rparr>) t)\<lparr>chat_next_id := n\<rparr>)"
  shows "run_request (send_message env user i client_id body ids) s = (Inr m, s)"
proof (rule send_message_replay [OF assms(1-6)])
  show "row_by cn_id i (conversations (own s)) = Some (k\<lparr>cn_next := a\<rparr>)"
    unfolding s by (rule conversation_sent [OF row])
  show "prior_message (cn_id (k\<lparr>cn_next := a\<rparr>)) (user_id user) (strip client_id) (own s) = Some m"
    unfolding s using row(2) by (simp add: prior_message_sent [OF new m(1-3)])
qed (use mem m in \<open>simp_all add: is_conversation_member_def\<close>)

lemma send_message_repeats:
  assumes "run_request (send_message env user i client_id body ids) s = (Inr m, s')" and "chat_ok (own s)"
  shows "run_request (send_message env' user i client_id body ids) s' = (Inr m, s')"
  apply (rule run_request_ok [OF assms(1), where Q = "\<lambda>m s. run_request (send_message env' user i client_id body ids) s = (Inr m, s)"])
  apply (unfold send_message_def [of env])
  apply (rule wpI_find_conversation_exact chat_rules TrueI
    | (simp add: new_message_row [OF assms(2)], rule sent_message_replays; (assumption | simp; fail))
    | (simp, rule send_message_replay; (assumption | auto; fail)))+
  done

end
