(* ===== verification/Calls.thy ===== *)
theory Calls
  imports Chat
begin

text \<open>
  Calls between the two members of a conversation (\<open>app/calls/service.py\<close>): an invitation is
  retry-safe by a client call id, the callee accepts, either party ends, and while a call is
  active its parties exchange WebRTC signals. The exchange holds the conversations beside the
  calls, since a call is placed in one; the two services run over the same core.
\<close>

section \<open>Tables\<close>

datatype call_type = VOICE | VIDEO
datatype call_status = INVITED | ACTIVE | ENDED

record call =
  ca_id :: uuid
  ca_conversation :: uuid
  ca_caller :: uuid
  ca_callee :: uuid
  ca_client_id :: string
  ca_type :: call_type
  ca_status :: call_status
  ca_created :: nat
  ca_accepted :: "nat option"
  ca_ended :: "nat option"
  ca_ended_by :: "uuid option"
  ca_end_reason :: "string option"

record exchange =
  line_chat :: chat
  line_next_id :: nat
  calls :: "call list"

type_synonym 'a line_op = "(exchange, 'a) sop"

definition call_row_valid :: "call \<Rightarrow> bool" where
  "call_row_valid c \<longleftrightarrow> ca_caller c \<noteq> ca_callee c \<and>
     (ca_status c = INVITED \<longrightarrow> ca_accepted c = None \<and> ca_ended c = None) \<and>
     (ca_status c = ACTIVE \<longrightarrow> ca_accepted c \<noteq> None \<and> ca_ended c = None) \<and>
     (ca_status c = ENDED \<longrightarrow> ca_ended c \<noteq> None) \<and>
     (ca_ended_by c = None \<or> ca_ended_by c = Some (ca_caller c) \<or> ca_ended_by c = Some (ca_callee c))"

definition live :: "call \<Rightarrow> bool" where
  "live c \<longleftrightarrow> ca_status c = INVITED \<or> ca_status c = ACTIVE"

definition calls_valid :: "exchange \<Rightarrow> bool" where
  "calls_valid t \<longleftrightarrow> list_all call_row_valid (calls t) \<and>
     distinct (map (\<lambda>c. (ca_caller c, ca_client_id c)) (calls t)) \<and>
     distinct (map ca_conversation (filter live (calls t)))"

definition add_call :: "call \<Rightarrow> exchange \<Rightarrow> exchange" where
  "add_call c t = t\<lparr>calls := calls t @ [c]\<rparr>"

definition put_call :: "call \<Rightarrow> exchange \<Rightarrow> exchange" where
  "put_call c t = t\<lparr>calls := put_row ca_id c (calls t)\<rparr>"

definition line_id :: "uuid line_op" where
  "line_id = bnd (query_own line_next_id) (\<lambda>i. seq (modify_own (\<lambda>t. t\<lparr>line_next_id := Suc i\<rparr>)) (ret i))"

fun call_type_str :: "call_type \<Rightarrow> string" where
  "call_type_str VOICE = ''VOICE''"
| "call_type_str VIDEO = ''VIDEO''"

definition call_type_of :: "string \<Rightarrow> call_type option" where
  "call_type_of s = (if s = ''VOICE'' then Some VOICE else if s = ''VIDEO'' then Some VIDEO else None)"

fun call_status_str :: "call_status \<Rightarrow> string" where
  "call_status_str INVITED = ''INVITED''"
| "call_status_str ACTIVE = ''ACTIVE''"
| "call_status_str ENDED = ''ENDED''"

section \<open>Lookups\<close>

definition call_by_client_id :: "uuid \<Rightarrow> string \<Rightarrow> exchange \<Rightarrow> call option" where
  "call_by_client_id u client_id t = List.find (\<lambda>c. ca_caller c = u \<and> ca_client_id c = client_id) (calls t)"

definition live_call :: "uuid \<Rightarrow> exchange \<Rightarrow> call option" where
  "live_call i t = List.find (\<lambda>c. ca_conversation c = i \<and> live c) (calls t)"

definition is_call_party :: "user \<Rightarrow> call \<Rightarrow> bool" where
  "is_call_party user c \<longleftrightarrow> user_id user \<in> {ca_caller c, ca_callee c}"

definition locked_call :: "uuid \<Rightarrow> call line_op" where
  "locked_call i = bnd (query_own (\<lambda>t. row_by ca_id i (calls t))) (found (ApiError ''call_not_found'' 404))"

definition get_call_for_user :: "user \<Rightarrow> uuid \<Rightarrow> call line_op" where
  "get_call_for_user user i = bnd (locked_call i) (\<lambda>c. seq (require (is_call_party user c) (ApiError ''forbidden'' 403)) (ret c))"

definition get_live_call_for_conversation :: "user \<Rightarrow> uuid \<Rightarrow> call option line_op" where
  "get_live_call_for_conversation user i =
    bnd (query_own (\<lambda>t. row_by cn_id i (conversations (line_chat t)))) (\<lambda>r.
    bnd (found (ApiError ''conversation_not_found'' 404) r) (\<lambda>k.
    if \<not> is_conversation_member user k then raise (ApiError ''forbidden'' 403) else
    query_own (\<lambda>t. case sort_key (\<lambda>c. - int (ca_created c))
        (filter (\<lambda>c. ca_conversation c = cn_id k \<and> live c) (calls t)) of
      [] \<Rightarrow> None | c # _ \<Rightarrow> Some c)))"

section \<open>Inviting, accepting, ending\<close>

definition call_notification :: "call \<Rightarrow> json" where
  "call_notification c = JObj
     [(''user_id'', j_id (ca_callee c)), (''event_type'', JStr ''call.invited''), (''title'', JStr ''Incoming call''),
      (''body'', JStr (''Incoming '' @ lower (call_type_str (ca_type c)) @ '' call'')),
      (''dedupe_key'', JStr (''call:'' @ str_uuid (ca_id c) @ '':invite'')),
      (''payload'', JObj [(''call_id'', j_id (ca_id c)), (''conversation_id'', j_id (ca_conversation c)),
         (''caller_user_id'', j_id (ca_caller c)), (''call_type'', JStr (call_type_str (ca_type c)))])]"

definition invite_call :: "env \<Rightarrow> user \<Rightarrow> uuid \<Rightarrow> string \<Rightarrow> string \<Rightarrow> (call \<times> bool) line_op" where
  "invite_call env user i client_call_id type_text =
    (let client_id = strip client_call_id in
    if client_id = [] \<or> length client_id > 80 then raise (ApiError ''validation_error'' 422) else
    bnd (found (ApiError ''validation_error'' 422) (call_type_of (upper (strip type_text)))) (\<lambda>ty.
    bnd (query_own (\<lambda>t. row_by cn_id i (conversations (line_chat t)))) (\<lambda>r.
    bnd (found (ApiError ''conversation_not_found'' 404) r) (\<lambda>k.
    let member_ids = remdups (map mb_user (cn_members k)) in
    if user_id user \<notin> set member_ids then raise (ApiError ''forbidden'' 403)
    else if length member_ids \<noteq> 2 then raise (ApiError ''unsupported_call_topology'' 409) else
    let callee = hd (filter (\<lambda>u. u \<noteq> user_id user) member_ids) in
    bnd (query_own (call_by_client_id (user_id user) client_id)) (\<lambda>prior.
    case prior of
      Some c \<Rightarrow> if ca_conversation c \<noteq> cn_id k \<or> ca_type c \<noteq> ty
                then raise (ApiError ''client_call_id_reused'' 409) else ret (c, False)
    | None \<Rightarrow>
    bnd (query_own (live_call (cn_id k))) (\<lambda>busy.
    if busy \<noteq> None then raise (ApiError ''conversation_busy'' 409) else
    bnd line_id (\<lambda>cid.
    let c = \<lparr>ca_id = cid, ca_conversation = cn_id k, ca_caller = user_id user, ca_callee = callee,
             ca_client_id = client_id, ca_type = ty, ca_status = INVITED, ca_created = env_now env,
             ca_accepted = None, ca_ended = None, ca_ended_by = None, ca_end_reason = None\<rparr> in
    seq (modify_own (add_call c)) (
    seq (on_core (enqueue_outbox_event ''notification.requested'' ''call'' (str_uuid cid) (call_notification c))) (
    seq (on_core (record_audit_event env ''call.invited'' ''call'' (Some (user_id user)) (Some (str_uuid cid)) None None
          (JObj [(''conversation_id'', j_id (cn_id k)), (''callee_user_id'', j_id callee),
                 (''call_type'', JStr (call_type_str ty))]))) (
    bnd (catch (seq (flush_own calls_valid) (seq commit (ret None)))
      (\<lambda>e. if e \<noteq> IntegrityError then raise e else
           seq rollback (
           bnd (query_own (call_by_client_id (user_id user) client_id)) (\<lambda>concurrent.
           case concurrent of
             None \<Rightarrow> raise (ApiError ''conversation_busy'' 409)
           | Some c' \<Rightarrow> if ca_conversation c' = cn_id k \<and> ca_type c' = ty then ret (Some c')
                        else raise (ApiError ''conversation_busy'' 409))))) (\<lambda>race.
    ret (case race of None \<Rightarrow> (c, True) | Some c' \<Rightarrow> (c', False)))))))))))))"

definition accept_call :: "env \<Rightarrow> user \<Rightarrow> uuid \<Rightarrow> (call \<times> bool) line_op" where
  "accept_call env user i =
    bnd (locked_call i) (\<lambda>c.
    seq (require (is_call_party user c) (ApiError ''forbidden'' 403)) (
    if user_id user \<noteq> ca_callee c then raise (ApiError ''forbidden'' 403)
    else if ca_status c = ACTIVE then ret (c, False)
    else if ca_status c \<noteq> INVITED then raise (ApiError ''invalid_call_state'' 409) else
    let c' = c\<lparr>ca_status := ACTIVE, ca_accepted := Some (env_now env)\<rparr> in
    seq (modify_own (put_call c')) (
    seq (on_core (record_audit_event env ''call.accepted'' ''call'' (Some (user_id user)) (Some (str_uuid (ca_id c)))
          None None (JObj [(''conversation_id'', j_id (ca_conversation c))]))) (
    seq (flush_own calls_valid) (
    seq commit (ret (c', True)))))))"

definition max_end_reason :: nat where "max_end_reason = 500"

definition end_call :: "env \<Rightarrow> user \<Rightarrow> uuid \<Rightarrow> string \<Rightarrow> (call \<times> bool) line_op" where
  "end_call env user i reason =
    bnd (locked_call i) (\<lambda>c.
    seq (require (is_call_party user c) (ApiError ''forbidden'' 403)) (
    let text = strip reason in
    if length text > max_end_reason then raise (ApiError ''validation_error'' 422)
    else if ca_status c = ENDED then ret (c, False) else
    let c' = c\<lparr>ca_status := ENDED, ca_ended := Some (env_now env), ca_ended_by := Some (user_id user),
               ca_end_reason := (if text = [] then None else Some text)\<rparr> in
    seq (modify_own (put_call c')) (
    seq (on_core (record_audit_event env ''call.ended'' ''call'' (Some (user_id user)) (Some (str_uuid (ca_id c)))
          None None (JObj [(''conversation_id'', j_id (ca_conversation c)),
            (''previous_status'', JStr (call_status_str (ca_status c))), (''reason'', JStr text)]))) (
    seq (flush_own calls_valid) (
    seq commit (ret (c', True)))))))"

section \<open>Signalling\<close>

definition signal_peer :: "user \<Rightarrow> uuid \<Rightarrow> (call \<times> uuid) line_op" where
  "signal_peer user i =
    bnd (get_call_for_user user i) (\<lambda>c.
    if ca_status c \<noteq> ACTIVE then raise (ApiError ''invalid_call_state'' 409)
    else ret (c, if user_id user = ca_caller c then ca_callee c else ca_caller c))"

text \<open>\<open>len(json.dumps(payload, ensure_ascii=False).encode())\<close>: the length does not depend on the
  order of the keys, and a code point from 128 to 255 takes two bytes.\<close>

definition max_signal_bytes :: nat where "max_signal_bytes = 262144"

definition utf8_length :: "string \<Rightarrow> nat" where
  "utf8_length s = sum_list (map (\<lambda>c. if (of_char c :: nat) < 128 then 1 else 2) s)"

definition ensure_bounded_json :: "json \<Rightarrow> exn + unit" where
  "ensure_bounded_json payload = (if utf8_length (dumps False payload) > max_signal_bytes
     then Inl (ApiError ''payload_too_large'' 422) else Inr ())"

definition is_json_str :: "json \<Rightarrow> bool" where
  "is_json_str v = (case v of JStr _ \<Rightarrow> True | _ \<Rightarrow> False)"

definition validate_session_description :: "json \<Rightarrow> string \<Rightarrow> exn + json" where
  "validate_session_description v expected_type =
    (case v of
      JObj kvs \<Rightarrow>
        if jget v ''type'' \<noteq> JStr expected_type \<or> \<not> is_json_str (jget v ''sdp'')
        then Inl (ApiError ''validation_error'' 422)
        else (case ensure_bounded_json v of Inl e \<Rightarrow> Inl e | Inr _ \<Rightarrow> Inr v)
    | _ \<Rightarrow> Inl (ApiError ''validation_error'' 422))"

definition validate_ice_candidate :: "json \<Rightarrow> exn + json" where
  "validate_ice_candidate v =
    (case v of
      JObj kvs \<Rightarrow>
        (case jget v ''candidate'' of
          JNull \<Rightarrow> (case ensure_bounded_json v of Inl e \<Rightarrow> Inl e | Inr _ \<Rightarrow> Inr v)
        | JStr s \<Rightarrow> (case ensure_bounded_json v of Inl e \<Rightarrow> Inl e | Inr _ \<Rightarrow> Inr v)
        | _ \<Rightarrow> Inl (ApiError ''validation_error'' 422))
    | _ \<Rightarrow> Inl (ApiError ''validation_error'' 422))"

definition serialize_call :: "env \<Rightarrow> call \<Rightarrow> json" where
  "serialize_call env c = JObj
     [(''id'', j_id (ca_id c)), (''conversation_id'', j_id (ca_conversation c)),
      (''caller_user_id'', j_id (ca_caller c)), (''callee_user_id'', j_id (ca_callee c)),
      (''client_call_id'', JStr (ca_client_id c)), (''call_type'', JStr (call_type_str (ca_type c))),
      (''status'', JStr (call_status_str (ca_status c))), (''created_at'', JStr (env_iso env (ca_created c))),
      (''accepted_at'', j_opt (\<lambda>t. JStr (env_iso env t)) (ca_accepted c)),
      (''ended_at'', j_opt (\<lambda>t. JStr (env_iso env t)) (ca_ended c)),
      (''ended_by_user_id'', j_opt j_id (ca_ended_by c)), (''end_reason'', j_opt JStr (ca_end_reason c))]"

end
