(* ===== verification/Lines.thy ===== *)
theory Lines
  imports Calls
begin

text \<open>
  Calls keep their tables in order: parties are the two members of the call's conversation, a
  conversation has one live call at most, time stamps fit the status, and a call moves only
  from INVITED over ACTIVE to ENDED. The contract holds beside messaging and the platform, whose
  steps interleave with the requests on calls.
\<close>

section \<open>The invariant\<close>

definition call_ok :: "exchange \<Rightarrow> call \<Rightarrow> bool" where
  "call_ok t c \<longleftrightarrow> (\<exists>k\<in>set (conversations (line_chat t)). cn_id k = ca_conversation c \<and>
     mb_user ` set (cn_members k) = {ca_caller c, ca_callee c})"

definition calls_ok :: "exchange \<Rightarrow> bool" where
  "calls_ok t \<longleftrightarrow> chat_ok (line_chat t) \<and> fresh_ids ca_id (calls t) (line_next_id t) \<and> calls_valid t \<and>
     (\<forall>c\<in>set (calls t). call_ok t c)"

inductive call_edge :: "call_status \<Rightarrow> call_status \<Rightarrow> bool" where
  accepted: "call_edge INVITED ACTIVE"
| declined: "call_edge INVITED ENDED"
| hung_up: "call_edge ACTIVE ENDED"

inductive_simps call_edge_simps [simp]: "call_edge INVITED s" "call_edge ACTIVE s" "call_edge ENDED s"

definition call_step :: "call \<Rightarrow> call \<Rightarrow> bool" where
  "call_step c c' \<longleftrightarrow> call_edge (ca_status c) (ca_status c') \<and>
     c' = c\<lparr>ca_status := ca_status c', ca_accepted := ca_accepted c', ca_ended := ca_ended c',
       ca_ended_by := ca_ended_by c', ca_end_reason := ca_end_reason c'\<rparr>"

lemma call_step_key: "call_step c c' \<Longrightarrow> ca_id c' = ca_id c \<and> ca_conversation c' = ca_conversation c \<and>
    ca_caller c' = ca_caller c \<and> ca_callee c' = ca_callee c \<and> ca_client_id c' = ca_client_id c \<and> ca_type c' = ca_type c"
  by (cases c; cases c') (simp add: call_step_def)

interpretation call_rows: row_history ca_id call_step
  by unfold_locales (simp add: call_step_key)

definition lines_kept :: "exchange \<Rightarrow> exchange \<Rightarrow> bool" where
  "lines_kept t t' \<longleftrightarrow> develops ca_id call_step (calls t) (calls t') \<and> chat_kept (line_chat t) (line_chat t')"

definition lines_good :: "exchange \<Rightarrow> exchange \<Rightarrow> bool" where
  "lines_good t0 t \<longleftrightarrow> calls_ok t \<and> lines_kept t0 t"

lemma good_parts:
  assumes "lines_good t0 t"
  shows "chat_ok (line_chat t)" "fresh_ids ca_id (calls t) (line_next_id t)" "calls_valid t"
    "c \<in> set (calls t) \<Longrightarrow> call_ok t c" "lines_kept t0 t"
  using assms by (simp_all add: lines_good_def calls_ok_def)

section \<open>Table updates\<close>

lemma goodI:
  "chat_ok (line_chat t) \<Longrightarrow> fresh_ids ca_id (calls t) (line_next_id t) \<Longrightarrow> calls_valid t \<Longrightarrow>
    (\<And>c. c \<in> set (calls t) \<Longrightarrow> call_ok t c) \<Longrightarrow> lines_kept t0 t \<Longrightarrow> lines_good t0 t"
  by (simp add: lines_good_def calls_ok_def)

lemma calls_tables:
  "calls (add_call c t) = calls t @ [c]" "line_chat (add_call c t) = line_chat t" "line_next_id (add_call c t) = line_next_id t"
  "calls (put_call c t) = put_row ca_id c (calls t)" "line_chat (put_call c t) = line_chat t"
  "line_next_id (put_call c t) = line_next_id t" "call_ok (add_call c t) = call_ok t" "call_ok (put_call c t) = call_ok t"
  "call_ok (t\<lparr>line_next_id := n\<rparr>) = call_ok t"
  by (simp_all add: add_call_def put_call_def call_ok_def fun_eq_iff)

lemma two_members:
  assumes "length (remdups us) = 2" and "u \<in> set us"
  shows "set us = {u, hd (filter (\<lambda>x. x \<noteq> u) (remdups us))}"
proof -
  obtain a b where ab: "remdups us = [a, b]"
    using assms(1) by (auto simp: numeral_2_eq_2 length_Suc_conv)
  have "set us = set [a, b]" using ab set_remdups [of us] by simp
  moreover have "a \<noteq> b" using ab distinct_remdups [of us] by simp
  ultimately show ?thesis using assms(2) unfolding ab by auto
qed

lemma good_added:
  assumes good: "lines_good t0 t" and k: "row_by cn_id i (conversations (line_chat t)) = Some k"
    and valid: "calls_valid (add_call c (t\<lparr>line_next_id := Suc (line_next_id t)\<rparr>))"
    and c: "ca_id c = line_next_id t" "ca_conversation c = cn_id k" "ca_caller c = u"
      "ca_callee c = hd (filter (\<lambda>x. x \<noteq> u) (remdups (map mb_user (cn_members k))))"
    and two: "length (remdups (map mb_user (cn_members k))) = 2" "u \<in> mb_user ` set (cn_members k)"
  shows "lines_good t0 (add_call c (t\<lparr>line_next_id := Suc (line_next_id t)\<rparr>))"
proof -
  have "set (map mb_user (cn_members k)) = {u, ca_callee c}"
    unfolding c(4) by (rule two_members [OF two(1)]) (use two(2) in simp)
  then have "call_ok t c" using c(2,3) row_by_SomeD [OF k] by (auto simp: call_ok_def)
  then have rows: "\<forall>x\<in>set (calls t @ [c]). call_ok t x" using good_parts(4) [OF good] by simp
  have "fresh_ids ca_id (calls t @ [c]) (Suc (line_next_id t))"
    using good_parts(2) [OF good] c(1) by (auto intro: fresh_ids_append fresh_ids_mono)
  then show ?thesis
    using good_parts(1,5) [OF good] rows
    by (intro goodI valid) (auto simp: calls_tables lines_kept_def)
qed

lemma good_moved:
  assumes good: "lines_good t0 t" and row: "row_by ca_id (ca_id c) (calls t) = Some c"
    and step: "call_step c c'" and valid: "calls_valid (put_call c' t)"
  shows "lines_good t0 (put_call c' t)"
proof -
  have "call_ok t c" using good_parts(4) [OF good] row_by_SomeD [OF row] by simp
  then have "call_ok t c'" using call_step_key [OF step] by (simp add: call_ok_def)
  moreover have "call_ok t x" if "x \<in> set (calls t)" for x using good_parts(4) [OF good that] .
  ultimately have rows: "\<forall>x\<in>set (put_row ca_id c' (calls t)). call_ok t x" by (auto dest: put_row_memD)
  have "fresh_ids ca_id (put_row ca_id c' (calls t)) (line_next_id t)"
    using good_parts(2) [OF good] row_by_SomeD [OF row] call_step_key [OF step]
    by (auto simp: fresh_ids_def dest!: put_row_memD)
  moreover have "develops ca_id call_step (calls t0) (put_row ca_id c' (calls t))"
    using good_parts(5) [OF good] row step call_step_key [OF step]
    by (intro call_rows.put) (auto simp: lines_kept_def)
  ultimately show ?thesis
    using good_parts(1,5) [OF good] rows
    by (intro goodI valid) (auto simp: calls_tables lines_kept_def)
qed

lemma members_kept:
  assumes "list_all2 (\<lambda>b b'. b' = b\<lparr>mb_last_read := mb_last_read b'\<rparr> \<and> mb_last_read b \<le> mb_last_read b') ms ms'"
  shows "map mb_user ms' = map mb_user ms"
  using assms by induction (simp_all, metis member.select_convs(1) member.surjective member.update_convs(3))

lemma steps_members: "conversation_step\<^sup>*\<^sup>* k k' \<Longrightarrow> map mb_user (cn_members k') = map mb_user (cn_members k)"
  by (induction rule: rtranclp_induct) (auto simp: conversation_step_def members_kept)

lemma good_chat:
  assumes good: "lines_good t0 t" and u: "chat_good (line_chat t) u"
  shows "lines_good t0 (t\<lparr>line_chat := u\<rparr>)"
proof -
  have "call_ok (t\<lparr>line_chat := u\<rparr>) c" if c: "c \<in> set (calls t)" for c
  proof -
    obtain k where k: "k \<in> set (conversations (line_chat t))" "cn_id k = ca_conversation c"
        "mb_user ` set (cn_members k) = {ca_caller c, ca_callee c}"
      using good_parts(4) [OF good c] by (auto simp: call_ok_def)
    have "row_by cn_id (cn_id k) (conversations (line_chat t)) = Some k"
      using chat_parts(1) [OF good_parts(1) [OF good]] k(1) by (simp add: fresh_ids_def row_by_Some_iff)
    then obtain k' where "row_by cn_id (cn_id k) (conversations u) = Some k'" "conversation_step\<^sup>*\<^sup>* k k'"
      using u unfolding chat_good_def chat_kept_def develops_def by blast
    then have "k' \<in> set (conversations u)" "cn_id k' = ca_conversation c"
        "mb_user ` set (cn_members k') = {ca_caller c, ca_callee c}"
      using k(2,3) steps_members [of k k'] row_by_SomeD [of cn_id _ "conversations u"] by (auto simp flip: set_map)
    then show ?thesis by (auto simp: call_ok_def)
  qed
  then show ?thesis
    using good u by (auto simp: lines_good_def calls_ok_def lines_kept_def chat_good_def calls_valid_def intro: chat_kept_trans)
qed

section \<open>The requests\<close>

lemma wpI_line_id:
  "Q (line_next_id (own w)) (c, w\<lparr>own := (own w)\<lparr>line_next_id := Suc (line_next_id (own w))\<rparr>\<rparr>) \<Longrightarrow> wp line_id Q E (c, w)"
  by (simp add: line_id_def wp_eqs)

lemma wpI_locked_call:
  "(\<And>k. row_by ca_id (ca_id k) (calls (own w)) = Some k \<Longrightarrow> Q k (c, w)) \<Longrightarrow> (\<And>e. E e (c, w)) \<Longrightarrow>
    wp (locked_call i) Q E (c, w)"
  by (auto simp: locked_call_def wp_eqs split: option.split dest: row_by_SomeD)

lemmas line_rules = wpI_line_id wpI_locked_call site_rules

lemma keeps_invite_call: "keeps (site_ok (\<lambda>s. lines_good t0 (own s)) d) (invite_call env user i client_id ty)"
  apply (rule site_keepsI)
  apply (unfold invite_call_def)
  apply (rule line_rules | (simp add: site_ok_def; fail)
    | (simp add: site_ok_def, intro conjI good_added; (assumption | simp; fail | meson beside_trans)))+
  done

lemma call_steps:
  "ca_status c = INVITED \<Longrightarrow> call_step c (c\<lparr>ca_status := ACTIVE, ca_accepted := a\<rparr>)"
  "ca_status c \<noteq> ENDED \<Longrightarrow> call_step c (c\<lparr>ca_status := ENDED, ca_ended := a, ca_ended_by := b, ca_end_reason := r\<rparr>)"
  by (cases "ca_status c"; simp add: call_step_def)+

lemma keeps_accept_call: "keeps (site_ok (\<lambda>s. lines_good t0 (own s)) d) (accept_call env user i)"
  apply (rule site_keepsI)
  apply (unfold accept_call_def)
  apply (rule line_rules | (simp add: site_ok_def; fail)
    | (simp add: site_ok_def, intro conjI good_moved; (assumption | rule call_steps; simp | meson beside_trans)))+
  done

lemma keeps_end_call: "keeps (site_ok (\<lambda>s. lines_good t0 (own s)) d) (end_call env user i reason)"
  apply (rule site_keepsI)
  apply (unfold end_call_def)
  apply (rule line_rules | (simp add: site_ok_def; fail)
    | (simp add: site_ok_def, intro conjI good_moved; (assumption | rule call_steps; simp | meson beside_trans)))+
  done

section \<open>Calls beside messaging and the platform\<close>

definition chat_view :: "exchange site \<Rightarrow> chat site" where
  "chat_view s = \<lparr>core = core s, own = line_chat (own s)\<rparr>"

inductive line_request :: "exchange site \<Rightarrow> exchange site \<Rightarrow> bool" where
  invite: "line_request s (site_after (invite_call env user i client_id ty) s)"
| accept: "line_request s (site_after (accept_call env user i) s)"
| hang_up: "line_request s (site_after (end_call env user i reason) s)"
| chat_served: "chat_request (chat_view s) v \<Longrightarrow> line_request s (s\<lparr>core := core v, own := (own s)\<lparr>line_chat := own v\<rparr>\<rparr>)"

definition empty_lines :: "exchange \<Rightarrow> bool" where
  "empty_lines t \<longleftrightarrow> empty_chat (line_chat t) \<and> calls t = []"

lemma lines_kept_refl: "lines_kept t t"
  by (simp add: lines_kept_def chat_kept_refl)

lemma lines_kept_trans: "lines_kept t u \<Longrightarrow> lines_kept u v \<Longrightarrow> lines_kept t v"
  unfolding lines_kept_def by (meson call_rows.trans chat_kept_trans)

lemma line_request_good:
  assumes "line_request s s'" and ok: "calls_ok (own s)"
  shows "lines_good (own s) (own s') \<and> beside (core s) (core s')"
proof -
  have here: "lines_good (own s) (own s)" using ok by (simp add: lines_good_def lines_kept_refl)
  note kept = keeps_invite_call [THEN site_after_keeps, OF here] keeps_accept_call [THEN site_after_keeps, OF here]
    keeps_end_call [THEN site_after_keeps, OF here]
  from assms(1) show ?thesis
  proof cases
    case (chat_served v)
    then have "chat_good (line_chat (own s)) (own v) \<and> beside (core s) (core v)"
      using chat_request_good [of "chat_view s" v] good_parts(1) [OF here] by (simp add: chat_view_def)
    with chat_served here show ?thesis by (simp add: good_chat)
  qed (simp_all only: kept)
qed

lemma empty_lines_ok: "empty_lines t \<Longrightarrow> calls_ok t"
  by (simp add: empty_lines_def empty_chat_ok calls_ok_def fresh_ids_def calls_valid_def)

interpretation lines: site_history "\<lambda>s. empty_lines (own s)" line_request "\<lambda>s. calls_ok (own s)" "\<lambda>s s'. lines_kept (own s) (own s')"
  by unfold_locales (use line_request_good lines_kept_refl lines_kept_trans empty_lines_ok in \<open>auto simp: lines_good_def\<close>)

definition reachable_lines :: "exchange site \<Rightarrow> bool" where
  "reachable_lines s \<longleftrightarrow> reachable (site_start (\<lambda>s. empty_lines (own s))) (site_step line_request) s"

lemma reachable_calls_ok: "reachable_lines s \<Longrightarrow> calls_ok (own s)"
  unfolding reachable_lines_def by (drule lines.system.reachable_inv) (simp add: site_inv_def)

end
