(* ===== verification/Files.thy ===== *)
theory Files
  imports Chat
begin

text \<open>
  Uploads and their scans (\<open>app/files/\<close>): an upload is reserved in quarantine, completed when the
  object in storage matches the reservation, scanned once for each scan event of the outbox, and
  only then SAFE. File rows are the core's \<open>file_objects\<close>, which disputes and messages read; the
  desk holds the scan receipts and the messages a download may be authorised by. The object
  storage and the ClamAV daemon are parameters (\<open>storage\<close>); bytes are characters.
\<close>

record storage =
  sg_max_upload :: int
  sg_presign_upload :: "string \<Rightarrow> string \<Rightarrow> string"
  sg_presign_download :: "string \<Rightarrow> string \<Rightarrow> string"
  sg_head :: "string \<Rightarrow> (int \<times> string) option"
  sg_content :: "string \<Rightarrow> string list option"
  sg_scanner_mode :: string
  sg_clamav :: "string list \<Rightarrow> string option"

record desk =
  desk_chat :: chat
  desk_next_id :: nat
  scan_receipts :: "(nat \<times> uuid) list"

type_synonym 'a desk_op = "(desk, 'a) sop"

definition files_valid :: "db \<Rightarrow> bool" where
  "files_valid d \<longleftrightarrow> list_all (\<lambda>f. 0 < fo_size_bytes f \<and>
      fo_status f \<in> {''QUARANTINED'', ''SCANNING'', ''SAFE'', ''REJECTED''} \<and>
      fo_purpose f \<in> {''MESSAGE_ATTACHMENT'', ''PORTFOLIO'', ''PROJECT_ATTACHMENT'', ''DISPUTE_EVIDENCE''}) (file_objects d) \<and>
    distinct (map fo_object_key (file_objects d))"

definition flush_files :: "unit desk_op" where
  "flush_files = bnd (query_core files_valid) (\<lambda>b. require b IntegrityError)"

definition add_file :: "file_object \<Rightarrow> db \<Rightarrow> db" where
  "add_file f d = d\<lparr>file_objects := file_objects d @ [f]\<rparr>"

definition put_file :: "file_object \<Rightarrow> db \<Rightarrow> db" where
  "put_file f d = d\<lparr>file_objects := put_row fo_id f (file_objects d)\<rparr>"

definition desk_id :: "uuid desk_op" where
  "desk_id = bnd (query_own desk_next_id) (\<lambda>i. seq (modify_own (\<lambda>t. t\<lparr>desk_next_id := Suc i\<rparr>)) (ret i))"

section \<open>Reserving an upload\<close>

text \<open>\<open>Path(s).name\<close> and \<open>Path(s).suffix\<close> of a POSIX path (Python 3.12).\<close>

definition path_name :: "string \<Rightarrow> string" where
  "path_name s = (let parts = filter (\<lambda>p. p \<noteq> [] \<and> p \<noteq> ''.'') (split_on (CHR ''/'') s) in
     if parts = [] then [] else last parts)"

definition path_suffix :: "string \<Rightarrow> string" where
  "path_suffix s = (let n = path_name s; ext = rev (takeWhile (\<lambda>c. c \<noteq> CHR ''.'') (rev n)) in
     if CHR ''.'' \<in> set n \<and> Suc (length ext) < length n \<and> ext \<noteq> [] then CHR ''.'' # ext else [])"

definition allowed_mime_types :: "string list" where
  "allowed_mime_types = [''application/pdf'', ''image/jpeg'', ''image/png'', ''text/plain'']"

definition allowed_extensions :: "string list" where
  "allowed_extensions = [''.pdf'', ''.jpg'', ''.jpeg'', ''.png'', ''.txt'']"

definition allowed_purposes :: "string list" where
  "allowed_purposes = [''MESSAGE_ATTACHMENT'', ''PORTFOLIO'', ''PROJECT_ATTACHMENT'', ''DISPUTE_EVIDENCE'']"

definition is_sha256_hex :: "string \<Rightarrow> bool" where
  "is_sha256_hex s \<longleftrightarrow> length s = 64 \<and> list_all (\<lambda>c. c \<in> set ''0123456789abcdef'') s"

definition create_upload :: "env \<Rightarrow> storage \<Rightarrow> user \<Rightarrow> string \<Rightarrow> string \<Rightarrow> int \<Rightarrow> string \<Rightarrow> string option \<Rightarrow>
    (file_object \<times> string) desk_op" where
  "create_upload env sg user original_name mime_type size_bytes purpose sha256 =
    (let clean_name = strip (path_name original_name); extension = lower (path_suffix clean_name);
         digest = map_option lower sha256 in
    if clean_name = [] \<or> length clean_name > 255 then raise (ApiError ''validation_error'' 422)
    else if extension \<notin> set allowed_extensions \<or> mime_type \<notin> set allowed_mime_types
    then raise (ApiError ''validation_error'' 422)
    else if size_bytes \<le> 0 \<or> size_bytes > sg_max_upload sg then raise (ApiError ''validation_error'' 422)
    else if purpose \<notin> set allowed_purposes then raise (ApiError ''validation_error'' 422)
    else if (case digest of None \<Rightarrow> False | Some h \<Rightarrow> \<not> is_sha256_hex h) then raise (ApiError ''validation_error'' 422) else
    bnd desk_id (\<lambda>i.
    let f = \<lparr>fo_id = i, fo_owner = user_id user, fo_purpose = purpose, fo_status = ''QUARANTINED'',
             fo_object_key = ''quarantine/'' @ str_uuid (user_id user) @ ''/'' @ str_uuid i @ ''/'' @ clean_name,
             fo_original_name = clean_name, fo_mime_type = mime_type, fo_size_bytes = size_bytes,
             fo_sha256 = digest, fo_rejection = None, fo_created = env_now env\<rparr> in
    seq (modify_core (add_file f)) (
    seq (on_core (record_audit_event env ''file.upload_requested'' ''file'' (Some (user_id user)) (Some (str_uuid i))
          None None (JObj [(''purpose'', JStr purpose), (''size_bytes'', JInt size_bytes), (''mime_type'', JStr mime_type)]))) (
    seq flush_files (
    seq commit (
    ret (f, sg_presign_upload sg (fo_object_key f) mime_type)))))))"

section \<open>Completing it\<close>

definition owned_file_for_update :: "user \<Rightarrow> uuid \<Rightarrow> file_object desk_op" where
  "owned_file_for_update user i =
    bnd (query_core (\<lambda>d. row_by fo_id i (file_objects d))) (\<lambda>r.
    bnd (found (ApiError ''file_not_found'' 404) r) (\<lambda>f.
    if fo_owner f \<noteq> user_id user then raise (ApiError ''forbidden'' 403) else ret f))"

definition metadata_mismatch :: string where
  "metadata_mismatch = ''uploaded object metadata does not match the reservation''"

definition complete_upload :: "env \<Rightarrow> storage \<Rightarrow> user \<Rightarrow> uuid \<Rightarrow> file_object desk_op" where
  "complete_upload env sg user i =
    bnd (owned_file_for_update user i) (\<lambda>f.
    if fo_status f = ''SAFE'' then ret f
    else if fo_status f = ''REJECTED'' then raise (ApiError ''invalid_state'' 409)
    else if fo_status f = ''SCANNING'' then ret f else
    bnd (found (ApiError ''upload_missing'' 409) (sg_head sg (fo_object_key f))) (\<lambda>(actual_size, content_type).
    if actual_size \<noteq> fo_size_bytes f \<or> content_type \<noteq> fo_mime_type f then
      (let g = f\<lparr>fo_status := ''REJECTED'', fo_rejection := Some metadata_mismatch\<rparr> in
       seq (modify_core (put_file g)) (seq flush_files (seq commit (ret g))))
    else
      (let g = f\<lparr>fo_status := ''SCANNING''\<rparr> in
       seq (modify_core (put_file g)) (
       seq (on_core (enqueue_outbox_event ''file.scan.requested'' ''file'' (str_uuid (fo_id f))
             (JObj [(''file_id'', j_id (fo_id f))]))) (
       seq (on_core (record_audit_event env ''file.scan_requested'' ''file'' (Some (user_id user))
             (Some (str_uuid (fo_id f))) None None (JObj []))) (
       seq flush_files (seq commit (ret g))))))))"

section \<open>Downloads\<close>

definition may_read_file :: "user \<Rightarrow> uuid \<Rightarrow> desk site \<Rightarrow> bool" where
  "may_read_file user i s \<longleftrightarrow>
    list_ex (\<lambda>m. i \<in> set (mg_attachments m) \<and>
      list_ex (\<lambda>k. cn_id k = mg_conversation m \<and> is_conversation_member user k) (conversations (desk_chat (own s))))
      (messages (desk_chat (own s))) \<or>
    ''admin'' \<in> set (user_roles user) \<and> list_ex (\<lambda>e. dev_file e = i) (dispute_evidence (core s)) \<or>
    list_ex (\<lambda>e. dev_file e = i \<and>
      list_ex (\<lambda>p. dpp_dispute p = dev_dispute e \<and> dpp_user p = user_id user) (dispute_parties (core s)))
      (dispute_evidence (core s))"

definition get_file_for_user :: "user \<Rightarrow> uuid \<Rightarrow> file_object desk_op" where
  "get_file_for_user user i =
    bnd (query_core (\<lambda>d. row_by fo_id i (file_objects d))) (\<lambda>r.
    bnd (found (ApiError ''file_not_found'' 404) r) (\<lambda>f.
    if fo_owner f = user_id user then ret f else
    bnd (query (may_read_file user i)) (\<lambda>authorized.
    if \<not> authorized then raise (ApiError ''forbidden'' 403) else ret f)))"

definition create_download :: "storage \<Rightarrow> user \<Rightarrow> uuid \<Rightarrow> (file_object \<times> string) desk_op" where
  "create_download sg user i =
    bnd (get_file_for_user user i) (\<lambda>f.
    if fo_status f \<noteq> ''SAFE'' then raise (ApiError ''file_unavailable'' 409)
    else ret (f, sg_presign_download sg (fo_object_key f) (fo_original_name f)))"

section \<open>Scanning\<close>

definition magic_mismatch :: "string \<Rightarrow> string \<Rightarrow> bool \<Rightarrow> string option" where
  "magic_mismatch header mime_type saw_nul =
    (if mime_type = ''application/pdf'' \<and> take 5 header \<noteq> ''%PDF-''
     then Some ''declared PDF does not have a PDF signature''
     else if mime_type = ''image/png'' \<and>
       take 8 header \<noteq> [CHR 0x89, CHR ''P'', CHR ''N'', CHR ''G'', CHR 0x0D, CHR 0x0A, CHR 0x1A, CHR 0x0A]
     then Some ''declared PNG does not have a PNG signature''
     else if mime_type \<in> {''image/jpeg'', ''image/jpg''} \<and> take 3 header \<noteq> [CHR 0xFF, CHR 0xD8, CHR 0xFF]
     then Some ''declared JPEG does not have a JPEG signature''
     else if take 5 mime_type = ''text/'' \<and> saw_nul
     then Some ''declared text file contains binary NUL bytes''
     else None)"

text \<open>The loop over the chunks: the hashed material, the first 16 bytes and whether a NUL was seen in
  the first 4096 bytes of a chunk.\<close>

definition scan_chunk :: "string \<times> string \<times> bool \<Rightarrow> string \<Rightarrow> string \<times> string \<times> bool" where
  "scan_chunk st chunk = (case st of (material, header, saw_nul) \<Rightarrow>
     (material @ chunk, if length header < 16 then header @ take (16 - length header) chunk else header,
      saw_nul \<or> CHR 0x00 \<in> set (take 4096 chunk)))"

definition scan_chunks :: "string list \<Rightarrow> string \<times> string \<times> bool" where
  "scan_chunks chunks = foldl scan_chunk ([], [], False) chunks"

record scan_result =
  sc_safe :: bool
  sc_sha256 :: string
  sc_reason :: "string option"

definition basic_scan :: "env \<Rightarrow> string list \<Rightarrow> string \<Rightarrow> scan_result" where
  "basic_scan env chunks mime_type =
    (case scan_chunks chunks of (material, header, saw_nul) \<Rightarrow>
     let reason = magic_mismatch header mime_type saw_nul in
     \<lparr>sc_safe = (reason = None), sc_sha256 = env_sha256 env material, sc_reason = reason\<rparr>)"

definition contains :: "string \<Rightarrow> string \<Rightarrow> bool" where
  "contains p s \<longleftrightarrow> list_ex (\<lambda>n. take (length p) (drop n s) = p) [0..<Suc (length s)]"

definition clamav_scan :: "env \<Rightarrow> string list \<Rightarrow> string \<Rightarrow> string \<Rightarrow> scan_result" where
  "clamav_scan env chunks mime_type response =
    (case scan_chunks chunks of (material, header, saw_nul) \<Rightarrow>
     let digest = env_sha256 env material in
     case magic_mismatch header mime_type saw_nul of
       Some reason \<Rightarrow> \<lparr>sc_safe = False, sc_sha256 = digest, sc_reason = Some reason\<rparr>
     | None \<Rightarrow>
       if contains ''FOUND'' response
       then \<lparr>sc_safe = False, sc_sha256 = digest, sc_reason = Some (take 240 (strip response))\<rparr>
       else if \<not> contains ''OK'' response
       then \<lparr>sc_safe = False, sc_sha256 = digest, sc_reason = Some ''virus scanner returned an invalid response''\<rparr>
       else \<lparr>sc_safe = True, sc_sha256 = digest, sc_reason = None\<rparr>)"

definition scan_file :: "env \<Rightarrow> storage \<Rightarrow> file_object \<Rightarrow> exn + scan_result" where
  "scan_file env sg f =
    (if sg_scanner_mode sg = ''basic'' then
       (case sg_content sg (fo_object_key f) of None \<Rightarrow> Inl ProviderOtherError
        | Some chunks \<Rightarrow> Inr (basic_scan env chunks (fo_mime_type f)))
     else if sg_scanner_mode sg = ''clamav'' then
       (case sg_content sg (fo_object_key f) of None \<Rightarrow> Inl ProviderOtherError
        | Some chunks \<Rightarrow> (case sg_clamav sg chunks of None \<Rightarrow> Inl OSError
          | Some response \<Rightarrow> Inr (clamav_scan env chunks (fo_mime_type f) response)))
     else Inl RuntimeError)"

definition checked_result :: "file_object \<Rightarrow> scan_result \<Rightarrow> scan_result" where
  "checked_result f r = (case fo_sha256 f of
     None \<Rightarrow> r
   | Some h \<Rightarrow> if h \<noteq> sc_sha256 r
       then \<lparr>sc_safe = False, sc_sha256 = sc_sha256 r, sc_reason = Some ''uploaded content SHA-256 does not match''\<rparr>
       else r)"

definition payload_file_id :: "json \<Rightarrow> exn + uuid" where
  "payload_file_id payload = (case jget payload ''file_id'' of
     JStr s \<Rightarrow> (case parse_uuid s of Some i \<Rightarrow> Inr i | None \<Rightarrow> Inl ValueError)
   | _ \<Rightarrow> Inl ValueError)"

definition add_scan_receipt :: "nat \<Rightarrow> uuid \<Rightarrow> unit desk_op" where
  "add_scan_receipt e i =
    seq (modify_own (\<lambda>t. t\<lparr>scan_receipts := scan_receipts t @ [(e, i)]\<rparr>)) (
    seq (flush_own (\<lambda>t. distinct (map fst (scan_receipts t)))) (
    bnd (query_core (\<lambda>d. row_by fo_id i (file_objects d) \<noteq> None)) (\<lambda>b. require b IntegrityError)))"

text \<open>An outbox event is identified by its position in the append-only outbox.\<close>

definition process_scan_event :: "env \<Rightarrow> storage \<Rightarrow> nat \<Rightarrow> bool desk_op" where
  "process_scan_event env sg e =
    bnd (query_core (\<lambda>d. if e < length (outbox d) then Some (outbox d ! e) else None)) (\<lambda>ev.
    case ev of None \<Rightarrow> ret False | Some event \<Rightarrow>
    bnd (query_own (\<lambda>t. list_ex (\<lambda>r. fst r = e) (scan_receipts t))) (\<lambda>existing.
    if existing then ret False else
    bnd (lift_result (payload_file_id (ob_payload event))) (\<lambda>i.
    bnd (query_core (\<lambda>d. row_by fo_id i (file_objects d))) (\<lambda>r.
    case r of None \<Rightarrow> seq (add_scan_receipt e i) (seq commit (ret True)) | Some f \<Rightarrow>
    if fo_status f \<noteq> ''SCANNING'' then seq (add_scan_receipt e (fo_id f)) (seq commit (ret True)) else
    bnd (lift_result (scan_file env sg f)) (\<lambda>raw.
    let result = checked_result f raw;
        g = f\<lparr>fo_sha256 := Some (sc_sha256 result), fo_status := (if sc_safe result then ''SAFE'' else ''REJECTED''),
              fo_rejection := sc_reason result\<rparr> in
    seq (modify_core (put_file g)) (
    seq (add_scan_receipt e (fo_id f)) (
    seq (on_core (record_audit_event env ''file.scan_completed'' ''file'' None (Some (str_uuid (fo_id f))) None None
          (JObj [(''status'', JStr (fo_status g)), (''reason'', j_opt JStr (fo_rejection g))]))) (
    seq flush_files (
    seq commit (ret True)))))))))) "

definition pending_scans :: "nat \<Rightarrow> desk site \<Rightarrow> nat list" where
  "pending_scans limit s = take limit (filter (\<lambda>e. ob_event_type (outbox (core s) ! e) = ''file.scan.requested'' \<and>
     \<not> list_ex (\<lambda>r. fst r = e) (scan_receipts (own s))) [0..<length (outbox (core s))])"

fun process_all :: "env \<Rightarrow> storage \<Rightarrow> nat list \<Rightarrow> nat \<Rightarrow> nat desk_op" where
  "process_all env sg [] n = ret n"
| "process_all env sg (e # es) n =
     bnd (process_scan_event env sg e) (\<lambda>b. process_all env sg es (if b then Suc n else n))"

definition drain_scan_outbox :: "env \<Rightarrow> storage \<Rightarrow> nat \<Rightarrow> nat desk_op" where
  "drain_scan_outbox env sg limit = bnd (query (pending_scans limit)) (\<lambda>es. process_all env sg es 0)"

definition serialize_file :: "env \<Rightarrow> file_object \<Rightarrow> json" where
  "serialize_file env f = JObj
     [(''id'', j_id (fo_id f)), (''original_name'', JStr (fo_original_name f)), (''mime_type'', JStr (fo_mime_type f)),
      (''size_bytes'', JInt (fo_size_bytes f)), (''sha256'', j_opt JStr (fo_sha256 f)), (''purpose'', JStr (fo_purpose f)),
      (''status'', JStr (fo_status f)), (''rejection_reason'', j_opt JStr (fo_rejection f)),
      (''created_at'', JStr (env_iso env (fo_created f)))]"

end
