(* ===== verification/Desk.thy ===== *)
theory Desk
  imports Files
begin

text \<open>
  Files are safe before they are used: a file moves only from QUARANTINED over SCANNING to SAFE or
  REJECTED, it is SAFE only after a scan whose digest is the declared one, and every attachment of
  a message is a SAFE file of its sender. The last property joins two services: messaging checks
  the attachment when it is sent, and the file machine never leaves SAFE.
\<close>

section \<open>The invariant\<close>

definition file_ok :: "(nat \<times> uuid) list \<Rightarrow> file_object \<Rightarrow> bool" where
  "file_ok rs f \<longleftrightarrow> fo_status f \<in> {''QUARANTINED'', ''SCANNING'', ''SAFE'', ''REJECTED''} \<and>
     (fo_status f = ''SAFE'' \<longrightarrow> fo_sha256 f \<noteq> None \<and> fo_rejection f = None \<and> fo_id f \<in> snd ` set rs) \<and>
     (fo_status f = ''REJECTED'' \<longrightarrow> fo_rejection f \<noteq> None)"

definition attachment_ok :: "file_object list \<Rightarrow> uuid \<Rightarrow> uuid \<Rightarrow> bool" where
  "attachment_ok fs u i \<longleftrightarrow> (\<exists>f\<in>set fs. fo_id f = i \<and> fo_owner f = u \<and> fo_status f = ''SAFE'' \<and>
     fo_purpose f = ''MESSAGE_ATTACHMENT'')"

definition attachments_ok :: "file_object list \<Rightarrow> chat \<Rightarrow> bool" where
  "attachments_ok fs t \<longleftrightarrow> (\<forall>m\<in>set (messages t). \<forall>i\<in>set (mg_attachments m). attachment_ok fs (mg_sender m) i)"

definition desk_ok :: "desk site \<Rightarrow> bool" where
  "desk_ok s \<longleftrightarrow> chat_ok (desk_chat (own s)) \<and> fresh_ids fo_id (file_objects (core s)) (desk_next_id (own s)) \<and>
     (\<forall>f\<in>set (file_objects (core s)). file_ok (scan_receipts (own s)) f) \<and>
     attachments_ok (file_objects (core s)) (desk_chat (own s))"

inductive file_edge :: "string \<Rightarrow> string \<Rightarrow> bool" where
  completed: "file_edge ''QUARANTINED'' ''SCANNING''"
| mismatched: "file_edge ''QUARANTINED'' ''REJECTED''"
| passed: "file_edge ''SCANNING'' ''SAFE''"
| failed: "file_edge ''SCANNING'' ''REJECTED''"

inductive_simps file_edge_simps: "file_edge ''QUARANTINED'' s" "file_edge ''SCANNING'' s" "file_edge ''SAFE'' s"
  "file_edge ''REJECTED'' s"

definition file_step :: "file_object \<Rightarrow> file_object \<Rightarrow> bool" where
  "file_step f g \<longleftrightarrow> file_edge (fo_status f) (fo_status g) \<and>
     g = f\<lparr>fo_status := fo_status g, fo_sha256 := fo_sha256 g, fo_rejection := fo_rejection g\<rparr> \<and>
     (fo_status g \<noteq> ''REJECTED'' \<and> fo_sha256 f \<noteq> None \<longrightarrow> fo_sha256 g = fo_sha256 f)"

lemma file_step_key: "file_step f g \<Longrightarrow> fo_id g = fo_id f \<and> fo_owner g = fo_owner f \<and> fo_purpose g = fo_purpose f"
  by (cases f; cases g) (simp add: file_step_def)

interpretation file_rows: row_history fo_id file_step
  by unfold_locales (simp add: file_step_key)

definition desk_kept :: "desk site \<Rightarrow> desk site \<Rightarrow> bool" where
  "desk_kept s s' \<longleftrightarrow> develops fo_id file_step (file_objects (core s)) (file_objects (core s')) \<and>
     chat_kept (desk_chat (own s)) (desk_chat (own s'))"

definition desk_good :: "desk site \<Rightarrow> desk site \<Rightarrow> bool" where
  "desk_good s0 s \<longleftrightarrow> desk_ok s \<and> desk_kept s0 s"

lemma desk_same_rows: "desk_good s0 s \<Longrightarrow> same_rows (core s) k \<Longrightarrow> desk_good s0 (s\<lparr>core := k\<rparr>)"
  by (simp add: desk_good_def desk_ok_def desk_kept_def same_rows_def)

section \<open>File rows\<close>

lemma good_reserved:
  assumes good: "desk_good s0 s" and f: "fo_id f = desk_next_id (own s)" "fo_status f = ''QUARANTINED''"
    and k: "same_rows (add_file f (core s)) k"
  shows "desk_good s0 (s\<lparr>own := (own s)\<lparr>desk_next_id := Suc (desk_next_id (own s))\<rparr>, core := k\<rparr>)"
proof -
  have "fresh_ids fo_id (file_objects (core s) @ [f]) (Suc (desk_next_id (own s)))"
    using good f(1) by (auto simp: desk_good_def desk_ok_def intro: fresh_ids_append fresh_ids_mono)
  moreover have "file_ok rs f" for rs using f(2) by (simp add: file_ok_def)
  moreover have "attachments_ok (file_objects (core s) @ [f]) (desk_chat (own s))"
    using good by (fastforce simp: desk_good_def desk_ok_def attachments_ok_def attachment_ok_def)
  ultimately show ?thesis using good k by (auto simp: desk_good_def desk_ok_def desk_kept_def add_file_def same_rows_def)
qed

lemma attachments_put:
  assumes "attachments_ok fs t" and "row_by fo_id (fo_id f) fs = Some f" and "distinct (map fo_id fs)"
    and "fo_status f \<noteq> ''SAFE''" and "fo_id g = fo_id f"
  shows "attachments_ok (put_row fo_id g fs) t"
proof -
  have "attachment_ok (put_row fo_id g fs) u i" if at: "attachment_ok fs u i" for u i
  proof -
    obtain x where x: "x \<in> set fs" "fo_id x = i" "fo_owner x = u" "fo_status x = ''SAFE''" "fo_purpose x = ''MESSAGE_ATTACHMENT''"
      using at by (auto simp: attachment_ok_def)
    have "f \<in> set fs" using row_by_SomeD [OF assms(2)] by simp
    then have "fo_id x \<noteq> fo_id f" using assms(3,4) x(1,4) by (auto simp: distinct_map dest: inj_onD)
    then have "x \<in> set (put_row fo_id g fs)"
      using x(1) assms(5) by (force simp: put_row_def)
    with x show ?thesis by (auto simp: attachment_ok_def)
  qed
  then show ?thesis using assms(1) by (simp add: attachments_ok_def)
qed

lemma good_put:
  assumes good: "desk_good s0 s" and row: "row_by fo_id (fo_id f) (file_objects (core s)) = Some f"
    and step: "file_step f g" and ok: "file_ok (scan_receipts (own s) @ rs) g" and k: "same_rows (put_file g (core s)) k"
  shows "desk_good s0 (s\<lparr>own := (own s)\<lparr>scan_receipts := scan_receipts (own s) @ rs\<rparr>, core := k\<rparr>)"
proof -
  have id: "fo_id g = fo_id f" using file_step_key [OF step] by simp
  have ids: "fresh_ids fo_id (file_objects (core s)) (desk_next_id (own s))"
    using good by (simp add: desk_good_def desk_ok_def)
  then have "fresh_ids fo_id (put_row fo_id g (file_objects (core s))) (desk_next_id (own s))"
    using row_by_SomeD [OF row] id by (auto simp: fresh_ids_def dest!: put_row_memD)
  moreover have "file_ok (scan_receipts (own s) @ rs) x" if "file_ok (scan_receipts (own s)) x" for x
    using that by (auto simp: file_ok_def)
  moreover have "attachments_ok (put_row fo_id g (file_objects (core s))) (desk_chat (own s))"
    by (rule attachments_put [OF _ row])
      (use good ids step id in \<open>auto simp: desk_good_def desk_ok_def fresh_ids_def file_step_def file_edge_simps\<close>)
  moreover have "develops fo_id file_step (file_objects (core s0)) (put_row fo_id g (file_objects (core s)))"
    using good row step id by (intro file_rows.put) (auto simp: desk_good_def desk_kept_def)
  ultimately show ?thesis
    using good ok k by (auto simp: desk_good_def desk_ok_def desk_kept_def put_file_def same_rows_def dest!: put_row_memD)
qed

lemma file_moved:
  assumes "desk_good s0 s" and "row_by fo_id (fo_id f) (file_objects (core s)) = Some f"
    and "file_step f g" and "file_ok (scan_receipts (own s)) g" and "same_rows (put_file g (core s)) k"
  shows "desk_good s0 (s\<lparr>core := k\<rparr>)"
  using good_put [of s0 s f g "[]" k] assms by simp

lemma good_receipt:
  "desk_good s0 s \<Longrightarrow> desk_good s0 (s\<lparr>own := (own s)\<lparr>scan_receipts := scan_receipts (own s) @ rs\<rparr>\<rparr>)"
  by (fastforce simp: desk_good_def desk_ok_def desk_kept_def file_ok_def)

text \<open>What a scan can answer.\<close>

lemma scan_result_reason:
  assumes "scan_file env sg f = Inr raw"
  shows "sc_safe (checked_result f raw) \<longleftrightarrow> sc_reason (checked_result f raw) = None"
proof -
  have "sc_safe raw \<longleftrightarrow> sc_reason raw = None"
    using assms by (auto simp: scan_file_def basic_scan_def clamav_scan_def Let_def split: if_splits option.splits prod.splits)
  then show ?thesis by (simp add: checked_result_def split: option.split)
qed

lemma scan_result_digest:
  "sc_safe (checked_result f raw) \<Longrightarrow> fo_sha256 f \<noteq> None \<Longrightarrow> fo_sha256 f = Some (sc_sha256 (checked_result f raw))"
  by (auto simp: checked_result_def split: if_splits)

section \<open>The requests\<close>

lemma wpI_flush_files: "(files_valid (core w) \<Longrightarrow> Q () (c, w)) \<Longrightarrow> E IntegrityError (c, w) \<Longrightarrow> wp flush_files Q E (c, w)"
  by (simp add: flush_files_def wp_eqs)

lemma wpI_desk_id:
  "Q (desk_next_id (own w)) (c, w\<lparr>own := (own w)\<lparr>desk_next_id := Suc (desk_next_id (own w))\<rparr>\<rparr>) \<Longrightarrow> wp desk_id Q E (c, w)"
  by (simp add: desk_id_def wp_eqs)

lemma wpI_owned_file:
  "(\<And>f. row_by fo_id (fo_id f) (file_objects (core w)) = Some f \<Longrightarrow> Q f (c, w)) \<Longrightarrow> (\<And>e. E e (c, w)) \<Longrightarrow>
    wp (owned_file_for_update user i) Q E (c, w)"
  by (auto simp: owned_file_for_update_def wp_eqs split: option.split dest: row_by_SomeD)

lemma wpI_scan_receipt:
  "Q () (c, w\<lparr>own := (own w)\<lparr>scan_receipts := scan_receipts (own w) @ [(e, i)]\<rparr>\<rparr>) \<Longrightarrow> (\<And>x w'. E x (c, w')) \<Longrightarrow>
    wp (add_scan_receipt e i) Q E (c, w)"
  by (simp add: add_scan_receipt_def wp_eqs)

lemma wpI_file_lookup:
  "(\<And>f. row_by fo_id (fo_id f) (file_objects (core w)) = Some f \<Longrightarrow> fo_id f = i \<Longrightarrow> Q (Some f) (c, w)) \<Longrightarrow> Q None (c, w) \<Longrightarrow>
    wp (query_core (\<lambda>d. row_by fo_id i (file_objects d))) Q E (c, w)"
  by (cases "row_by fo_id i (file_objects (core w))") (auto simp: wp_eqs dest: row_by_SomeD)

lemmas desk_rules = wpI_desk_id wpI_owned_file wpI_scan_receipt wpI_file_lookup wpI_flush_files site_rules

lemma beside_files: "beside d (put_file g d)" "beside d (add_file g d)"
  by (simp_all add: put_file_def add_file_def beside_rows)

lemma keeps_create_upload: "keeps (site_ok (desk_good s0) d) (create_upload env sg user name mime n purpose sha)"
  apply (rule site_keepsI)
  apply (unfold create_upload_def)
  apply (rule desk_rules | (simp add: site_ok_def; fail)
    | (simp add: site_ok_def, intro conjI good_reserved; (assumption | simp; fail | meson beside_trans beside_files)))+
  done

lemma same_rows_refl [simp]: "same_rows d d"
  by (simp add: same_rows_def)

lemma same_rows_trans: "same_rows a b \<Longrightarrow> same_rows b c \<Longrightarrow> same_rows a c"
  by (simp add: same_rows_def)

lemma desk_file:
  "desk_good s0 s \<Longrightarrow> row_by fo_id i (file_objects (core s)) = Some f \<Longrightarrow> file_ok (scan_receipts (own s)) f"
  by (auto simp: desk_good_def desk_ok_def dest: row_by_SomeD)

lemma good_completed:
  assumes "desk_good s0 s" and "row_by fo_id (fo_id f) (file_objects (core s)) = Some f"
    and "fo_status f \<noteq> ''SAFE''" "fo_status f \<noteq> ''REJECTED''" "fo_status f \<noteq> ''SCANNING''"
    and "g = f\<lparr>fo_status := ''REJECTED'', fo_rejection := Some r\<rparr> \<or> g = f\<lparr>fo_status := ''SCANNING''\<rparr>"
    and "same_rows (put_file g (core s)) k"
  shows "desk_good s0 (s\<lparr>core := k\<rparr>)"
proof -
  have "fo_status f = ''QUARANTINED''" using desk_file [OF assms(1,2)] assms(3-5) by (auto simp: file_ok_def)
  with assms(6) have "file_step f g" "file_ok (scan_receipts (own s)) g"
    by (auto simp: file_step_def file_ok_def file_edge_simps)
  with assms show ?thesis by (blast intro: file_moved)
qed

lemma good_scanned:
  assumes "desk_good s0 s" and "row_by fo_id (fo_id f) (file_objects (core s)) = Some f"
    and "fo_status f = ''SCANNING''" and "scan_file env sg f = Inr raw" and "r = checked_result f raw"
    and g: "g = f\<lparr>fo_sha256 := Some (sc_sha256 r), fo_status := (if sc_safe r then ''SAFE'' else ''REJECTED''), fo_rejection := sc_reason r\<rparr>"
    and "same_rows (put_file g (core s)) k"
  shows "desk_good s0 (s\<lparr>own := (own s)\<lparr>scan_receipts := scan_receipts (own s) @ [(e, fo_id f)]\<rparr>, core := k\<rparr>)"
proof -
  have "file_step f g" using assms(3,5) scan_result_digest [of f raw]
    by (auto simp: g file_step_def file_edge_simps)
  moreover have "file_ok (scan_receipts (own s) @ [(e, fo_id f)]) g"
    using scan_result_reason [OF assms(4)] assms(5) by (auto simp: g file_ok_def)
  ultimately show ?thesis using assms good_put by blast
qed

lemma keeps_complete_upload: "keeps (site_ok (desk_good s0) d) (complete_upload env sg user i)"
  apply (rule site_keepsI)
  apply (unfold complete_upload_def)
  apply (rule desk_rules | (simp add: site_ok_def; fail)
    | (simp add: site_ok_def, intro conjI good_completed; (assumption | rule disjI1, rule refl | rule disjI2, rule refl
      | rule same_rows_refl | rule same_rows_trans, assumption, assumption | meson beside_trans beside_files)))+
  done

text \<open>A scan ends with the session committed, so a drain goes on from there with the next event.\<close>

lemma wp_process_scan_event:
  assumes "desk_good s0 s" and "beside d (core s)"
  shows "wp (process_scan_event env sg e) (\<lambda>_ t. \<exists>s'. t = (s', s') \<and> site_ok (desk_good s0) d s')
    (\<lambda>_ t. site_ok (desk_good s0) d (fst t)) (s, s)"
  using assms
  apply (unfold process_scan_event_def)
  apply (rule desk_rules | (simp add: site_ok_def good_receipt; fail)
    | (simp add: site_ok_def, intro conjI good_scanned; (assumption | rule refl | simp; fail | meson beside_trans beside_files)))+
  done

lemma wp_process_all:
  assumes "desk_good s0 s" and "beside d (core s)"
  shows "wp (process_all env sg es n) (\<lambda>_ t. site_ok (desk_good s0) d (fst t)) (\<lambda>_ t. site_ok (desk_good s0) d (fst t)) (s, s)"
  using assms
proof (induction es arbitrary: n s)
  case Nil
  then show ?case by (simp add: wp_eqs site_ok_def)
next
  case (Cons e es)
  show ?case unfolding process_all.simps wp_bnd
    by (rule wp_mono [OF wp_process_scan_event [OF Cons.prems]]) (auto simp: site_ok_def intro: Cons.IH [unfolded site_ok_def])
qed

lemma keeps_drain_scan_outbox: "keeps (site_ok (desk_good s0) d) (drain_scan_outbox env sg limit)"
  by (rule site_keepsI) (auto simp: drain_scan_outbox_def wp_eqs intro: wp_process_all)

text \<open>What a file keeps on the way.\<close>

lemma file_steps_facts:
  "file_step\<^sup>*\<^sup>* f g \<Longrightarrow> fo_id g = fo_id f \<and> fo_owner g = fo_owner f \<and>
    (fo_status g \<noteq> ''REJECTED'' \<and> fo_sha256 f \<noteq> None \<longrightarrow> fo_sha256 g = fo_sha256 f)"
proof (induction rule: rtranclp_induct)
  case (step g h)
  then have "fo_status g \<noteq> ''REJECTED''" by (auto simp: file_step_def file_edge_simps)
  with step file_step_key [OF step.hyps(2)] show ?case by (auto simp: file_step_def)
qed simp

section \<open>Messages with attachments\<close>

lemma checked_attachments:
  "check_attachments user fs = Inr x \<Longrightarrow> \<forall>f\<in>set fs. fo_owner f = user_id user \<and> fo_status f = ''SAFE'' \<and>
    fo_purpose f = ''MESSAGE_ATTACHMENT''"
  by (induction fs) (simp_all split: if_splits)

text \<open>As many rows as ids were asked for: with distinct keys on both sides every id was found.\<close>

lemma all_ids_found:
  assumes "distinct (map fo_id fs)" and "distinct ids"
    and "length (filter (\<lambda>f. fo_id f \<in> set ids) fs) = length ids" and "i \<in> set ids"
  shows "\<exists>f\<in>set fs. fo_id f = i"
proof -
  let ?found = "map fo_id (filter (\<lambda>f. fo_id f \<in> set ids) fs)"
  have "distinct ?found" using assms(1) by (simp add: distinct_map_filter)
  then have "card (set ?found) = card (set ids)" using assms(2,3) by (metis distinct_card length_map)
  moreover have "set ?found \<subseteq> set ids" by auto
  ultimately have "set ?found = set ids" by (simp add: card_subset_eq)
  then have "i \<in> set ?found" using assms(4) by blast
  then show ?thesis by auto
qed

lemma wpI_attachments_exact:
  assumes "distinct (map fo_id (file_objects (core w)))" and "distinct ids"
    and "\<forall>i\<in>set ids. attachment_ok (file_objects (core w)) (user_id user) i \<Longrightarrow> Q ids (c, w)" and "\<And>e. E e (c, w)"
  shows "wp (validated_attachments user ids) Q E (c, w)"
proof (cases "ids = []")
  case True
  then show ?thesis using assms(3) by (simp add: validated_attachments_def wp_eqs)
next
  case False
  have "\<forall>i\<in>set ids. attachment_ok (file_objects (core w)) (user_id user) i"
    if len: "length (filter (\<lambda>f. fo_id f \<in> set ids) (file_objects (core w))) = length ids"
      and checked: "check_attachments user (filter (\<lambda>f. fo_id f \<in> set ids) (file_objects (core w))) = Inr x" for x
    using checked_attachments [OF checked] all_ids_found [OF assms(1,2) len] by (fastforce simp: attachment_ok_def)
  then show ?thesis using False assms(3,4) by (auto simp: validated_attachments_def wp_eqs split: sum.split)
qed

definition chat_files :: "file_object list \<Rightarrow> chat site \<Rightarrow> bool" where
  "chat_files fs s \<longleftrightarrow> file_objects (core s) = fs \<and> attachments_ok fs (own s)"

lemma attachments_frame [simp]:
  "attachments_ok fs (add_conversation k t) = attachments_ok fs t" "attachments_ok fs (put_conversation k t) = attachments_ok fs t"
  "attachments_ok fs (add_receipts rs t) = attachments_ok fs t" "attachments_ok fs (t\<lparr>chat_next_id := n\<rparr>) = attachments_ok fs t"
  "attachments_ok fs (add_message m t) \<longleftrightarrow> attachments_ok fs t \<and> (\<forall>i\<in>set (mg_attachments m). attachment_ok fs (mg_sender m) i)"
  by (auto simp: attachments_ok_def add_conversation_def put_conversation_def add_receipts_def add_message_def)

lemma chat_files_opened: "keeps (site_ok (chat_files fs) d) (get_or_create_contract_conversation env user cid)"
  apply (rule site_keepsI)
  apply (unfold get_or_create_contract_conversation_def get_conversation_for_user_def)
  apply (rule chat_rules | (simp add: site_ok_def chat_files_def same_rows_def; fail)
    | (simp add: site_ok_def chat_files_def same_rows_def, meson beside_trans))+
  done

lemma chat_files_sent:
  "distinct (map fo_id fs) \<Longrightarrow> keeps (site_ok (chat_files fs) d) (send_message env user i client_id body ids)"
  apply (rule site_keepsI)
  apply (unfold send_message_def)
  apply (rule wpI_attachments_exact chat_rules | (simp add: site_ok_def chat_files_def same_rows_def; fail)
    | (simp add: site_ok_def chat_files_def same_rows_def, meson beside_trans))+
  done

lemma chat_files_marked: "keeps (site_ok (chat_files fs) d) (mark_receipts env user i n types cursor)"
  apply (rule site_keepsI)
  apply (unfold mark_receipts_def)
  apply (rule chat_rules | (simp add: site_ok_def chat_files_def same_rows_def; fail)
    | (simp add: site_ok_def chat_files_def same_rows_def, meson beside_trans))+
  done

section \<open>Files beside messaging and the platform\<close>

definition chat_of :: "desk site \<Rightarrow> chat site" where
  "chat_of s = \<lparr>core = core s, own = desk_chat (own s)\<rparr>"

inductive desk_request :: "desk site \<Rightarrow> desk site \<Rightarrow> bool" where
  reserve: "desk_request s (site_after (create_upload env sg user name mime n purpose sha) s)"
| complete: "desk_request s (site_after (complete_upload env sg user i) s)"
| scan: "desk_request s (site_after (drain_scan_outbox env sg limit) s)"
| chat_served: "chat_request (chat_of s) v \<Longrightarrow> desk_request s (s\<lparr>core := core v, own := (own s)\<lparr>desk_chat := own v\<rparr>\<rparr>)"

definition empty_desk :: "desk site \<Rightarrow> bool" where
  "empty_desk s \<longleftrightarrow> file_objects (core s) = [] \<and> empty_chat (desk_chat (own s))"

lemma chat_request_files:
  assumes "chat_request s v" and "distinct (map fo_id (file_objects (core s)))"
    and "attachments_ok (file_objects (core s)) (own s)"
  shows "chat_files (file_objects (core s)) v"
proof -
  have "chat_files (file_objects (core s)) s" using assms(3) by (simp add: chat_files_def)
  note kept = chat_files_opened [THEN site_after_keeps, OF this] chat_files_sent [OF assms(2), THEN site_after_keeps, OF this]
    chat_files_marked [THEN site_after_keeps, OF this]
  from assms(1) show ?thesis
    by cases (simp_all add: kept mark_delivered_def mark_read_def)
qed

lemma desk_kept_refl: "desk_kept s s"
  by (simp add: desk_kept_def chat_kept_refl)

lemma desk_kept_trans: "desk_kept s t \<Longrightarrow> desk_kept t u \<Longrightarrow> desk_kept s u"
  unfolding desk_kept_def by (meson file_rows.trans chat_kept_trans)

lemma desk_request_good:
  assumes "desk_request s s'" and ok: "desk_ok s"
  shows "desk_good s s' \<and> beside (core s) (core s')"
proof -
  have here: "desk_good s s" using ok by (simp add: desk_good_def desk_kept_refl)
  note kept = keeps_create_upload [THEN site_after_keeps, OF here] keeps_complete_upload [THEN site_after_keeps, OF here]
    keeps_drain_scan_outbox [THEN site_after_keeps, OF here]
  from assms(1) show ?thesis
  proof cases
    case (chat_served v)
    then have "chat_good (desk_chat (own s)) (own v) \<and> beside (core s) (core v)"
      using chat_request_good [of "chat_of s" v] ok by (simp add: chat_of_def desk_ok_def)
    moreover have "chat_files (file_objects (core s)) v"
      using chat_request_files [OF chat_served(2)] ok by (simp add: chat_of_def desk_ok_def fresh_ids_def)
    ultimately show ?thesis using chat_served here
      by (simp add: desk_good_def desk_ok_def desk_kept_def chat_good_def chat_files_def)
  qed (simp_all only: kept)
qed

lemma empty_desk_ok: "empty_desk s \<Longrightarrow> desk_ok s"
  by (simp add: empty_desk_def desk_ok_def empty_chat_ok fresh_ids_def attachments_ok_def) (simp add: empty_chat_def)

lemma desk_platform: "extends (core s) d \<Longrightarrow> desk_ok s \<Longrightarrow> desk_ok (s\<lparr>core := d\<rparr>)" "extends (core s) d \<Longrightarrow> desk_kept s (s\<lparr>core := d\<rparr>)"
  by (simp_all add: desk_ok_def desk_kept_def extends_def chat_kept_refl)

interpretation desk: site_history empty_desk desk_request desk_ok desk_kept
  by unfold_locales
    (use desk_request_good desk_kept_refl desk_kept_trans empty_desk_ok desk_platform in \<open>auto simp: desk_good_def\<close>)

definition reachable_desk :: "desk site \<Rightarrow> bool" where
  "reachable_desk s \<longleftrightarrow> reachable (site_start empty_desk) (site_step desk_request) s"

lemma reachable_desk_ok: "reachable_desk s \<Longrightarrow> desk_ok s \<and> sys_inv (core s)"
  unfolding reachable_desk_def by (drule desk.system.reachable_inv) (simp add: site_inv_def)

end
