(* ===== verification/Scenario_Services.thy ===== *)
theory Scenario_Services
  imports Scenario Lines Desk
begin

text \<open>
  The services beside the run of theory \<open>Scenario\<close>: the parties of the signed contract open a
  conversation, a message is sent and read, a call is placed, accepted and ended, and a file is
  uploaded, scanned and sent as an attachment.
\<close>

section \<open>Evaluation\<close>

lemmas site_defs = site_after_def on_core_def query_own_def query_core_def modify_own_def flush_own_def

lemmas chat_defs = chat_id_def put_conversation_def add_conversation_def add_message_def add_receipts_def
  conversations_valid_def messages_valid_def receipts_valid_def is_conversation_member_def find_conversation_def
  get_conversation_for_user_def contract_conversation_def get_or_create_contract_conversation_def
  max_message_body_def max_attachments_def validated_attachments_def prior_message_def send_message_def
  new_receipts_def set_last_read_def mark_receipts_def mark_delivered_def mark_read_def

lemmas call_defs = call_row_valid_def live_def calls_valid_def add_call_def put_call_def line_id_def call_type_of_def
  call_by_client_id_def live_call_def is_call_party_def locked_call_def invite_call_def accept_call_def end_call_def
  max_end_reason_def

lemma service_texts:
  "strip ''m1'' = ''m1''" "strip ''hello'' = ''hello''" "strip ''c1'' = ''c1''" "upper (strip ''voice'') = ''VOICE''" "strip '''' = ''''"
  "strip ''m2'' = ''m2''"
  by code_simp+

section \<open>A conversation\<close>

definition quiet_chat :: chat where
  "quiet_chat = \<lparr>chat_next_id = 50, conversations = [], messages = [], receipts = []\<rparr>"

definition talk0 :: "chat site" where "talk0 = \<lparr>core = demo3, own = quiet_chat\<rparr>"
definition talk1 :: "chat site" where
  "talk1 = site_after (get_or_create_contract_conversation demo_env employer 10) talk0"
definition talk2 :: "chat site" where
  "talk2 = site_after (send_message demo_env employer 50 ''m1'' ''hello'' []) talk1"
definition talk3 :: "chat site" where
  "talk3 = site_after (mark_read demo_env freelancer 50 1) talk2"

lemma talk_reachable: "reachable_chat talk0" "reachable_chat talk1" "reachable_chat talk2" "reachable_chat talk3"
proof -
  show 0: "reachable_chat talk0" unfolding reachable_chat_def talk0_def
    by (rule reachable_beside [OF demo_reachable_3]) (simp add: empty_chat_def quiet_chat_def)
  note go = reachable.continue [of "site_start (\<lambda>s. empty_chat (own s))" "site_step chat_request", folded reachable_chat_def]
  show 1: "reachable_chat talk1" unfolding talk1_def by (rule go [OF 0], rule site_step.served, rule chat_request.open_chat)
  show 2: "reachable_chat talk2" unfolding talk2_def by (rule go [OF 1], rule site_step.served, rule chat_request.send)
  show "reachable_chat talk3" unfolding talk3_def by (rule go [OF 2], rule site_step.served, rule chat_request.read)
qed

declare run_defs [simp] site_defs [simp] chat_defs [simp] demo_rows [simp] demo_env_sel [simp] service_texts [simp]

lemmas talk1_state [simp] = talk1_def [simplified talk0_def quiet_chat_def demo3_state, simplified]
lemmas talk2_state [simp] = talk2_def [simplified]
lemmas talk3_state [simp] = talk3_def [simplified]

lemmas talk_states = talk1_state talk2_state talk3_state

declare talk_states [simp del] chat_defs [simp del]

section \<open>A call\<close>

definition line0 :: "exchange site" where
  "line0 = \<lparr>core = core talk3, own = \<lparr>line_chat = own talk3, line_next_id = 80, calls = []\<rparr>\<rparr>"
definition line1 :: "exchange site" where
  "line1 = site_after (invite_call demo_env employer 50 ''c1'' ''voice'') line0"
definition line2 :: "exchange site" where
  "line2 = site_after (accept_call demo_env freelancer 80) line1"
definition line3 :: "exchange site" where
  "line3 = site_after (end_call demo_env employer 80 ''bye'') line2"

declare call_defs [simp]

lemmas line1_state [simp] = line1_def [simplified line0_def talk3_state, simplified]
lemmas line2_state [simp] = line2_def [simplified]
lemmas line3_state [simp] = line3_def [simplified]

lemmas line_states = line1_state line2_state line3_state

declare line_states [simp del] call_defs [simp del]

text \<open>The conversation of the call came about beside the empty exchange.\<close>

lemma lines_from_chat:
  assumes "reachable_chat s"
  shows "reachable_lines \<lparr>core = core s, own = \<lparr>line_chat = own s, line_next_id = n, calls = []\<rparr>\<rparr>"
proof -
  let ?line = "\<lambda>s. \<lparr>core = core s, own = \<lparr>line_chat = own s, line_next_id = n, calls = []\<rparr>\<rparr>"
  have "reachable (site_start (\<lambda>s. empty_lines (own s))) (site_step line_request) (?line s)"
    using assms unfolding reachable_chat_def
  proof induction
    case (start s)
    then show ?case by (intro reachable.start) (simp add: site_start_def empty_lines_def)
  next
    case (continue s s')
    from continue.hyps(2) have "site_step line_request (?line s) (?line s')"
    proof cases
      case served
      have "chat_view (?line s) = s" by (simp add: chat_view_def)
      then have "line_request (?line s) (?line s')"
        using line_request.chat_served [of "?line s" s'] served by simp
      then show ?thesis by (rule site_step.served)
    next
      case (platform_moved d)
      then show ?thesis using site_step.platform_moved [of "?line s" d line_request] by simp
    qed
    with continue.IH show ?case by (rule reachable.continue)
  qed
  then show ?thesis by (simp add: reachable_lines_def)
qed

lemma line_reachable: "reachable_lines line0" "reachable_lines line1" "reachable_lines line2" "reachable_lines line3"
proof -
  show 0: "reachable_lines line0" unfolding line0_def by (rule lines_from_chat [OF talk_reachable(4)])
  note go = reachable.continue [of "site_start (\<lambda>s. empty_lines (own s))" "site_step line_request", folded reachable_lines_def]
  show 1: "reachable_lines line1" unfolding line1_def by (rule go [OF 0], rule site_step.served, rule line_request.invite)
  show 2: "reachable_lines line2" unfolding line2_def by (rule go [OF 1], rule site_step.served, rule line_request.accept)
  show "reachable_lines line3" unfolding line3_def by (rule go [OF 2], rule site_step.served, rule line_request.hang_up)
qed

section \<open>A file\<close>

definition demo_storage :: storage where
  "demo_storage = \<lparr>sg_max_upload = 100, sg_presign_upload = (\<lambda>k m. k), sg_presign_download = (\<lambda>k n. k),
     sg_head = (\<lambda>k. Some (2, ''text/plain'')), sg_content = (\<lambda>k. Some [''h'', ''i'']),
     sg_scanner_mode = ''basic'', sg_clamav = (\<lambda>_. None)\<rparr>"

definition desk0 :: "desk site" where
  "desk0 = \<lparr>core = demo3, own = \<lparr>desk_chat = quiet_chat, desk_next_id = 90, scan_receipts = []\<rparr>\<rparr>"
definition desk1 :: "desk site" where
  "desk1 = site_after (create_upload demo_env demo_storage employer ''a.txt'' ''text/plain'' 2 ''MESSAGE_ATTACHMENT'' None) desk0"
definition desk2 :: "desk site" where
  "desk2 = site_after (complete_upload demo_env demo_storage employer 90) desk1"
definition desk3 :: "desk site" where
  "desk3 = site_after (drain_scan_outbox demo_env demo_storage 5) desk2"

text \<open>The scanned file is sent as an attachment.\<close>

definition share :: "(chat, 'a) sop \<Rightarrow> desk site \<Rightarrow> desk site" where
  "share m s = (let v = site_after m (chat_of s) in s\<lparr>core := core v, own := (own s)\<lparr>desk_chat := own v\<rparr>\<rparr>)"

definition desk4 :: "desk site" where
  "desk4 = share (get_or_create_contract_conversation demo_env employer 10) desk3"
definition desk5 :: "desk site" where
  "desk5 = share (send_message demo_env employer 50 ''m1'' ''hello'' [90]) desk4"

lemmas file_defs = files_valid_def flush_files_def add_file_def put_file_def modify_core_def desk_id_def
  allowed_mime_types_def allowed_extensions_def allowed_purposes_def create_upload_def owned_file_for_update_def
  complete_upload_def basic_scan_def scan_file_def checked_result_def payload_file_id_def
  add_scan_receipt_def j_id_def process_scan_event_def pending_scans_def drain_scan_outbox_def

lemma file_texts:
  "strip (path_name ''a.txt'') = ''a.txt''" "lower (path_suffix ''a.txt'') = ''.txt''"
  "scan_chunks [''h'', ''i''] = (''hi'', ''hi'', False)" "magic_mismatch ''hi'' ''text/plain'' False = None"
  "parse_uuid (str_uuid 90) = Some 90"
  by code_simp+

declare file_defs [simp] file_texts [simp] demo_storage_def [simp]

lemmas desk1_state [simp] = desk1_def [simplified desk0_def quiet_chat_def demo3_state, simplified]
lemmas desk2_state [simp] = desk2_def [simplified]
lemmas desk3_state [simp] = desk3_def [simplified]

declare chat_defs [simp] share_def [simp] chat_of_def [simp]

lemmas desk4_state [simp] = desk4_def [simplified]
lemmas desk5_state [simp] = desk5_def [simplified]

lemmas desk_states = desk1_state desk2_state desk3_state desk4_state desk5_state

declare desk_states [simp del] file_defs [simp del] file_texts [simp del] demo_storage_def [simp del]
  run_defs [simp del] site_defs [simp del] demo_rows [simp del] demo_env_sel [simp del] service_texts [simp del]
  chat_defs [simp del] share_def [simp del] chat_of_def [simp del]

lemma desk_reachable: "reachable_desk desk3" "reachable_desk desk5" "(site_step desk_request)\<^sup>*\<^sup>* desk3 desk5"
proof -
  have 0: "reachable_desk desk0" unfolding reachable_desk_def desk0_def
    by (rule reachable_beside [OF demo_reachable_3]) (simp add: empty_desk_def empty_chat_def quiet_chat_def demo3_state)
  note go = reachable.continue [of "site_start empty_desk" "site_step desk_request", folded reachable_desk_def]
  have 1: "reachable_desk desk1" unfolding desk1_def by (rule go [OF 0], rule site_step.served, rule desk_request.reserve)
  have 2: "reachable_desk desk2" unfolding desk2_def by (rule go [OF 1], rule site_step.served, rule desk_request.complete)
  show 3: "reachable_desk desk3" unfolding desk3_def by (rule go [OF 2], rule site_step.served, rule desk_request.scan)
  have step4: "site_step desk_request desk3 desk4" unfolding desk4_def share_def Let_def
    by (rule site_step.served, rule desk_request.chat_served, rule chat_request.open_chat)
  have step5: "site_step desk_request desk4 desk5" unfolding desk5_def share_def Let_def
    by (rule site_step.served, rule desk_request.chat_served, rule chat_request.send)
  show "reachable_desk desk5" by (rule go [OF go [OF 3 step4] step5])
  show "(site_step desk_request)\<^sup>*\<^sup>* desk3 desk5" using step4 step5 by (rule converse_rtranclp_into_rtranclp [OF _ r_into_rtranclp])
qed

end
