(* ===== verification/Services.thy ===== *)
theory Services
  imports Scenario_Services
begin

text \<open>
  What the services beside the money core promise in every state they can reach together with the
  platform: messaging, calls and files.
\<close>

section \<open>Messaging\<close>

text \<open>C30: Messages are numbered without gaps: in every reachable state the messages of a conversation, in
  the order they were stored, have the numbers 1, 2, 3 up to the last one handed out, and every
  sender is a member of the conversation.\<close>

theorem messages_gapless:
  assumes "reachable_chat s" and "k \<in> set (conversations (own s))"
  shows "map mg_sequence (filter (\<lambda>m. mg_conversation m = cn_id k) (messages (own s))) = [1..cn_next k - 1] \<and>
    (\<forall>m\<in>set (messages (own s)). mg_conversation m = cn_id k \<longrightarrow> mg_sender m \<in> mb_user ` set (cn_members k))"
  using chat_parts(4) [of "own s" k] reachable_chat_ok [OF assms(1)] assms(2)
  by (auto simp: conversation_ok_def conv_messages_def)

theorem messages_gapless_witness:
  "map mg_sequence (messages (own talk3)) = [1] \<and> cn_next (hd (conversations (own talk3))) = 2"
  using messages_gapless [OF talk_reachable(4), of "hd (conversations (own talk3))"]
  by (simp add: talk3_state)

text \<open>A read cursor tells the truth: it never runs ahead of the conversation, and the member has a
  read receipt for every message of others up to it.\<close>

theorem read_cursor_justified:
  assumes "reachable_chat s" and "k \<in> set (conversations (own s))" and "b \<in> set (cn_members k)"
    and "m \<in> set (messages (own s))" and "mg_conversation m = cn_id k" and "mg_sender m \<noteq> mb_user b"
    and "mg_sequence m \<le> mb_last_read b"
  shows "mb_last_read b < cn_next k \<and>
    (\<exists>r\<in>set (receipts (own s)). rc_message r = mg_id m \<and> rc_user r = mb_user b \<and> rc_type r = READ)"
  using chat_parts(4) [of "own s" k] reachable_chat_ok [OF assms(1)] assms
  by (auto simp: conversation_ok_def cursor_ok_def conv_messages_def has_read_def)

theorem read_cursor_justified_witness:
  "mb_last_read (cn_members (hd (conversations (own talk3))) ! 1) = 1 \<and>
    (\<exists>r\<in>set (receipts (own talk3)). rc_user r = 2 \<and> rc_type r = READ)"
  using read_cursor_justified [OF talk_reachable(4), of "hd (conversations (own talk3))"
      "cn_members (hd (conversations (own talk3))) ! 1" "hd (messages (own talk3))"]
  by (simp add: talk3_state)

text \<open>C31: Sending is retry-safe: after a successful send, the same request (by the same user, with the same
  client message id, text and attachments, at whatever time) returns the same message and leaves the
  committed state as it is.\<close>

theorem send_message_retry:
  assumes "run_request (send_message env user i client_id body ids) s = (Inr m, s')" and "reachable_chat s"
  shows "run_request (send_message env' user i client_id body ids) s' = (Inr m, s')"
  using assms(1) reachable_chat_ok [OF assms(2)] by (intro send_message_repeats) auto

lemma talk2_sent: "run_request (send_message demo_env employer 50 ''m1'' ''hello'' []) talk1 = (Inr (hd (messages (own talk2))), talk2)"
proof -
  have "fst (run_request (send_message demo_env employer 50 ''m1'' ''hello'' []) talk1) = Inr (hd (messages (own talk2)))"
    by (simp add: talk2_state) (simp add: talk1_state run_defs site_defs chat_defs demo_rows demo_env_sel service_texts)
  then show ?thesis by (simp add: talk2_def site_after_def prod_eq_iff)
qed

theorem send_message_retry_witness:
  "run_request (send_message demo_env employer 50 ''m1'' ''hello'' []) talk2 = (Inr (hd (messages (own talk2))), talk2)"
  by (rule send_message_retry [OF talk2_sent talk_reachable(2)])

section \<open>Calls\<close>

text \<open>C34: Calls are well formed in every reachable state: the parties of a call are the two members of its
  conversation, who are different users; the time stamps are those of its status; and a
  conversation has one live call at most.\<close>

theorem calls_well_formed:
  assumes "reachable_lines s" and "c \<in> set (calls (own s))"
  shows "(\<exists>k\<in>set (conversations (line_chat (own s))). cn_id k = ca_conversation c \<and>
      mb_user ` set (cn_members k) = {ca_caller c, ca_callee c}) \<and> ca_caller c \<noteq> ca_callee c \<and>
    (ca_accepted c = None \<and> ca_ended c = None \<and> ca_status c = INVITED \<or>
     ca_accepted c \<noteq> None \<and> ca_ended c = None \<and> ca_status c = ACTIVE \<or>
     ca_ended c \<noteq> None \<and> ca_status c = ENDED) \<and>
    (\<forall>c'\<in>set (calls (own s)). live c \<and> live c' \<and> ca_conversation c' = ca_conversation c \<longrightarrow> c' = c)"
proof -
  have ok: "calls_ok (own s)" using assms(1) by (rule reachable_calls_ok)
  have "call_row_valid c" using ok assms(2) by (simp add: calls_ok_def calls_valid_def list_all_iff)
  moreover have "\<forall>c'\<in>set (calls (own s)). live c \<and> live c' \<and> ca_conversation c' = ca_conversation c \<longrightarrow> c' = c"
    using ok assms(2) by (auto simp: calls_ok_def calls_valid_def distinct_map dest: inj_onD)
  moreover have "call_ok (own s) c" using ok assms(2) by (simp add: calls_ok_def)
  ultimately show ?thesis by (cases "ca_status c") (auto simp: call_row_valid_def call_ok_def)
qed

theorem calls_well_formed_witness: "ca_callee (hd (calls (own line2))) = 2 \<and> ca_accepted (hd (calls (own line2))) \<noteq> None"
  using calls_well_formed [OF line_reachable(3), of "hd (calls (own line2))"] by (simp add: line2_state)

lemma call_steps_edges: "call_step\<^sup>*\<^sup>* c c' \<Longrightarrow> call_edge\<^sup>*\<^sup>* (ca_status c) (ca_status c') \<and>
    ca_caller c' = ca_caller c \<and> ca_callee c' = ca_callee c \<and> ca_conversation c' = ca_conversation c"
proof (induction rule: rtranclp_induct)
  case (step c' c'')
  then have "call_edge (ca_status c') (ca_status c'')" by (simp add: call_step_def)
  with step call_step_key [OF step.hyps(2)] show ?case by (auto intro: rtranclp.rtrancl_into_rtrancl)
qed simp

text \<open>C32: A call follows its machine: along every run of calls, messaging and platform it stays between
  the same parties, its status only moves from INVITED over ACTIVE to ENDED, and an ended call is
  never written again.\<close>

theorem calls_follow_machine:
  assumes "reachable_lines s" and "(site_step line_request)\<^sup>*\<^sup>* s s'" and "c \<in> set (calls (own s))"
  shows "\<exists>c'\<in>set (calls (own s')). ca_id c' = ca_id c \<and> ca_caller c' = ca_caller c \<and> ca_callee c' = ca_callee c \<and>
    ca_conversation c' = ca_conversation c \<and> call_edge\<^sup>*\<^sup>* (ca_status c) (ca_status c') \<and> (ca_status c = ENDED \<longrightarrow> c' = c)"
proof -
  have "site_inv (\<lambda>s. calls_ok (own s)) s"
    using assms(1) unfolding reachable_lines_def by (rule lines.system.reachable_inv)
  then have "develops ca_id call_step (calls (own s)) (calls (own s'))" "distinct (map ca_id (calls (own s)))"
    using lines.history.rel_steps [OF assms(2)] by (auto simp: lines_kept_def site_inv_def calls_ok_def fresh_ids_def)
  then obtain c' where c': "c' \<in> set (calls (own s'))" "call_step\<^sup>*\<^sup>* c c'"
    using row_memD [OF _ _ assms(3), of ca_id] by blast
  have "c' = c" if "ca_status c = ENDED" using c'(2) by (rule stuck) (use that in \<open>simp add: call_step_def\<close>)
  with c' call_steps_edges [OF c'(2)] call_rows.steps_key [OF c'(2)] show ?thesis by blast
qed

theorem calls_follow_machine_witness:
  "\<exists>c'\<in>set (calls (own line3)). call_edge\<^sup>*\<^sup>* INVITED (ca_status c') \<and> ca_callee c' = 2"
proof -
  have "(site_step line_request)\<^sup>*\<^sup>* line1 line3"
    unfolding line2_def line3_def
    by (rule converse_rtranclp_into_rtranclp, rule site_step.served, rule line_request.accept,
        rule r_into_rtranclp, rule site_step.served, rule line_request.hang_up)
  then show ?thesis
    using calls_follow_machine [OF line_reachable(2), of line3 "hd (calls (own line1))"] by (auto simp: line1_state)
qed

section \<open>Files\<close>

text \<open>C20: Every attachment of a message is a SAFE file, uploaded by the sender as a message attachment: the
  check made when the message is sent still holds in every later state, however uploads, scans,
  messages and the platform interleave.\<close>

theorem attachments_are_safe:
  assumes "reachable_desk s" and "m \<in> set (messages (desk_chat (own s)))" and "i \<in> set (mg_attachments m)"
  shows "\<exists>f\<in>set (file_objects (core s)). fo_id f = i \<and> fo_owner f = mg_sender m \<and> fo_status f = ''SAFE'' \<and>
    fo_purpose f = ''MESSAGE_ATTACHMENT''"
  using reachable_desk_ok [OF assms(1)] assms(2,3) by (simp add: desk_ok_def attachments_ok_def attachment_ok_def)

theorem attachments_are_safe_witness: "\<exists>f\<in>set (file_objects (core desk5)). fo_id f = 90 \<and> fo_status f = ''SAFE''"
  using attachments_are_safe [OF desk_reachable(2), of "hd (messages (desk_chat (own desk5)))" 90]
  by (auto simp: desk5_state)

text \<open>C33: A file is SAFE only after a scan that confirmed its digest, and from then on it is never written
  again: along every run a SAFE file stays as it is, with a scan receipt; a digest that was declared
  with the reservation stays the digest of the file unless the file is rejected.\<close>

theorem safe_files_final:
  assumes "reachable_desk s" and "(site_step desk_request)\<^sup>*\<^sup>* s s'" and "f \<in> set (file_objects (core s))"
  shows "(fo_status f = ''SAFE'' \<longrightarrow> f \<in> set (file_objects (core s')) \<and> fo_sha256 f \<noteq> None \<and>
      (\<exists>e. (e, fo_id f) \<in> set (scan_receipts (own s)))) \<and>
    (\<exists>g\<in>set (file_objects (core s')). fo_id g = fo_id f \<and> fo_owner g = fo_owner f \<and>
      (fo_sha256 f \<noteq> None \<and> fo_status g \<noteq> ''REJECTED'' \<longrightarrow> fo_sha256 g = fo_sha256 f))"
proof -
  have inv: "site_inv desk_ok s" using assms(1) unfolding reachable_desk_def by (rule desk.system.reachable_inv)
  then have dev: "develops fo_id file_step (file_objects (core s)) (file_objects (core s'))"
      and ids: "distinct (map fo_id (file_objects (core s)))"
    using desk.history.rel_steps [OF assms(2)] by (auto simp: desk_kept_def site_inv_def desk_ok_def fresh_ids_def)
  obtain g where g: "g \<in> set (file_objects (core s'))" "file_step\<^sup>*\<^sup>* f g"
    using row_memD [OF dev ids assms(3)] by blast
  have "g = f" if "fo_status f = ''SAFE''"
    using g(2) by (rule stuck) (use that in \<open>simp add: file_step_def file_edge_simps\<close>)
  moreover have "file_ok (scan_receipts (own s)) f" using inv assms(3) by (simp add: site_inv_def desk_ok_def)
  ultimately show ?thesis using g file_steps_facts [OF g(2)] by (fastforce simp: file_ok_def)
qed

theorem safe_files_final_witness: "hd (file_objects (core desk3)) \<in> set (file_objects (core desk5))"
  using safe_files_final [OF desk_reachable(1,3), of "hd (file_objects (core desk3))"] by (simp add: desk3_state)

end
