(* ===== verification/Pii.thy ===== *)
theory Pii
  imports AuditLog
begin

text \<open>
  The envelope encryption of personal data (\<open>app/identity/pii.py\<close>): a ciphertext names the key that
  sealed it, the active key seals new ones, and a blind index finds a value without decrypting.
  AES-GCM is a parameter (\<open>aead\<close>); base64 and UTF-8 are the standard library's, on strings of
  code points below 256, which are also the bytes.
\<close>

section \<open>Base64\<close>

fun bits :: "nat \<Rightarrow> nat \<Rightarrow> bool list" where
  "bits 0 n = []"
| "bits (Suc k) n = bits k (n div 2) @ [odd n]"

definition unbits :: "bool list \<Rightarrow> nat" where
  "unbits bs = foldl (\<lambda>a b. 2 * a + of_bool b) 0 bs"

fun chunks :: "nat \<Rightarrow> 'a list \<Rightarrow> 'a list list" where
  "chunks k xs = (if k = 0 \<or> xs = [] then [] else take k xs # chunks k (drop k xs))"

declare chunks.simps [simp del]

definition base64_alphabet :: string where
  "base64_alphabet = ''ABCDEFGHIJKLMNOPQRSTUVWXYZabcdefghijklmnopqrstuvwxyz0123456789-_''"

text \<open>\<open>base64.urlsafe_b64encode(data).rstrip("=")\<close>\<close>

definition base64_encode :: "string \<Rightarrow> string" where
  "base64_encode data = (let bs = concat (map (\<lambda>c. bits 8 (of_char c)) data);
      padded = bs @ replicate ((6 - length bs mod 6) mod 6) False in
    map (\<lambda>g. base64_alphabet ! unbits g) (chunks 6 padded))"

text \<open>The value of a digit; \<open>b64decode\<close> with \<open>altchars\<close> still accepts the standard ones.\<close>

definition base64_value :: "char \<Rightarrow> nat option" where
  "base64_value c = (if c = CHR ''+'' then Some 62 else if c = CHR ''/'' then Some 63
     else if c \<in> set base64_alphabet then Some (length (takeWhile (\<lambda>x. x \<noteq> c) base64_alphabet)) else None)"

definition base64_decode :: "string \<Rightarrow> string option" where
  "base64_decode s = (let v = s @ replicate ((4 - length s mod 4) mod 4) (CHR ''='');
      digits = takeWhile (\<lambda>c. c \<noteq> CHR ''='') v; rest = dropWhile (\<lambda>c. c \<noteq> CHR ''='') v;
      vals = map base64_value digits; bs = concat (map (\<lambda>x. bits 6 (the x)) vals) in
    if length rest \<le> 2 \<and> list_all (\<lambda>c. c = CHR ''='') rest \<and> list_all (\<lambda>x. x \<noteq> None) vals
    then Some (map (\<lambda>g. char_of (unbits g)) (chunks 8 (take (8 * (length bs div 8)) bs))) else None)"

section \<open>UTF-8 of code points below 256\<close>

fun utf8_encode :: "string \<Rightarrow> string" where
  "utf8_encode [] = []"
| "utf8_encode (c # s) = (let n = (of_char c :: nat) in
     if n < 128 then c # utf8_encode s
     else char_of (192 + n div 64) # char_of (128 + n mod 64) # utf8_encode s)"

fun utf8_decode :: "string \<Rightarrow> string option" where
  "utf8_decode [] = Some []"
| "utf8_decode (c # s) =
     (if (of_char c :: nat) < 128 then map_option ((#) c) (utf8_decode s)
      else case s of [] \<Rightarrow> None
        | d # t \<Rightarrow> let a = (of_char c :: nat); b = (of_char d :: nat) in
            if 194 \<le> a \<and> a \<le> 195 \<and> 128 \<le> b \<and> b < 192
            then map_option ((#) (char_of ((a - 192) * 64 + (b - 128)))) (utf8_decode t) else None)"

section \<open>The cipher\<close>

record aead =
  gcm_encrypt :: "string \<Rightarrow> string \<Rightarrow> string \<Rightarrow> string \<Rightarrow> string"
  gcm_decrypt :: "string \<Rightarrow> string \<Rightarrow> string \<Rightarrow> string \<Rightarrow> string option"

record pii_cipher =
  active_key_id :: string
  pii_keys :: "(string \<times> string) list"
  pii_lookup_key :: string

definition partition_on :: "char \<Rightarrow> string \<Rightarrow> string \<times> bool \<times> string" where
  "partition_on c s = (let before = takeWhile (\<lambda>x. x \<noteq> c) s in
     if c \<in> set s then (before, True, drop (Suc (length before)) s) else (s, False, []))"

definition valid_key_id :: "string \<Rightarrow> bool" where
  "valid_key_id s \<longleftrightarrow> 1 \<le> length s \<and> length s \<le> 40 \<and>
     list_all (\<lambda>c. c \<in> set ''abcdefghijklmnopqrstuvwxyzABCDEFGHIJKLMNOPQRSTUVWXYZ0123456789._-'') s"

definition decode_key :: "string \<Rightarrow> exn + string" where
  "decode_key s = (case base64_decode s of
     None \<Rightarrow> Inl ValueError
   | Some k \<Rightarrow> if length k \<noteq> 32 then Inl ValueError else Inr k)"

fun parse_keys :: "string list \<Rightarrow> (string \<times> string) list \<Rightarrow> exn + (string \<times> string) list" where
  "parse_keys [] acc = Inr acc"
| "parse_keys (raw # raws) acc =
     (let entry = strip raw in
      if entry = [] then parse_keys raws acc
      else case partition_on (CHR '':'') entry of (key_id, found_sep, encoded) \<Rightarrow>
        if \<not> found_sep \<or> \<not> valid_key_id key_id then Inl ValueError
        else if map_of acc key_id \<noteq> None then Inl ValueError
        else case decode_key encoded of Inl e \<Rightarrow> Inl e | Inr k \<Rightarrow> parse_keys raws (acc @ [(key_id, k)]))"

definition from_config :: "string \<Rightarrow> string \<Rightarrow> exn + pii_cipher" where
  "from_config encryption_keys lookup_key =
    (case parse_keys (split_on (CHR '','') encryption_keys) [] of
      Inl e \<Rightarrow> Inl e
    | Inr [] \<Rightarrow> Inl ValueError
    | Inr ((i, k) # ks) \<Rightarrow>
        (case decode_key lookup_key of Inl e \<Rightarrow> Inl e
         | Inr lk \<Rightarrow> Inr \<lparr>active_key_id = i, pii_keys = (i, k) # ks, pii_lookup_key = lk\<rparr>))"

definition pii_aad :: "string \<Rightarrow> string" where
  "pii_aad ctxt = utf8_encode (''freelancing-platform:pii:'' @ ctxt @ '':v1'')"

text \<open>\<open>nonce\<close> is the 12 bytes \<open>os.urandom\<close> returns. The active key is one of the keys.\<close>

definition pii_encrypt :: "aead \<Rightarrow> pii_cipher \<Rightarrow> string \<Rightarrow> string \<Rightarrow> string \<Rightarrow> string" where
  "pii_encrypt g ci nonce v ctxt =
    (let key = (case map_of (pii_keys ci) (active_key_id ci) of Some k \<Rightarrow> k | None \<Rightarrow> []);
         sealed = gcm_encrypt g key nonce (utf8_encode v) (pii_aad ctxt) in
     ''v1:'' @ active_key_id ci @ '':'' @ base64_encode (nonce @ sealed))"

definition pii_decrypt :: "aead \<Rightarrow> pii_cipher \<Rightarrow> string \<Rightarrow> string \<Rightarrow> exn + string" where
  "pii_decrypt g ci v ctxt =
    (case partition_on (CHR '':'') v of (version, sep, remainder) \<Rightarrow>
     case partition_on (CHR '':'') remainder of (key_id, second_sep, encoded) \<Rightarrow>
     if version \<noteq> ''v1'' \<or> \<not> sep \<or> \<not> second_sep then Inl ValueError else
     case map_of (pii_keys ci) key_id of None \<Rightarrow> Inl ValueError | Some key \<Rightarrow>
     case base64_decode encoded of None \<Rightarrow> Inl ValueError | Some payload \<Rightarrow>
     if length payload \<le> 12 then Inl ValueError else
     case gcm_decrypt g key (take 12 payload) (drop 12 payload) (pii_aad ctxt) of
       None \<Rightarrow> Inl ValueError
     | Some plaintext \<Rightarrow> (case utf8_decode plaintext of None \<Rightarrow> Inl ValueError | Some t \<Rightarrow> Inr t))"

definition blind_index :: "env \<Rightarrow> pii_cipher \<Rightarrow> string \<Rightarrow> string \<Rightarrow> string" where
  "blind_index env ci v ctxt = env_hmac env (pii_lookup_key ci) (utf8_encode ctxt @ [CHR 0x00] @ utf8_encode v)"

definition needs_rotation :: "pii_cipher \<Rightarrow> string \<Rightarrow> exn + bool" where
  "needs_rotation ci v =
    (case partition_on (CHR '':'') v of (version, sep, remainder) \<Rightarrow>
     case partition_on (CHR '':'') remainder of (key_id, second_sep, _) \<Rightarrow>
     if version \<noteq> ''v1'' \<or> \<not> sep \<or> \<not> second_sep then Inl ValueError
     else Inr (key_id \<noteq> active_key_id ci))"

definition pii_rewrap :: "aead \<Rightarrow> pii_cipher \<Rightarrow> string \<Rightarrow> string \<Rightarrow> string \<Rightarrow> exn + string" where
  "pii_rewrap g ci nonce v ctxt =
    (case needs_rotation ci v of Inl e \<Rightarrow> Inl e
     | Inr False \<Rightarrow> Inr v
     | Inr True \<Rightarrow> (case pii_decrypt g ci v ctxt of Inl e \<Rightarrow> Inl e
         | Inr t \<Rightarrow> Inr (pii_encrypt g ci nonce t ctxt)))"

section \<open>Base64 round trip\<close>

lemma length_bits [simp]: "length (bits k n) = k"
  by (induction k arbitrary: n) simp_all

lemma unbits_snoc [simp]: "unbits (bs @ [b]) = 2 * unbits bs + of_bool b"
  by (simp add: unbits_def)

lemma unbits_less: "unbits bs < 2 ^ length bs"
  by (induction bs rule: rev_induct) (auto simp: unbits_def)

lemma bits_unbits: "bits (length bs) (unbits bs) = bs"
  by (induction bs rule: rev_induct) auto

lemma unbits_bits: "n < 2 ^ k \<Longrightarrow> unbits (bits k n) = n"
proof (induction k arbitrary: n)
  case (Suc k)
  then have "n div 2 < 2 ^ k" by auto
  with Suc.IH show ?case by (simp add: mod_2_eq_odd [symmetric])
qed (simp add: unbits_def)

lemma chunks_concat: "(\<And>x. x \<in> set xss \<Longrightarrow> length x = k) \<Longrightarrow> 0 < k \<Longrightarrow> chunks k (concat xss) = xss"
proof (induction xss)
  case (Cons x xss)
  then have "chunks k (x @ concat xss) = x # chunks k (concat xss)"
    by (subst chunks.simps) auto
  with Cons show ?case by simp
qed (simp add: chunks.simps)

lemma concat_chunks: "0 < k \<Longrightarrow> concat (chunks k xs) = xs"
  by (induction k xs rule: chunks.induct) (subst chunks.simps, auto)

lemma chunks_length: "0 < k \<Longrightarrow> k dvd length xs \<Longrightarrow> g \<in> set (chunks k xs) \<Longrightarrow> length g = k"
proof (induction k xs rule: chunks.induct)
  case (1 k xs)
  show ?case
  proof (cases "xs = []")
    case False
    have k: "k \<le> length xs" using False 1(3) by (simp add: dvd_imp_le)
    have "g = take k xs \<or> g \<in> set (chunks k (drop k xs))"
      using 1(4) by (subst (asm) chunks.simps) (simp split: if_splits)
    moreover have "k dvd length (drop k xs)" using 1(3) k by (simp add: dvd_diff_nat)
    ultimately show ?thesis using 1(1,2) False k by auto
  qed (use 1 in \<open>simp add: chunks.simps\<close>)
qed

lemma alphabet_digit:
  "n < 64 \<Longrightarrow> base64_value (base64_alphabet ! n) = Some n \<and> base64_alphabet ! n \<noteq> CHR ''=''"
proof -
  have "\<forall>n\<in>set [0..<64]. base64_value (base64_alphabet ! n) = Some n \<and> base64_alphabet ! n \<noteq> CHR ''=''"
    by code_simp
  then show "n < 64 \<Longrightarrow> ?thesis" by simp
qed

definition byte_bits :: "string \<Rightarrow> bool list" where
  "byte_bits data = concat (map (\<lambda>c. bits 8 (of_char c)) data)"

lemma length_byte_bits [simp]: "length (byte_bits data) = 8 * length data"
  by (induction data) (simp_all add: byte_bits_def)

lemma bytes_back: "map (\<lambda>g. char_of (unbits g)) (chunks 8 (byte_bits data)) = data"
proof -
  have "chunks 8 (byte_bits data) = map (\<lambda>c. bits 8 (of_char c)) data"
    unfolding byte_bits_def by (rule chunks_concat) auto
  moreover have "unbits (bits 8 (of_char c)) = of_char c" for c :: char
    by (rule unbits_bits) (use nat_of_char_less_256 [of c] in simp)
  ultimately show ?thesis by (simp add: map_idI)
qed

text \<open>Between \<open>8 m\<close> bits and whole digits: at most four bits are added, and a last group of one digit
  does not occur.\<close>

lemma padding_arith:
  fixes m :: nat
  assumes n: "n = 8 * m + (6 - 8 * m mod 6) mod 6"
  shows "6 dvd n" "n div 8 = m" "(4 - n div 6 mod 4) mod 4 \<le> 2"
proof -
  define q where "q = m div 3"
  have "m = 3 * q \<or> m = 3 * q + 1 \<or> m = 3 * q + 2" unfolding q_def by presburger
  then consider "m = 3 * q" "n = 24 * q" | "m = 3 * q + 1" "n = 24 * q + 12" | "m = 3 * q + 2" "n = 24 * q + 18"
  proof (elim disjE)
    assume m: "m = 3 * q"
    then have "8 * m mod 6 = 0" by presburger
    with m that(1) n show thesis by simp
  next
    assume m: "m = 3 * q + 1"
    then have "8 * m mod 6 = 2" by presburger
    with m that(2) n show thesis by simp
  next
    assume m: "m = 3 * q + 2"
    then have "8 * m mod 6 = 4" by presburger
    with m that(3) n show thesis by simp
  qed
  then have "6 dvd n \<and> n div 8 = m \<and> (n div 6 = 4 * q \<or> n div 6 = 4 * q + 2 \<or> n div 6 = 4 * q + 3)"
    by cases presburger+
  moreover have "4 * q mod 4 = 0" "(4 * q + 2) mod 4 = 2" "(4 * q + 3) mod 4 = 3" by presburger+
  ultimately show "6 dvd n" "n div 8 = m" "(4 - n div 6 mod 4) mod 4 \<le> 2" by auto
qed

lemma length_concat_equal: "(\<And>x. x \<in> set xss \<Longrightarrow> length x = k) \<Longrightarrow> length (concat xss) = k * length xss"
  by (induction xss) simp_all

text \<open>The decoder on digits, with the padding it adds.\<close>

lemma base64_decode_digits:
  assumes "list_all (\<lambda>c. c \<noteq> CHR ''='' \<and> base64_value c \<noteq> None) e" and "(4 - length e mod 4) mod 4 \<le> 2"
  shows "base64_decode e = (let bs = concat (map (\<lambda>c. bits 6 (the (base64_value c))) e) in
    Some (map (\<lambda>g. char_of (unbits g)) (chunks 8 (take (8 * (length bs div 8)) bs))))"
proof -
  define pad where "pad = replicate ((4 - length e mod 4) mod 4) (CHR ''='')"
  have "\<forall>c\<in>set e. c \<noteq> CHR ''=''" using assms(1) by (simp add: list_all_iff)
  then have "takeWhile (\<lambda>c. c \<noteq> CHR ''='') (e @ pad) = e" "dropWhile (\<lambda>c. c \<noteq> CHR ''='') (e @ pad) = pad"
    by (simp_all add: takeWhile_append dropWhile_append pad_def takeWhile_replicate dropWhile_replicate)
  moreover have "length pad \<le> 2" "list_all (\<lambda>c. c = CHR ''='') pad" using assms(2) by (simp_all add: pad_def list_all_iff)
  ultimately show ?thesis using assms(1)
    by (simp add: base64_decode_def Let_def pad_def [symmetric] list_all_iff comp_def)
qed

lemma base64_roundtrip: "base64_decode (base64_encode data) = Some data"
proof -
  define B where "B = byte_bits data"
  define P where "P = B @ replicate ((6 - length B mod 6) mod 6) False"
  define groups where "groups = chunks 6 P"
  have len: "length P = 8 * length data + (6 - 8 * length data mod 6) mod 6" by (simp add: P_def B_def)
  note arith = padding_arith [OF len]
  have six: "length g = 6" if "g \<in> set groups" for g using chunks_length [OF _ arith(1)] that by (simp add: groups_def)
  have joined: "concat groups = P" unfolding groups_def by (rule concat_chunks) simp
  have e: "base64_encode data = map (\<lambda>g. base64_alphabet ! unbits g) groups"
    by (simp add: base64_encode_def groups_def P_def B_def byte_bits_def Let_def)
  have digit: "base64_value (base64_alphabet ! unbits g) = Some (unbits g) \<and> base64_alphabet ! unbits g \<noteq> CHR ''=''"
    if "g \<in> set groups" for g
    by (rule alphabet_digit) (use unbits_less [of g] six [OF that] in simp)
  have "length P = 6 * length groups" using length_concat_equal [of groups 6] six joined by simp
  then have esize: "length (base64_encode data) = length P div 6" by (simp add: e)
  have "map (\<lambda>c. bits 6 (the (base64_value c))) (base64_encode data) = map (\<lambda>g. bits 6 (unbits g)) groups"
    using digit by (simp add: e)
  also have "\<dots> = groups" by (rule map_idI) (use six bits_unbits in metis)
  finally have P: "concat (map (\<lambda>c. bits 6 (the (base64_value c))) (base64_encode data)) = P" using joined by simp
  have "take (8 * (length P div 8)) P = B" unfolding arith(2) by (simp add: P_def B_def)
  moreover have "list_all (\<lambda>c. c \<noteq> CHR ''='' \<and> base64_value c \<noteq> None) (base64_encode data)"
    using digit by (simp add: e list_all_iff)
  moreover have "(4 - length (base64_encode data) mod 4) mod 4 \<le> 2" unfolding esize by (rule arith(3))
  ultimately show ?thesis by (simp add: base64_decode_digits P Let_def B_def bytes_back)
qed

section \<open>UTF-8 round trip\<close>

lemma byte_high: "128 \<le> n \<Longrightarrow> n < 256 \<Longrightarrow> n div 64 = 2 \<or> n div 64 = 3" for n :: nat
  using div_le_mono [of 128 n 64] less_mult_imp_div_less [of n 4 64] by auto

lemma utf8_roundtrip: "utf8_decode (utf8_encode s) = Some s"
proof (induction s)
  case (Cons c s)
  let ?n = "of_char c :: nat"
  show ?case
  proof (cases "?n < 128")
    case False
    have n: "?n < 256" by simp
    have d: "?n div 64 = 2 \<or> ?n div 64 = 3" by (rule byte_high) (use False n in simp_all)
    then have hi: "(of_char (char_of (192 + ?n div 64) :: char) :: nat) = 192 + ?n div 64" by (auto simp: of_char_of)
    have lo: "(of_char (char_of (128 + ?n mod 64) :: char) :: nat) = 128 + ?n mod 64"
      using mod_less_divisor [of 64 ?n] by (simp add: of_char_of)
    have same: "char_of ((?n div 64) * 64 + ?n mod 64) = c" by simp
    have "char_of (128 + ?n mod 64) = c" if "?n div 64 = 2" using same unfolding that by simp
    moreover have "char_of (192 + ?n mod 64) = c" if "?n div 64 = 3" using same unfolding that by simp
    ultimately show ?thesis using False d Cons.IH mod_less_divisor [of 64 ?n]
      by (auto simp: hi lo Let_def)
  qed (simp add: Cons.IH)
qed simp

section \<open>What the cipher promises\<close>

text \<open>The documented behaviour of AES-GCM the envelope relies on: opening with the same key, nonce and
  associated data returns the plaintext, and a sealed text is not empty (it ends with a tag).\<close>

definition aead_correct :: "aead \<Rightarrow> bool" where
  "aead_correct g \<longleftrightarrow> (\<forall>k n p a. gcm_decrypt g k n (gcm_encrypt g k n p a) a = Some p \<and> gcm_encrypt g k n p a \<noteq> [])"

lemma partition_on_prefix: "c \<notin> set a \<Longrightarrow> partition_on c (a @ c # r) = (a, True, r)"
  by (induction a) (auto simp: partition_on_def Let_def)

lemma partition_envelope:
  assumes "valid_key_id i"
  shows "partition_on (CHR '':'') (''v1:'' @ i @ '':'' @ r) = (''v1'', True, i @ '':'' @ r)"
    "partition_on (CHR '':'') (i @ '':'' @ r) = (i, True, r)"
proof -
  have "CHR '':'' \<notin> set i"
  proof
    assume "CHR '':'' \<in> set i"
    then have "CHR '':'' \<in> set ''abcdefghijklmnopqrstuvwxyzABCDEFGHIJKLMNOPQRSTUVWXYZ0123456789._-''"
      using assms by (simp only: valid_key_id_def list_all_iff)
    then show False by simp
  qed
  then show "partition_on (CHR '':'') (i @ '':'' @ r) = (i, True, r)" using partition_on_prefix [of "CHR '':''" i r] by simp
  show "partition_on (CHR '':'') (''v1:'' @ i @ '':'' @ r) = (''v1'', True, i @ '':'' @ r)"
    using partition_on_prefix [of "CHR '':''" "''v1''" "i @ '':'' @ r"] by simp
qed

definition cipher_ok :: "pii_cipher \<Rightarrow> bool" where
  "cipher_ok ci \<longleftrightarrow> map_of (pii_keys ci) (active_key_id ci) \<noteq> None \<and> (\<forall>i\<in>fst ` set (pii_keys ci). valid_key_id i) \<and>
     (\<forall>k\<in>snd ` set (pii_keys ci). length k = 32)"

lemma parse_keys_ok:
  "parse_keys raws acc = Inr ks \<Longrightarrow> (\<forall>p\<in>set acc. valid_key_id (fst p) \<and> length (snd p) = 32) \<Longrightarrow>
    \<forall>p\<in>set ks. valid_key_id (fst p) \<and> length (snd p) = 32"
  by (induction raws acc rule: parse_keys.induct)
    (auto simp: Let_def decode_key_def split: if_splits prod.splits sum.splits option.splits)

lemma from_config_ok: "from_config keys lookup = Inr ci \<Longrightarrow> cipher_ok ci"
proof -
  assume ok: "from_config keys lookup = Inr ci"
  then obtain i k ks lk where "parse_keys (split_on (CHR '','') keys) [] = Inr ((i, k) # ks)"
      and ci: "ci = \<lparr>active_key_id = i, pii_keys = (i, k) # ks, pii_lookup_key = lk\<rparr>"
    by (auto simp: from_config_def split: sum.splits list.splits)
  from parse_keys_ok [OF this(1)] show ?thesis by (force simp: ci cipher_ok_def)
qed

lemma encrypt_decrypts:
  assumes "aead_correct g" and "cipher_ok ci" and "length nonce = 12"
    and "map_of (pii_keys ci') (active_key_id ci) = map_of (pii_keys ci) (active_key_id ci)"
  shows "pii_decrypt g ci' (pii_encrypt g ci nonce v ctxt) ctxt = Inr v"
proof -
  obtain key where key: "map_of (pii_keys ci) (active_key_id ci) = Some key" using assms(2) by (auto simp: cipher_ok_def)
  then have "active_key_id ci \<in> fst ` set (pii_keys ci)" by (metis domI dom_map_of_conv_image_fst)
  then have "valid_key_id (active_key_id ci)" using assms(2) by (auto simp: cipher_ok_def)
  note envelope = partition_envelope [OF this]
  show ?thesis using assms(1,3,4) key
    by (simp add: pii_decrypt_def pii_encrypt_def Let_def envelope [simplified] base64_roundtrip utf8_roundtrip aead_correct_def)
qed

end
