(* ===== verification/Identity.thy ===== *)
theory Identity
  imports Site Pii
begin

text \<open>
  Accounts, sessions and multi-factor authentication (\<open>app/identity/\<close>). A user row is split: the
  id and the roles, which every service reads, are the core's \<open>users\<close>; the credentials are the
  directory's accounts. Argon2, PyJWT, HMAC and the random generators are parameters (\<open>vault\<close>);
  random values are drawn by the directory's counter. Times are seconds.
\<close>

section \<open>Tables\<close>

record account =
  au_id :: uuid
  au_email_cipher :: string
  au_email_lookup :: string
  au_password_hash :: string
  au_active :: bool
  au_failed :: int
  au_locked_until :: "int option"
  au_mfa_seed :: "string option"
  au_mfa_enabled :: "int option"

record device =
  dv_id :: uuid
  dv_user :: uuid
  dv_fingerprint :: string
  dv_agent :: string
  dv_first_seen :: int
  dv_last_seen :: int

record session =
  se_id :: uuid
  se_user :: uuid
  se_device :: "uuid option"
  se_jti_hash :: string
  se_ip :: "string option"
  se_agent :: "string option"
  se_expires :: int
  se_revoked :: "int option"
  se_mfa_verified :: "int option"
  se_last_seen :: int

record verification =
  vf_id :: uuid
  vf_user :: uuid
  vf_kind :: string
  vf_token_hash :: string
  vf_consumed :: "int option"

record directory =
  dir_next :: nat
  user_accounts :: "account list"
  devices :: "device list"
  user_sessions :: "session list"
  verifications :: "verification list"

type_synonym 'a dir_op = "(directory, 'a) sop"

record vault =
  va_argon_hash :: "nat \<Rightarrow> string \<Rightarrow> string"
  va_argon_verify :: "string \<Rightarrow> string \<Rightarrow> bool"
  va_jwt_encode :: "json \<Rightarrow> string"
  va_jwt_decode :: "nat \<Rightarrow> string \<Rightarrow> json option"
  va_token_hex :: "nat \<Rightarrow> nat \<Rightarrow> string"
  va_nonce :: "nat \<Rightarrow> string"
  va_hmac_sha256 :: "string \<Rightarrow> string \<Rightarrow> string"
  va_hmac_sha1 :: "string \<Rightarrow> string \<Rightarrow> string"
  va_aead :: aead
  va_cipher :: pii_cipher
  va_mfa_key :: string
  va_mfa_issuer :: string
  va_access_ttl :: int
  va_refresh_ttl :: int
  va_max_failed :: int
  va_lock_seconds :: int
  va_mfa_ttl :: int

definition dir_id :: "uuid dir_op" where
  "dir_id = bnd (query_own dir_next) (\<lambda>i. seq (modify_own (\<lambda>t. t\<lparr>dir_next := Suc i\<rparr>)) (ret i))"

definition put_account :: "account \<Rightarrow> directory \<Rightarrow> directory" where
  "put_account a t = t\<lparr>user_accounts := put_row au_id a (user_accounts t)\<rparr>"

definition put_session :: "session \<Rightarrow> directory \<Rightarrow> directory" where
  "put_session se t = t\<lparr>user_sessions := put_row se_id se (user_sessions t)\<rparr>"

definition accounts_valid :: "directory \<Rightarrow> bool" where
  "accounts_valid t \<longleftrightarrow> distinct (map au_email_lookup (user_accounts t))"

definition directory_valid :: "directory \<Rightarrow> bool" where
  "directory_valid t \<longleftrightarrow> accounts_valid t \<and> distinct (map (\<lambda>d. (dv_user d, dv_fingerprint d)) (devices t)) \<and>
     distinct (map se_jti_hash (user_sessions t)) \<and> distinct (map vf_token_hash (verifications t))"

text \<open>\<open>_positive_int\<close>\<close>

definition positive_setting :: "int \<Rightarrow> exn + int" where
  "positive_setting n = (if n \<le> 0 then Inl RuntimeError else Inr n)"

section \<open>Passwords and tokens\<close>

definition hash_password :: "vault \<Rightarrow> nat \<Rightarrow> string \<Rightarrow> exn + string" where
  "hash_password va salt password = (if length password < 12 then Inl ValueError else Inr (va_argon_hash va salt password))"

definition hash_jti :: "env \<Rightarrow> string \<Rightarrow> string" where
  "hash_jti env jti = env_sha256 env jti"

definition token_claims :: "env \<Rightarrow> uuid \<Rightarrow> uuid \<Rightarrow> (string \<times> json) list" where
  "token_claims env u sid = [(''sub'', j_id u), (''sid'', j_id sid), (''iat'', JInt (int (env_now env)))]"

definition issue_token_pair :: "env \<Rightarrow> vault \<Rightarrow> uuid \<Rightarrow> uuid \<Rightarrow> (string \<times> string \<times> string \<times> int) dir_op" where
  "issue_token_pair env va u sid =
    bnd (query_core (\<lambda>d. row_by user_id u (users d))) (\<lambda>r.
    let roles = (case r of None \<Rightarrow> [] | Some x \<Rightarrow> user_roles x) in
    bnd dir_id (\<lambda>rj. bnd dir_id (\<lambda>aj.
    let expiry = int (env_now env) + va_refresh_ttl va;
        access = va_jwt_encode va (JObj (token_claims env u sid @ [(''type'', JStr ''access''), (''jti'', JStr (str_uuid aj)),
          (''roles'', JList (map JStr roles)), (''exp'', JInt (int (env_now env) + va_access_ttl va))]));
        refresh = va_jwt_encode va (JObj (token_claims env u sid @ [(''type'', JStr ''refresh''), (''jti'', JStr (str_uuid rj)),
          (''exp'', JInt expiry)])) in
    ret (access, refresh, str_uuid rj, expiry))))"

definition realtime_ticket_ttl :: int where "realtime_ticket_ttl = 60"

definition issue_realtime_ticket :: "env \<Rightarrow> vault \<Rightarrow> uuid \<Rightarrow> uuid \<Rightarrow> (string \<times> int) dir_op" where
  "issue_realtime_ticket env va u sid =
    bnd dir_id (\<lambda>j.
    let expires_at = int (env_now env) + realtime_ticket_ttl in
    ret (va_jwt_encode va (JObj (token_claims env u sid @ [(''exp'', JInt expires_at), (''jti'', JStr (str_uuid j)),
      (''type'', JStr ''realtime'')])), expires_at))"

definition decode_token :: "env \<Rightarrow> vault \<Rightarrow> string \<Rightarrow> string \<Rightarrow> exn + json" where
  "decode_token env va token expected_type =
    (case va_jwt_decode va (env_now env) token of
      None \<Rightarrow> Inl ValueError
    | Some p \<Rightarrow> if jget p ''type'' \<noteq> JStr expected_type then Inl ValueError else Inr p)"

definition claim_uuid :: "json \<Rightarrow> string \<Rightarrow> exn + uuid" where
  "claim_uuid p k = (case jget p k of JStr s \<Rightarrow> (case parse_uuid s of None \<Rightarrow> Inl ValueError | Some i \<Rightarrow> Inr i) | _ \<Rightarrow> Inl ValueError)"

definition claim_text :: "json \<Rightarrow> string \<Rightarrow> string" where
  "claim_text p k = (case jget p k of JStr s \<Rightarrow> s | v \<Rightarrow> dumps False v)"

text \<open>\<open>except (ValueError, TypeError)\<close> around reading the subject and the session of a token.\<close>

definition token_identity :: "env \<Rightarrow> vault \<Rightarrow> string \<Rightarrow> string \<Rightarrow> exn + (json \<times> uuid \<times> uuid)" where
  "token_identity env va token expected_type =
    (case decode_token env va token expected_type of Inl e \<Rightarrow> Inl (ApiError ''unauthorized'' 401)
     | Inr p \<Rightarrow> (case (claim_uuid p ''sid'', claim_uuid p ''sub'') of
         (Inr sid, Inr u) \<Rightarrow> Inr (p, sid, u)
       | _ \<Rightarrow> Inl (ApiError ''unauthorized'' 401)))"

section \<open>Authentication of a request\<close>

definition session_usable :: "env \<Rightarrow> uuid \<Rightarrow> session \<Rightarrow> bool" where
  "session_usable env u se \<longleftrightarrow> se_user se = u \<and> se_revoked se = None \<and> \<not> se_expires se \<le> int (env_now env)"

definition require_access_token :: "env \<Rightarrow> vault \<Rightarrow> string \<Rightarrow> (account \<times> session) dir_op" where
  "require_access_token env va token =
    bnd (lift_result (token_identity env va token ''access'')) (\<lambda>(p, sid, u).
    bnd (query_own (\<lambda>t. row_by au_id u (user_accounts t))) (\<lambda>ar.
    bnd (query_own (\<lambda>t. row_by se_id sid (user_sessions t))) (\<lambda>sr.
    case (ar, sr) of
      (Some a, Some se) \<Rightarrow>
        if \<not> au_active a \<or> \<not> session_usable env u se then raise (ApiError ''unauthorized'' 401) else ret (a, se)
    | _ \<Rightarrow> raise (ApiError ''unauthorized'' 401))))"

definition require_recent_mfa :: "env \<Rightarrow> vault \<Rightarrow> account \<Rightarrow> session \<Rightarrow> exn + unit" where
  "require_recent_mfa env va a se =
    (if au_mfa_enabled a = None \<or> au_mfa_seed a \<in> {None, Some []} then Inl (ApiError ''mfa_enrollment_required'' 403) else
     case se_mfa_verified se of None \<Rightarrow> Inl (ApiError ''mfa_required'' 403)
     | Some t \<Rightarrow> (case positive_setting (va_mfa_ttl va) of Inl e \<Rightarrow> Inl e
        | Inr ttl \<Rightarrow> if t + ttl \<le> int (env_now env) then Inl (ApiError ''mfa_required'' 403) else Inr ()))"

definition require_roles :: "env \<Rightarrow> vault \<Rightarrow> string list \<Rightarrow> string \<Rightarrow> (account \<times> session) dir_op" where
  "require_roles env va roles token =
    bnd (require_access_token env va token) (\<lambda>(a, se).
    bnd (query_core (\<lambda>d. row_by user_id (au_id a) (users d))) (\<lambda>r.
    let assigned = (case r of None \<Rightarrow> [] | Some x \<Rightarrow> user_roles x) in
    if set assigned \<inter> set roles = {} then raise (ApiError ''forbidden'' 403)
    else if ''admin'' \<in> set roles \<and> ''admin'' \<in> set assigned
    then bnd (lift_result (require_recent_mfa env va a se)) (\<lambda>_. ret (a, se))
    else ret (a, se)))"

section \<open>Registration and login\<close>

record client_ctx =
  cx_ip :: "string option"
  cx_agent :: string
  cx_fingerprint :: string

definition client_context :: "env \<Rightarrow> string option \<Rightarrow> string \<Rightarrow> string option \<Rightarrow> client_ctx" where
  "client_context env remote_addr user_agent device_id =
    (let stable = take 200 (strip (case device_id of None \<Rightarrow> [] | Some d \<Rightarrow> d)) in
     \<lparr>cx_ip = (if remote_addr \<in> {None, Some []} then None else map_option (env_sha256 env) remote_addr),
      cx_agent = env_sha256 env user_agent,
      cx_fingerprint = env_sha256 env (stable @ [CHR 0x00] @ user_agent)\<rparr>)"

definition count_char :: "char \<Rightarrow> string \<Rightarrow> nat" where
  "count_char c s = length (filter (\<lambda>x. x = c) s)"

text \<open>After the first test there is exactly one \<open>@\<close>, at which \<open>rsplit\<close> divides.\<close>

definition normalize_email :: "string \<Rightarrow> exn + string" where
  "normalize_email email =
    (let n = lower (strip email) in
     if length n > 320 \<or> count_char (CHR ''@'') n \<noteq> 1 \<or> CHR '' '' \<in> set n \<or> take 1 n = ''@'' \<or> take 1 (rev n) = ''@''
     then Inl (ApiError ''validation_error'' 422) else
     case partition_on (CHR ''@'') n of (local_part, _, domain) \<Rightarrow>
     if local_part = [] \<or> CHR ''.'' \<notin> set domain \<or> take 1 domain = ''.'' \<or> take 1 (rev domain) = ''.''
     then Inl (ApiError ''validation_error'' 422) else Inr n)"

definition email_lookup_hash :: "env \<Rightarrow> vault \<Rightarrow> string \<Rightarrow> string" where
  "email_lookup_hash env va email = blind_index env (va_cipher va) email ''user.email''"

definition account_by_email :: "env \<Rightarrow> vault \<Rightarrow> string \<Rightarrow> directory \<Rightarrow> account option" where
  "account_by_email env va email t = List.find (\<lambda>a. au_email_lookup a = email_lookup_hash env va email) (user_accounts t)"

definition create_session :: "env \<Rightarrow> vault \<Rightarrow> uuid \<Rightarrow> client_ctx option \<Rightarrow> (string \<times> string \<times> bool) dir_op" where
  "create_session env va u cx =
    bnd dir_id (\<lambda>sid.
    bnd (issue_token_pair env va u sid) (\<lambda>(access, refresh, jti, expiry).
    let now = int (env_now env) in
    bnd (case cx of None \<Rightarrow> ret (None, False) | Some c \<Rightarrow>
      bnd (query_own (\<lambda>t. List.find (\<lambda>d. dv_user d = u \<and> dv_fingerprint d = cx_fingerprint c) (devices t))) (\<lambda>known.
      case known of
        None \<Rightarrow> bnd dir_id (\<lambda>did.
          let d = \<lparr>dv_id = did, dv_user = u, dv_fingerprint = cx_fingerprint c, dv_agent = cx_agent c,
                   dv_first_seen = now, dv_last_seen = now\<rparr> in
          seq (modify_own (\<lambda>t. t\<lparr>devices := devices t @ [d]\<rparr>)) (
          seq (flush_own directory_valid) (ret (Some did, True))))
      | Some d \<Rightarrow> seq (modify_own (\<lambda>t. t\<lparr>devices := put_row dv_id (d\<lparr>dv_last_seen := now\<rparr>) (devices t)\<rparr>))
          (ret (Some (dv_id d), False)))) (\<lambda>(did, new_device).
    let se = \<lparr>se_id = sid, se_user = u, se_device = did, se_jti_hash = hash_jti env jti,
              se_ip = (case cx of None \<Rightarrow> None | Some c \<Rightarrow> cx_ip c), se_agent = map_option cx_agent cx,
              se_expires = expiry, se_revoked = None, se_mfa_verified = None, se_last_seen = now\<rparr> in
    seq (modify_own (\<lambda>t. t\<lparr>user_sessions := user_sessions t @ [se]\<rparr>)) (
    ret (access, refresh, new_device)))))"

definition self_service_roles :: "string list" where
  "self_service_roles = [''freelancer'', ''employer'']"

definition commit_directory :: "unit dir_op" where
  "commit_directory = seq (flush_own directory_valid) commit"

definition register_user :: "env \<Rightarrow> vault \<Rightarrow> string \<Rightarrow> string \<Rightarrow> string \<Rightarrow> client_ctx option \<Rightarrow>
    (uuid \<times> string \<times> string) dir_op" where
  "register_user env va email password role cx =
    bnd (lift_result (normalize_email email)) (\<lambda>n.
    if role \<notin> set self_service_roles then raise (ApiError ''validation_error'' 422) else
    bnd (query_own (account_by_email env va n)) (\<lambda>taken.
    if taken \<noteq> None then raise (ApiError ''email_in_use'' 409) else
    bnd dir_id (\<lambda>salt.
    bnd (case hash_password va salt password of Inl e \<Rightarrow> raise (ApiError ''validation_error'' 422) | Inr h \<Rightarrow> ret h) (\<lambda>h.
    bnd dir_id (\<lambda>seed. bnd dir_id (\<lambda>u.
    let a = \<lparr>au_id = u, au_email_cipher = pii_encrypt (va_aead va) (va_cipher va) (va_nonce va seed) n ''user.email'',
             au_email_lookup = email_lookup_hash env va n, au_password_hash = h, au_active = True, au_failed = 0,
             au_locked_until = None, au_mfa_seed = None, au_mfa_enabled = None\<rparr> in
    seq (modify_own (\<lambda>t. t\<lparr>user_accounts := user_accounts t @ [a]\<rparr>)) (
    seq (modify_core (\<lambda>d. d\<lparr>users := users d @ [\<lparr>user_id = u, user_roles = [role]\<rparr>]\<rparr>)) (
    seq (catch (flush_own accounts_valid) (\<lambda>e. if e = IntegrityError
          then seq rollback (raise (ApiError ''email_in_use'' 409)) else raise e)) (
    bnd (create_session env va u cx) (\<lambda>(access, refresh, _).
    seq (on_core (record_audit_event env ''identity.user_registered'' ''user'' (Some u) (Some (str_uuid u)) None None
          (JObj [(''initial_role'', JStr role)]))) (
    seq commit_directory (ret (u, access, refresh)))))))))))))"

definition iso_or_none :: "env \<Rightarrow> int option \<Rightarrow> json" where
  "iso_or_none env t = j_opt (\<lambda>x. JStr (env_iso env (nat x))) t"

definition login_security_state :: "env \<Rightarrow> account \<Rightarrow> json" where
  "login_security_state env a = JObj [(''failed_login_attempts'', JInt (au_failed a)), (''locked_until'', iso_or_none env (au_locked_until a))]"

definition record_login_risk :: "env \<Rightarrow> account \<Rightarrow> client_ctx option \<Rightarrow> string \<Rightarrow> json \<Rightarrow> json \<Rightarrow> unit dir_op" where
  "record_login_risk env a cx reason previous current =
    on_core (record_audit_event env ''identity.login_risk'' ''user'' (Some (au_id a)) (Some (str_uuid (au_id a)))
      (Some previous) (Some current)
      (JObj [(''reason'', JStr reason), (''ip_hash'', j_opt JStr (case cx of None \<Rightarrow> None | Some c \<Rightarrow> cx_ip c)),
             (''device_fingerprint_hash'', j_opt JStr (map_option cx_fingerprint cx))]))"

definition invalid_credentials :: exn where
  "invalid_credentials = ApiError ''invalid_credentials'' 401"

definition locked_at :: "env \<Rightarrow> account \<Rightarrow> bool" where
  "locked_at env a \<longleftrightarrow> (case au_locked_until a of None \<Rightarrow> False | Some t \<Rightarrow> int (env_now env) < t)"

text \<open>The password is verified against a dummy hash when there is no account, which has no effect.\<close>

definition login_user :: "env \<Rightarrow> vault \<Rightarrow> string \<Rightarrow> string \<Rightarrow> client_ctx option \<Rightarrow> (uuid \<times> string \<times> string) dir_op" where
  "login_user env va email password cx =
    bnd (query_own (account_by_email env va (lower (strip email)))) (\<lambda>r.
    case r of None \<Rightarrow> raise invalid_credentials | Some a \<Rightarrow>
    let password_ok = va_argon_verify va (au_password_hash a) password; now = int (env_now env) in
    if \<not> au_active a then raise invalid_credentials
    else if locked_at env a then
      (let state = login_security_state env a in
       seq (record_login_risk env a cx ''temporary_lock'' state state) (seq commit_directory (raise invalid_credentials)))
    else if \<not> password_ok then
      bnd (lift_result (positive_setting (va_max_failed va))) (\<lambda>max_failed.
      let locked = au_failed a + 1 \<ge> max_failed in
      bnd (if locked then bnd (lift_result (positive_setting (va_lock_seconds va))) (\<lambda>secs.
             ret (a\<lparr>au_failed := 0, au_locked_until := Some (now + secs)\<rparr>))
           else ret (a\<lparr>au_failed := au_failed a + 1\<rparr>)) (\<lambda>b.
      seq (modify_own (put_account b)) (
      seq (record_login_risk env b cx (if locked then ''temporary_lock'' else ''invalid_password'')
            (login_security_state env a) (login_security_state env b)) (
      seq commit_directory (raise invalid_credentials)))))
    else
      bnd dir_id (\<lambda>seed.
      bnd (lift_result (needs_rotation (va_cipher va) (au_email_cipher a))) (\<lambda>rotate.
      bnd (lift_result (pii_rewrap (va_aead va) (va_cipher va) (va_nonce va seed) (au_email_cipher a) ''user.email'')) (\<lambda>ct.
      let b = a\<lparr>au_email_cipher := ct, au_failed := 0, au_locked_until := None\<rparr>;
          current = login_security_state env b in
      seq (modify_own (put_account b)) (
      bnd (create_session env va (au_id a) cx) (\<lambda>(access, refresh, new_device).
      seq (on_core (record_audit_event env ''identity.login_succeeded'' ''user'' (Some (au_id a)) (Some (str_uuid (au_id a)))
            (Some (login_security_state env a)) (Some current)
            (JObj [(''new_device'', JBool new_device), (''pii_key_rotated'', JBool rotate)]))) (
      seq (if new_device then record_login_risk env b cx ''new_device'' current current else ret ()) (
      seq commit_directory (ret (au_id a, access, refresh))))))))))"

section \<open>Sessions\<close>

definition refresh_session :: "env \<Rightarrow> vault \<Rightarrow> string \<Rightarrow> (string \<times> string) dir_op" where
  "refresh_session env va token =
    bnd (lift_result (token_identity env va token ''refresh'')) (\<lambda>(p, sid, u).
    bnd (query_own (\<lambda>t. row_by se_id sid (user_sessions t))) (\<lambda>r.
    case r of None \<Rightarrow> raise (ApiError ''unauthorized'' 401) | Some se \<Rightarrow>
    if \<not> session_usable env u se \<or> se_jti_hash se \<noteq> hash_jti env (claim_text p ''jti'')
    then raise (ApiError ''unauthorized'' 401) else
    bnd (issue_token_pair env va (se_user se) (se_id se)) (\<lambda>(access, refresh, jti, expiry).
    seq (modify_own (put_session (se\<lparr>se_jti_hash := hash_jti env jti, se_expires := expiry, se_last_seen := int (env_now env)\<rparr>))) (
    seq (on_core (record_audit_event env ''identity.session_refreshed'' ''session'' (Some u) (Some (str_uuid (se_id se))) None None (JObj []))) (
    seq commit_directory (ret (access, refresh)))))))"

definition revoke_session :: "env \<Rightarrow> uuid \<Rightarrow> uuid \<Rightarrow> unit dir_op" where
  "revoke_session env sid actor =
    bnd (query_own (\<lambda>t. row_by se_id sid (user_sessions t))) (\<lambda>r.
    case r of None \<Rightarrow> ret () | Some se \<Rightarrow>
    if se_user se \<noteq> actor then ret ()
    else if se_revoked se \<noteq> None then ret () else
    seq (modify_own (put_session (se\<lparr>se_revoked := Some (int (env_now env))\<rparr>))) (
    seq (on_core (record_audit_event env ''identity.session_revoked'' ''session'' (Some actor) (Some (str_uuid (se_id se))) None None (JObj []))) (
    commit_directory)))"

section \<open>One-time passwords\<close>

definition totp_period :: nat where "totp_period = 30"
definition totp_digits :: nat where "totp_digits = 6"
definition totp_window :: int where "totp_window = 1"
definition recovery_code_count :: nat where "recovery_code_count = 8"
definition recovery_code_bytes :: nat where "recovery_code_bytes = 6"
definition mfa_recovery_kind :: string where "mfa_recovery_kind = ''mfa_recovery''"

definition base32_alphabet :: string where "base32_alphabet = ''ABCDEFGHIJKLMNOPQRSTUVWXYZ234567''"

text \<open>\<open>b32encode(data).rstrip("=")\<close> and \<open>b32decode\<close> of such a text with its padding.\<close>

definition base32_encode :: "string \<Rightarrow> string" where
  "base32_encode data = (let bs = byte_bits data; padded = bs @ replicate ((5 - length bs mod 5) mod 5) False in
    map (\<lambda>g. base32_alphabet ! unbits g) (chunks 5 padded))"

definition base32_decode :: "string \<Rightarrow> string" where
  "base32_decode s = (let bs = concat (map (\<lambda>c. bits 5 (length (takeWhile (\<lambda>x. x \<noteq> c) base32_alphabet))) (upper s)) in
    map (\<lambda>g. char_of (unbits g)) (chunks 8 (take (8 * (length bs div 8)) bs)))"

definition totp_secret :: "vault \<Rightarrow> account \<Rightarrow> exn + string" where
  "totp_secret va a = (case au_mfa_seed a of
     None \<Rightarrow> Inl ValueError
   | Some seed \<Rightarrow> if seed = [] then Inl ValueError else
       Inr (base32_encode (take 20 (va_hmac_sha256 va (va_mfa_key va) (''totp:'' @ str_uuid (au_id a) @ '':'' @ seed)))))"

text \<open>\<open>struct.pack(">Q", n)\<close> of a counter that is not negative\<close>

definition pack_u64 :: "int \<Rightarrow> string" where
  "pack_u64 n = map (\<lambda>i. char_of (nat n div 256 ^ i mod 256)) (rev [0..<8])"

definition bytes_value :: "string \<Rightarrow> nat" where
  "bytes_value s = foldl (\<lambda>a c. 256 * a + of_char c) 0 s"

definition zfill :: "nat \<Rightarrow> string \<Rightarrow> string" where
  "zfill n s = replicate (n - length s) (CHR ''0'') @ s"

definition totp_code_for_secret :: "vault \<Rightarrow> string \<Rightarrow> int \<Rightarrow> string" where
  "totp_code_for_secret va secret counter =
    (let digest = va_hmac_sha1 va (base32_decode secret) (pack_u64 counter);
         offset = of_char (last digest) mod 16;
         binary = bytes_value (take 4 (drop offset digest)) mod 2 ^ 31 in
     zfill totp_digits (str_int (int (binary mod 10 ^ totp_digits))))"

text \<open>\<open>str.isdigit\<close> accepts the superscript digits; \<open>hmac.compare_digest\<close> raises on text that is not ASCII.\<close>

definition is_digit_char :: "char \<Rightarrow> bool" where
  "is_digit_char c \<longleftrightarrow> is_digit c \<or> (of_char c :: nat) \<in> {178, 179, 185}"

definition verify_totp :: "env \<Rightarrow> vault \<Rightarrow> account \<Rightarrow> string \<Rightarrow> exn + bool" where
  "verify_totp env va a code =
    (let n = filter (\<lambda>c. c \<noteq> CHR '' '') (strip code) in
     if length n \<noteq> totp_digits \<or> \<not> list_all is_digit_char n then Inr False else
     let counter = int (env_now env div totp_period) in
     case totp_secret va a of Inl e \<Rightarrow> Inl e
     | Inr secret \<Rightarrow>
         if \<not> list_all (\<lambda>c. (of_char c :: nat) < 128) n then Inl TypeError
         else Inr (list_ex (\<lambda>off. n = totp_code_for_secret va secret (counter + off)) [- totp_window..totp_window]))"

definition hash_recovery_code :: "env \<Rightarrow> vault \<Rightarrow> uuid \<Rightarrow> string \<Rightarrow> string" where
  "hash_recovery_code env va u code =
    env_hmac env (va_mfa_key va) (''recovery:'' @ str_uuid u @ '':'' @
      upper (filter (\<lambda>c. c \<noteq> CHR '' '') (filter (\<lambda>c. c \<noteq> CHR ''-'') (strip code))))"

definition generate_recovery_codes :: "vault \<Rightarrow> nat \<Rightarrow> string list" where
  "generate_recovery_codes va seed = map (\<lambda>i. upper (va_token_hex va (seed + i) recovery_code_bytes)) [0..<recovery_code_count]"

text \<open>\<open>urllib.parse.quote(s, safe="")\<close>\<close>

definition hex_upper :: "nat \<Rightarrow> string" where
  "hex_upper n = [''0123456789ABCDEF'' ! (n div 16), ''0123456789ABCDEF'' ! (n mod 16)]"

definition quote :: "string \<Rightarrow> string" where
  "quote s = concat (map (\<lambda>c. if c \<in> set ''ABCDEFGHIJKLMNOPQRSTUVWXYZabcdefghijklmnopqrstuvwxyz0123456789_.-~''
     then [c] else CHR ''%'' # hex_upper (of_char c)) (utf8_encode s))"

definition provisioning_uri :: "vault \<Rightarrow> string \<Rightarrow> string \<Rightarrow> string" where
  "provisioning_uri va secret email =
    (let issuer = va_mfa_issuer va in
     ''otpauth://totp/'' @ quote (issuer @ '':'' @ email) @ ''?secret='' @ secret @ ''&issuer='' @ quote issuer @
     ''&period='' @ str_int (int totp_period) @ ''&digits='' @ str_int (int totp_digits) @ ''&algorithm=SHA1'')"

definition mfa_verified_until :: "vault \<Rightarrow> session \<Rightarrow> exn + int option" where
  "mfa_verified_until va se = (case se_mfa_verified se of None \<Rightarrow> Inr None
     | Some t \<Rightarrow> (case positive_setting (va_mfa_ttl va) of Inl e \<Rightarrow> Inl e | Inr ttl \<Rightarrow> Inr (Some (t + ttl))))"

section \<open>Multi-factor authentication\<close>

definition mfa_security_state :: "account \<Rightarrow> json" where
  "mfa_security_state a = JObj [(''enabled'', JBool (au_mfa_enabled a \<noteq> None)),
     (''enrollment_pending'', JBool (au_mfa_seed a \<notin> {None, Some []} \<and> au_mfa_enabled a = None))]"

definition session_mfa_state :: "env \<Rightarrow> session \<Rightarrow> json" where
  "session_mfa_state env se = JObj [(''mfa_verified_at'', iso_or_none env (se_mfa_verified se))]"

definition account_audit :: "env \<Rightarrow> account \<Rightarrow> string \<Rightarrow> json \<Rightarrow> json \<Rightarrow> unit dir_op" where
  "account_audit env a action previous current =
    on_core (record_audit_event env action ''user'' (Some (au_id a)) (Some (str_uuid (au_id a))) (Some previous) (Some current) (JObj []))"

definition session_audit :: "env \<Rightarrow> account \<Rightarrow> session \<Rightarrow> string \<Rightarrow> json \<Rightarrow> json \<Rightarrow> json \<Rightarrow> unit dir_op" where
  "session_audit env a se action previous current meta =
    on_core (record_audit_event env action ''session'' (Some (au_id a)) (Some (str_uuid (se_id se))) (Some previous) (Some current) meta)"

definition start_totp_enrollment :: "env \<Rightarrow> vault \<Rightarrow> account \<Rightarrow> string \<Rightarrow> (string \<times> string) dir_op" where
  "start_totp_enrollment env va a password =
    (if \<not> va_argon_verify va (au_password_hash a) password then raise invalid_credentials
     else if au_mfa_enabled a \<noteq> None then raise (ApiError ''mfa_already_enabled'' 409) else
     bnd (if au_mfa_seed a \<notin> {None, Some []} then ret a else
       bnd dir_id (\<lambda>seed.
       let b = a\<lparr>au_mfa_seed := Some (va_token_hex va seed 16)\<rparr> in
       seq (modify_own (put_account b)) (
       seq (account_audit env a ''identity.mfa_enrollment_started'' (mfa_security_state a) (mfa_security_state b)) (
       seq commit_directory (ret b))))) (\<lambda>b.
     bnd (lift_result (totp_secret va b)) (\<lambda>secret.
     bnd (lift_result (pii_decrypt (va_aead va) (va_cipher va) (au_email_cipher b) ''user.email'')) (\<lambda>email.
     ret (secret, provisioning_uri va secret email)))))"

definition confirm_totp_enrollment :: "env \<Rightarrow> vault \<Rightarrow> account \<Rightarrow> session \<Rightarrow> string \<Rightarrow> (string list \<times> int option) dir_op" where
  "confirm_totp_enrollment env va a se code =
    (if au_mfa_enabled a \<noteq> None then raise (ApiError ''mfa_already_enabled'' 409)
     else if au_mfa_seed a \<in> {None, Some []} then raise (ApiError ''mfa_enrollment_required'' 409) else
     bnd (lift_result (verify_totp env va a code)) (\<lambda>ok.
     if \<not> ok then raise (ApiError ''invalid_mfa_code'' 422) else
     let now = int (env_now env); b = a\<lparr>au_mfa_enabled := Some now\<rparr>; se' = se\<lparr>se_mfa_verified := Some now\<rparr> in
     seq (modify_own (put_account b)) (
     seq (modify_own (put_session se')) (
     seq (modify_own (\<lambda>t. t\<lparr>verifications := filter (\<lambda>v. \<not> (vf_user v = au_id a \<and> vf_kind v = mfa_recovery_kind)) (verifications t)\<rparr>)) (
     bnd (query_own dir_next) (\<lambda>n.
     let codes = generate_recovery_codes va n;
         rows = map (\<lambda>(i, c). \<lparr>vf_id = n + i, vf_user = au_id a, vf_kind = mfa_recovery_kind,
           vf_token_hash = hash_recovery_code env va (au_id a) c, vf_consumed = None\<rparr>) (zip [0..<length codes] codes) in
     seq (modify_own (\<lambda>t. t\<lparr>verifications := verifications t @ rows, dir_next := n + recovery_code_count\<rparr>)) (
     seq (account_audit env a ''identity.mfa_enabled'' (mfa_security_state a) (mfa_security_state b)) (
     seq commit_directory (
     bnd (lift_result (mfa_verified_until va se')) (\<lambda>until.
     ret (codes, until)))))))))))"

definition find_recovery :: "uuid \<Rightarrow> string \<Rightarrow> directory \<Rightarrow> verification option" where
  "find_recovery u h t = List.find (\<lambda>v. vf_user v = u \<and> vf_kind v = mfa_recovery_kind \<and> vf_token_hash v = h \<and>
     vf_consumed v = None) (verifications t)"

definition verify_mfa_challenge :: "env \<Rightarrow> vault \<Rightarrow> account \<Rightarrow> session \<Rightarrow> string \<Rightarrow> (int option \<times> bool) dir_op" where
  "verify_mfa_challenge env va a se code =
    (if au_mfa_enabled a = None \<or> au_mfa_seed a \<in> {None, Some []} then raise (ApiError ''mfa_enrollment_required'' 403) else
     let state = session_mfa_state env se; now = int (env_now env) in
     bnd (lift_result (verify_totp env va a code)) (\<lambda>ok.
     bnd (if ok then ret False else
       bnd (query_own (find_recovery (au_id a) (hash_recovery_code env va (au_id a) code))) (\<lambda>r.
       case r of
         None \<Rightarrow> seq (session_audit env a se ''identity.mfa_challenge_failed'' state state (JObj []))
                   (seq commit_directory (raise (ApiError ''invalid_mfa_code'' 401)))
       | Some v \<Rightarrow> seq (modify_own (\<lambda>t. t\<lparr>verifications := put_row vf_id (v\<lparr>vf_consumed := Some now\<rparr>) (verifications t)\<rparr>))
                     (ret True))) (\<lambda>recovery_used.
     let se' = se\<lparr>se_mfa_verified := Some now\<rparr> in
     seq (modify_own (put_session se')) (
     seq (session_audit env a se ''identity.mfa_verified'' state (session_mfa_state env se')
           (JObj [(''recovery_code'', JBool recovery_used)])) (
     seq (if recovery_used
          then account_audit env a ''identity.mfa_recovery_code_used'' (JObj [(''recovery_code_consumed'', JBool False)])
                 (JObj [(''recovery_code_consumed'', JBool True)])
          else ret ()) (
     seq commit_directory (
     bnd (lift_result (mfa_verified_until va se')) (\<lambda>until.
     ret (until, recovery_used))))))))) "

definition mfa_status :: "env \<Rightarrow> vault \<Rightarrow> account \<Rightarrow> session \<Rightarrow> (bool \<times> int option \<times> nat) dir_op" where
  "mfa_status env va a se =
    bnd (if au_mfa_enabled a = None then ret 0 else
      query_own (\<lambda>t. length (filter (\<lambda>v. vf_user v = au_id a \<and> vf_kind v = mfa_recovery_kind \<and> vf_consumed v = None)
        (verifications t)))) (\<lambda>remaining.
    bnd (lift_result (mfa_verified_until va se)) (\<lambda>until.
    ret (au_mfa_enabled a \<noteq> None,
      (case until of None \<Rightarrow> None | Some t \<Rightarrow> if t \<le> int (env_now env) then None else Some t), remaining)))"

section \<open>Requests\<close>

text \<open>The routes of \<open>app/identity/api.py\<close> that act on the authenticated session.\<close>

definition logout_request :: "env \<Rightarrow> vault \<Rightarrow> string \<Rightarrow> unit dir_op" where
  "logout_request env va token = bnd (require_access_token env va token) (\<lambda>(a, se). revoke_session env (se_id se) (au_id a))"

definition enroll_request :: "env \<Rightarrow> vault \<Rightarrow> string \<Rightarrow> string \<Rightarrow> (string \<times> string) dir_op" where
  "enroll_request env va token password = bnd (require_access_token env va token) (\<lambda>(a, se). start_totp_enrollment env va a password)"

definition confirm_request :: "env \<Rightarrow> vault \<Rightarrow> string \<Rightarrow> string \<Rightarrow> (string list \<times> int option) dir_op" where
  "confirm_request env va token code = bnd (require_access_token env va token) (\<lambda>(a, se). confirm_totp_enrollment env va a se code)"

definition verify_request :: "env \<Rightarrow> vault \<Rightarrow> string \<Rightarrow> string \<Rightarrow> (int option \<times> bool) dir_op" where
  "verify_request env va token code = bnd (require_access_token env va token) (\<lambda>(a, se). verify_mfa_challenge env va a se code)"

definition ticket_request :: "env \<Rightarrow> vault \<Rightarrow> string \<Rightarrow> (string \<times> int) dir_op" where
  "ticket_request env va token = bnd (require_access_token env va token) (\<lambda>(a, se). issue_realtime_ticket env va (au_id a) (se_id se))"

definition assert_request :: "env \<Rightarrow> vault \<Rightarrow> string \<Rightarrow> unit dir_op" where
  "assert_request env va token = bnd (require_access_token env va token) (\<lambda>(a, se). lift_result (require_recent_mfa env va a se))"

definition bearer_token :: "string \<Rightarrow> exn + string" where
  "bearer_token header = (case partition_on (CHR '' '') header of (scheme, _, token) \<Rightarrow>
     if lower scheme \<noteq> ''bearer'' \<or> token = [] then Inl (ApiError ''unauthorized'' 401) else Inr token)"

definition account_has_role :: "user \<Rightarrow> string \<Rightarrow> bool" where
  "account_has_role u role \<longleftrightarrow> list_ex (\<lambda>r. r = role) (user_roles u)"

definition can_access_user_resource :: "user \<Rightarrow> uuid \<Rightarrow> bool" where
  "can_access_user_resource actor owner \<longleftrightarrow> user_id actor = owner \<or> account_has_role actor ''admin''"

end
