(* ===== verification/Credentials.thy ===== *)
theory Credentials
  imports Identity
begin

text \<open>
  What identity keeps: failed logins stay below the limit, a session's refresh token is one that was
  issued for it, a revoked session stays revoked and a rotated refresh token never comes back. The
  invariant and the history of the directory are kept by every request beside the platform.
\<close>

section \<open>The invariant\<close>

definition jti_issued :: "(string \<Rightarrow> string) \<Rightarrow> nat \<Rightarrow> nat \<Rightarrow> string \<Rightarrow> bool" where
  "jti_issued sha m n h \<longleftrightarrow> (\<exists>j. m \<le> j \<and> j < n \<and> h = sha (str_uuid j))"

definition failed_ok :: "int \<Rightarrow> account \<Rightarrow> bool" where
  "failed_ok limit a \<longleftrightarrow> 0 \<le> au_failed a \<and> (0 < limit \<longrightarrow> au_failed a < limit)"

definition dir_ok :: "int \<Rightarrow> (string \<Rightarrow> string) \<Rightarrow> directory \<Rightarrow> bool" where
  "dir_ok limit sha t \<longleftrightarrow> fresh_ids au_id (user_accounts t) (dir_next t) \<and> fresh_ids se_id (user_sessions t) (dir_next t) \<and>
     (\<forall>a\<in>set (user_accounts t). failed_ok limit a) \<and>
     (\<forall>se\<in>set (user_sessions t). jti_issued sha 0 (dir_next t) (se_jti_hash se))"

text \<open>How a session develops while the counter goes from \<open>m\<close> to \<open>n\<close>.\<close>

definition session_kept :: "(string \<Rightarrow> string) \<Rightarrow> nat \<Rightarrow> nat \<Rightarrow> session \<Rightarrow> session \<Rightarrow> bool" where
  "session_kept sha m n se se' \<longleftrightarrow> se_id se' = se_id se \<and> se_user se' = se_user se \<and>
     (se_revoked se \<noteq> None \<longrightarrow> se_revoked se' = se_revoked se) \<and>
     (se_jti_hash se' = se_jti_hash se \<or> jti_issued sha m n (se_jti_hash se'))"

definition dir_kept :: "(string \<Rightarrow> string) \<Rightarrow> directory \<Rightarrow> directory \<Rightarrow> bool" where
  "dir_kept sha t t' \<longleftrightarrow> dir_next t \<le> dir_next t' \<and>
     (\<forall>se\<in>set (user_sessions t). \<exists>se'\<in>set (user_sessions t'). session_kept sha (dir_next t) (dir_next t') se se')"

definition dir_good :: "int \<Rightarrow> (string \<Rightarrow> string) \<Rightarrow> directory \<Rightarrow> directory \<Rightarrow> bool" where
  "dir_good limit sha t0 t \<longleftrightarrow> dir_ok limit sha t \<and> dir_kept sha t0 t"

text \<open>Committed directories also meet the constraints of their tables.\<close>

definition dir_inv :: "int \<Rightarrow> (string \<Rightarrow> string) \<Rightarrow> directory \<Rightarrow> bool" where
  "dir_inv limit sha t \<longleftrightarrow> dir_ok limit sha t \<and> directory_valid t"

definition dir_safe :: "int \<Rightarrow> (string \<Rightarrow> string) \<Rightarrow> directory \<Rightarrow> directory site \<Rightarrow> bool" where
  "dir_safe limit sha t0 s \<longleftrightarrow> dir_good limit sha t0 (own s) \<and> directory_valid (own s)"

lemma jti_mono:
  assumes "jti_issued sha m n h" "m' \<le> m" "n \<le> n'"
  shows "jti_issued sha m' n' h"
proof -
  obtain j where "m \<le> j" "j < n" "h = sha (str_uuid j)" using assms(1) by (auto simp: jti_issued_def)
  then show ?thesis using assms(2,3) by (auto simp: jti_issued_def intro!: exI [of _ j])
qed

lemma session_kept_refl [simp]: "session_kept sha m n se se"
  by (simp add: session_kept_def)

lemma session_kept_mono: "session_kept sha m n a b \<Longrightarrow> n \<le> n' \<Longrightarrow> session_kept sha m n' a b"
  using jti_mono [of sha m n _ m n'] by (auto simp: session_kept_def)

lemma session_kept_trans:
  "session_kept sha m n a b \<Longrightarrow> session_kept sha n k b c \<Longrightarrow> m \<le> n \<Longrightarrow> n \<le> k \<Longrightarrow> session_kept sha m k a c"
  using jti_mono [of sha m n _ m k] jti_mono [of sha n k _ m k] by (auto simp: session_kept_def)

lemma dir_kept_refl: "dir_kept sha t t"
  by (auto simp: dir_kept_def intro: session_kept_refl)

lemma dir_kept_trans: "dir_kept sha t u \<Longrightarrow> dir_kept sha u v \<Longrightarrow> dir_kept sha t v"
  unfolding dir_kept_def by (meson order.trans session_kept_trans)

section \<open>Table updates\<close>

lemma good_parts_dir:
  assumes "dir_good limit sha t0 t"
  shows "fresh_ids au_id (user_accounts t) (dir_next t)" "fresh_ids se_id (user_sessions t) (dir_next t)"
    "a \<in> set (user_accounts t) \<Longrightarrow> failed_ok limit a" "se \<in> set (user_sessions t) \<Longrightarrow> jti_issued sha 0 (dir_next t) (se_jti_hash se)"
    "dir_next t0 \<le> dir_next t"
    "se0 \<in> set (user_sessions t0) \<Longrightarrow> \<exists>se\<in>set (user_sessions t). session_kept sha (dir_next t0) (dir_next t) se0 se"
  using assms by (auto simp: dir_good_def dir_ok_def dir_kept_def)

lemma goodI_dir:
  assumes "fresh_ids au_id (user_accounts t) (dir_next t)" "fresh_ids se_id (user_sessions t) (dir_next t)"
    "\<And>a. a \<in> set (user_accounts t) \<Longrightarrow> failed_ok limit a"
    "\<And>se. se \<in> set (user_sessions t) \<Longrightarrow> jti_issued sha 0 (dir_next t) (se_jti_hash se)"
    "dir_next t0 \<le> dir_next t"
    "\<And>se0. se0 \<in> set (user_sessions t0) \<Longrightarrow> \<exists>se\<in>set (user_sessions t). session_kept sha (dir_next t0) (dir_next t) se0 se"
  shows "dir_good limit sha t0 t"
  using assms by (simp add: dir_good_def dir_ok_def dir_kept_def)

lemma good_drawn:
  assumes good: "dir_good limit sha t0 t" and n: "dir_next t \<le> n"
  shows "dir_good limit sha t0 (t\<lparr>dir_next := n\<rparr>)"
proof (rule goodI_dir)
  show "fresh_ids au_id (user_accounts (t\<lparr>dir_next := n\<rparr>)) (dir_next (t\<lparr>dir_next := n\<rparr>))"
    "fresh_ids se_id (user_sessions (t\<lparr>dir_next := n\<rparr>)) (dir_next (t\<lparr>dir_next := n\<rparr>))"
    using good_parts_dir(1,2) [OF good] n by (auto intro: fresh_ids_mono)
qed (use good_parts_dir [OF good] n jti_mono session_kept_mono in \<open>fastforce+\<close>)

lemma good_other_tables [simp]:
  "dir_good limit sha t0 (t\<lparr>devices := ds\<rparr>) = dir_good limit sha t0 t" "dir_good limit sha t0 (t\<lparr>verifications := vs\<rparr>) = dir_good limit sha t0 t"
  by (simp_all add: dir_good_def dir_ok_def dir_kept_def)

lemma good_account:
  assumes good: "dir_good limit sha t0 t" and a: "a \<in> set (user_accounts t)" and b: "au_id b = au_id a" "failed_ok limit b"
  shows "dir_good limit sha t0 (put_account b t)"
proof (rule goodI_dir)
  show "fresh_ids au_id (user_accounts (put_account b t)) (dir_next (put_account b t))"
    using good_parts_dir(1) [OF good] a b(1) by (auto simp: put_account_def fresh_ids_def dest!: put_row_memD)
  show "failed_ok limit x" if "x \<in> set (user_accounts (put_account b t))" for x
    using that good_parts_dir(3) [OF good] b(2) by (auto simp: put_account_def dest!: put_row_memD)
qed (use good_parts_dir [OF good] in \<open>simp_all add: put_account_def\<close>)

lemma good_new_account:
  assumes good: "dir_good limit sha t0 t" and t': "user_accounts t' = user_accounts t @ [last (user_accounts t')]"
      "user_sessions t' = user_sessions t" "dir_next t \<le> au_id (last (user_accounts t'))"
      "au_id (last (user_accounts t')) < dir_next t'" "failed_ok limit (last (user_accounts t'))"
  shows "dir_good limit sha t0 t'"
proof -
  define a where "a = last (user_accounts t')"
  note t' = t' [folded a_def]
  have good': "dir_good limit sha t0 (t\<lparr>dir_next := dir_next t'\<rparr>)" by (rule good_drawn [OF good]) (use t' in simp)
  have "fresh_ids au_id (user_accounts t @ [a]) (dir_next t')"
    using good_parts_dir(1) [OF good] t'(3,4) by (fastforce simp: fresh_ids_def)
  then show ?thesis using good_parts_dir [OF good'] t' by (intro goodI_dir) auto
qed

lemma good_session:
  assumes good: "dir_good limit sha t0 t" and row: "se \<in> set (user_sessions t)" and n: "dir_next t \<le> n"
    and kept: "session_kept sha (dir_next t) n se se'"
  shows "dir_good limit sha t0 (put_session se' (t\<lparr>dir_next := n\<rparr>))"
proof (rule goodI_dir)
  let ?t = "put_session se' (t\<lparr>dir_next := n\<rparr>)"
  have id: "se_id se' = se_id se" using kept by (simp add: session_kept_def)
  have ids: "fresh_ids se_id (user_sessions t) (dir_next t)" by (rule good_parts_dir(2) [OF good])
  show "fresh_ids au_id (user_accounts ?t) (dir_next ?t)"
    using good_parts_dir(1) [OF good] n by (auto simp: put_session_def intro: fresh_ids_mono)
  show "fresh_ids se_id (user_sessions ?t) (dir_next ?t)"
    using ids n row id by (fastforce simp: put_session_def fresh_ids_def dest!: put_row_memD)
  show "jti_issued sha 0 (dir_next ?t) (se_jti_hash x)" if "x \<in> set (user_sessions ?t)" for x
    using that good_parts_dir(4) [OF good] kept row n jti_mono [of sha 0 "dir_next t" _ 0 n] jti_mono [of sha "dir_next t" n _ 0 n]
    by (auto simp: put_session_def session_kept_def dest!: put_row_memD)
  show "dir_next t0 \<le> dir_next ?t" using good_parts_dir(5) [OF good] n by (simp add: put_session_def)
  show "\<exists>x\<in>set (user_sessions ?t). session_kept sha (dir_next t0) (dir_next ?t) se0 x" if old: "se0 \<in> set (user_sessions t0)" for se0
  proof -
    obtain x where x: "x \<in> set (user_sessions t)" "session_kept sha (dir_next t0) (dir_next t) se0 x"
      using good_parts_dir(6) [OF good old] by blast
    show ?thesis
    proof (cases "se_id x = se_id se")
      case True
      then have "x = se" using ids x(1) row by (auto simp: fresh_ids_def distinct_map dest: inj_onD)
      then have "session_kept sha (dir_next t0) n se0 se'"
        using session_kept_trans [OF x(2)] kept good_parts_dir(5) [OF good] n by blast
      moreover have "se' \<in> set (user_sessions ?t)" using row id by (simp add: put_session_def put_row_mem)
      ultimately show ?thesis by (auto simp: put_session_def)
    next
      case False
      then have "x \<in> set (user_sessions ?t)" using x(1) id by (force simp: put_session_def put_row_def)
      then show ?thesis using session_kept_mono [OF x(2) n] by (auto simp: put_session_def)
    qed
  qed
qed (use good_parts_dir(3) [OF good] in \<open>simp add: put_session_def\<close>)

lemma good_new_session:
  assumes good: "dir_good limit sha t0 t" and se: "dir_next t \<le> se_id se" "se_id se < n" "jti_issued sha (dir_next t) n (se_jti_hash se)"
  shows "dir_good limit sha t0 (t\<lparr>user_sessions := user_sessions t @ [se], dir_next := n\<rparr>)"
proof -
  let ?t = "t\<lparr>dir_next := n\<rparr>"
  have good': "dir_good limit sha t0 ?t" by (rule good_drawn [OF good]) (use se in simp)
  have "fresh_ids se_id (user_sessions t @ [se]) n"
    using good_parts_dir(2) [OF good] se(1,2) by (fastforce simp: fresh_ids_def)
  moreover have "jti_issued sha 0 n (se_jti_hash se)" by (rule jti_mono [OF se(3)]) simp_all
  ultimately show ?thesis using good_parts_dir [OF good'] by (intro goodI_dir) auto
qed

section \<open>The requests\<close>

lemma put_fields [simp]:
  "user_accounts (put_session se t) = user_accounts t" "dir_next (put_session se t) = dir_next t"
  "user_sessions (put_account a t) = user_sessions t" "dir_next (put_account a t) = dir_next t"
  by (simp_all add: put_session_def put_account_def)

lemma wpI_dir_id:
  "Q (dir_next (own w)) (c, w\<lparr>own := (own w)\<lparr>dir_next := Suc (dir_next (own w))\<rparr>\<rparr>) \<Longrightarrow> wp dir_id Q E (c, w)"
  by (simp add: dir_id_def wp_eqs)

lemma wpI_issue_token_pair:
  "(\<And>access refresh expiry. Q (access, refresh, str_uuid (dir_next (own w)), expiry)
      (c, w\<lparr>own := (own w)\<lparr>dir_next := Suc (Suc (dir_next (own w)))\<rparr>\<rparr>)) \<Longrightarrow>
    wp (issue_token_pair env va u sid) Q E (c, w)"
  by (simp add: issue_token_pair_def dir_id_def wp_eqs Let_def)

lemma wpI_require_access_token:
  assumes "\<And>a se. a \<in> set (user_accounts (own w)) \<Longrightarrow> se \<in> set (user_sessions (own w)) \<Longrightarrow> session_usable env (au_id a) se \<Longrightarrow>
      Q (a, se) (c, w)" and "\<And>e. E e (c, w)"
  shows "wp (require_access_token env va token) Q E (c, w)"
  unfolding require_access_token_def
  by (rule site_rules | (simp add: assms; fail) | (use assms in \<open>auto dest!: row_by_SomeD\<close>; fail))+

text \<open>A new session: the account table is left alone and one row is appended.\<close>

lemma wpI_create_session:
  assumes good: "dir_good limit sha t0 (own w)" and sha: "env_sha256 env = sha"
    and Q: "\<And>access refresh nd t. dir_good limit sha t0 t \<Longrightarrow> user_accounts t = user_accounts (own w) \<Longrightarrow>
      user_sessions t = user_sessions (own w) @ [last (user_sessions t)] \<Longrightarrow> se_user (last (user_sessions t)) = u \<Longrightarrow> Q (access, refresh, nd) (c, w\<lparr>own := t\<rparr>)"
    and E: "\<And>t. E IntegrityError (c, w\<lparr>own := t\<rparr>)"
  shows "wp (create_session env va u cx) Q E (c, w)"
proof -
  let ?n = "dir_next (own w)"
  have new: "dir_good limit sha t0 t"
    if "user_accounts t = user_accounts (own w)" "user_sessions t = user_sessions (own w) @ [last (user_sessions t)]"
      "se_id (last (user_sessions t)) = ?n" "se_jti_hash (last (user_sessions t)) = sha (str_uuid (Suc ?n))" "Suc ?n < dir_next t" for t
  proof -
    define se where "se = last (user_sessions t)"
    note that = that [folded se_def]
    have "jti_issued sha ?n (dir_next t) (se_jti_hash se)" using that(4,5) by (auto simp: jti_issued_def intro!: exI [of _ "Suc ?n"])
    then have "dir_good limit sha t0 ((own w)\<lparr>user_sessions := user_sessions (own w) @ [se], dir_next := dir_next t\<rparr>)"
      using that by (intro good_new_session [OF good]) auto
    then show ?thesis using that by (simp add: dir_good_def dir_ok_def dir_kept_def)
  qed
  show ?thesis unfolding create_session_def
    by (rule wpI_dir_id wpI_issue_token_pair site_rules | (simp add: E; fail)
      | (simp, rule Q; (rule new; simp add: hash_jti_def sha; fail | simp; fail)))+
qed


text \<open>Requests run by one deployment: its limit of failed logins and its hash of token ids.\<close>

definition deployed :: "int \<Rightarrow> (string \<Rightarrow> string) \<Rightarrow> env \<Rightarrow> vault \<Rightarrow> bool" where
  "deployed limit sha env va \<longleftrightarrow> va_max_failed va = limit \<and> env_sha256 env = sha"

lemma keeps_register_user:
  assumes "deployed limit sha env va"
  shows "keeps (site_ok (dir_safe limit sha t0) d) (register_user env va email password role cx)"
proof (rule site_keepsI)
  fix s :: "directory site" assume "dir_safe limit sha t0 s" "beside d (core s)"
  then have s: "dir_good limit sha t0 (own s)" "beside d (core s)" "directory_valid (own s)" by (simp_all add: dir_safe_def)
  have sha: "env_sha256 env = sha" using assms by (simp add: deployed_def)
  show "wp (register_user env va email password role cx) (\<lambda>_ s. site_ok (dir_safe limit sha t0) d (fst s))
      (\<lambda>_ s. site_ok (dir_safe limit sha t0) d (fst s)) (s, s)"
    unfolding register_user_def commit_directory_def
    by (rule wpI_dir_id site_rules wpI_create_session [OF _ sha] | (simp add: site_ok_def dir_safe_def s; fail)
      | (simp, rule good_new_account [OF s(1)]; simp add: failed_ok_def; fail)
      | (simp add: site_ok_def dir_safe_def, rule beside_trans [OF beside_trans [OF s(2) beside_rows(1)]]; simp; fail))+
qed


lemma account_by_email_mem: "account_by_email env va n t = Some a \<Longrightarrow> a \<in> set (user_accounts t)"
  unfolding account_by_email_def by (drule find_SomeD) simp

lemma failed_counted:
  "positive_setting limit = Inr n \<Longrightarrow> \<not> n \<le> au_failed a + 1 \<Longrightarrow> failed_ok limit a \<Longrightarrow> failed_ok limit (a\<lparr>au_failed := au_failed a + 1\<rparr>)"
  by (auto simp: failed_ok_def positive_setting_def split: if_splits)

lemma good_counted:
  assumes "dir_good limit sha t0 t" and "a \<in> set (user_accounts t)" and "positive_setting limit = Inr n" "\<not> n \<le> au_failed a + 1"
  shows "dir_good limit sha t0 (put_account (a\<lparr>au_failed := au_failed a + 1\<rparr>) t)"
  using assms good_parts_dir(3) [OF assms(1)] by (intro good_account failed_counted) auto

lemma good_cleared:
  assumes "dir_good limit sha t0 t" and "a \<in> set (user_accounts t)" and "au_id b = au_id a" "au_failed b = 0"
  shows "dir_good limit sha t0 (put_account b t)"
  using assms by (intro good_account) (auto simp: failed_ok_def)

lemma keeps_login_user:
  assumes "deployed limit sha env va"
  shows "keeps (site_ok (dir_safe limit sha t0) d) (login_user env va email password cx)"
proof (rule site_keepsI)
  fix s :: "directory site" assume "dir_safe limit sha t0 s" "beside d (core s)"
  then have s: "dir_good limit sha t0 (own s)" "beside d (core s)" "directory_valid (own s)" by (simp_all add: dir_safe_def)
  have dep: "env_sha256 env = sha" "va_max_failed va = limit" using assms by (simp_all add: deployed_def)
  show "wp (login_user env va email password cx) (\<lambda>_ s. site_ok (dir_safe limit sha t0) d (fst s))
      (\<lambda>_ s. site_ok (dir_safe limit sha t0) d (fst s)) (s, s)"
    unfolding login_user_def record_login_risk_def commit_directory_def dep
    by (rule wpI_dir_id site_rules wpI_create_session [OF _ dep(1)] | (simp add: site_ok_def dir_safe_def s; fail)
      | (simp, rule good_cleared [OF good_drawn [OF s(1)]]; simp add: account_by_email_mem; fail)
      | (simp add: site_ok_def dir_safe_def s, (intro conjI good_counted [OF s(1)] good_cleared [OF s(1)])?;
          (simp add: account_by_email_mem; fail | meson s(2) beside_trans)))+
qed

lemma keeps_refresh_session:
  assumes "deployed limit sha env va"
  shows "keeps (site_ok (dir_safe limit sha t0) d) (refresh_session env va token)"
proof (rule site_keepsI)
  fix s :: "directory site" assume "dir_safe limit sha t0 s" "beside d (core s)"
  then have s: "dir_good limit sha t0 (own s)" "beside d (core s)" "directory_valid (own s)" by (simp_all add: dir_safe_def)
  have dep: "env_sha256 env = sha" using assms by (simp add: deployed_def)
  have rotated: "dir_good limit sha t0 (put_session (se\<lparr>se_jti_hash := hash_jti env (str_uuid (dir_next (own s))),
      se_expires := x, se_last_seen := y\<rparr>) ((own s)\<lparr>dir_next := Suc (Suc (dir_next (own s)))\<rparr>))"
    if "row_by se_id i (user_sessions (own s)) = Some se" for i se x y
    by (rule good_session [OF s(1), of se])
      (use that in \<open>auto simp: session_kept_def jti_issued_def hash_jti_def dep dest: row_by_SomeD intro!: exI [of _ "dir_next (own s)"]\<close>)
  show "wp (refresh_session env va token) (\<lambda>_ s. site_ok (dir_safe limit sha t0) d (fst s))
      (\<lambda>_ s. site_ok (dir_safe limit sha t0) d (fst s)) (s, s)"
    unfolding refresh_session_def commit_directory_def
    by (rule wpI_issue_token_pair site_rules | (simp add: site_ok_def dir_safe_def s; fail)
      | (simp add: site_ok_def dir_safe_def rotated, meson s(2) beside_trans))+
qed


lemma good_marked_session:
  assumes good: "dir_good limit sha t0 t" and row: "se \<in> set (user_sessions t)"
    and same: "se_id se' = se_id se" "se_user se' = se_user se" "se_jti_hash se' = se_jti_hash se"
      "se_revoked se \<noteq> None \<longrightarrow> se_revoked se' = se_revoked se"
  shows "dir_good limit sha t0 (put_session se' t)"
  using good_session [OF good row order_refl, of se'] same by (auto simp: session_kept_def)

lemma keeps_logout_request: "keeps (site_ok (dir_safe limit sha t0) d) (logout_request env va token)"
proof (rule site_keepsI)
  fix s :: "directory site" assume "dir_safe limit sha t0 s" "beside d (core s)"
  then have s: "dir_good limit sha t0 (own s)" "beside d (core s)" "directory_valid (own s)" by (simp_all add: dir_safe_def)
  show "wp (logout_request env va token) (\<lambda>_ s. site_ok (dir_safe limit sha t0) d (fst s))
      (\<lambda>_ s. site_ok (dir_safe limit sha t0) d (fst s)) (s, s)"
    unfolding logout_request_def revoke_session_def commit_directory_def
    by (rule wpI_require_access_token site_rules | (simp add: site_ok_def dir_safe_def s; fail)
      | (simp add: site_ok_def dir_safe_def s, intro conjI good_marked_session [OF s(1)];
          (simp; fail | erule row_by_SomeD [THEN conjunct1] | meson s(2) beside_trans)))+
qed

lemma keeps_enroll_request: "keeps (site_ok (dir_safe limit sha t0) d) (enroll_request env va token password)"
proof (rule site_keepsI)
  fix s :: "directory site" assume "dir_safe limit sha t0 s" "beside d (core s)"
  then have s: "dir_good limit sha t0 (own s)" "beside d (core s)" "directory_valid (own s)" by (simp_all add: dir_safe_def)
  have seeded: "dir_good limit sha t0 (put_account (a\<lparr>au_mfa_seed := m\<rparr>) ((own s)\<lparr>dir_next := Suc (dir_next (own s))\<rparr>))"
    if "a \<in> set (user_accounts (own s))" for a m
    by (rule good_account [OF good_drawn [OF s(1)], of _ a]) (use that good_parts_dir(3) [OF s(1)] in \<open>auto simp: failed_ok_def\<close>)
  show "wp (enroll_request env va token password) (\<lambda>_ s. site_ok (dir_safe limit sha t0) d (fst s))
      (\<lambda>_ s. site_ok (dir_safe limit sha t0) d (fst s)) (s, s)"
    unfolding enroll_request_def start_totp_enrollment_def account_audit_def commit_directory_def
    by (rule wpI_dir_id wpI_require_access_token site_rules | (simp add: site_ok_def dir_safe_def s; fail)
      | (simp add: site_ok_def dir_safe_def seeded, meson s(2) beside_trans))+
qed

lemma keeps_confirm_request: "keeps (site_ok (dir_safe limit sha t0) d) (confirm_request env va token code)"
proof (rule site_keepsI)
  fix s :: "directory site" assume "dir_safe limit sha t0 s" "beside d (core s)"
  then have s: "dir_good limit sha t0 (own s)" "beside d (core s)" "directory_valid (own s)" by (simp_all add: dir_safe_def)
  have enabled: "dir_good limit sha t0 ((put_session (se\<lparr>se_mfa_verified := x\<rparr>) (put_account (a\<lparr>au_mfa_enabled := y\<rparr>) (own s)))
      \<lparr>verifications := vs, dir_next := dir_next (own s) + k\<rparr>)"
    if "a \<in> set (user_accounts (own s))" "se \<in> set (user_sessions (own s))" for a se x y k vs
  proof (rule good_drawn, unfold good_other_tables)
    have "dir_good limit sha t0 (put_account (a\<lparr>au_mfa_enabled := y\<rparr>) (own s))"
      by (rule good_account [OF s(1) that(1)]) (use that(1) good_parts_dir(3) [OF s(1)] in \<open>auto simp: failed_ok_def\<close>)
    then show "dir_good limit sha t0 (put_session (se\<lparr>se_mfa_verified := x\<rparr>) (put_account (a\<lparr>au_mfa_enabled := y\<rparr>) (own s)))"
      by (rule good_marked_session [of _ _ _ _ se]) (use that(2) in simp_all)
  qed simp
  show "wp (confirm_request env va token code) (\<lambda>_ s. site_ok (dir_safe limit sha t0) d (fst s))
      (\<lambda>_ s. site_ok (dir_safe limit sha t0) d (fst s)) (s, s)"
    unfolding confirm_request_def confirm_totp_enrollment_def account_audit_def commit_directory_def
    by (rule wpI_dir_id wpI_require_access_token site_rules | (simp add: site_ok_def dir_safe_def s; fail)
      | (simp add: site_ok_def dir_safe_def enabled, meson s(2) beside_trans))+
qed

lemma keeps_verify_request: "keeps (site_ok (dir_safe limit sha t0) d) (verify_request env va token code)"
proof (rule site_keepsI)
  fix s :: "directory site" assume "dir_safe limit sha t0 s" "beside d (core s)"
  then have s: "dir_good limit sha t0 (own s)" "beside d (core s)" "directory_valid (own s)" by (simp_all add: dir_safe_def)
  have verified: "dir_good limit sha t0 (put_session (se\<lparr>se_mfa_verified := x\<rparr>) ((own s)\<lparr>verifications := vs\<rparr>))"
      "dir_good limit sha t0 (put_session (se\<lparr>se_mfa_verified := x\<rparr>) (own s))"
    if "se \<in> set (user_sessions (own s))" for se x vs
    by (rule good_marked_session [of _ _ _ _ se]; use that s(1) in simp)+
  show "wp (verify_request env va token code) (\<lambda>_ s. site_ok (dir_safe limit sha t0) d (fst s))
      (\<lambda>_ s. site_ok (dir_safe limit sha t0) d (fst s)) (s, s)"
    unfolding verify_request_def verify_mfa_challenge_def account_audit_def session_audit_def commit_directory_def
    by (rule wpI_dir_id wpI_require_access_token site_rules | (simp add: site_ok_def dir_safe_def s; fail)
      | (simp add: site_ok_def dir_safe_def s verified; meson s(2) beside_trans))+
qed


section \<open>Identity beside the platform\<close>

inductive dir_request :: "int \<Rightarrow> (string \<Rightarrow> string) \<Rightarrow> directory site \<Rightarrow> directory site \<Rightarrow> bool"
  for limit :: int and sha :: "string \<Rightarrow> string" where
  register: "deployed limit sha env va \<Longrightarrow> dir_request limit sha s (site_after (register_user env va email password role cx) s)"
| login: "deployed limit sha env va \<Longrightarrow> dir_request limit sha s (site_after (login_user env va email password cx) s)"
| refresh: "deployed limit sha env va \<Longrightarrow> dir_request limit sha s (site_after (refresh_session env va token) s)"
| logout: "dir_request limit sha s (site_after (logout_request env va token) s)"
| enroll: "dir_request limit sha s (site_after (enroll_request env va token password) s)"
| confirm: "dir_request limit sha s (site_after (confirm_request env va token code) s)"
| verify: "dir_request limit sha s (site_after (verify_request env va token code) s)"

definition empty_directory :: "directory \<Rightarrow> bool" where
  "empty_directory t \<longleftrightarrow> user_accounts t = [] \<and> user_sessions t = [] \<and> devices t = [] \<and> verifications t = []"

lemma dir_request_good:
  assumes "dir_request limit sha s s'" and "dir_inv limit sha (own s)"
  shows "dir_safe limit sha (own s) s' \<and> beside (core s) (core s')"
proof -
  have here: "dir_safe limit sha (own s) s" using assms(2) by (simp add: dir_safe_def dir_inv_def dir_good_def dir_kept_refl)
  from assms(1) show ?thesis
  proof cases
    case register
    then show ?thesis using keeps_register_user [THEN site_after_keeps, OF _ here] by simp
  next
    case login
    then show ?thesis using keeps_login_user [THEN site_after_keeps, OF _ here] by simp
  next
    case refresh
    then show ?thesis using keeps_refresh_session [THEN site_after_keeps, OF _ here] by simp
  qed (use keeps_logout_request [THEN site_after_keeps, OF here] keeps_enroll_request [THEN site_after_keeps, OF here]
      keeps_confirm_request [THEN site_after_keeps, OF here] keeps_verify_request [THEN site_after_keeps, OF here] in simp_all)
qed

lemma empty_directory_ok: "empty_directory t \<Longrightarrow> dir_inv limit sha t"
  by (simp add: empty_directory_def dir_inv_def dir_ok_def fresh_ids_def directory_valid_def accounts_valid_def)

interpretation dir: site_history "\<lambda>s. empty_directory (own s)" "dir_request limit sha" "\<lambda>s. dir_inv limit sha (own s)"
    "\<lambda>s s'. dir_kept sha (own s) (own s')" for limit sha
  by unfold_locales
    (use dir_request_good dir_kept_refl dir_kept_trans empty_directory_ok in \<open>auto simp: dir_safe_def dir_inv_def dir_good_def\<close>)

definition reachable_dir :: "int \<Rightarrow> (string \<Rightarrow> string) \<Rightarrow> directory site \<Rightarrow> bool" where
  "reachable_dir limit sha s \<longleftrightarrow> reachable (site_start (\<lambda>s. empty_directory (own s))) (site_step (dir_request limit sha)) s"

lemma reachable_dir_inv: "reachable_dir limit sha s \<Longrightarrow> site_inv (\<lambda>s. dir_inv limit sha (own s)) s"
  unfolding reachable_dir_def by (rule dir.system.reachable_inv)

lemma reachable_dir_ok: "reachable_dir limit sha s \<Longrightarrow> dir_ok limit sha (own s) \<and> directory_valid (own s) \<and> sys_inv (core s)"
  using reachable_dir_inv by (auto simp: site_inv_def dir_inv_def)

lemma reachable_dir_steps:
  "reachable_dir limit sha s \<Longrightarrow> (site_step (dir_request limit sha))\<^sup>*\<^sup>* s s' \<Longrightarrow> reachable_dir limit sha s' \<and> dir_kept sha (own s) (own s')"
  using dir.history.rel_steps reachable_dir_inv by (auto simp: reachable_dir_def intro: dir.system.reachable_steps)

text \<open>The row of a session id, and what became of it.\<close>

lemma session_row: "dir_ok limit sha t \<Longrightarrow> se \<in> set (user_sessions t) \<Longrightarrow> row_by se_id (se_id se) (user_sessions t) = Some se"
  by (auto simp: dir_ok_def fresh_ids_def simp: row_by_Some_iff)

lemma session_later:
  assumes "dir_kept sha t t'" and "dir_ok limit sha t'" and "se \<in> set (user_sessions t)"
  shows "\<exists>se'. row_by se_id (se_id se) (user_sessions t') = Some se' \<and> session_kept sha (dir_next t) (dir_next t') se se'"
proof -
  obtain se' where "se' \<in> set (user_sessions t')" "session_kept sha (dir_next t) (dir_next t') se se'"
    using assms(1,3) by (auto simp: dir_kept_def)
  then show ?thesis using session_row [OF assms(2), of se'] by (auto simp: session_kept_def)
qed

end
