(* ===== verification/Access.thy ===== *)
theory Access
  imports Credentials
begin

text \<open>
  What the requests of identity do to the directory on the paths the promises are about: a refresh
  rotates the token of its session, a logout revokes it, a wrong password counts, and a login opens
  a session only after every check.
\<close>

section \<open>Refused tokens\<close>

definition unauthorized :: exn where
  "unauthorized = ApiError ''unauthorized'' 401"

lemma refresh_refused:
  assumes "token_identity env va token ''refresh'' = Inr (p, sid, u)"
    and "\<And>se. row_by se_id sid (user_sessions (own s)) = Some se \<Longrightarrow>
      se_revoked se \<noteq> None \<or> se_jti_hash se \<noteq> hash_jti env (claim_text p ''jti'')"
  shows "run_request (refresh_session env va token) s = (Inl unauthorized, s)"
proof (cases "row_by se_id sid (user_sessions (own s))")
  case None
  then show ?thesis using assms(1)
    by (simp add: refresh_session_def run_request_def bnd_def query_own_def query_def lift_result_def raise_def ret_def unauthorized_def)
next
  case (Some se)
  then show ?thesis using assms(1) assms(2) [OF Some]
    by (auto simp: refresh_session_def run_request_def bnd_def query_own_def query_def lift_result_def raise_def ret_def
        unauthorized_def session_usable_def)
qed

lemma access_refused:
  assumes "token_identity env va token ''access'' = Inr (p, sid, u)"
    and "\<And>se. row_by se_id sid (user_sessions (own s)) = Some se \<Longrightarrow> se_revoked se \<noteq> None"
  shows "run_request (require_access_token env va token) s = (Inl unauthorized, s)"
  using assms
  by (auto simp: require_access_token_def run_request_def bnd_def query_own_def query_def lift_result_def raise_def ret_def
      unauthorized_def session_usable_def split: option.split)

section \<open>Refresh\<close>

text \<open>After a refresh the session holds the hash of the token id drawn by it, in place of the one presented.\<close>

lemma refresh_rotates:
  assumes ok: "run_request (refresh_session env va token) s = (Inr r, s')" and id: "token_identity env va token ''refresh'' = Inr (p, sid, u)"
  shows "\<exists>se. row_by se_id sid (user_sessions (own s)) = Some se \<and> se_jti_hash se = hash_jti env (claim_text p ''jti'') \<and>
    (\<exists>se'. row_by se_id sid (user_sessions (own s')) = Some se' \<and> se_jti_hash se' = hash_jti env (str_uuid (dir_next (own s)))) \<and>
    dir_next (own s) < dir_next (own s')"
proof (rule run_request_ok [OF ok, where Q = "\<lambda>r s'. \<exists>se. row_by se_id sid (user_sessions (own s)) = Some se \<and>
    se_jti_hash se = hash_jti env (claim_text p ''jti'') \<and>
    (\<exists>se'. row_by se_id sid (user_sessions (own s')) = Some se' \<and> se_jti_hash se' = hash_jti env (str_uuid (dir_next (own s)))) \<and>
    dir_next (own s) < dir_next (own s')"])
  show "wp (refresh_session env va token) (\<lambda>r t. \<exists>se. row_by se_id sid (user_sessions (own s)) = Some se \<and>
    se_jti_hash se = hash_jti env (claim_text p ''jti'') \<and>
    (\<exists>se'. row_by se_id sid (user_sessions (own (fst t))) = Some se' \<and> se_jti_hash se' = hash_jti env (str_uuid (dir_next (own s)))) \<and>
    dir_next (own s) < dir_next (own (fst t))) (\<lambda>_ _. True) (s, s)"
    unfolding refresh_session_def commit_directory_def id
    by (rule wpI_issue_token_pair site_rules TrueI
      | (clarsimp simp: put_session_def row_by_put_row dest!: row_by_SomeD; fail)
      | (frule row_by_SomeD, force simp: put_session_def row_by_put_row))+
qed

lemma rotated_refused:
  assumes inv: "dir_ok limit sha (own s)" "dir_ok limit sha (own s2)" and kept: "dir_kept sha (own s1) (own s2)"
    and ok: "run_request (refresh_session env va token) s = (Inr r, s1)" and id: "token_identity env va token ''refresh'' = Inr (p, sid, u)"
    and later: "token_identity env' va' token ''refresh'' = Inr (p, sid, u)" and sha: "env_sha256 env = sha" "env_sha256 env' = sha"
    and free: "inj_on (\<lambda>j. sha (str_uuid j)) {..<dir_next (own s2)}"
  shows "run_request (refresh_session env' va' token) s2 = (Inl unauthorized, s2)"
proof (rule refresh_refused [OF later])
  fix x assume x: "row_by se_id sid (user_sessions (own s2)) = Some x"
  let ?n = "dir_next (own s)"
  obtain se se' where se: "row_by se_id sid (user_sessions (own s)) = Some se" "se_jti_hash se = sha (claim_text p ''jti'')"
      and se': "row_by se_id sid (user_sessions (own s1)) = Some se'" "se_jti_hash se' = sha (str_uuid ?n)"
      and n: "?n < dir_next (own s1)"
    using refresh_rotates [OF ok id] by (auto simp: hash_jti_def sha)
  obtain j where j: "j < ?n" "sha (claim_text p ''jti'') = sha (str_uuid j)"
    using inv(1) se by (fastforce simp: dir_ok_def jti_issued_def dest: row_by_SomeD)
  have "session_kept sha (dir_next (own s1)) (dir_next (own s2)) se' x"
    using session_later [OF kept inv(2), of se'] se'(1) x by (auto dest: row_by_SomeD)
  then consider "se_jti_hash x = sha (str_uuid ?n)" | "jti_issued sha (dir_next (own s1)) (dir_next (own s2)) (se_jti_hash x)"
    using se'(2) by (auto simp: session_kept_def)
  then have "jti_issued sha ?n (dir_next (own s2)) (se_jti_hash x)"
  proof cases
    case 1
    then show ?thesis using n kept by (auto simp: jti_issued_def dir_kept_def intro!: exI [of _ ?n])
  next
    case 2
    then show ?thesis by (rule jti_mono) (use n in simp_all)
  qed
  then obtain k where k: "?n \<le> k" "k < dir_next (own s2)" "se_jti_hash x = sha (str_uuid k)"
    by (auto simp: jti_issued_def)
  have "sha (str_uuid k) \<noteq> sha (str_uuid j)" using inj_onD [OF free, of k j] k(1,2) j(1) by auto
  then show "se_revoked x \<noteq> None \<or> se_jti_hash x \<noteq> hash_jti env' (claim_text p ''jti'')"
    using k(3) j(2) by (simp add: hash_jti_def sha)
qed

section \<open>Logout\<close>

lemma require_access_token_eq:
  "require_access_token env va token (c, w) = (case token_identity env va token ''access'' of Inl e \<Rightarrow> (Inl e, (c, w))
    | Inr (p, sid, u) \<Rightarrow> (case (row_by au_id u (user_accounts (own w)), row_by se_id sid (user_sessions (own w))) of
        (Some a, Some se) \<Rightarrow> if \<not> au_active a \<or> \<not> session_usable env u se then (Inl unauthorized, (c, w)) else (Inr (a, se), (c, w))
      | _ \<Rightarrow> (Inl unauthorized, (c, w))))"
  by (simp add: require_access_token_def bnd_def query_own_def query_def lift_result_def raise_def ret_def unauthorized_def
      split: sum.split option.split)

lemma access_request_ok:
  assumes ok: "run_request (bnd (require_access_token env va token) f) s = (Inr x, s')"
    and id: "token_identity env va token ''access'' = Inr (p, sid, u)"
  shows "\<exists>a se. row_by au_id u (user_accounts (own s)) = Some a \<and> row_by se_id sid (user_sessions (own s)) = Some se \<and>
      au_active a \<and> session_usable env u se \<and> run_request (f (a, se)) s = (Inr x, s')"
proof (cases "row_by au_id u (user_accounts (own s))")
  case None
  then show ?thesis using ok by (simp add: run_request_def bnd_def require_access_token_eq id)
next
  case (Some a)
  show ?thesis
  proof (cases "row_by se_id sid (user_sessions (own s))")
    case None
    then show ?thesis using ok Some by (simp add: run_request_def bnd_def require_access_token_eq id)
  next
    case (Some se)
    then show ?thesis using ok \<open>row_by au_id u _ = Some a\<close>
      by (simp add: run_request_def bnd_def require_access_token_eq id split: if_splits)
  qed
qed

lemma logout_revokes:
  assumes ok: "run_request (logout_request env va token) s = (Inr x, s')" and id: "token_identity env va token ''access'' = Inr (p, sid, u)"
  shows "\<exists>se. row_by se_id sid (user_sessions (own s')) = Some se \<and> se_revoked se \<noteq> None"
proof -
  obtain a se where rows: "row_by au_id u (user_accounts (own s)) = Some a" "row_by se_id sid (user_sessions (own s)) = Some se"
      "session_usable env u se" and run: "run_request (revoke_session env (se_id se) (au_id a)) s = (Inr x, s')"
    using access_request_ok [OF ok [unfolded logout_request_def] id] by auto
  have ids: "se_id se = sid" "au_id a = u" "se_user se = u"
    using rows by (auto simp: session_usable_def dest: row_by_SomeD)
  show ?thesis
  proof (rule run_request_ok [OF run, where Q = "\<lambda>x s'. \<exists>se. row_by se_id sid (user_sessions (own s')) = Some se \<and> se_revoked se \<noteq> None"])
    show "wp (revoke_session env (se_id se) (au_id a))
        (\<lambda>x t. \<exists>se. row_by se_id sid (user_sessions (own (fst t))) = Some se \<and> se_revoked se \<noteq> None) (\<lambda>_ _. True) (s, s)"
      unfolding revoke_session_def commit_directory_def ids
      by (rule site_rules TrueI | (simp add: put_session_def row_by_put_row rows ids; fail) | (use rows ids in \<open>auto; fail\<close>)
        | (use rows ids in \<open>simp add: put_session_def row_by_put_row\<close>; fail))+
  qed
qed

lemma logged_out_refused:
  assumes inv: "dir_ok limit sha (own s2)" and kept: "dir_kept sha (own s1) (own s2)"
    and gone: "row_by se_id sid (user_sessions (own s1)) = Some se" "se_revoked se \<noteq> None"
  shows "row_by se_id sid (user_sessions (own s2)) = Some x \<Longrightarrow> se_revoked x \<noteq> None"
  using session_later [OF kept inv, of se] gone by (auto simp: session_kept_def dest: row_by_SomeD)

section \<open>Login\<close>

text \<open>What a login that returns has checked and written.\<close>

definition logged_in :: "env \<Rightarrow> vault \<Rightarrow> string \<Rightarrow> string \<Rightarrow> directory \<Rightarrow> uuid \<Rightarrow> directory \<Rightarrow> bool" where
  "logged_in env va email password t u t' \<longleftrightarrow>
    (\<exists>a. account_by_email env va (lower (strip email)) t = Some a \<and> au_id a = u \<and> au_active a \<and> \<not> locked_at env a \<and>
      va_argon_verify va (au_password_hash a) password \<and>
      (\<exists>b\<in>set (user_accounts t'). au_id b = u \<and> au_failed b = 0 \<and> au_locked_until b = None)) \<and>
    (\<exists>se. user_sessions t' = user_sessions t @ [se] \<and> se_user se = u)"

lemma login_checks:
  assumes ok: "run_request (login_user env va email password cx) s = (Inr (u, access, refresh), s')"
    and inv: "dir_ok (va_max_failed va) (env_sha256 env) (own s)"
  shows "logged_in env va email password (own s) u (own s')"
proof -
  have good: "dir_good (va_max_failed va) (env_sha256 env) (own s) (own s)" using inv by (simp add: dir_good_def dir_kept_refl)
  have "(\<lambda>r s'. logged_in env va email password (own s) (fst r) (own s')) (u, access, refresh) s'"
  proof (rule run_request_ok [OF ok])
    have new: "logged_in env va email password (own s) (au_id a) t"
      if "account_by_email env va (lower (strip email)) (own s) = Some a" "au_active a" "\<not> locked_at env a"
        "va_argon_verify va (au_password_hash a) password" "au_id b = au_id a" "au_failed b = 0" "au_locked_until b = None"
        "user_accounts t = put_row au_id b (user_accounts (own s))"
        "user_sessions t = user_sessions (own s) @ [last (user_sessions t)]" "se_user (last (user_sessions t)) = au_id a" for a b t
    proof -
      have "b \<in> set (put_row au_id b (user_accounts (own s)))"
        using account_by_email_mem [OF that(1)] that(5) by (auto simp: put_row_mem)
      then show ?thesis using that unfolding logged_in_def by (auto intro!: exI [of _ "last (user_sessions t)"])
    qed
    show "wp (login_user env va email password cx) (\<lambda>r t. logged_in env va email password (own s) (fst r) (own (fst t)))
        (\<lambda>_ _. True) (s, s)"
      unfolding login_user_def record_login_risk_def commit_directory_def
      by (rule wpI_dir_id site_rules TrueI wpI_create_session [OF _ refl]
        | (simp, rule good_cleared [OF good_drawn [OF good]]; simp add: account_by_email_mem; fail)
        | (simp, rule new; (assumption | simp add: put_account_def; fail)))+
  qed
  then show ?thesis by simp
qed

section \<open>Failed logins\<close>

definition strike :: "env \<Rightarrow> vault \<Rightarrow> account \<Rightarrow> account" where
  "strike env va a = (if va_max_failed va \<le> au_failed a + 1
     then a\<lparr>au_failed := 0, au_locked_until := Some (int (env_now env) + va_lock_seconds va)\<rparr>
     else a\<lparr>au_failed := au_failed a + 1\<rparr>)"

lemma risk_logged:
  "\<exists>k. record_login_risk env a cx reason x y (c, w) = (Inr (), (c, w\<lparr>core := k\<rparr>))"
  by (simp add: record_login_risk_def on_core_def record_audit_event_def audit_states_def modify_def raise_def split: prod.split)
    (rule exI, rule refl)

lemma login_refused_locked:
  assumes "account_by_email env va (lower (strip email)) (own s) = Some a" and "au_active a" "locked_at env a"
    and "directory_valid (own s)"
  shows "\<exists>s'. run_request (login_user env va email password cx) s = (Inl invalid_credentials, s') \<and> own s' = own s"
proof -
  obtain k where "record_login_risk env a cx ''temporary_lock'' (login_security_state env a) (login_security_state env a) (s, s) =
      (Inr (), (s, s\<lparr>core := k\<rparr>))"
    using risk_logged by blast
  then show ?thesis using assms
    by (simp add: login_user_def run_request_def bnd_def seq_def query_own_def query_def Let_def commit_directory_def flush_own_def
        require_def commit_def ret_def raise_def)
qed

lemma login_wrong:
  assumes "account_by_email env va (lower (strip email)) (own s) = Some a" and "au_active a" "\<not> locked_at env a"
    and "\<not> va_argon_verify va (au_password_hash a) password" and "0 < va_max_failed va" "0 < va_lock_seconds va"
    and "directory_valid (put_account (strike env va a) (own s))"
  shows "\<exists>s'. run_request (login_user env va email password cx) s = (Inl invalid_credentials, s') \<and>
    own s' = put_account (strike env va a) (own s)"
proof -
  let ?s = "s\<lparr>own := put_account (strike env va a) (own s)\<rparr>"
  obtain k where "record_login_risk env (strike env va a) cx (if va_max_failed va \<le> au_failed a + 1 then ''temporary_lock'' else ''invalid_password'')
      (login_security_state env a) (login_security_state env (strike env va a)) (s, ?s) = (Inr (), (s, ?s\<lparr>core := k\<rparr>))"
    using risk_logged by blast
  then show ?thesis using assms
    by (simp add: login_user_def run_request_def bnd_def seq_def query_own_def query_def modify_own_def modify_def Let_def commit_directory_def
        flush_own_def require_def commit_def ret_def raise_def lift_result_def positive_setting_def strike_def split: if_splits)
qed

text \<open>A sequence of logins, each at its own time with its own password.\<close>

fun attempts :: "vault \<Rightarrow> string \<Rightarrow> client_ctx option \<Rightarrow> (env \<times> string) list \<Rightarrow> directory site \<Rightarrow> directory site" where
  "attempts va email cx [] s = s"
| "attempts va email cx ((env, password) # tries) s =
     attempts va email cx tries (site_after (login_user env va email password cx) s)"

definition wrong_attempt :: "vault \<Rightarrow> string \<Rightarrow> account \<Rightarrow> env \<times> string \<Rightarrow> bool" where
  "wrong_attempt va email a t \<longleftrightarrow> email_lookup_hash (fst t) va (lower (strip email)) = au_email_lookup a \<and>
     \<not> locked_at (fst t) a \<and> \<not> va_argon_verify va (au_password_hash a) (snd t)"

lemma counting_same [simp]:
  "locked_at env (a\<lparr>au_failed := n\<rparr>) = locked_at env a"
  "wrong_attempt va email (a\<lparr>au_failed := n\<rparr>) t = wrong_attempt va email a t"
  by (simp_all add: wrong_attempt_def locked_at_def)

definition ready :: "directory \<Rightarrow> account \<Rightarrow> bool" where
  "ready t a \<longleftrightarrow> distinct (map au_id (user_accounts t)) \<and> directory_valid t \<and>
     List.find (\<lambda>x. au_email_lookup x = au_email_lookup a) (user_accounts t) = Some a"

lemma find_put_row:
  "distinct (map key rows) \<Longrightarrow> List.find P rows = Some r \<Longrightarrow> key b = key r \<Longrightarrow> P b \<Longrightarrow> List.find P (put_row key b rows) = Some b"
  by (induction rows) (auto simp: put_row_def split: if_splits dest: find_SomeD)

lemma map_same_put_row:
  "distinct (map key rows) \<Longrightarrow> r \<in> set rows \<Longrightarrow> key b = key r \<Longrightarrow> f b = f r \<Longrightarrow> map f (put_row key b rows) = map f rows"
  by (auto simp: put_row_def distinct_map) (metis inj_onD)

lemma ready_put:
  assumes "ready t a" and "au_id b = au_id a" "au_email_lookup b = au_email_lookup a"
  shows "ready (put_account b t) b"
proof -
  have found: "List.find (\<lambda>x. au_email_lookup x = au_email_lookup a) (user_accounts t) = Some a"
    and d: "distinct (map au_id (user_accounts t))" using assms(1) by (simp_all add: ready_def)
  have "a \<in> set (user_accounts t)" using find_SomeD [OF found] by simp
  then have "map au_email_lookup (put_row au_id b (user_accounts t)) = map au_email_lookup (user_accounts t)"
    using map_same_put_row [OF d, of a b au_email_lookup] assms(2,3) by simp
  then show ?thesis using assms find_put_row [OF d found assms(2)]
    by (simp add: ready_def put_account_def directory_valid_def accounts_valid_def)
qed

lemma strike_row [simp]: "au_id (strike env va a) = au_id a" "au_email_lookup (strike env va a) = au_email_lookup a"
  by (simp_all add: strike_def)

lemma attempt_struck:
  assumes "ready (own s) a" and "au_active a" and "wrong_attempt va email a (env, password)"
    and "0 < va_max_failed va" "0 < va_lock_seconds va"
  shows "own (site_after (login_user env va email password cx) s) = put_account (strike env va a) (own s)"
proof -
  have "account_by_email env va (lower (strip email)) (own s) = Some a"
    using assms(1,3) by (simp add: ready_def wrong_attempt_def account_by_email_def)
  moreover have "directory_valid (put_account (strike env va a) (own s))"
    using ready_put [OF assms(1), of "strike env va a"] by (simp add: ready_def)
  ultimately show ?thesis using login_wrong [of env va email s a password cx] assms(2-5)
    by (auto simp: wrong_attempt_def site_after_def)
qed

lemma attempts_counted:
  assumes "0 < va_max_failed va" "0 < va_lock_seconds va"
  shows "ready (own s) a \<Longrightarrow> au_active a \<Longrightarrow> \<forall>t\<in>set tries. wrong_attempt va email a t \<Longrightarrow>
    au_failed a + int (length tries) < va_max_failed va \<Longrightarrow>
    ready (own (attempts va email cx tries s)) (a\<lparr>au_failed := au_failed a + int (length tries)\<rparr>)"
proof (induction tries arbitrary: s a)
  case Nil
  then show ?case by simp
next
  case (Cons t tries)
  obtain env password where t: "t = (env, password)" by force
  let ?s = "site_after (login_user env va email password cx) s" and ?a = "a\<lparr>au_failed := au_failed a + 1\<rparr>"
  have struck: "strike env va a = ?a" using Cons.prems(4) by (simp add: strike_def)
  have own: "own ?s = put_account ?a (own s)"
    using attempt_struck [OF Cons.prems(1,2) _ assms, of email env password cx] Cons.prems(3) by (simp add: t struck)
  have "ready (own ?s) ?a" unfolding own by (rule ready_put [OF Cons.prems(1)]) simp_all
  moreover have "\<forall>t\<in>set tries. wrong_attempt va email ?a t" using Cons.prems(3) by simp
  ultimately have "ready (own (attempts va email cx tries ?s)) (?a\<lparr>au_failed := au_failed ?a + int (length tries)\<rparr>)"
    using Cons.prems(2,4) by (intro Cons.IH) simp_all
  then show ?case by (simp add: t algebra_simps)
qed

lemma attempts_append: "attempts va email cx (xs @ ys) s = attempts va email cx ys (attempts va email cx xs s)"
  by (induction xs arbitrary: s) auto

lemma attempts_lock:
  assumes "0 < va_max_failed va" "0 < va_lock_seconds va" and "ready (own s) a" "au_active a"
    and "\<forall>t\<in>set (tries @ [(env, password)]). wrong_attempt va email a t"
    and n: "au_failed a + int (length tries) + 1 = va_max_failed va"
  shows "ready (own (attempts va email cx (tries @ [(env, password)]) s))
    (a\<lparr>au_failed := 0, au_locked_until := Some (int (env_now env) + va_lock_seconds va)\<rparr>)"
proof -
  let ?s = "attempts va email cx tries s" and ?a = "a\<lparr>au_failed := au_failed a + int (length tries)\<rparr>"
  have ready: "ready (own ?s) ?a" using assms by (intro attempts_counted) simp_all
  have "wrong_attempt va email ?a (env, password)" using assms(5) by simp
  then have "own (site_after (login_user env va email password cx) ?s) = put_account (strike env va ?a) (own ?s)"
    using assms(1,2,4) ready by (intro attempt_struck) simp_all
  then show ?thesis using ready_put [OF ready, of "strike env va ?a"] n by (simp add: attempts_append strike_def)
qed

end
