(* ===== verification/Accounts.thy ===== *)
theory Accounts
  imports Access Scenario
begin

text \<open>
  What identity promises in every state it can reach together with the platform, after a concrete
  directory beside the platform of theory \<open>Scenario\<close>: an account is registered, its session is
  refreshed and ended.
\<close>

definition demo_aead :: aead where
  "demo_aead = \<lparr>gcm_encrypt = (\<lambda>k n p a. p @ ''t''), gcm_decrypt = (\<lambda>k n c a. Some (butlast c))\<rparr>"

definition demo_cipher :: pii_cipher where
  "demo_cipher = \<lparr>active_key_id = ''k2'', pii_keys = [(''k2'', replicate 32 (CHR ''b'')), (''k1'', replicate 32 (CHR ''a''))],
     pii_lookup_key = ''l''\<rparr>"

definition demo_token :: "string \<Rightarrow> nat \<Rightarrow> json" where
  "demo_token ty j = JObj [(''sub'', j_id 102), (''sid'', j_id 103), (''type'', JStr ty), (''jti'', JStr (str_uuid j))]"

text \<open>A token is the text of its id; the two tokens of the registration decode to their claims.\<close>

definition demo_vault :: vault where
  "demo_vault = \<lparr>va_argon_hash = (\<lambda>n p. p), va_argon_verify = (\<lambda>h p. h = p), va_jwt_encode = (\<lambda>j. claim_text j ''jti''),
     va_jwt_decode = (\<lambda>t s. if s = str_uuid 104 then Some (demo_token ''refresh'' 104)
       else if s = str_uuid 105 then Some (demo_token ''access'' 105) else None),
     va_token_hex = (\<lambda>n k. replicate (2 * k) (digit (n mod 16))), va_nonce = (\<lambda>n. replicate 12 (CHR ''n'')),
     va_hmac_sha256 = (\<lambda>k m. k @ m), va_hmac_sha1 = (\<lambda>k m. k @ m), va_aead = demo_aead, va_cipher = demo_cipher,
     va_mfa_key = ''m'', va_mfa_issuer = ''Platform'', va_access_ttl = 900, va_refresh_ttl = 86400, va_max_failed = 2,
     va_lock_seconds = 900, va_mfa_ttl = 600\<rparr>"

definition home0 :: "directory site" where
  "home0 = \<lparr>core = demo0, own = \<lparr>dir_next = 100, user_accounts = [], devices = [], user_sessions = [], verifications = []\<rparr>\<rparr>"
definition home1 :: "directory site" where
  "home1 = site_after (register_user demo_env demo_vault ''ann@site.org'' ''correct horse'' ''freelancer'' None) home0"
definition home2 :: "directory site" where
  "home2 = site_after (refresh_session demo_env demo_vault (str_uuid 104)) home1"
definition home3 :: "directory site" where
  "home3 = site_after (logout_request demo_env demo_vault (str_uuid 105)) home1"

section \<open>Evaluation\<close>

lemmas directory_defs = dir_id_def put_account_def put_session_def accounts_valid_def directory_valid_def hash_password_def
  hash_jti_def issue_token_pair_def session_usable_def require_access_token_def account_by_email_def create_session_def
  self_service_roles_def commit_directory_def register_user_def invalid_credentials_def
  record_login_risk_def login_user_def refresh_session_def revoke_session_def logout_request_def modify_core_def

lemma demo_vault_sel:
  "va_argon_hash demo_vault n p = p" "va_argon_verify demo_vault h p = (h = p)" "va_refresh_ttl demo_vault = 86400"
  "va_max_failed demo_vault = 2" "va_lock_seconds demo_vault = 900" "va_aead demo_vault = demo_aead" "va_cipher demo_vault = demo_cipher"
  "va_nonce demo_vault n = replicate 12 (CHR ''n'')" "va_jwt_encode demo_vault (JObj kvs) = claim_text (JObj kvs) ''jti''"
  by (simp_all add: demo_vault_def)

lemma account_texts:
  "normalize_email ''ann@site.org'' = Inr ''ann@site.org''" "lower (strip ''ann@site.org'') = ''ann@site.org''"
  "token_identity demo_env demo_vault (str_uuid 104) ''refresh'' = Inr (demo_token ''refresh'' 104, 103, 102)"
  "token_identity demo_env demo_vault (str_uuid 105) ''access'' = Inr (demo_token ''access'' 105, 103, 102)"
  "claim_text (demo_token ty j) ''jti'' = str_uuid j"
  by (code_simp, code_simp, code_simp, code_simp, simp add: claim_text_def demo_token_def jget_def)

lemmas account_defs = directory_defs demo_vault_sel account_texts

lemmas home_simps = account_defs run_defs site_after_def on_core_def query_own_def query_core_def modify_own_def flush_own_def
  demo_rows demo_env_sel

lemma home1_state: "home1 = \<lparr>core = core home1, own = own home1\<rparr>"
  "own home1 = \<lparr>dir_next = 106, user_accounts = [\<lparr>au_id = 102,
     au_email_cipher = pii_encrypt demo_aead demo_cipher (replicate 12 (CHR ''n'')) ''ann@site.org'' ''user.email'',
     au_email_lookup = email_lookup_hash demo_env demo_vault ''ann@site.org'', au_password_hash = ''correct horse'',
     au_active = True, au_failed = 0, au_locked_until = None, au_mfa_seed = None, au_mfa_enabled = None\<rparr>],
     devices = [], user_sessions = [\<lparr>se_id = 103, se_user = 102, se_device = None, se_jti_hash = str_uuid 104, se_ip = None,
       se_agent = None, se_expires = 86407, se_revoked = None, se_mfa_verified = None, se_last_seen = 7\<rparr>], verifications = []\<rparr>"
  by (simp_all add: home1_def home0_def demo0_def home_simps)

lemma home_reachable: "reachable_dir 2 (\<lambda>s. s) home0" "reachable_dir 2 (\<lambda>s. s) home1" "reachable_dir 2 (\<lambda>s. s) home2"
proof -
  have dep: "deployed 2 (\<lambda>s. s) demo_env demo_vault" by (simp add: deployed_def demo_env_def demo_vault_sel)
  show 0: "reachable_dir 2 (\<lambda>s. s) home0" unfolding reachable_dir_def home0_def
    by (rule reachable_beside [OF demo_reachable_0]) (simp add: empty_directory_def)
  note go = reachable.continue [of "site_start (\<lambda>s. empty_directory (own s))" "site_step (dir_request 2 (\<lambda>s. s))", folded reachable_dir_def]
  show 1: "reachable_dir 2 (\<lambda>s. s) home1" unfolding home1_def
    by (rule go [OF 0], rule site_step.served, rule dir_request.register [OF dep])
  show "reachable_dir 2 (\<lambda>s. s) home2" unfolding home2_def
    by (rule go [OF 1], rule site_step.served, rule dir_request.refresh [OF dep])
qed

lemma issued_jti:
  "claim_text (JObj (token_claims env u i @ [(''type'', x), (''jti'', JStr s), y, z])) ''jti'' = s"
  "claim_text (JObj (token_claims env u i @ [(''type'', x), (''jti'', JStr s), y])) ''jti'' = s"
  by (simp_all add: claim_text_def token_claims_def jget_def)


lemma home3_logged_out: "run_request (logout_request demo_env demo_vault (str_uuid 105)) home1 = (Inr (), home3)"
proof -
  have "fst (run_request (logout_request demo_env demo_vault (str_uuid 105)) home1) = Inr ()"
    by (simp add: home1_state(2) home_simps)
  then show ?thesis by (simp add: home3_def site_after_def prod_eq_iff)
qed

text \<open>Ids below 2 ^ 128 have different texts.\<close>

lemma digit_inj: "a < 16 \<Longrightarrow> b < 16 \<Longrightarrow> digit a = digit b \<Longrightarrow> a = b"
proof -
  have "\<forall>a\<in>set [0..<16]. \<forall>b\<in>set [0..<16]. digit a = digit b \<longrightarrow> a = b" by code_simp
  then show "a < 16 \<Longrightarrow> b < 16 \<Longrightarrow> digit a = digit b \<Longrightarrow> a = b" by simp
qed

lemma hex_digits_inj: "n < 16 ^ k \<Longrightarrow> m < 16 ^ k \<Longrightarrow> hex_digits k n = hex_digits k m \<Longrightarrow> n = m"
proof (induction k arbitrary: n m)
  case (Suc k)
  then have "n div 16 = m div 16" "n mod 16 = m mod 16" by (auto simp: less_mult_imp_div_less mult.commute intro: digit_inj)
  then show ?case by (metis div_mult_mod_eq)
qed simp

lemma length_hex_digits [simp]: "length (hex_digits k n) = k"
  by (induction k arbitrary: n) simp_all

lemma str_uuid_hex: "str_uuid n = str_uuid m \<Longrightarrow> hex_digits 32 n = hex_digits 32 m"
proof -
  assume eq: "str_uuid n = str_uuid m"
  have pieces: "h = take 8 h @ take 4 (drop 8 h) @ take 4 (drop 12 h) @ take 4 (drop 16 h) @ drop 20 h" if "length h = 32" for h :: string
    using append_take_drop_id [of 8 h] append_take_drop_id [of 4 "drop 8 h"] append_take_drop_id [of 4 "drop 12 h"]
      append_take_drop_id [of 4 "drop 16 h"] by (simp add: add.commute)
  from eq have "take 8 (hex_digits 32 n) = take 8 (hex_digits 32 m)" "take 4 (drop 8 (hex_digits 32 n)) = take 4 (drop 8 (hex_digits 32 m))"
    "take 4 (drop 12 (hex_digits 32 n)) = take 4 (drop 12 (hex_digits 32 m))" "take 4 (drop 16 (hex_digits 32 n)) = take 4 (drop 16 (hex_digits 32 m))"
    "drop 20 (hex_digits 32 n) = drop 20 (hex_digits 32 m)" by (simp_all add: str_uuid_def Let_def)
  then show ?thesis using pieces [of "hex_digits 32 n"] pieces [of "hex_digits 32 m"] by (metis length_hex_digits)
qed

lemma str_uuid_inj: "inj_on str_uuid {..<2 ^ 128}"
proof (rule inj_onI)
  fix n m :: nat assume "n \<in> {..<2 ^ 128}" "m \<in> {..<2 ^ 128}" and eq: "str_uuid n = str_uuid m"
  moreover have "(2::nat) ^ 128 = 16 ^ 32" by simp
  ultimately have "n < 16 ^ 32" "m < 16 ^ 32" by (simp_all only: lessThan_iff)
  then show "n = m" by (rule hex_digits_inj) (rule str_uuid_hex [OF eq])
qed

section \<open>The promises\<close>



text \<open>C26: Logging out is final: once a logout returned, every access token and every refresh token of the
  session is refused with 401 and no effect, in every later state of identity and the platform.\<close>

theorem logout_is_final:
  assumes "reachable_dir limit sha s" and "run_request (logout_request env va token) s = (Inr (), s1)"
    and "token_identity env va token ''access'' = Inr (p, sid, u)"
    and "(site_step (dir_request limit sha))\<^sup>*\<^sup>* s1 s2"
  shows "(token_identity env' va' token' ''access'' = Inr (p', sid, u') \<longrightarrow>
      run_request (require_access_token env' va' token') s2 = (Inl (ApiError ''unauthorized'' 401), s2)) \<and>
    (token_identity env' va' token' ''refresh'' = Inr (p', sid, u') \<longrightarrow>
      run_request (refresh_session env' va' token') s2 = (Inl (ApiError ''unauthorized'' 401), s2))"
proof -
  have "site_step (dir_request limit sha) s s1"
    using site_step.served [of "dir_request limit sha", OF dir_request.logout [of limit sha s env va token]] assms(2)
    by (simp add: site_after_def)
  then have r1: "reachable_dir limit sha s1" using reachable_dir_steps [OF assms(1) r_into_rtranclp] by blast
  then have kept: "dir_ok limit sha (own s2)" "dir_kept sha (own s1) (own s2)"
    using reachable_dir_steps [OF r1 assms(4)] reachable_dir_ok by blast+
  obtain se where se: "row_by se_id sid (user_sessions (own s1)) = Some se" "se_revoked se \<noteq> None"
    using logout_revokes [OF assms(2,3)] by blast
  note gone = logged_out_refused [OF kept se]
  show ?thesis using access_refused [of env' va' token' p' sid u' s2] refresh_refused [of env' va' token' p' sid u' s2] gone
    by (auto simp: unauthorized_def)
qed

theorem logout_is_final_witness:
  "run_request (require_access_token demo_env demo_vault (str_uuid 105)) home3 = (Inl (ApiError ''unauthorized'' 401), home3) \<and>
    run_request (refresh_session demo_env demo_vault (str_uuid 104)) home3 = (Inl (ApiError ''unauthorized'' 401), home3)"
  using logout_is_final [OF home_reachable(2) home3_logged_out account_texts(4) rtranclp.rtrancl_refl,
      of demo_env demo_vault "str_uuid 105" "demo_token ''access'' 105" 102]
    logout_is_final [OF home_reachable(2) home3_logged_out account_texts(4) rtranclp.rtrancl_refl,
      of demo_env demo_vault "str_uuid 104" "demo_token ''refresh'' 104" 102] account_texts(3,4)
  by simp

text \<open>C28: A login opens a session only after every check: the account is the one indexed under the address,
  active, not locked, and the password verifies against its hash. It clears the failure counter and
  adds exactly one session, which belongs to the account.\<close>

theorem login_guarded:
  assumes "reachable_dir (va_max_failed va) (env_sha256 env) s"
    and "run_request (login_user env va email password cx) s = (Inr (u, access, refresh), s')"
  shows "(\<exists>a. account_by_email env va (lower (strip email)) (own s) = Some a \<and> au_id a = u \<and> au_active a \<and> \<not> locked_at env a \<and>
      va_argon_verify va (au_password_hash a) password \<and>
      (\<exists>b\<in>set (user_accounts (own s')). au_id b = u \<and> au_failed b = 0 \<and> au_locked_until b = None)) \<and>
    (\<exists>se. user_sessions (own s') = user_sessions (own s) @ [se] \<and> se_user se = u)"
  using login_checks [OF assms(2)] reachable_dir_ok [OF assms(1)] by (simp add: logged_in_def)

lemma demo_login:
  "\<exists>s'. run_request (login_user demo_env demo_vault ''ann@site.org'' ''correct horse'' None) home1 = (Inr (102, str_uuid 109, str_uuid 108), s')"
proof -
  have "valid_key_id ''k2''" by code_simp
  note envelope = partition_envelope [OF this, simplified]
  have fresh: "needs_rotation demo_cipher (pii_encrypt demo_aead demo_cipher nonce v ctxt) = Inr False" for nonce v ctxt
    by (simp add: needs_rotation_def pii_encrypt_def demo_cipher_def Let_def envelope)
  have "str_uuid 104 \<noteq> str_uuid 108" using inj_onD [OF str_uuid_inj, of 104 108] by auto
  then have "fst (run_request (login_user demo_env demo_vault ''ann@site.org'' ''correct horse'' None) home1) = Inr (102, str_uuid 109, str_uuid 108)"
    by (simp add: home1_state(2) home_simps issued_jti locked_at_def pii_rewrap_def fresh)
  then show ?thesis by (metis prod.collapse)
qed

theorem login_guarded_witness:
  "va_argon_verify demo_vault ''correct horse'' ''correct horse'' \<and> (\<exists>a\<in>set (user_accounts (own home1)). au_id a = 102 \<and> au_active a)"
proof -
  obtain s' where run: "run_request (login_user demo_env demo_vault ''ann@site.org'' ''correct horse'' None) home1 =
      (Inr (102, str_uuid 109, str_uuid 108), s')" using demo_login by blast
  have "reachable_dir (va_max_failed demo_vault) (env_sha256 demo_env) home1"
    using home_reachable(2) by (simp add: demo_env_def demo_vault_sel)
  from login_guarded [OF this run] show ?thesis
    using account_by_email_mem by (auto simp: home1_state(2) demo_vault_sel)
qed

text \<open>C27: Guessing is bounded: after as many wrong passwords in a row as the limit leaves, at whatever
  times, the account is locked for the configured time from the last one, and until then every
  login is refused, with the right password too, and leaves the directory as it is.\<close>

theorem repeated_failures_lock:
  assumes "reachable_dir (va_max_failed va) sha s" and "0 < va_max_failed va" "0 < va_lock_seconds va"
    and "account_by_email env va (lower (strip email)) (own s) = Some a" "au_active a"
    and "\<forall>t\<in>set (tries @ [(env, password)]). wrong_attempt va email a t"
    and "au_failed a + int (length tries) + 1 = va_max_failed va"
    and "s' = attempts va email cx (tries @ [(env, password)]) s"
    and "email_lookup_hash env' va (lower (strip email)) = au_email_lookup a" "int (env_now env') < int (env_now env) + va_lock_seconds va"
  shows "account_by_email env va (lower (strip email)) (own s') =
      Some (a\<lparr>au_failed := 0, au_locked_until := Some (int (env_now env) + va_lock_seconds va)\<rparr>) \<and>
    (\<exists>s''. run_request (login_user env' va email password' cx') s' = (Inl (ApiError ''invalid_credentials'' 401), s'') \<and> own s'' = own s')"
proof -
  let ?b = "a\<lparr>au_failed := 0, au_locked_until := Some (int (env_now env) + va_lock_seconds va)\<rparr>"
  have hash: "email_lookup_hash env va (lower (strip email)) = au_email_lookup a" using assms(6) by (simp add: wrong_attempt_def)
  then have "ready (own s) a"
    using reachable_dir_ok [OF assms(1)] assms(4) by (simp add: ready_def dir_ok_def fresh_ids_def account_by_email_def)
  then have ready: "ready (own s') ?b" unfolding assms(8) using assms by (intro attempts_lock) simp_all
  then have found: "account_by_email e va (lower (strip email)) (own s') = Some ?b"
    if "email_lookup_hash e va (lower (strip email)) = au_email_lookup a" for e
    using that by (simp add: ready_def account_by_email_def)
  have "\<exists>s''. run_request (login_user env' va email password' cx') s' = (Inl invalid_credentials, s'') \<and> own s'' = own s'"
    by (rule login_refused_locked [OF found]) (use assms(5,9,10) ready in \<open>simp_all add: locked_at_def ready_def\<close>)
  then show ?thesis using found [OF hash] by (simp add: invalid_credentials_def)
qed

theorem repeated_failures_lock_witness:
  "\<exists>s''. run_request (login_user demo_env demo_vault ''ann@site.org'' ''correct horse'' None)
      (attempts demo_vault ''ann@site.org'' None ([(demo_env, ''wrong one'')] @ [(demo_env, ''wrong two'')]) home1) =
    (Inl (ApiError ''invalid_credentials'' 401), s'')"
proof -
  let ?a = "hd (user_accounts (own home1))"
  have found: "account_by_email demo_env demo_vault (lower (strip ''ann@site.org'')) (own home1) = Some ?a"
    by (simp add: home1_state(2) account_by_email_def account_texts)
  show ?thesis
    using repeated_failures_lock [of demo_vault "\<lambda>s. s" home1 demo_env "''ann@site.org''" ?a "[(demo_env, ''wrong one'')]" "''wrong two''"
        "attempts demo_vault ''ann@site.org'' None ([(demo_env, ''wrong one'')] @ [(demo_env, ''wrong two'')]) home1" None demo_env
        "''correct horse''" None, OF _ _ _ found] home_reachable(2)
    by (auto simp: home1_state(2) demo_vault_sel wrong_attempt_def locked_at_def account_texts demo_env_sel)
qed

text \<open>C29: Encrypted personal data survives key rotation: a value encrypted under the active key of one
  configuration decrypts under every later configuration that still holds that key, and rewrapping
  gives a ciphertext of the new active key that decrypts to the same value.\<close>

theorem pii_survives_rotation:
  assumes "aead_correct g" and "cipher_ok ci" and "cipher_ok ci'" and "length nonce = 12" and "length nonce' = 12"
    and "map_of (pii_keys ci') (active_key_id ci) = map_of (pii_keys ci) (active_key_id ci)"
  shows "pii_decrypt g ci' (pii_encrypt g ci nonce v ctxt) ctxt = Inr v \<and>
    (\<exists>c. pii_rewrap g ci' nonce' (pii_encrypt g ci nonce v ctxt) ctxt = Inr c \<and>
      needs_rotation ci' c = Inr False \<and> pii_decrypt g ci' c ctxt = Inr v)"
proof -
  note old = encrypt_decrypts [OF assms(1,2,4,6), of v ctxt] and new = encrypt_decrypts [OF assms(1,3,5) refl, of v ctxt]
  have valid: "valid_key_id (active_key_id x)" if "cipher_ok x" for x
    using that unfolding cipher_ok_def by (metis domIff dom_map_of_conv_image_fst)
  have label: "needs_rotation ci' (pii_encrypt g x n v ctxt) = Inr (active_key_id x \<noteq> active_key_id ci')" if "cipher_ok x" for x n
    using partition_envelope [OF valid [OF that], simplified] by (simp add: needs_rotation_def pii_encrypt_def Let_def)
  show ?thesis
  proof (cases "active_key_id ci = active_key_id ci'")
    case True
    then show ?thesis using old label [OF assms(2)] by (simp add: pii_rewrap_def)
  next
    case False
    then show ?thesis using old new label [OF assms(2)] label [OF assms(3)] by (simp add: pii_rewrap_def)
  qed
qed

theorem pii_survives_rotation_witness:
  "\<exists>c. pii_rewrap demo_aead demo_cipher (replicate 12 (CHR ''m''))
      (pii_encrypt demo_aead (demo_cipher\<lparr>active_key_id := ''k1''\<rparr>) (replicate 12 (CHR ''n'')) ''ann'' ''user.name'') ''user.name'' = Inr c \<and>
    pii_decrypt demo_aead demo_cipher c ''user.name'' = Inr ''ann''"
proof -
  have "valid_key_id ''k1''" "valid_key_id ''k2''" by code_simp+
  then have "cipher_ok (demo_cipher\<lparr>active_key_id := ''k1''\<rparr>)" "cipher_ok demo_cipher" by (simp_all add: cipher_ok_def demo_cipher_def)
  moreover have "aead_correct demo_aead" by (simp add: aead_correct_def demo_aead_def)
  ultimately show ?thesis
    using pii_survives_rotation [of demo_aead "demo_cipher\<lparr>active_key_id := ''k1''\<rparr>" demo_cipher "replicate 12 (CHR ''n'')"
        "replicate 12 (CHR ''m'')" "''ann''" "''user.name''"] by auto
qed

end
