(* ===== verification/Notify.thy ===== *)
theory Notify
  imports Messaging
begin

text \<open>
  Notifications (\<open>app/notifications/\<close>): the events \<open>notification.requested\<close> that disputes, messages and
  calls put into the outbox become notifications of their users, on the channels each user asked
  for. A receipt for each consumed event makes the consumer restartable. An event is its place in
  the outbox. Publishing to connected clients (\<open>realtime/publisher.py\<close>) never fails and is the result
  of the consumer.
\<close>

section \<open>Tables\<close>

record note_delivery =
  nl_channel :: string
  nl_status :: string
  nl_attempts :: int

record notification =
  nt_id :: uuid
  nt_user :: uuid
  nt_event_type :: string
  nt_title :: string
  nt_body :: string
  nt_payload :: json
  nt_dedupe :: string
  nt_read :: "nat option"
  nt_created :: nat
  nt_deliveries :: "note_delivery list"

record note_preference =
  np_user :: uuid
  np_event_type :: string
  np_channel :: string
  np_enabled :: bool

record inbox =
  inbox_next_id :: nat
  notifications :: "notification list"
  note_preferences :: "note_preference list"
  note_receipts :: "nat list"

type_synonym 'a inbox_op = "(inbox, 'a) sop"

definition note_channels :: "string list" where
  "note_channels = [''IN_APP'', ''EMAIL'', ''PUSH'', ''SMS'']"

definition deliveries_valid :: "note_delivery list \<Rightarrow> bool" where
  "deliveries_valid ls \<longleftrightarrow> distinct (map nl_channel ls) \<and>
     list_all (\<lambda>l. nl_channel l \<in> set note_channels \<and> nl_status l \<in> {''PENDING'', ''SENT'', ''DELIVERED'', ''FAILED''} \<and>
       0 \<le> nl_attempts l) ls"

definition user_exists :: "db \<Rightarrow> uuid \<Rightarrow> bool" where
  "user_exists d u \<longleftrightarrow> row_by user_id u (users d) \<noteq> None"

text \<open>The constraints of the four tables, the references to users included.\<close>

definition inbox_valid :: "db \<Rightarrow> inbox \<Rightarrow> bool" where
  "inbox_valid d t \<longleftrightarrow> distinct (map (\<lambda>n. (nt_user n, nt_dedupe n)) (notifications t)) \<and>
     list_all (\<lambda>n. user_exists d (nt_user n) \<and> deliveries_valid (nt_deliveries n)) (notifications t) \<and>
     distinct (map (\<lambda>p. (np_user p, np_event_type p, np_channel p)) (note_preferences t)) \<and>
     list_all (\<lambda>p. user_exists d (np_user p) \<and> np_channel p \<in> set note_channels) (note_preferences t) \<and>
     distinct (note_receipts t)"

definition flush_inbox :: "unit inbox_op" where
  "flush_inbox = bnd (query (\<lambda>s. inbox_valid (core s) (own s))) (\<lambda>b. require b IntegrityError)"

definition inbox_id :: "uuid inbox_op" where
  "inbox_id = bnd (query_own inbox_next_id) (\<lambda>i. seq (modify_own (\<lambda>t. t\<lparr>inbox_next_id := Suc i\<rparr>)) (ret i))"

definition add_notification :: "notification \<Rightarrow> inbox \<Rightarrow> inbox" where
  "add_notification n t = t\<lparr>notifications := notifications t @ [n]\<rparr>"

definition add_note_receipt :: "nat \<Rightarrow> inbox \<Rightarrow> inbox" where
  "add_note_receipt e t = t\<lparr>note_receipts := note_receipts t @ [e]\<rparr>"

section \<open>Creating a notification\<close>

definition preference_of :: "uuid \<Rightarrow> string \<Rightarrow> string \<Rightarrow> inbox \<Rightarrow> note_preference option" where
  "preference_of u ty c t = List.find (\<lambda>p. np_user p = u \<and> np_event_type p = ty \<and> np_channel p = c) (note_preferences t)"

definition channel_enabled :: "uuid \<Rightarrow> string \<Rightarrow> inbox \<Rightarrow> string \<Rightarrow> bool" where
  "channel_enabled u ty t c = (case preference_of u ty c t of Some p \<Rightarrow> np_enabled p | None \<Rightarrow> c = ''IN_APP'')"

definition new_deliveries :: "uuid \<Rightarrow> string \<Rightarrow> inbox \<Rightarrow> note_delivery list" where
  "new_deliveries u ty t = map (\<lambda>c. \<lparr>nl_channel = c, nl_status = (if c = ''IN_APP'' then ''DELIVERED'' else ''PENDING''), nl_attempts = 0\<rparr>)
     (filter (channel_enabled u ty t) note_channels)"

definition notification_for :: "uuid \<Rightarrow> string \<Rightarrow> inbox \<Rightarrow> notification option" where
  "notification_for u key t = List.find (\<lambda>n. nt_user n = u \<and> nt_dedupe n = key) (notifications t)"

definition create_notification :: "env \<Rightarrow> uuid \<Rightarrow> string \<Rightarrow> string \<Rightarrow> string \<Rightarrow> json \<Rightarrow> string \<Rightarrow> notification inbox_op" where
  "create_notification env u ty title body payload key =
    bnd (query_own (notification_for u key)) (\<lambda>existing.
    case existing of Some n \<Rightarrow> ret n | None \<Rightarrow>
    bnd inbox_id (\<lambda>i.
    bnd (query_own (new_deliveries u ty)) (\<lambda>ls.
    let n = \<lparr>nt_id = i, nt_user = u, nt_event_type = ty, nt_title = take 160 title, nt_body = take 500 body,
             nt_payload = payload, nt_dedupe = take 180 key, nt_read = None, nt_created = env_now env, nt_deliveries = ls\<rparr> in
    seq (modify_own (add_notification n)) (
    seq flush_inbox (ret n)))))"

section \<open>Consuming the outbox\<close>

text \<open>\<open>str(payload[key])\<close>: every producer puts strings; \<open>str\<close> of other values, which no producer
  puts, counts as malformed.\<close>

definition payload_text :: "json \<Rightarrow> string \<Rightarrow> exn + string" where
  "payload_text p k = (if \<not> jhas p k then Inl KeyError else case jget p k of JStr s \<Rightarrow> Inr s | _ \<Rightarrow> Inl ValueError)"

definition payload_user :: "json \<Rightarrow> exn + uuid" where
  "payload_user p = (case payload_text p ''user_id'' of Inl e \<Rightarrow> Inl e
     | Inr s \<Rightarrow> (case parse_uuid s of None \<Rightarrow> Inl ValueError | Some u \<Rightarrow> Inr u))"

definition payload_object :: "json \<Rightarrow> json" where
  "payload_object p = (case jget p ''payload'' of JObj kvs \<Rightarrow> JObj kvs | _ \<Rightarrow> JObj [])"

definition consume_notification :: "env \<Rightarrow> nat \<Rightarrow> notification option inbox_op" where
  "consume_notification env e =
    bnd (query_core outbox) (\<lambda>os.
    if length os \<le> e then ret None else
    bnd (query_own (\<lambda>t. e \<in> set (note_receipts t))) (\<lambda>consumed.
    if consumed then ret None else
    let p = ob_payload (os ! e) in
    bnd (lift_result (payload_user p)) (\<lambda>u.
    bnd (lift_result (payload_text p ''event_type'')) (\<lambda>ty.
    bnd (lift_result (payload_text p ''title'')) (\<lambda>title.
    bnd (lift_result (payload_text p ''body'')) (\<lambda>body.
    bnd (lift_result (payload_text p ''dedupe_key'')) (\<lambda>key.
    bnd (create_notification env u ty title body (payload_object p) key) (\<lambda>n.
    seq (modify_own (add_note_receipt e)) (
    seq flush_inbox (
    seq commit (ret (Some n))))))))))))"

definition pending_notifications :: "inbox site \<Rightarrow> nat list" where
  "pending_notifications s = filter (\<lambda>e. ob_event_type (outbox (core s) ! e) = ''notification.requested'' \<and>
     e \<notin> set (note_receipts (own s))) [0..<length (outbox (core s))]"

text \<open>The result lists what was published; its length is the number the task returns.\<close>

fun consume_all :: "env \<Rightarrow> nat list \<Rightarrow> notification list \<Rightarrow> notification list inbox_op" where
  "consume_all env [] ns = ret ns"
| "consume_all env (e # es) ns = bnd (consume_notification env e) (\<lambda>r. consume_all env es (case r of None \<Rightarrow> ns | Some n \<Rightarrow> ns @ [n]))"

definition drain_notification_outbox :: "env \<Rightarrow> nat \<Rightarrow> notification list inbox_op" where
  "drain_notification_outbox env limit = bnd (query (\<lambda>s. take limit (pending_notifications s))) (\<lambda>es. consume_all env es [])"

section \<open>Reading and preferences\<close>

definition put_notification :: "notification \<Rightarrow> inbox \<Rightarrow> inbox" where
  "put_notification n t = t\<lparr>notifications := put_row nt_id n (notifications t)\<rparr>"

definition mark_notification_read :: "env \<Rightarrow> user \<Rightarrow> uuid \<Rightarrow> notification inbox_op" where
  "mark_notification_read env user i =
    bnd (query_own (\<lambda>t. row_by nt_id i (notifications t))) (\<lambda>r.
    case r of None \<Rightarrow> raise (ApiError ''notification_not_found'' 404) | Some n \<Rightarrow>
    if nt_user n \<noteq> user_id user then raise (ApiError ''forbidden'' 403)
    else if nt_read n = None then
      let n' = n\<lparr>nt_read := Some (env_now env)\<rparr> in
      seq (modify_own (put_notification n')) (seq flush_inbox (seq commit (ret n')))
    else ret n)"

definition list_notifications :: "user \<Rightarrow> nat option \<Rightarrow> int \<Rightarrow> notification list inbox_op" where
  "list_notifications user newer limit =
    (if limit < 1 \<or> 100 < limit then raise (ApiError ''validation_error'' 422) else
     query_own (\<lambda>t. take (nat limit) (sort_key nt_created (filter (\<lambda>n. nt_user n = user_id user \<and>
       (case newer of None \<Rightarrow> True | Some a \<Rightarrow> a < nt_created n)) (notifications t)))))"

definition put_preference :: "note_preference \<Rightarrow> inbox \<Rightarrow> inbox" where
  "put_preference p t = t\<lparr>note_preferences := put_row (\<lambda>x. (np_user x, np_event_type x, np_channel x)) p (note_preferences t)\<rparr>"

definition add_preference :: "note_preference \<Rightarrow> inbox \<Rightarrow> inbox" where
  "add_preference p t = t\<lparr>note_preferences := note_preferences t @ [p]\<rparr>"

definition set_preference :: "user \<Rightarrow> string \<Rightarrow> string \<Rightarrow> bool \<Rightarrow> note_preference inbox_op" where
  "set_preference user event_type channel enabled =
    (let ty = strip event_type; c = upper channel in
     if ty = [] \<or> 120 < length ty then raise (ApiError ''validation_error'' 422)
     else if c \<notin> set note_channels then raise (ApiError ''validation_error'' 422) else
     bnd (query_own (preference_of (user_id user) ty c)) (\<lambda>r.
     let p = \<lparr>np_user = user_id user, np_event_type = ty, np_channel = c, np_enabled = enabled\<rparr> in
     seq (modify_own (case r of None \<Rightarrow> add_preference p | Some _ \<Rightarrow> put_preference p)) (
     seq flush_inbox (seq commit (ret p)))))"

definition list_preferences :: "user \<Rightarrow> note_preference list inbox_op" where
  "list_preferences user = query_own (\<lambda>t. sort_key np_event_type (sort_key np_channel
     (filter (\<lambda>p. np_user p = user_id user) (note_preferences t))))"

definition serialize_notification :: "env \<Rightarrow> notification \<Rightarrow> json" where
  "serialize_notification env n = JObj
     [(''id'', j_id (nt_id n)), (''event_type'', JStr (nt_event_type n)), (''title'', JStr (nt_title n)), (''body'', JStr (nt_body n)),
      (''payload'', nt_payload n), (''dedupe_key'', JStr (nt_dedupe n)), (''read_at'', j_opt (\<lambda>t. JStr (env_iso env t)) (nt_read n)),
      (''created_at'', JStr (env_iso env (nt_created n))),
      (''deliveries'', JList (map (\<lambda>l. JObj [(''channel'', JStr (nl_channel l)), (''status'', JStr (nl_status l)),
         (''attempt_count'', JInt (nl_attempts l))]) (nt_deliveries n)))]"

definition serialize_preference :: "note_preference \<Rightarrow> json" where
  "serialize_preference p = JObj [(''event_type'', JStr (np_event_type p)), (''channel'', JStr (np_channel p)),
     (''enabled'', JBool (np_enabled p))]"

end
