(* ===== verification/Inbox.thy ===== *)
theory Inbox
  imports Notify
begin

text \<open>
  Notifications match the outbox: every consumed request was answered with a notification of its
  user, every notification was requested, and a notification changes only when it is read. The
  invariant \<open>inbox_ok\<close> and the history of the tables are kept beside the platform and beside every
  other service that puts events into the outbox.
\<close>

section \<open>The invariant\<close>

definition requested :: "db \<Rightarrow> nat \<Rightarrow> bool" where
  "requested d e \<longleftrightarrow> e < length (outbox d) \<and> ob_event_type (outbox d ! e) = ''notification.requested''"

definition answers :: "json \<Rightarrow> notification \<Rightarrow> bool" where
  "answers p n \<longleftrightarrow> payload_user p = Inr (nt_user n) \<and>
     (\<exists>k. payload_text p ''dedupe_key'' = Inr k \<and> (nt_dedupe n = k \<or> nt_dedupe n = take 180 k))"

definition made_from :: "json \<Rightarrow> notification \<Rightarrow> bool" where
  "made_from p n \<longleftrightarrow> payload_user p = Inr (nt_user n) \<and> payload_text p ''event_type'' = Inr (nt_event_type n) \<and>
     (\<exists>x. payload_text p ''title'' = Inr x \<and> nt_title n = take 160 x) \<and> (\<exists>x. payload_text p ''body'' = Inr x \<and> nt_body n = take 500 x) \<and>
     (\<exists>k. payload_text p ''dedupe_key'' = Inr k \<and> nt_dedupe n = take 180 k) \<and> nt_payload n = payload_object p"

definition inbox_ok :: "inbox site \<Rightarrow> bool" where
  "inbox_ok s \<longleftrightarrow> fresh_ids nt_id (notifications (own s)) (inbox_next_id (own s)) \<and> inbox_valid (core s) (own s) \<and>
     (\<forall>e\<in>set (note_receipts (own s)). requested (core s) e \<and>
        (\<exists>n\<in>set (notifications (own s)). answers (ob_payload (outbox (core s) ! e)) n)) \<and>
     (\<forall>n\<in>set (notifications (own s)). \<exists>e\<in>set (note_receipts (own s)). made_from (ob_payload (outbox (core s) ! e)) n)"

definition note_step :: "notification \<Rightarrow> notification \<Rightarrow> bool" where
  "note_step n n' \<longleftrightarrow> nt_read n = None \<and> nt_read n' \<noteq> None \<and> n' = n\<lparr>nt_read := nt_read n'\<rparr>"

interpretation note_rows: row_history nt_id note_step
  by unfold_locales (simp add: note_step_def, metis notification.select_convs(1) notification.surjective notification.update_convs(8))

definition inbox_kept :: "inbox \<Rightarrow> inbox \<Rightarrow> bool" where
  "inbox_kept t t' \<longleftrightarrow> prefix (note_receipts t) (note_receipts t') \<and> develops nt_id note_step (notifications t) (notifications t')"

definition inbox_good :: "inbox \<Rightarrow> inbox site \<Rightarrow> bool" where
  "inbox_good t0 s \<longleftrightarrow> inbox_ok s \<and> inbox_kept t0 (own s)"

lemma inbox_kept_refl: "inbox_kept t t"
  by (simp add: inbox_kept_def)

lemma inbox_kept_trans: "inbox_kept t u \<Longrightarrow> inbox_kept u v \<Longrightarrow> inbox_kept t v"
  unfolding inbox_kept_def by (meson note_rows.trans prefix_order.trans)

section \<open>Table updates\<close>

lemma good_consumed_new:
  assumes good: "inbox_good t0 s" and e: "requested (core s) e" and n: "made_from (ob_payload (outbox (core s) ! e)) n"
      "nt_id n = inbox_next_id (own s)"
    and valid: "inbox_valid (core s) (add_note_receipt e (add_notification n ((own s)\<lparr>inbox_next_id := Suc (inbox_next_id (own s))\<rparr>)))"
  shows "inbox_good t0 (s\<lparr>own := add_note_receipt e (add_notification n ((own s)\<lparr>inbox_next_id := Suc (inbox_next_id (own s))\<rparr>))\<rparr>)"
proof -
  have "answers (ob_payload (outbox (core s) ! e)) n" using n(1) by (auto simp: answers_def made_from_def)
  then show ?thesis using assms
    by (auto simp: inbox_good_def inbox_ok_def inbox_kept_def add_note_receipt_def add_notification_def less_Suc_eq
        intro: fresh_ids_append fresh_ids_mono)
qed

lemma good_consumed_old:
  assumes good: "inbox_good t0 s" and e: "requested (core s) e" and n: "n \<in> set (notifications (own s))"
      "answers (ob_payload (outbox (core s) ! e)) n" and valid: "inbox_valid (core s) (add_note_receipt e (own s))"
  shows "inbox_good t0 (s\<lparr>own := add_note_receipt e (own s)\<rparr>)"
  using assms by (auto simp: inbox_good_def inbox_ok_def inbox_kept_def add_note_receipt_def)

lemma put_notification_fields [simp]:
  "note_receipts (put_notification n t) = note_receipts t" "inbox_next_id (put_notification n t) = inbox_next_id t"
  by (simp_all add: put_notification_def)

lemma good_read:
  assumes good: "inbox_good t0 s" and n: "row_by nt_id i (notifications (own s)) = Some n" "nt_read n = None"
    and valid: "inbox_valid (core s) (put_notification (n\<lparr>nt_read := Some x\<rparr>) (own s))"
  shows "inbox_good t0 (s\<lparr>own := put_notification (n\<lparr>nt_read := Some x\<rparr>) (own s)\<rparr>)"
proof -
  let ?n = "n\<lparr>nt_read := Some x\<rparr>" and ?t = "put_notification (n\<lparr>nt_read := Some x\<rparr>) (own s)"
  have n': "n \<in> set (notifications (own s))" "nt_id n = i" using row_by_SomeD [OF n(1)] by simp_all
  have same: "answers p ?n = answers p n" "made_from p ?n = made_from p n" for p by (simp_all add: answers_def made_from_def)
  have back_to: "m \<in> set (notifications ?t) \<Longrightarrow> m = ?n \<or> m \<in> set (notifications (own s))" for m
    by (auto simp: put_notification_def dest!: put_row_memD)
  have kept: "m \<in> set (notifications ?t) \<or> m = n" if "m \<in> set (notifications (own s))" for m
  proof (cases "nt_id m = i")
    case True
    then have "row_by nt_id i (notifications (own s)) = Some m"
      using good that by (simp add: inbox_good_def inbox_ok_def fresh_ids_def row_by_Some_iff)
    then show ?thesis using n(1) by simp
  next
    case False
    then show ?thesis using that n'(2) by (force simp: put_notification_def put_row_def)
  qed
  have new: "?n \<in> set (notifications ?t)" using n' by (simp add: put_notification_def put_row_mem)
  have "\<exists>m\<in>set (notifications ?t). answers p m" if "m \<in> set (notifications (own s))" "answers p m" for p m
    using kept [OF that(1)] that(2) new same(1) by blast
  moreover have "\<exists>e\<in>set (note_receipts (own s)). made_from (ob_payload (outbox (core s) ! e)) m" if "m \<in> set (notifications ?t)" for m
    using back_to [OF that] n'(1) good same(2) by (auto simp: inbox_good_def inbox_ok_def)
  moreover have "fresh_ids nt_id (notifications ?t) (inbox_next_id (own s))"
    using good n' by (auto simp: inbox_good_def inbox_ok_def fresh_ids_def put_notification_def dest!: put_row_memD)
  moreover have "develops nt_id note_step (notifications t0) (notifications ?t)"
    using good n n'(2) by (auto simp: inbox_good_def inbox_kept_def put_notification_def note_step_def intro!: note_rows.put)
  ultimately show ?thesis using good valid
    by (simp add: inbox_good_def inbox_ok_def inbox_kept_def) blast
qed

lemma good_preference:
  assumes "inbox_good t0 s" and "inbox_valid (core s) ((own s)\<lparr>note_preferences := ps\<rparr>)"
  shows "inbox_good t0 (s\<lparr>own := (own s)\<lparr>note_preferences := ps\<rparr>\<rparr>)"
  using assms by (simp add: inbox_good_def inbox_ok_def inbox_kept_def)

text \<open>The core only gains events and users.\<close>

lemma beside_outbox_prefix: "beside d d' \<Longrightarrow> prefix (outbox d) (outbox d')"
  by (auto simp: beside_def append_outbox_def append_audit_def peripheral_def)

lemma ok_core_grew:
  assumes ok: "inbox_ok s" and d: "prefix (outbox (core s)) (outbox d)" "\<And>u. user_exists (core s) u \<Longrightarrow> user_exists d u"
  shows "inbox_ok (s\<lparr>core := d\<rparr>)"
proof -
  have at: "outbox d ! e = outbox (core s) ! e \<and> e < length (outbox d)" if "e < length (outbox (core s))" for e
    using d(1) that by (auto simp: prefix_def nth_append)
  have "inbox_valid (core s) (own s) \<Longrightarrow> inbox_valid d (own s)" using d(2) by (auto simp: inbox_valid_def list_all_iff)
  then show ?thesis using ok at by (auto simp: inbox_ok_def requested_def)
qed

section \<open>The requests\<close>

lemma wpI_flush_inbox:
  "(inbox_valid (core w) (own w) \<Longrightarrow> Q () (c, w)) \<Longrightarrow> E IntegrityError (c, w) \<Longrightarrow> wp flush_inbox Q E (c, w)"
  by (simp add: flush_inbox_def wp_eqs)

lemma wpI_inbox_id:
  "Q (inbox_next_id (own w)) (c, w\<lparr>own := (own w)\<lparr>inbox_next_id := Suc (inbox_next_id (own w))\<rparr>\<rparr>) \<Longrightarrow> wp inbox_id Q E (c, w)"
  by (simp add: inbox_id_def wp_eqs)

lemmas inbox_rules = wpI_flush_inbox wpI_inbox_id site_rules

text \<open>A consumer runs in a transaction of its own: afterwards the working state is the committed one.\<close>

definition settled :: "(inbox site \<Rightarrow> bool) \<Rightarrow> inbox site \<times> inbox site \<Rightarrow> bool" where
  "settled I p \<longleftrightarrow> fst p = snd p \<and> I (fst p)"

lemma wp_consume:
  assumes good: "inbox_good t0 s" "core s = d" and e: "requested d e"
  shows "wp (consume_notification env e) (\<lambda>_. settled (\<lambda>s. inbox_good t0 s \<and> core s = d))
    (\<lambda>_ p. inbox_good t0 (fst p) \<and> core (fst p) = d) (s, s)"
proof -
  have old: "inbox_good t0 (s\<lparr>own := add_note_receipt e (own s)\<rparr>)"
    if "payload_user (ob_payload (outbox (core s) ! e)) = Inr u" "payload_text (ob_payload (outbox (core s) ! e)) ''dedupe_key'' = Inr k"
      "notification_for u k (own s) = Some n" "inbox_valid (core s) (add_note_receipt e (own s))" for u k n
  proof (rule good_consumed_old [OF good(1) _ _ _ that(4), of n])
    show "requested (core s) e" using e good(2) by simp
    show "n \<in> set (notifications (own s))" "answers (ob_payload (outbox (core s) ! e)) n"
      using that(1-3) by (auto simp: notification_for_def answers_def dest!: find_SomeD)
  qed
  show ?thesis unfolding consume_notification_def create_notification_def
    by (rule inbox_rules | (simp add: settled_def good; fail)
      | (simp add: settled_def good, rule old; simp add: good; fail)
      | (simp add: settled_def good, rule good_consumed_new [OF good(1)]; simp add: good e made_from_def; fail))+
qed

lemma wp_consume_all:
  assumes "inbox_good t0 s" "core s = d" and "\<forall>e\<in>set es. requested d e"
  shows "wp (consume_all env es ns) (\<lambda>_ p. inbox_good t0 (fst p) \<and> core (fst p) = d) (\<lambda>_ p. inbox_good t0 (fst p) \<and> core (fst p) = d) (s, s)"
  using assms
proof (induction es arbitrary: s ns)
  case (Cons e es)
  have "wp (consume_notification env e) (\<lambda>r. wp (consume_all env es (case r of None \<Rightarrow> ns | Some n \<Rightarrow> ns @ [n]))
      (\<lambda>_ p. inbox_good t0 (fst p) \<and> core (fst p) = d) (\<lambda>_ p. inbox_good t0 (fst p) \<and> core (fst p) = d))
      (\<lambda>_ p. inbox_good t0 (fst p) \<and> core (fst p) = d) (s, s)"
    by (rule wp_mono [OF wp_consume [OF Cons.prems(1,2)]]) (use Cons in \<open>auto simp: settled_def\<close>)
  then show ?case by (simp add: wp_eqs)
qed (simp add: wp_eqs)

lemma keeps_drain: "keeps (site_ok (inbox_good t0) d) (drain_notification_outbox env limit)"
proof (rule site_keepsI)
  fix s :: "inbox site" assume s: "inbox_good t0 s" "beside d (core s)"
  have "\<forall>e\<in>set (take limit (pending_notifications s)). requested (core s) e"
    by (auto simp: pending_notifications_def requested_def dest!: in_set_takeD)
  note consumed = wp_consume_all [OF s(1) refl this, of env "[]"]
  show "wp (drain_notification_outbox env limit) (\<lambda>_ s. site_ok (inbox_good t0) d (fst s)) (\<lambda>_ s. site_ok (inbox_good t0) d (fst s)) (s, s)"
    unfolding drain_notification_outbox_def by (simp add: wp_eqs) (rule wp_mono [OF consumed], use s in \<open>auto simp: site_ok_def\<close>)
qed

lemma keeps_mark_notification_read: "keeps (site_ok (inbox_good t0) d) (mark_notification_read env user i)"
  apply (rule site_keepsI)
  apply (unfold mark_notification_read_def)
  apply (rule inbox_rules | (simp add: site_ok_def; fail)
    | (simp add: site_ok_def, rule good_read; simp; fail))+
  done

lemma keeps_set_preference: "keeps (site_ok (inbox_good t0) d) (set_preference user ty channel enabled)"
  apply (rule site_keepsI)
  apply (unfold set_preference_def)
  apply (rule inbox_rules | (simp add: site_ok_def; fail)
    | (simp add: site_ok_def put_preference_def add_preference_def split: option.splits; (rule good_preference)?; simp; fail))+
  done

section \<open>Notifications beside the platform\<close>

text \<open>Other services (messages, calls, identity) put events into the outbox and register users at any time.\<close>

inductive inbox_request :: "inbox site \<Rightarrow> inbox site \<Rightarrow> bool" where
  drained: "inbox_request s (site_after (drain_notification_outbox env limit) s)"
| noted: "inbox_request s (site_after (mark_notification_read env user i) s)"
| preferred: "inbox_request s (site_after (set_preference user ty channel enabled) s)"
| produced: "beside (core s) d \<Longrightarrow> (\<And>u. user_exists (core s) u \<Longrightarrow> user_exists d u) \<Longrightarrow> inbox_request s (s\<lparr>core := d\<rparr>)"

definition empty_inbox :: "inbox \<Rightarrow> bool" where
  "empty_inbox t \<longleftrightarrow> notifications t = [] \<and> note_preferences t = [] \<and> note_receipts t = []"

lemma empty_inbox_ok: "empty_inbox (own s) \<Longrightarrow> inbox_ok s"
  by (simp add: empty_inbox_def inbox_ok_def inbox_valid_def fresh_ids_def)

lemma inbox_request_good:
  assumes "inbox_request s s'" and "inbox_ok s"
  shows "inbox_good (own s) s' \<and> beside (core s) (core s')"
proof -
  have here: "inbox_good (own s) s" using assms(2) by (simp add: inbox_good_def inbox_kept_refl)
  from assms(1) show ?thesis
  proof cases
    case (produced d)
    have "inbox_ok (s\<lparr>core := d\<rparr>)"
      by (rule ok_core_grew [OF assms(2) beside_outbox_prefix]) (use produced in auto)
    then show ?thesis using produced by (simp add: inbox_good_def inbox_kept_refl)
  qed (use keeps_drain [THEN site_after_keeps, OF here] keeps_mark_notification_read [THEN site_after_keeps, OF here]
      keeps_set_preference [THEN site_after_keeps, OF here] in simp_all)
qed

interpretation inbox: site_history "\<lambda>s. empty_inbox (own s)" inbox_request inbox_ok "\<lambda>s s'. inbox_kept (own s) (own s')"
  by unfold_locales
    (use inbox_request_good inbox_kept_refl inbox_kept_trans empty_inbox_ok ok_core_grew in \<open>auto simp: inbox_good_def extends_def user_exists_def\<close>)

definition reachable_inbox :: "inbox site \<Rightarrow> bool" where
  "reachable_inbox s \<longleftrightarrow> reachable (site_start (\<lambda>s. empty_inbox (own s))) (site_step inbox_request) s"

lemma reachable_inbox_ok: "reachable_inbox s \<Longrightarrow> inbox_ok s \<and> sys_inv (core s)"
  unfolding reachable_inbox_def by (drule inbox.system.reachable_inv) (simp add: site_inv_def)

section \<open>The queue empties\<close>

text \<open>What the producers put: a user, texts, and a key that fits its column.\<close>

definition deliverable :: "db \<Rightarrow> json \<Rightarrow> bool" where
  "deliverable d p \<longleftrightarrow> (\<exists>u ty x y k. payload_user p = Inr u \<and> user_exists d u \<and> payload_text p ''event_type'' = Inr ty \<and>
     payload_text p ''title'' = Inr x \<and> payload_text p ''body'' = Inr y \<and> payload_text p ''dedupe_key'' = Inr k \<and> length k \<le> 180)"

lemma new_deliveries_valid: "deliveries_valid (new_deliveries u ty t)"
proof -
  have "distinct note_channels" by (simp add: note_channels_def)
  then show ?thesis by (auto simp: deliveries_valid_def new_deliveries_def comp_def list_all_iff)
qed

lemma consume_delivers:
  assumes ok: "inbox_ok s" and e: "requested (core s) e" "e \<notin> set (note_receipts (own s))"
    and p: "deliverable (core s) (ob_payload (outbox (core s) ! e))"
  shows "wp (consume_notification env e) (\<lambda>r p. r \<noteq> None \<and> fst p = snd p \<and> core (fst p) = core s \<and>
      note_receipts (own (fst p)) = note_receipts (own s) @ [e]) (\<lambda>_ _. False) (s, s)"
proof -
  obtain u ty x y k where p: "payload_user (ob_payload (outbox (core s) ! e)) = Inr u" "user_exists (core s) u"
      "payload_text (ob_payload (outbox (core s) ! e)) ''event_type'' = Inr ty" "payload_text (ob_payload (outbox (core s) ! e)) ''title'' = Inr x"
      "payload_text (ob_payload (outbox (core s) ! e)) ''body'' = Inr y" "payload_text (ob_payload (outbox (core s) ! e)) ''dedupe_key'' = Inr k"
      "length k \<le> 180"
    using p by (auto simp: deliverable_def)
  have valid: "inbox_valid (core s) (own s)" using ok by (simp add: inbox_ok_def)
  have one: "inbox_valid (core s) (add_note_receipt e (own s))" using valid e(2) by (simp add: inbox_valid_def add_note_receipt_def)
  have two: "inbox_valid (core s) (add_notification n ((own s)\<lparr>inbox_next_id := i\<rparr>))"
      "inbox_valid (core s) (add_note_receipt e (add_notification n ((own s)\<lparr>inbox_next_id := i\<rparr>)))"
    if "notification_for u k (own s) = None" "nt_user n = u" "nt_dedupe n = k" "deliveries_valid (nt_deliveries n)" for n i
    using valid e(2) that p(2)
    by (auto simp: inbox_valid_def add_note_receipt_def add_notification_def notification_for_def find_None_iff)
  note eval = consume_notification_def create_notification_def requested_def wp_eqs inbox_id_def flush_inbox_def
    add_note_receipt_def add_notification_def Let_def
  show ?thesis
  proof (cases "notification_for u k (own s)")
    case None
    note two = two [OF None, unfolded add_notification_def add_note_receipt_def, simplified]
    show ?thesis using e p None by (simp add: eval two new_deliveries_valid)
  next
    case (Some n)
    then show ?thesis using e p one by (simp add: eval)
  qed
qed

text \<open>A drain consumes the first \<open>limit\<close> pending events, each in a transaction of its own.\<close>

lemma wp_conj: "wp m Q E s \<Longrightarrow> wp m Q' E' s \<Longrightarrow> wp m (\<lambda>x s. Q x s \<and> Q' x s) (\<lambda>e s. E e s \<and> E' e s) s"
  by (auto simp: wp_def split: prod.splits sum.splits)

lemma consume_all_delivers:
  assumes "inbox_good t0 s" and "\<forall>e\<in>set es. requested (core s) e \<and> e \<notin> set (note_receipts (own s)) \<and>
      deliverable (core s) (ob_payload (outbox (core s) ! e))" and "distinct es"
  shows "wp (consume_all env es ns) (\<lambda>ms p. length ms = length ns + length es \<and> core (fst p) = core s \<and>
      note_receipts (own (fst p)) = note_receipts (own s) @ es) (\<lambda>_ _. False) (s, s)"
  using assms
proof (induction es arbitrary: s ns)
  case (Cons e es)
  let ?post = "\<lambda>ms p. length ms = length ns + length (e # es) \<and> core (fst p) = core s \<and>
    note_receipts (own (fst p)) = note_receipts (own s) @ e # es"
  have one: "wp (consume_notification env e) (\<lambda>r p. r \<noteq> None \<and> fst p = snd p \<and> core (fst p) = core s \<and>
      note_receipts (own (fst p)) = note_receipts (own s) @ [e]) (\<lambda>_ _. False) (s, s)"
    using Cons.prems by (intro consume_delivers) (auto simp: inbox_good_def)
  have two: "wp (consume_notification env e) (\<lambda>_. settled (\<lambda>s'. inbox_good t0 s' \<and> core s' = core s))
      (\<lambda>_ p. inbox_good t0 (fst p) \<and> core (fst p) = core s) (s, s)"
    using Cons.prems by (intro wp_consume) auto
  have "wp (consume_notification env e) (\<lambda>r. wp (consume_all env es (case r of None \<Rightarrow> ns | Some n \<Rightarrow> ns @ [n])) ?post (\<lambda>_ _. False))
      (\<lambda>_ _. False) (s, s)"
  proof (rule wp_mono [OF wp_conj [OF one two]])
    fix r :: "notification option" and p :: "inbox site \<times> inbox site" assume "(r \<noteq> None \<and> fst p = snd p \<and> core (fst p) = core s \<and> note_receipts (own (fst p)) = note_receipts (own s) @ [e]) \<and>
      settled (\<lambda>s'. inbox_good t0 s' \<and> core s' = core s) p"
    then obtain n s' where p: "p = (s', s')" "r = Some n" "inbox_good t0 s'" "core s' = core s"
        "note_receipts (own s') = note_receipts (own s) @ [e]"
      by (cases p) (auto simp: settled_def)
    have "wp (consume_all env es (ns @ [n])) (\<lambda>ms p. length ms = length (ns @ [n]) + length es \<and> core (fst p) = core s' \<and>
      note_receipts (own (fst p)) = note_receipts (own s') @ es) (\<lambda>_ _. False) (s', s')"
      using Cons.prems p(3-5) by (intro Cons.IH) auto
    then show "wp (consume_all env es (case r of None \<Rightarrow> ns | Some n \<Rightarrow> ns @ [n])) ?post (\<lambda>_ _. False) p"
      unfolding p(1,2) option.case by (rule wp_mono) (use p(4,5) in auto)
  qed simp
  then show ?case by (simp add: wp_eqs)
qed (simp add: wp_eqs)

definition all_deliverable :: "inbox site \<Rightarrow> bool" where
  "all_deliverable s \<longleftrightarrow> (\<forall>e\<in>set (pending_notifications s). deliverable (core s) (ob_payload (outbox (core s) ! e)))"

lemma pending_facts:
  "distinct (pending_notifications s)" "e \<in> set (pending_notifications s) \<Longrightarrow> requested (core s) e \<and> e \<notin> set (note_receipts (own s))"
  by (auto simp: pending_notifications_def requested_def)

lemma pending_later:
  assumes "core s' = core s" and "note_receipts (own s') = note_receipts (own s) @ take k (pending_notifications s)"
  shows "pending_notifications s' = drop k (pending_notifications s)"
proof -
  let ?ps = "pending_notifications s"
  have "pending_notifications s' = filter (\<lambda>e. e \<notin> set (take k ?ps)) ?ps"
    using assms by (simp add: pending_notifications_def filter_filter)
  also have "\<dots> = filter (\<lambda>e. e \<notin> set (take k ?ps)) (take k ?ps) @ filter (\<lambda>e. e \<notin> set (take k ?ps)) (drop k ?ps)"
    by (metis append_take_drop_id filter_append)
  also have "filter (\<lambda>e. e \<notin> set (take k ?ps)) (drop k ?ps) = drop k ?ps"
    using set_take_disj_set_drop_if_distinct [OF pending_facts(1) order_refl, of k s] by (auto simp: filter_id_conv)
  finally show ?thesis by (simp add: filter_empty_conv)
qed

lemma drain_delivers:
  assumes "inbox_ok s" and "all_deliverable s"
  shows "\<exists>ms s'. run_request (drain_notification_outbox env limit) s = (Inr ms, s') \<and> length ms = min limit (length (pending_notifications s)) \<and>
    core s' = core s \<and> pending_notifications s' = drop limit (pending_notifications s)"
proof -
  let ?es = "take limit (pending_notifications s)"
  have "inbox_good (own s) s" using assms(1) by (simp add: inbox_good_def inbox_kept_refl)
  moreover have "\<forall>e\<in>set ?es. requested (core s) e \<and> e \<notin> set (note_receipts (own s)) \<and> deliverable (core s) (ob_payload (outbox (core s) ! e))"
    using pending_facts(2) assms(2) by (auto simp: all_deliverable_def dest!: in_set_takeD)
  ultimately have wp: "wp (consume_all env ?es []) (\<lambda>ms p. length ms = length ?es \<and> core (fst p) = core s \<and>
      note_receipts (own (fst p)) = note_receipts (own s) @ ?es) (\<lambda>_ _. False) (s, s)"
    using consume_all_delivers [of "own s" s ?es env "[]"] pending_facts(1) by simp
  obtain r c w where run: "consume_all env ?es [] (s, s) = (r, (c, w))" by (metis surj_pair)
  with wp obtain ms where r: "r = Inr ms" "length ms = length ?es" "core c = core s" "note_receipts (own c) = note_receipts (own s) @ ?es"
    by (cases r) (simp_all add: wp_def)
  have "run_request (drain_notification_outbox env limit) s = (Inr ms, c)"
    using run r(1) by (simp add: drain_notification_outbox_def run_request_def bnd_def query_def)
  then show ?thesis using r pending_later [OF r(3,4)] by auto
qed

fun drains :: "env \<Rightarrow> nat \<Rightarrow> nat \<Rightarrow> inbox site \<Rightarrow> inbox site" where
  "drains env limit 0 s = s"
| "drains env limit (Suc k) s = drains env limit k (site_after (drain_notification_outbox env limit) s)"

lemma drains_empty:
  "inbox_ok s \<Longrightarrow> all_deliverable s \<Longrightarrow> inbox_ok (drains env limit k s) \<and> core (drains env limit k s) = core s \<and>
    pending_notifications (drains env limit k s) = drop (k * limit) (pending_notifications s)"
proof (induction k arbitrary: s)
  case (Suc k)
  let ?s = "site_after (drain_notification_outbox env limit) s"
  have s: "core ?s = core s" "pending_notifications ?s = drop limit (pending_notifications s)"
    using drain_delivers [OF Suc.prems, of env limit] by (auto simp: site_after_def)
  have "inbox_ok ?s" using inbox_request_good [OF inbox_request.drained Suc.prems(1)] by (auto simp: inbox_good_def)
  moreover have "all_deliverable ?s" using Suc.prems(2) s by (auto simp: all_deliverable_def dest: in_set_dropD)
  ultimately show ?case using Suc.IH [of ?s] s by (simp add: add.commute)
qed simp

section \<open>What the producers put\<close>

lemma hex_value_digit:
  assumes "n < 16"
  shows "hex_value (digit n) = Some n \<and> digit n \<noteq> CHR ''-''"
proof -
  have "hex_value (digit n) = Some n" using assms by (auto simp: hex_value_def digit_def of_char_of Let_def)
  moreover have "hex_value (CHR ''-'') = None" by (simp add: hex_value_def Let_def)
  ultimately show ?thesis by auto
qed

lemma hex_digits_value: "foldl (\<lambda>a v. 16 * a + the v) 0 (map hex_value (hex_digits k n)) = n mod 16 ^ k"
proof (induction k arbitrary: n)
  case (Suc k)
  have "16 * (n div 16 mod 16 ^ k) + n mod 16 = n mod 16 ^ Suc k" by (simp add: mod_mult2_eq mult.commute)
  then show ?case by (simp add: Suc.IH hex_value_digit)
qed simp

lemma hex_digits_chars: "c \<in> set (hex_digits k n) \<Longrightarrow> c \<noteq> CHR ''-'' \<and> hex_value c \<noteq> None"
  by (induction k arbitrary: n) (auto simp: hex_value_digit)

lemma length_hex: "length (hex_digits k n) = k"
  by (induction k arbitrary: n) simp_all

lemma str_uuid_length: "length (str_uuid n) = 36"
  by (simp add: str_uuid_def Let_def length_hex)

lemma str_uuid_undashed: "filter (\<lambda>c. c \<noteq> CHR ''-'') (str_uuid n) = hex_digits 32 n"
proof -
  let ?h = "hex_digits 32 n"
  have keep: "filter (\<lambda>c. c \<noteq> CHR ''-'') xs = xs" if "set xs \<subseteq> set ?h" for xs
    using that hex_digits_chars by (auto simp: filter_id_conv)
  have "?h = take 8 ?h @ take 4 (drop 8 ?h) @ take 4 (drop 12 ?h) @ take 4 (drop 16 ?h) @ drop 20 ?h"
    using append_take_drop_id [of 8 ?h] append_take_drop_id [of 4 "drop 8 ?h"] append_take_drop_id [of 4 "drop 12 ?h"]
      append_take_drop_id [of 4 "drop 16 ?h"] by (simp add: add.commute)
  moreover have "set (take a (drop b ?h)) \<subseteq> set ?h" "set (take a ?h) \<subseteq> set ?h" "set (drop b ?h) \<subseteq> set ?h" for a b
    using set_take_subset set_drop_subset by fastforce+
  ultimately show ?thesis by (simp add: str_uuid_def Let_def keep)
qed

lemma parse_str_uuid: "n < 2 ^ 128 \<Longrightarrow> parse_uuid (str_uuid n) = Some n"
proof -
  assume n: "n < 2 ^ 128"
  have "list_all (\<lambda>v. v \<noteq> None) (map hex_value (hex_digits 32 n))" using hex_digits_chars by (auto simp: list_all_iff)
  moreover have "n mod 16 ^ 32 = n" using n by simp
  ultimately show ?thesis by (simp add: parse_uuid_def str_uuid_undashed length_hex hex_digits_value)
qed

lemma message_deliverable: "user_exists d u \<Longrightarrow> u < 2 ^ 128 \<Longrightarrow> deliverable d (message_notification m u)"
  by (simp add: deliverable_def message_notification_def payload_user_def payload_text_def jhas_def jget_def j_id_def parse_str_uuid str_uuid_length)

end
