(* ===== verification/Reconcile.thy ===== *)
theory Reconcile
  imports Site Providers
begin

text \<open>
  Reconciliation with a payment provider (\<open>payments/reconciliation.py\<close>, \<open>reconcile_provider\<close> of
  \<open>payments/service.py\<close>, \<open>payments/tasks.py\<close>) and the lookup of a payment action
  (\<open>payments/actions.py\<close>). A run compares the local rows with what the provider reports; it writes its
  own table and the logs, and no money.
\<close>

section \<open>Runs\<close>

record recon_run =
  rr_id :: uuid
  rr_provider :: string
  rr_status :: string
  rr_checked :: int
  rr_discrepancies :: int
  rr_details :: json
  rr_completed :: "nat option"

record recon =
  recon_next :: nat
  recon_runs :: "recon_run list"

type_synonym 'a recon_op = "(recon, 'a) sop"

definition runs_valid :: "recon \<Rightarrow> bool" where
  "runs_valid t \<longleftrightarrow> list_all (\<lambda>r. rr_status r \<in> {''RUNNING'', ''SUCCEEDED'', ''MISMATCH''} \<and> 0 \<le> rr_checked r \<and>
     0 \<le> rr_discrepancies r) (recon_runs t)"

definition recon_id :: "uuid recon_op" where
  "recon_id = bnd (query_own recon_next) (\<lambda>i. seq (modify_own (\<lambda>t. t\<lparr>recon_next := Suc i\<rparr>)) (ret i))"

definition add_run :: "recon_run \<Rightarrow> recon \<Rightarrow> recon" where
  "add_run r t = t\<lparr>recon_runs := recon_runs t @ [r]\<rparr>"

definition put_run :: "recon_run \<Rightarrow> recon \<Rightarrow> recon" where
  "put_run r t = t\<lparr>recon_runs := put_row rr_id r (recon_runs t)\<rparr>"

text \<open>The loops ask the provider row by row and stop at its first exception.\<close>

fun collect :: "('r \<Rightarrow> exn + json option) \<Rightarrow> 'r list \<Rightarrow> exn + json list" where
  "collect f [] = Inr []"
| "collect f (r # rs) = (case f r of Inl e \<Rightarrow> Inl e | Inr x \<Rightarrow>
     (case collect f rs of Inl e \<Rightarrow> Inl e | Inr xs \<Rightarrow> Inr ((case x of None \<Rightarrow> xs | Some j \<Rightarrow> j # xs))))"

section \<open>Captured payments\<close>

definition captured_of :: "provider \<Rightarrow> db \<Rightarrow> payment_intent list" where
  "captured_of p d = filter (\<lambda>i. pi_provider i = pv_name p \<and> pi_status i = PI_CAPTURED) (intents d)"

definition funding_of_intent :: "uuid \<Rightarrow> db \<Rightarrow> funding option" where
  "funding_of_intent i d = row_by fu_intent i (fundings d)"

definition captured_discrepancy :: "provider \<Rightarrow> db \<Rightarrow> payment_intent \<Rightarrow> exn + json option" where
  "captured_discrepancy p d i =
    (case pi_reference i of
      None \<Rightarrow> Inr (Some (JObj [(''payment_intent_id'', j_id (pi_id i)), (''reason'', JStr ''missing_reference'')]))
    | Some ref \<Rightarrow> (case pv_get_transaction p ref of Inl e \<Rightarrow> Inl e | Inr remote \<Rightarrow>
        if funding_of_intent (pi_id i) d = None \<or> res_amount remote \<noteq> pi_amount i \<or> res_currency remote \<noteq> pi_currency i \<or>
          res_status remote \<notin> {''CAPTURED'', ''SUCCEEDED''}
        then Inr (Some (JObj [(''payment_intent_id'', j_id (pi_id i)), (''provider_reference'', JStr ref),
          (''reason'', JStr ''provider_or_ledger_mismatch'')]))
        else Inr None))"

definition reconcile_captured_provider :: "env \<Rightarrow> string \<Rightarrow> recon_run recon_op" where
  "reconcile_captured_provider env name =
    bnd (lift_result (get_provider env name)) (\<lambda>p.
    bnd recon_id (\<lambda>i.
    let run = \<lparr>rr_id = i, rr_provider = pv_name p, rr_status = ''RUNNING'', rr_checked = 0, rr_discrepancies = 0,
               rr_details = JObj [], rr_completed = None\<rparr> in
    seq (modify_own (add_run run)) (
    seq (flush_own runs_valid) (
    bnd (query_core (captured_of p)) (\<lambda>rows.
    bnd (query_core (\<lambda>d. collect (captured_discrepancy p d) rows)) (\<lambda>found.
    bnd (lift_result found) (\<lambda>ds.
    let run' = run\<lparr>rr_checked := int (length rows), rr_discrepancies := int (length ds),
                   rr_details := JObj [(''discrepancies'', JList ds)],
                   rr_status := (if ds \<noteq> [] then ''MISMATCH'' else ''SUCCEEDED''), rr_completed := Some (env_now env)\<rparr> in
    seq (modify_own (put_run run')) (
    seq (if ds \<noteq> [] then on_core (enqueue_outbox_event ''payments.reconciliation_mismatch'' ''reconciliation_run'' (str_uuid i)
           (JObj [(''provider'', JStr (pv_name p)), (''count'', JInt (int (length ds)))])) else ret ()) (
    seq (on_core (record_audit_event env ''payments.reconciled'' ''reconciliation_run'' None (Some (str_uuid i)) None None
           (JObj [(''provider'', JStr (pv_name p)), (''checked_count'', JInt (rr_checked run')),
                  (''discrepancy_count'', JInt (rr_discrepancies run'))]))) (
    seq (flush_own runs_valid) (
    seq commit (ret run'))))))))))))"

section \<open>Pending payments and refunds\<close>

definition pending_payments_of :: "provider \<Rightarrow> db \<Rightarrow> payment_intent list" where
  "pending_payments_of p d = filter (\<lambda>i. pi_provider i = pv_name p \<and> pi_status i = PI_PENDING) (intents d)"

definition pending_refunds_of :: "provider \<Rightarrow> db \<Rightarrow> refund list" where
  "pending_refunds_of p d = filter (\<lambda>r. rf_provider r = pv_name p \<and> rf_status r = RF_PENDING \<and> rf_reference r \<noteq> None) (refunds d)"

definition pending_payment_discrepancy :: "provider \<Rightarrow> payment_intent \<Rightarrow> exn + json option" where
  "pending_payment_discrepancy p i =
    (case pi_reference i of
      None \<Rightarrow> Inr (Some (JObj [(''payment_intent_id'', j_id (pi_id i)), (''reason'', JStr ''pending_payment_missing_reference'')]))
    | Some ref \<Rightarrow> (case pv_get_transaction p ref of Inl e \<Rightarrow> Inl e | Inr remote \<Rightarrow>
        if res_amount remote \<noteq> pi_amount i \<or> res_currency remote \<noteq> pi_currency i
        then Inr (Some (JObj [(''payment_intent_id'', j_id (pi_id i)), (''provider_reference'', JStr ref),
          (''reason'', JStr ''pending_payment_provider_mismatch'')]))
        else if res_status remote \<noteq> ''PENDING''
        then Inr (Some (JObj [(''payment_intent_id'', j_id (pi_id i)), (''provider_reference'', JStr ref),
          (''reason'', JStr ''payment_status_mismatch''), (''local_status'', JStr ''PENDING''),
          (''provider_status'', JStr (res_status remote))]))
        else Inr None))"

definition pending_refund_discrepancy :: "provider \<Rightarrow> refund \<Rightarrow> exn + json option" where
  "pending_refund_discrepancy p r =
    (case rf_reference r of None \<Rightarrow> Inr None
    | Some ref \<Rightarrow> (case pv_verify_refund p ref of Inl e \<Rightarrow> Inl e | Inr remote \<Rightarrow>
        if res_amount remote \<noteq> rf_amount r \<or> res_currency remote \<noteq> rf_currency r
        then Inr (Some (JObj [(''refund_id'', j_id (rf_id r)), (''provider_reference'', JStr ref),
          (''reason'', JStr ''pending_refund_provider_mismatch'')]))
        else if res_status remote \<noteq> ''PENDING''
        then Inr (Some (JObj [(''refund_id'', j_id (rf_id r)), (''provider_reference'', JStr ref),
          (''reason'', JStr ''refund_status_mismatch''), (''local_status'', JStr ''PENDING''),
          (''provider_status'', JStr (res_status remote))]))
        else Inr None))"

definition inspect_pending :: "provider \<Rightarrow> db \<Rightarrow> exn + (int \<times> json list)" where
  "inspect_pending p d = (let ps = pending_payments_of p d; rs = pending_refunds_of p d in
     case collect (pending_payment_discrepancy p) ps of Inl e \<Rightarrow> Inl e | Inr xs \<Rightarrow>
     (case collect (pending_refund_discrepancy p) rs of Inl e \<Rightarrow> Inl e
      | Inr ys \<Rightarrow> Inr (int (length ps + length rs), xs @ ys)))"

definition existing_discrepancies :: "recon_run \<Rightarrow> json list" where
  "existing_discrepancies r = (case jget (rr_details r) ''discrepancies'' of
     JList ds \<Rightarrow> filter (\<lambda>j. case j of JObj _ \<Rightarrow> True | _ \<Rightarrow> False) ds | _ \<Rightarrow> [])"

definition report_pending :: "env \<Rightarrow> recon_run \<Rightarrow> int \<Rightarrow> json list \<Rightarrow> recon_run recon_op" where
  "report_pending env run checked pending =
    (let combined = existing_discrepancies run @ pending;
         run' = run\<lparr>rr_checked := rr_checked run + checked, rr_discrepancies := int (length combined),
                    rr_details := JObj [(''discrepancies'', JList combined)],
                    rr_status := (if combined \<noteq> [] then ''MISMATCH'' else ''SUCCEEDED'')\<rparr> in
    seq (modify_own (put_run run')) (
    seq (if pending \<noteq> [] then on_core (enqueue_outbox_event ''payments.reconciliation_pending_mismatch'' ''reconciliation_run''
           (str_uuid (rr_id run)) (JObj [(''provider'', JStr (rr_provider run)), (''count'', JInt (int (length pending)))])) else ret ()) (
    seq (on_core (record_audit_event env ''payments.pending_reconciled'' ''reconciliation_run'' None (Some (str_uuid (rr_id run))) None None
           (JObj [(''provider'', JStr (rr_provider run)), (''checked_count'', JInt checked),
                  (''discrepancy_count'', JInt (int (length pending)))]))) (
    seq (flush_own runs_valid) (
    seq commit (ret run'))))))"

definition reconcile_provider :: "env \<Rightarrow> string \<Rightarrow> recon_run recon_op" where
  "reconcile_provider env name =
    bnd (lift_result (get_provider env name)) (\<lambda>p.
    bnd (query_core (inspect_pending p)) (\<lambda>r.
    bnd (lift_result r) (\<lambda>(checked, pending).
    bnd (reconcile_captured_provider env name) (\<lambda>run.
    report_pending env run checked pending))))"

section \<open>Tasks and actions\<close>

definition serialize_reconciliation_run :: "recon_run \<Rightarrow> json" where
  "serialize_reconciliation_run r = JObj [(''reconciliation_run_id'', j_id (rr_id r)), (''provider'', JStr (rr_provider r)),
     (''status'', JStr (rr_status r)), (''checked_count'', JInt (rr_checked r)), (''discrepancy_count'', JInt (rr_discrepancies r))]"

definition reconcile_provider_task :: "env \<Rightarrow> string \<Rightarrow> json recon_op" where
  "reconcile_provider_task env name = bnd (reconcile_provider env name) (\<lambda>r. ret (serialize_reconciliation_run r))"

definition reconcile_default_provider_task :: "env \<Rightarrow> string \<Rightarrow> json recon_op" where
  "reconcile_default_provider_task env default_provider =
    (if \<not> env_runtime_enabled env
     then ret (JObj [(''provider'', JStr default_provider), (''status'', JStr ''DISABLED''), (''checked_count'', JInt 0),
       (''discrepancy_count'', JInt 0)])
     else bnd (reconcile_provider env default_provider) (\<lambda>r. ret (serialize_reconciliation_run r)))"

definition get_payment_action :: "env \<Rightarrow> user \<Rightarrow> uuid \<Rightarrow> json dbop" where
  "get_payment_action env user i =
    bnd (query (\<lambda>d. row_by pi_id i (intents d))) (\<lambda>r.
    case r of None \<Rightarrow> raise (ApiError ''payment_not_found'' 404) | Some x \<Rightarrow>
    if pi_employer x \<noteq> user_id user then raise (ApiError ''forbidden'' 403) else
    case pi_reference x of None \<Rightarrow> raise RuntimeError | Some ref \<Rightarrow>
    bnd (lift_result (get_provider env (pi_provider x))) (\<lambda>p.
    bnd (case pv_get_payment_action p ref of
        Inl e \<Rightarrow> raise (if e = ProviderTemporaryError then ApiError ''payment_provider_temporarily_unavailable'' 503 else e)
      | Inr a \<Rightarrow> ret a) (\<lambda>action.
    ret (JObj [(''payment_intent_id'', j_id (pi_id x)), (''provider'', JStr (pi_provider x)),
      (''status'', JStr (intent_status_str (pi_status x))),
      (''action'', j_opt (\<lambda>(kind, url). JObj [(''kind'', JStr kind), (''redirect_url'', JStr url)]) action)]))))"

section \<open>What a run reports\<close>

text \<open>The rows a run agrees with.\<close>

definition captured_confirmed :: "provider \<Rightarrow> db \<Rightarrow> payment_intent \<Rightarrow> bool" where
  "captured_confirmed p d i \<longleftrightarrow> (\<exists>ref remote. pi_reference i = Some ref \<and> pv_get_transaction p ref = Inr remote \<and>
     (\<exists>f\<in>set (fundings d). fu_intent f = pi_id i) \<and> res_amount remote = pi_amount i \<and> res_currency remote = pi_currency i \<and>
     res_status remote \<in> {''CAPTURED'', ''SUCCEEDED''})"

definition payment_confirmed :: "provider \<Rightarrow> payment_intent \<Rightarrow> bool" where
  "payment_confirmed p i \<longleftrightarrow> (\<exists>ref remote. pi_reference i = Some ref \<and> pv_get_transaction p ref = Inr remote \<and>
     res_amount remote = pi_amount i \<and> res_currency remote = pi_currency i \<and> res_status remote = ''PENDING'')"

definition refund_confirmed :: "provider \<Rightarrow> refund \<Rightarrow> bool" where
  "refund_confirmed p r \<longleftrightarrow> (\<exists>ref remote. rf_reference r = Some ref \<and> pv_verify_refund p ref = Inr remote \<and>
     res_amount remote = rf_amount r \<and> res_currency remote = rf_currency r \<and> res_status remote = ''PENDING'')"

lemma collect_none: "collect f rs = Inr xs \<Longrightarrow> xs = [] \<longleftrightarrow> (\<forall>r\<in>set rs. f r = Inr None)"
  by (induction rs arbitrary: xs) (auto split: sum.splits option.splits)

lemma collect_objects: "collect f rs = Inr xs \<Longrightarrow> (\<And>r j. f r = Inr (Some j) \<Longrightarrow> \<exists>kvs. j = JObj kvs) \<Longrightarrow> \<forall>j\<in>set xs. \<exists>kvs. j = JObj kvs"
  by (induction rs arbitrary: xs) (fastforce split: sum.splits option.splits)+

lemma captured_none: "captured_discrepancy p d i = Inr None \<longleftrightarrow> captured_confirmed p d i"
  by (auto simp: captured_discrepancy_def captured_confirmed_def funding_of_intent_def split: option.split sum.split
      dest: row_by_SomeD row_by_NoneD)

lemma payment_none: "pending_payment_discrepancy p i = Inr None \<longleftrightarrow> payment_confirmed p i"
  by (auto simp: pending_payment_discrepancy_def payment_confirmed_def split: option.split sum.split)

lemma refund_none: "rf_reference r \<noteq> None \<Longrightarrow> pending_refund_discrepancy p r = Inr None \<longleftrightarrow> refund_confirmed p r"
  by (auto simp: pending_refund_discrepancy_def refund_confirmed_def split: option.split sum.split)

lemma captured_objects: "captured_discrepancy p d i = Inr (Some j) \<Longrightarrow> \<exists>kvs. j = JObj kvs"
  by (auto simp: captured_discrepancy_def split: option.splits sum.splits if_splits)

lemma wpI_recon_id:
  "Q (recon_next (own w)) (c, w\<lparr>own := (own w)\<lparr>recon_next := Suc (recon_next (own w))\<rparr>\<rparr>) \<Longrightarrow> wp recon_id Q E (c, w)"
  by (simp add: recon_id_def wp_eqs)

definition captured_report :: "provider \<Rightarrow> db \<Rightarrow> recon_run \<Rightarrow> bool" where
  "captured_report p d run \<longleftrightarrow> rr_checked run = int (length (captured_of p d)) \<and>
     (\<exists>ds. collect (captured_discrepancy p d) (captured_of p d) = Inr ds \<and> rr_details run = JObj [(''discrepancies'', JList ds)])"

lemma run_recorded: "r \<in> set (recon_runs (put_run r (add_run x t)))" if "rr_id r = rr_id x"
  using that by (auto simp: put_run_def add_run_def intro: put_row_mem)

lemma wp_captured:
  assumes "get_provider env name = Inr p"
  shows "wp (reconcile_captured_provider env name) (\<lambda>run st. fst st = snd st \<and> beside (core w) (core (fst st)) \<and>
      captured_report p (core w) run \<and> (\<exists>x\<in>set (recon_runs (own (fst st))). rr_id x = rr_id run)) (\<lambda>_ _. True) (c, w)"
  unfolding reconcile_captured_provider_def assms
  by (rule wpI_recon_id site_rules TrueI
    | (simp add: captured_report_def, intro conjI bexI [OF _ run_recorded]; (simp; fail | meson beside_trans)))+

lemma existing_of_report: "captured_report p d run \<Longrightarrow> collect (captured_discrepancy p d) (captured_of p d) = Inr (existing_discrepancies run)"
proof -
  assume r: "captured_report p d run"
  then obtain ds where ds: "collect (captured_discrepancy p d) (captured_of p d) = Inr ds" "rr_details run = JObj [(''discrepancies'', JList ds)]"
    by (auto simp: captured_report_def)
  have "\<forall>j\<in>set ds. \<exists>kvs. j = JObj kvs" by (rule collect_objects [OF ds(1)]) (rule captured_objects)
  then have "existing_discrepancies run = ds" by (auto simp: existing_discrepancies_def ds(2) jget_def filter_id_conv)
  then show ?thesis using ds(1) by simp
qed

definition provider_agrees :: "provider \<Rightarrow> db \<Rightarrow> bool" where
  "provider_agrees p d \<longleftrightarrow>
     (\<forall>i\<in>set (intents d). pi_provider i = pv_name p \<longrightarrow> (pi_status i = PI_CAPTURED \<longrightarrow> captured_confirmed p d i) \<and>
        (pi_status i = PI_PENDING \<longrightarrow> payment_confirmed p i)) \<and>
     (\<forall>r\<in>set (refunds d). rf_provider r = pv_name p \<and> rf_status r = RF_PENDING \<and> rf_reference r \<noteq> None \<longrightarrow> refund_confirmed p r)"

lemma agrees_iff:
  assumes "captured_report p d run" and "inspect_pending p d = Inr (n, ds)"
  shows "existing_discrepancies run @ ds = [] \<longleftrightarrow> provider_agrees p d"
proof -
  obtain xs ys where xy: "collect (pending_payment_discrepancy p) (pending_payments_of p d) = Inr xs"
      "collect (pending_refund_discrepancy p) (pending_refunds_of p d) = Inr ys" "ds = xs @ ys"
    using assms(2) by (auto simp: inspect_pending_def Let_def split: sum.splits)
  have "existing_discrepancies run = [] \<longleftrightarrow> (\<forall>i\<in>set (captured_of p d). captured_confirmed p d i)"
    using collect_none [OF existing_of_report [OF assms(1)]] by (simp add: captured_none)
  moreover have "xs = [] \<longleftrightarrow> (\<forall>i\<in>set (pending_payments_of p d). payment_confirmed p i)"
    using collect_none [OF xy(1)] by (simp add: payment_none)
  moreover have "ys = [] \<longleftrightarrow> (\<forall>r\<in>set (pending_refunds_of p d). refund_confirmed p r)"
    using collect_none [OF xy(2)] by (auto simp: refund_none pending_refunds_of_def)
  ultimately show ?thesis using xy(3)
    by (auto simp: provider_agrees_def captured_of_def pending_payments_of_def pending_refunds_of_def)
qed

definition reconciled :: "env \<Rightarrow> string \<Rightarrow> recon site \<Rightarrow> recon_run \<Rightarrow> recon site \<Rightarrow> bool" where
  "reconciled env name s r s' \<longleftrightarrow> (\<exists>p. get_provider env name = Inr p \<and>
     (rr_status r = ''SUCCEEDED'' \<longleftrightarrow> provider_agrees p (core s)) \<and> (rr_status r = ''MISMATCH'' \<longleftrightarrow> \<not> provider_agrees p (core s)) \<and>
     rr_checked r = int (length (captured_of p (core s)) + length (pending_payments_of p (core s)) + length (pending_refunds_of p (core s)))) \<and>
   beside (core s) (core s') \<and> r \<in> set (recon_runs (own s'))"

lemma wp_report_pending:
  assumes "captured_report p (core s) run" and "inspect_pending p (core s) = Inr (n, ds)" and "get_provider env name = Inr p"
    and "beside (core s) (core w)" and "\<exists>x\<in>set (recon_runs (own w)). rr_id x = rr_id run"
  shows "wp (report_pending env run n ds) (\<lambda>r t. reconciled env name s r (fst t)) (\<lambda>_ _. True) (c, w)"
proof -
  have n: "n = int (length (pending_payments_of p (core s)) + length (pending_refunds_of p (core s)))"
    using assms(2) by (auto simp: inspect_pending_def Let_def split: sum.splits)
  define combined where "combined = existing_discrepancies run @ ds"
  have agree: "combined = [] \<longleftrightarrow> provider_agrees p (core s)" unfolding combined_def by (rule agrees_iff [OF assms(1,2)])
  have recorded: "r \<in> set (recon_runs (put_run r (own w)))" if "rr_id r = rr_id run" for r
    using assms(5) that by (auto simp: put_run_def intro: put_row_mem)
  show ?thesis
    unfolding report_pending_def Let_def combined_def [symmetric]
    by (rule site_rules TrueI
      | (use agree recorded assms in \<open>simp add: reconciled_def captured_report_def n split del: if_split\<close>; fail)
      | (use agree recorded assms in \<open>simp add: reconciled_def captured_report_def n, meson beside_trans\<close>))+
qed

lemma wp_report_after:
  assumes "fst st = snd st \<and> beside (core s) (core (fst st)) \<and> captured_report p (core s) run \<and>
      (\<exists>x\<in>set (recon_runs (own (fst st))). rr_id x = rr_id run)"
    and "inspect_pending p (core s) = Inr (n, ds)" and "get_provider env name = Inr p"
  shows "wp (report_pending env run n ds) (\<lambda>r t. reconciled env name s r (fst t)) (\<lambda>_ _. True) st"
  by (cases st; hypsubst) (rule wp_report_pending [OF _ assms(2,3)]; use assms(1) in simp)

lemma reconcile_reports:
  assumes ok: "run_request (reconcile_provider env name) s = (Inr r, s')"
  shows "reconciled env name s r s'"
proof (cases "get_provider env name")
  case (Inl e)
  then show ?thesis using ok by (simp add: reconcile_provider_def run_request_def bnd_def lift_result_def raise_def)
next
  case (Inr p)
  show ?thesis
  proof (rule run_request_ok [OF ok])
    show "wp (reconcile_provider env name) (\<lambda>r t. reconciled env name s r (fst t)) (\<lambda>_ _. True) (s, s)"
      unfolding reconcile_provider_def Inr
      by (rule wpI_bnd wpI_lift_result wpI_query_core wpI_prod wp_mono [OF wp_captured [OF Inr]] TrueI
        | (rule wp_report_after, assumption, simp, simp add: Inr) | (simp; fail))+
  qed
qed

end
