(* ===== verification/Notices.thy ===== *)
theory Notices
  imports Inbox Reconcile Scenario_Release
begin

text \<open>
  What notifications and reconciliation promise, after a concrete inbox (a message announces itself to
  its recipient and is delivered) and a concrete run against the sandbox provider.
\<close>

definition demo_message :: message where
  "demo_message = \<lparr>mg_id = 8, mg_conversation = 7, mg_sender = 1, mg_sequence = 1, mg_client_id = ''a'', mg_body = ''hello'',
     mg_attachments = [], mg_created = 7\<rparr>"

definition demo_event :: outbox_event where
  "demo_event = \<lparr>ob_event_type = ''notification.requested'', ob_aggregate_type = ''message'', ob_aggregate_id = str_uuid 8,
     ob_payload = message_notification demo_message 2\<rparr>"

definition inbox0 :: inbox where
  "inbox0 = \<lparr>inbox_next_id = 300, notifications = [], note_preferences = [], note_receipts = []\<rparr>"

definition box0 :: "inbox site" where
  "box0 = \<lparr>core = demo0, own = inbox0\<rparr>"
definition box1 :: "inbox site" where
  "box1 = box0\<lparr>core := append_outbox [demo_event] demo0\<rparr>"
definition box2 :: "inbox site" where
  "box2 = drains demo_env 5 1 box1"

lemma box_reachable: "reachable_inbox box0" "reachable_inbox box1" "reachable_inbox box2"
proof -
  show 0: "reachable_inbox box0" unfolding reachable_inbox_def box0_def
    by (rule reachable_beside [OF demo_reachable_0]) (simp add: empty_inbox_def inbox0_def)
  note go = reachable.continue [of "site_start (\<lambda>s. empty_inbox (own s))" "site_step inbox_request", folded reachable_inbox_def]
  show 1: "reachable_inbox box1" unfolding box1_def
    by (rule go [OF 0], rule site_step.served, rule inbox_request.produced)
      (simp add: box0_def beside_outbox, simp add: box0_def user_exists_def append_outbox_def)
  show "reachable_inbox box2" unfolding box2_def One_nat_def drains.simps
    by (rule go [OF 1], rule site_step.served, rule inbox_request.drained)
qed

lemma box1_pending: "pending_notifications box1 = [0]" "all_deliverable box1"
proof -
  have "user_exists demo0 2" by (simp add: user_exists_def demo0_def row_by_def demo_rows)
  then show p: "pending_notifications box1 = [0]" "all_deliverable box1"
    by (simp_all add: all_deliverable_def pending_notifications_def box1_def box0_def inbox0_def append_outbox_def demo0_def empty_db_def
        demo_event_def message_deliverable user_exists_def)
qed

lemma box2_receipt: "0 \<in> set (note_receipts (own box2))" "ob_payload (outbox (core box2) ! 0) = message_notification demo_message 2"
proof -
  have ok: "inbox_ok box1" using reachable_inbox_ok [OF box_reachable(2)] by simp
  have d: "core box2 = core box1" "pending_notifications box2 = []"
    using drains_empty [OF ok box1_pending(2), of demo_env 5 1] box1_pending(1) by (simp_all add: box2_def)
  have event: "outbox (core box1) ! 0 = demo_event" "0 < length (outbox (core box1))"
    by (simp_all add: box1_def append_outbox_def demo0_def empty_db_def)
  with d show "ob_payload (outbox (core box2) ! 0) = message_notification demo_message 2" by (simp add: demo_event_def)
  show "0 \<in> set (note_receipts (own box2))"
    using d event by (auto simp: pending_notifications_def filter_empty_conv demo_event_def)
qed

section \<open>Notifications\<close>

text \<open>C22: Notifications are exactly what was requested: in every reachable state each consumed request of the
  outbox has its notification, for the user it names, each notification was made from a consumed
  request, and a user has one notification for a key at most.\<close>

theorem notifications_match_requests:
  assumes "reachable_inbox s"
  shows "(\<forall>e\<in>set (note_receipts (own s)). requested (core s) e \<and>
      (\<exists>n\<in>set (notifications (own s)). answers (ob_payload (outbox (core s) ! e)) n)) \<and>
    (\<forall>n\<in>set (notifications (own s)). \<exists>e\<in>set (note_receipts (own s)). made_from (ob_payload (outbox (core s) ! e)) n) \<and>
    distinct (map (\<lambda>n. (nt_user n, nt_dedupe n)) (notifications (own s)))"
  using reachable_inbox_ok [OF assms] by (simp add: inbox_ok_def inbox_valid_def)

theorem notifications_match_requests_witness:
  "\<exists>n\<in>set (notifications (own box2)). answers (message_notification demo_message 2) n \<and>
    (\<exists>e\<in>set (note_receipts (own box2)). made_from (ob_payload (outbox (core box2) ! e)) n)"
proof -
  have "0 \<in> set (note_receipts (own box2))" "ob_payload (outbox (core box2) ! 0) = message_notification demo_message 2"
    using box2_receipt by simp_all
  with notifications_match_requests [OF box_reachable(3)] show ?thesis by metis
qed



section \<open>Reconciliation\<close>








end
