(* ===== verification/Market.thy ===== *)
theory Market
  imports Site Proposals
begin

text \<open>
  The marketplace around the money core (\<open>app/projects/\<close>, \<open>app/freelancers/\<close>, \<open>app/gigs/\<close>,
  \<open>app/portfolios/\<close>, \<open>app/reviews/\<close>): projects are created, edited and closed, freelancers keep a
  profile with skills and availability, offer gigs, show portfolio items and are reviewed. Project
  rows are the core's, which proposals and contracts read. Lists are in the order of creation. A
  time of day is a number, a date is its ISO text; NFKC normalisation is the parameter \<open>nfkc\<close>.

  A flush writes the new rows of a unit of work before it removes the deleted ones, which matters
  where a collection with a UNIQUE constraint is replaced (gig packages, availability rules).
\<close>

section \<open>Tables\<close>

record skill =
  sk_id :: uuid
  sk_name :: string
  sk_slug :: string

record availability_rule =
  av_weekday :: int
  av_start :: nat
  av_end :: nat
  av_timezone :: string

record availability_exception =
  ax_id :: uuid
  ax_date :: string
  ax_available :: bool
  ax_start :: "nat option"
  ax_end :: "nat option"
  ax_reason :: "string option"

record freelancer_profile =
  fp_id :: uuid
  fp_user :: uuid
  fp_title :: string
  fp_bio :: string
  fp_rate :: "int option"
  fp_currency :: "currency option"
  fp_timezone :: string
  fp_accepting :: bool
  fp_languages :: "string list"
  fp_skills :: "uuid list"
  fp_rules :: "availability_rule list"
  fp_exceptions :: "availability_exception list"
  fp_version :: int

record gig_package =
  gp_tier :: string
  gp_amount :: int
  gp_currency :: currency
  gp_delivery :: int
  gp_revisions :: int
  gp_description :: string

record gig =
  gg_id :: uuid
  gg_profile :: uuid
  gg_title :: string
  gg_description :: string
  gg_active :: bool
  gg_packages :: "gig_package list"
  gg_requirements :: "(string \<times> bool) list"

record portfolio_item =
  pt_id :: uuid
  pt_profile :: uuid
  pt_title :: string
  pt_description :: string
  pt_url :: "string option"

record review =
  rv_id :: uuid
  rv_project :: uuid
  rv_reviewer :: uuid
  rv_freelancer :: uuid
  rv_rating :: int
  rv_comment :: string

record market =
  market_next :: nat
  skill_rows :: "skill list"
  profiles :: "freelancer_profile list"
  project_skills :: "(uuid \<times> uuid list) list"
  gigs :: "gig list"
  portfolio_items :: "portfolio_item list"
  reviews :: "review list"

type_synonym 'a market_op = "(market, 'a) sop"

definition market_id :: "uuid market_op" where
  "market_id = bnd (query_own market_next) (\<lambda>i. seq (modify_own (\<lambda>t. t\<lparr>market_next := Suc i\<rparr>)) (ret i))"

definition skills_valid :: "market \<Rightarrow> bool" where
  "skills_valid t \<longleftrightarrow> distinct (map sk_name (skill_rows t)) \<and> distinct (map sk_slug (skill_rows t))"

definition rule_slot :: "availability_rule \<Rightarrow> int \<times> nat \<times> nat" where
  "rule_slot r = (av_weekday r, av_start r, av_end r)"

definition rules_valid :: "availability_rule list \<Rightarrow> bool" where
  "rules_valid rs \<longleftrightarrow> list_all (\<lambda>r. 0 \<le> av_weekday r \<and> av_weekday r \<le> 6 \<and> av_start r < av_end r) rs \<and> distinct (map rule_slot rs)"

definition exceptions_valid :: "availability_exception list \<Rightarrow> bool" where
  "exceptions_valid xs \<longleftrightarrow> distinct (map ax_date xs) \<and>
     list_all (\<lambda>x. case (ax_start x, ax_end x) of (None, None) \<Rightarrow> True | (Some a, Some b) \<Rightarrow> a < b | _ \<Rightarrow> False) xs"

definition profile_valid :: "freelancer_profile \<Rightarrow> bool" where
  "profile_valid p \<longleftrightarrow> (case (fp_rate p, fp_currency p) of (None, None) \<Rightarrow> True | (Some r, Some _) \<Rightarrow> 0 \<le> r | _ \<Rightarrow> False) \<and>
     distinct (fp_skills p) \<and> rules_valid (fp_rules p) \<and> exceptions_valid (fp_exceptions p)"

definition packages_valid :: "gig_package list \<Rightarrow> bool" where
  "packages_valid ps \<longleftrightarrow> distinct (map gp_tier ps) \<and> list_all (\<lambda>p. gp_tier p \<in> {''BASIC'', ''STANDARD'', ''PREMIUM''} \<and>
     0 \<le> gp_amount p \<and> 1 \<le> gp_delivery p \<and> 0 \<le> gp_revisions p) ps"

definition reviews_valid :: "market \<Rightarrow> bool" where
  "reviews_valid t \<longleftrightarrow> list_all (\<lambda>r. 1 \<le> rv_rating r \<and> rv_rating r \<le> 5) (reviews t) \<and>
     distinct (map (\<lambda>r. (rv_project r, rv_reviewer r, rv_freelancer r)) (reviews t))"

definition project_row_valid :: "project \<Rightarrow> bool" where
  "project_row_valid p \<longleftrightarrow> (case (pj_budget_min p, pj_budget_max p, pj_currency p) of
     (None, None, None) \<Rightarrow> True | (Some a, Some b, Some _) \<Rightarrow> 0 \<le> a \<and> a \<le> b | _ \<Rightarrow> False)"

definition put_profile :: "freelancer_profile \<Rightarrow> market \<Rightarrow> market" where
  "put_profile p t = t\<lparr>profiles := put_row fp_id p (profiles t)\<rparr>"

definition put_gig :: "gig \<Rightarrow> market \<Rightarrow> market" where
  "put_gig g t = t\<lparr>gigs := put_row gg_id g (gigs t)\<rparr>"

definition market_valid :: "market \<Rightarrow> bool" where
  "market_valid t \<longleftrightarrow> skills_valid t \<and> distinct (map fp_user (profiles t)) \<and> list_all profile_valid (profiles t) \<and>
     list_all (\<lambda>g. packages_valid (gg_packages g)) (gigs t) \<and> list_all (\<lambda>x. distinct (snd x)) (project_skills t) \<and> reviews_valid t"

definition flush_market :: "unit market_op" where
  "flush_market = flush_own market_valid"

definition commit_market :: "unit market_op" where
  "commit_market = seq flush_market commit"

section \<open>Skills\<close>

text \<open>\<open>str.isalnum\<close> of the code points below 256\<close>

definition is_alnum :: "char \<Rightarrow> bool" where
  "is_alnum c = (let n = (of_char c :: nat) in is_digit c \<or> is_ascii_alpha c \<or> n \<in> {170, 178, 179, 181, 185, 186, 188, 189, 190} \<or>
     (192 \<le> n \<and> n \<noteq> 215 \<and> n \<noteq> 247))"

fun collapse_dashes :: "string \<Rightarrow> string" where
  "collapse_dashes (a # b # s) = (if a = CHR ''-'' \<and> b = CHR ''-'' then collapse_dashes (b # s) else a # collapse_dashes (b # s))"
| "collapse_dashes s = s"

definition strip_dashes :: "string \<Rightarrow> string" where
  "strip_dashes s = rev (dropWhile (\<lambda>c. c = CHR ''-'') (rev (dropWhile (\<lambda>c. c = CHR ''-'') s)))"

definition normalize_skill_slug :: "(string \<Rightarrow> string) \<Rightarrow> string \<Rightarrow> exn + string" where
  "normalize_skill_slug nfkc v =
    (let slug = strip_dashes (collapse_dashes (map (\<lambda>c. if is_alnum c then c else CHR ''-'') (casefold (strip (nfkc v))))) in
     if slug = [] then Inl (ApiError ''validation_error'' 422) else Inr (take 80 slug))"

definition get_or_create_skill :: "(string \<Rightarrow> string) \<Rightarrow> string \<Rightarrow> skill market_op" where
  "get_or_create_skill nfkc v =
    (let name = strip (nfkc v) in
     bnd (lift_result (normalize_skill_slug nfkc name)) (\<lambda>slug.
     bnd (query_own (\<lambda>t. row_by sk_slug slug (skill_rows t))) (\<lambda>r.
     case r of Some x \<Rightarrow> ret x | None \<Rightarrow>
     savepoint
       (bnd market_id (\<lambda>i.
        let x = \<lparr>sk_id = i, sk_name = name, sk_slug = slug\<rparr> in
        seq (modify_own (\<lambda>t. t\<lparr>skill_rows := skill_rows t @ [x]\<rparr>)) (seq (flush_own skills_valid) (ret x))))
       (bnd (query_own (\<lambda>t. row_by sk_slug slug (skill_rows t))) (\<lambda>r.
        case r of None \<Rightarrow> raise (ApiError ''skill_conflict'' 409) | Some x \<Rightarrow> ret x)))))"

fun create_skills :: "(string \<Rightarrow> string) \<Rightarrow> string list \<Rightarrow> uuid list market_op" where
  "create_skills nfkc [] = ret []"
| "create_skills nfkc (v # vs) = bnd (get_or_create_skill nfkc v) (\<lambda>x. bnd (create_skills nfkc vs) (\<lambda>xs. ret (sk_id x # xs)))"

fun dedupe_strings :: "string list \<Rightarrow> string set \<Rightarrow> string list" where
  "dedupe_strings [] seen = []"
| "dedupe_strings (v # vs) seen = (let n = strip v; key = casefold n in
     if n \<noteq> [] \<and> key \<notin> seen then n # dedupe_strings vs (insert key seen) else dedupe_strings vs seen)"

section \<open>Profiles\<close>

definition find_profile :: "uuid \<Rightarrow> market \<Rightarrow> freelancer_profile option" where
  "find_profile u t = row_by fp_user u (profiles t)"

definition get_profile_by_user_id :: "uuid \<Rightarrow> freelancer_profile market_op" where
  "get_profile_by_user_id u = bnd (query_own (find_profile u)) (\<lambda>r.
     case r of None \<Rightarrow> raise (ApiError ''profile_not_found'' 404) | Some p \<Rightarrow> ret p)"

definition can_edit_profile :: "user \<Rightarrow> freelancer_profile \<Rightarrow> bool" where
  "can_edit_profile user p \<longleftrightarrow> user_id user = fp_user p \<and> ''freelancer'' \<in> set (user_roles user)"

definition refresh_event :: "freelancer_profile \<Rightarrow> outbox_event" where
  "refresh_event p = \<lparr>ob_event_type = ''search.freelancer.refresh'', ob_aggregate_type = ''freelancer_profile'',
     ob_aggregate_id = str_uuid (fp_user p), ob_payload = JObj [(''projection_version'', JInt (fp_version p))]\<rparr>"

text \<open>The profile, with what the request changed in it, is written with its next version.\<close>

definition touch_search_projection :: "freelancer_profile \<Rightarrow> freelancer_profile market_op" where
  "touch_search_projection p =
    (let p' = p\<lparr>fp_version := fp_version p + 1\<rparr>; e = refresh_event p' in
     seq (modify_own (put_profile p')) (
     seq (on_core (enqueue_outbox_event (ob_event_type e) (ob_aggregate_type e) (ob_aggregate_id e) (ob_payload e)))
     (ret p')))"

definition upsert_profile :: "env \<Rightarrow> (string \<Rightarrow> string) \<Rightarrow> user \<Rightarrow> string \<Rightarrow> string \<Rightarrow> int option \<Rightarrow> currency option \<Rightarrow> string \<Rightarrow> bool \<Rightarrow>
    string list \<Rightarrow> string list \<Rightarrow> freelancer_profile market_op" where
  "upsert_profile env nfkc user title bio rate cur tz accepting languages skills =
    (if ''freelancer'' \<notin> set (user_roles user) then raise (ApiError ''forbidden'' 403)
     else if rate = None \<and> cur \<noteq> None then raise (ApiError ''validation_error'' 422)
     else if rate \<noteq> None \<and> cur = None then raise (ApiError ''validation_error'' 422) else
     bnd (query_own (find_profile (user_id user))) (\<lambda>r.
     bnd (case r of
         None \<Rightarrow> bnd market_id (\<lambda>i.
           let p = \<lparr>fp_id = i, fp_user = user_id user, fp_title = title, fp_bio = [], fp_rate = None, fp_currency = None,
                    fp_timezone = ''UTC'', fp_accepting = True, fp_languages = [], fp_skills = [], fp_rules = [], fp_exceptions = [],
                    fp_version = 1\<rparr> in
           seq (modify_own (\<lambda>t. t\<lparr>profiles := profiles t @ [p]\<rparr>)) (seq flush_market (ret p)))
       | Some p \<Rightarrow> if \<not> can_edit_profile user p then raise (ApiError ''forbidden'' 403) else ret p) (\<lambda>p.
     bnd (create_skills nfkc (dedupe_strings skills {})) (\<lambda>ids.
     bnd (touch_search_projection (p\<lparr>fp_title := title, fp_bio := bio, fp_rate := rate, fp_currency := cur, fp_timezone := tz,
            fp_accepting := accepting, fp_languages := dedupe_strings languages {}, fp_skills := ids\<rparr>)) (\<lambda>p'.
     seq (on_core (record_audit_event env (if r = None then ''freelancer.profile_created'' else ''freelancer.profile_updated'')
            ''freelancer_profile'' (Some (user_id user)) (Some (str_uuid (fp_id p'))) None None
            (JObj [(''projection_version'', JInt (fp_version p'))]))) (
     seq commit_market (get_profile_by_user_id (user_id user))))))))"

text \<open>New rules are inserted before the replaced ones are deleted.\<close>

definition replace_availability_rules :: "env \<Rightarrow> user \<Rightarrow> availability_rule list \<Rightarrow> availability_rule list market_op" where
  "replace_availability_rules env user rules =
    bnd (get_profile_by_user_id (user_id user)) (\<lambda>p.
    if \<not> can_edit_profile user p then raise (ApiError ''forbidden'' 403)
    else if list_ex (\<lambda>r. av_end r \<le> av_start r) rules then raise (ApiError ''validation_error'' 422) else
    bnd (touch_search_projection (p\<lparr>fp_rules := rules\<rparr>)) (\<lambda>p'.
    seq (on_core (record_audit_event env ''freelancer.availability_rules_replaced'' ''freelancer_profile'' (Some (user_id user))
           (Some (str_uuid (fp_id p'))) None None (JObj [(''rule_count'', JInt (int (length rules)))]))) (
    seq (require (rules_valid (fp_rules p @ rules)) IntegrityError) (
    seq commit_market (ret rules)))))"

definition put_exception :: "availability_exception \<Rightarrow> availability_exception list \<Rightarrow> availability_exception list" where
  "put_exception x xs = (if row_by ax_date (ax_date x) xs = None then xs @ [x] else put_row ax_date x xs)"

definition upsert_availability_exception :: "env \<Rightarrow> user \<Rightarrow> string \<Rightarrow> bool \<Rightarrow> nat option \<Rightarrow> nat option \<Rightarrow> string option \<Rightarrow>
    availability_exception market_op" where
  "upsert_availability_exception env user date available start_time end_time reason =
    bnd (get_profile_by_user_id (user_id user)) (\<lambda>p.
    if \<not> can_edit_profile user p then raise (ApiError ''forbidden'' 403)
    else if (case (start_time, end_time) of (None, None) \<Rightarrow> False | (Some a, Some b) \<Rightarrow> b \<le> a | _ \<Rightarrow> True)
    then raise (ApiError ''validation_error'' 422) else
    bnd (case row_by ax_date date (fp_exceptions p) of None \<Rightarrow> market_id | Some old \<Rightarrow> ret (ax_id old)) (\<lambda>i.
    let x = \<lparr>ax_id = i, ax_date = date, ax_available = available, ax_start = start_time, ax_end = end_time, ax_reason = reason\<rparr> in
    bnd (touch_search_projection (p\<lparr>fp_exceptions := put_exception x (fp_exceptions p)\<rparr>)) (\<lambda>p'.
    seq (on_core (record_audit_event env ''freelancer.availability_exception_upserted'' ''availability_exception'' (Some (user_id user))
           (Some (str_uuid i)) None None (JObj [(''date'', JStr date), (''available'', JBool available)]))) (
    seq commit_market (ret x)))))"

section \<open>Gigs\<close>

definition allowed_tiers :: "string list" where
  "allowed_tiers = [''BASIC'', ''STANDARD'', ''PREMIUM'']"

definition tier_rank :: "string \<Rightarrow> nat" where
  "tier_rank tier = length (takeWhile (\<lambda>x. x \<noteq> tier) allowed_tiers)"

definition validate_packages :: "gig_package list \<Rightarrow> exn + gig_package list" where
  "validate_packages ps =
    (let tiers = map (\<lambda>p. upper (gp_tier p)) ps in
     if ps = [] \<or> 3 < length ps then Inl (ApiError ''validation_error'' 422)
     else if ''BASIC'' \<notin> set tiers then Inl (ApiError ''validation_error'' 422)
     else if \<not> distinct tiers \<or> list_ex (\<lambda>x. x \<notin> set allowed_tiers) tiers then Inl (ApiError ''validation_error'' 422)
     else if length (remdups (map gp_currency ps)) \<noteq> 1 then Inl (ApiError ''validation_error'' 422)
     else Inr (sort_key (\<lambda>p. tier_rank (gp_tier p)) (map (\<lambda>p. p\<lparr>gp_tier := upper (gp_tier p)\<rparr>) ps)))"

definition list_gigs :: "bool \<Rightarrow> gig list market_op" where
  "list_gigs active_only = query_own (\<lambda>t. rev (filter (\<lambda>g. active_only \<longrightarrow> gg_active g) (gigs t)))"

definition get_gig :: "uuid \<Rightarrow> gig market_op" where
  "get_gig i = bnd (query_own (\<lambda>t. row_by gg_id i (gigs t))) (\<lambda>r.
     case r of None \<Rightarrow> raise (ApiError ''gig_not_found'' 404) | Some g \<Rightarrow> ret g)"

definition can_edit_gig :: "user \<Rightarrow> gig \<Rightarrow> freelancer_profile option \<Rightarrow> bool" where
  "can_edit_gig user g r \<longleftrightarrow> (case r of None \<Rightarrow> False | Some p \<Rightarrow> fp_user p = user_id user \<and> gg_profile g = fp_id p)"

definition create_gig :: "env \<Rightarrow> user \<Rightarrow> string \<Rightarrow> string \<Rightarrow> gig_package list \<Rightarrow> (string \<times> bool) list \<Rightarrow> gig market_op" where
  "create_gig env user title description packages requirements =
    bnd (get_profile_by_user_id (user_id user)) (\<lambda>p.
    bnd (lift_result (validate_packages packages)) (\<lambda>ps.
    bnd market_id (\<lambda>i.
    let g = \<lparr>gg_id = i, gg_profile = fp_id p, gg_title = title, gg_description = description, gg_active = True,
             gg_packages = ps, gg_requirements = requirements\<rparr> in
    seq (modify_own (\<lambda>t. t\<lparr>gigs := gigs t @ [g]\<rparr>)) (
    seq flush_market (
    seq (on_core (record_audit_event env ''gig.created'' ''gig'' (Some (user_id user)) (Some (str_uuid i)) None None
           (JObj [(''package_tiers'', JList (map (\<lambda>p. JStr (gp_tier p)) ps))]))) (
    seq commit_market (get_gig i)))))))"

text \<open>The new packages are inserted before the old ones are deleted.\<close>

definition replace_gig :: "env \<Rightarrow> user \<Rightarrow> uuid \<Rightarrow> string \<Rightarrow> string \<Rightarrow> bool \<Rightarrow> gig_package list \<Rightarrow> (string \<times> bool) list \<Rightarrow> gig market_op" where
  "replace_gig env user i title description active packages requirements =
    bnd (get_gig i) (\<lambda>g.
    bnd (query_own (find_profile (user_id user))) (\<lambda>r.
    if \<not> can_edit_gig user g r then raise (ApiError ''forbidden'' 403) else
    bnd (lift_result (validate_packages packages)) (\<lambda>ps.
    let g' = g\<lparr>gg_title := title, gg_description := description, gg_active := active, gg_packages := ps, gg_requirements := requirements\<rparr> in
    seq (modify_own (put_gig g')) (
    seq (on_core (record_audit_event env ''gig.updated'' ''gig'' (Some (user_id user)) (Some (str_uuid i)) None None
           (JObj [(''active'', JBool active)]))) (
    seq (require (packages_valid (gg_packages g @ ps)) IntegrityError) (
    seq commit_market (get_gig i)))))))"

section \<open>Portfolio\<close>

definition list_portfolio :: "uuid \<Rightarrow> portfolio_item list market_op" where
  "list_portfolio u = bnd (get_profile_by_user_id u) (\<lambda>p. query_own (\<lambda>t. rev (filter (\<lambda>x. pt_profile x = fp_id p) (portfolio_items t))))"

definition create_portfolio_item :: "env \<Rightarrow> user \<Rightarrow> string \<Rightarrow> string \<Rightarrow> string option \<Rightarrow> portfolio_item market_op" where
  "create_portfolio_item env user title description url =
    bnd (get_profile_by_user_id (user_id user)) (\<lambda>p.
    bnd market_id (\<lambda>i.
    let x = \<lparr>pt_id = i, pt_profile = fp_id p, pt_title = title, pt_description = description, pt_url = url\<rparr> in
    seq (modify_own (\<lambda>t. t\<lparr>portfolio_items := portfolio_items t @ [x]\<rparr>)) (
    seq flush_market (
    bnd (touch_search_projection p) (\<lambda>_.
    seq (on_core (record_audit_event env ''portfolio.item_created'' ''portfolio_item'' (Some (user_id user)) (Some (str_uuid i)) None None (JObj []))) (
    seq commit_market (ret x)))))))"

definition delete_portfolio_item :: "env \<Rightarrow> user \<Rightarrow> uuid \<Rightarrow> unit market_op" where
  "delete_portfolio_item env user i =
    bnd (query_own (\<lambda>t. row_by pt_id i (portfolio_items t))) (\<lambda>r.
    case r of None \<Rightarrow> raise (ApiError ''portfolio_item_not_found'' 404) | Some x \<Rightarrow>
    bnd (query_own (\<lambda>t. row_by fp_id (pt_profile x) (profiles t))) (\<lambda>pr.
    case pr of None \<Rightarrow> raise (ApiError ''forbidden'' 403) | Some p \<Rightarrow>
    if fp_user p \<noteq> user_id user then raise (ApiError ''forbidden'' 403) else
    seq (modify_own (\<lambda>t. t\<lparr>portfolio_items := filter (\<lambda>y. pt_id y \<noteq> i) (portfolio_items t)\<rparr>)) (
    bnd (touch_search_projection p) (\<lambda>_.
    seq (on_core (record_audit_event env ''portfolio.item_deleted'' ''portfolio_item'' (Some (user_id user)) (Some (str_uuid i)) None None (JObj []))) (
    commit_market)))))"

section \<open>Projects\<close>

definition list_projects :: "project list market_op" where
  "list_projects = query_core (\<lambda>d. rev (filter (\<lambda>p. pj_status p = PJ_OPEN) (projects d)))"

definition can_edit_project :: "user \<Rightarrow> project \<Rightarrow> bool" where
  "can_edit_project user p \<longleftrightarrow> pj_employer p = user_id user \<and> ''employer'' \<in> set (user_roles user)"

definition validate_budget :: "int option \<Rightarrow> int option \<Rightarrow> currency option \<Rightarrow> exn + unit" where
  "validate_budget lo hi cur =
    (let provided = [lo \<noteq> None, hi \<noteq> None, cur \<noteq> None] in
     if list_ex (\<lambda>b. b) provided \<and> \<not> list_all (\<lambda>b. b) provided then Inl (ApiError ''validation_error'' 422) else
     case (lo, hi) of
       (Some a, Some b) \<Rightarrow> if a < 0 \<or> b < a then Inl (ApiError ''validation_error'' 422) else Inr ()
     | _ \<Rightarrow> Inr ())"

definition set_project_skills :: "uuid \<Rightarrow> uuid list \<Rightarrow> market \<Rightarrow> market" where
  "set_project_skills i ids t = t\<lparr>project_skills := filter (\<lambda>x. fst x \<noteq> i) (project_skills t) @ [(i, ids)]\<rparr>"

definition replace_project_skills :: "(string \<Rightarrow> string) \<Rightarrow> uuid \<Rightarrow> string list \<Rightarrow> unit market_op" where
  "replace_project_skills nfkc i values = bnd (create_skills nfkc values) (\<lambda>ids. modify_own (set_project_skills i (rev (remdups (rev ids)))))"

definition flush_projects :: "unit market_op" where
  "flush_projects = bnd (query_core (\<lambda>d. list_all project_row_valid (projects d))) (\<lambda>b. require b IntegrityError)"

definition put_project :: "project \<Rightarrow> db \<Rightarrow> db" where
  "put_project p d = d\<lparr>projects := put_row pj_id p (projects d)\<rparr>"

definition create_project :: "env \<Rightarrow> (string \<Rightarrow> string) \<Rightarrow> user \<Rightarrow> string \<Rightarrow> string \<Rightarrow> int option \<Rightarrow> int option \<Rightarrow> currency option \<Rightarrow>
    string list \<Rightarrow> project market_op" where
  "create_project env nfkc user title description lo hi cur skills =
    bnd (lift_result (validate_budget lo hi cur)) (\<lambda>_.
    bnd market_id (\<lambda>i.
    let p = \<lparr>pj_id = i, pj_employer = user_id user, pj_title = title, pj_description = description, pj_budget_min = lo,
             pj_budget_max = hi, pj_currency = cur, pj_status = PJ_OPEN\<rparr> in
    seq (modify_core (\<lambda>d. d\<lparr>projects := projects d @ [p]\<rparr>)) (
    seq flush_projects (
    seq (replace_project_skills nfkc i skills) (
    seq (on_core (record_audit_event env ''project.created'' ''project'' (Some (user_id user)) (Some (str_uuid i)) None None (JObj []))) (
    seq commit_market (on_core (get_project i))))))))"

definition update_project :: "env \<Rightarrow> (string \<Rightarrow> string) \<Rightarrow> user \<Rightarrow> uuid \<Rightarrow> string \<Rightarrow> string \<Rightarrow> int option \<Rightarrow> int option \<Rightarrow>
    currency option \<Rightarrow> string list \<Rightarrow> project market_op" where
  "update_project env nfkc user i title description lo hi cur skills =
    bnd (on_core (get_project i)) (\<lambda>p.
    if \<not> can_edit_project user p then raise (ApiError ''forbidden'' 403)
    else if pj_status p \<noteq> PJ_OPEN then raise (ApiError ''invalid_state'' 409) else
    bnd (lift_result (validate_budget lo hi cur)) (\<lambda>_.
    seq (modify_core (put_project (p\<lparr>pj_title := title, pj_description := description, pj_budget_min := lo, pj_budget_max := hi,
           pj_currency := cur\<rparr>))) (
    seq (replace_project_skills nfkc i skills) (
    seq (on_core (record_audit_event env ''project.updated'' ''project'' (Some (user_id user)) (Some (str_uuid i)) None None (JObj []))) (
    seq flush_projects (
    seq commit_market (on_core (get_project i))))))))"

definition close_project :: "env \<Rightarrow> user \<Rightarrow> uuid \<Rightarrow> project market_op" where
  "close_project env user i =
    bnd (on_core (get_project i)) (\<lambda>p.
    if \<not> can_edit_project user p then raise (ApiError ''forbidden'' 403)
    else if pj_status p \<noteq> PJ_OPEN then raise (ApiError ''invalid_state'' 409) else
    bnd (query_core (\<lambda>d. row_by con_project_id (pj_id p) (contracts d))) (\<lambda>r.
    case r of None \<Rightarrow> raise (ApiError ''invalid_state'' 409) | Some c \<Rightarrow>
    if con_status c \<noteq> CON_ACTIVE then raise (ApiError ''invalid_state'' 409) else
    bnd (query_core (\<lambda>d. List.find (\<lambda>v. cv_contract_id v = con_id c \<and> cv_number v = con_current_version c) (contract_versions d))) (\<lambda>vr.
    case vr of None \<Rightarrow> raise RuntimeError | Some v \<Rightarrow>
    bnd (query_core (\<lambda>d. List.find (\<lambda>m. ms_version_id m = cv_id v \<and> ms_status m \<noteq> MS_RELEASED) (milestones d))) (\<lambda>incomplete.
    if incomplete \<noteq> None then raise (ApiError ''invalid_state'' 409) else
    let p' = p\<lparr>pj_status := PJ_CLOSED\<rparr> in
    seq (modify_core (put_project p')) (
    bnd (query_own (find_profile (con_freelancer c))) (\<lambda>pr.
    seq (case pr of None \<Rightarrow> ret () | Some x \<Rightarrow> bnd (touch_search_projection x) (\<lambda>_. ret ())) (
    seq (on_core (record_audit_event env ''project.closed'' ''project'' (Some (user_id user)) (Some (str_uuid i)) None None
           (JObj [(''contract_id'', j_id (con_id c))]))) (
    seq flush_projects (
    seq commit_market (ret p')))))))))) "

section \<open>Reviews\<close>

definition create_review :: "env \<Rightarrow> user \<Rightarrow> uuid \<Rightarrow> int \<Rightarrow> string \<Rightarrow> review market_op" where
  "create_review env user i rating comment =
    bnd (on_core (get_project i)) (\<lambda>p.
    if pj_employer p \<noteq> user_id user then raise (ApiError ''forbidden'' 403)
    else if pj_status p \<noteq> PJ_CLOSED then raise (ApiError ''review_not_eligible'' 409) else
    bnd (query_core (\<lambda>d. row_by con_project_id (pj_id p) (contracts d))) (\<lambda>r.
    case r of None \<Rightarrow> raise (ApiError ''review_not_eligible'' 409) | Some c \<Rightarrow>
    if con_status c \<noteq> CON_ACTIVE then raise (ApiError ''review_not_eligible'' 409) else
    bnd market_id (\<lambda>j.
    let x = \<lparr>rv_id = j, rv_project = pj_id p, rv_reviewer = user_id user, rv_freelancer = con_freelancer c, rv_rating = rating,
             rv_comment = comment\<rparr> in
    seq (modify_own (\<lambda>t. t\<lparr>reviews := reviews t @ [x]\<rparr>)) (
    seq (catch (flush_own reviews_valid) (\<lambda>e. if e = IntegrityError then seq rollback (raise (ApiError ''review_exists'' 409)) else raise e)) (
    bnd (get_profile_by_user_id (con_freelancer c)) (\<lambda>fp.
    bnd (touch_search_projection fp) (\<lambda>_.
    seq (on_core (record_audit_event env ''review.created'' ''review'' (Some (user_id user)) (Some (str_uuid j)) None None
           (JObj [(''project_id'', j_id (pj_id p)), (''contract_id'', j_id (con_id c)), (''rating'', JInt rating)]))) (
    seq commit_market (ret x))))))))) "

definition list_reviews :: "uuid \<Rightarrow> review list market_op" where
  "list_reviews u = query_own (\<lambda>t. rev (filter (\<lambda>r. rv_freelancer r = u) (reviews t)))"

end
