(* ===== verification/Catalogue.thy ===== *)
theory Catalogue
  imports Market
begin

text \<open>
  What the marketplace keeps beside the platform: every committed profile was announced to the search
  projection in its current version, gigs are priced in one currency and have a basic package, and a
  project leaves the state OPEN once.
\<close>

section \<open>The invariant\<close>

definition gig_ok :: "gig \<Rightarrow> bool" where
  "gig_ok g \<longleftrightarrow> ''BASIC'' \<in> set (map gp_tier (gg_packages g)) \<and> (\<exists>c. \<forall>p\<in>set (gg_packages g). gp_currency p = c)"

definition announced :: "db \<Rightarrow> freelancer_profile \<Rightarrow> bool" where
  "announced d p \<longleftrightarrow> refresh_event p \<in> set (outbox d)"

definition project_step :: "project \<Rightarrow> project \<Rightarrow> bool" where
  "project_step p p' \<longleftrightarrow> pj_status p = PJ_OPEN \<and> pj_status p' \<in> {PJ_OPEN, PJ_CLOSED} \<and> pj_id p' = pj_id p \<and> pj_employer p' = pj_employer p"

interpretation project_rows: row_history pj_id project_step
  by unfold_locales (simp add: project_step_def)

text \<open>\<open>draft X\<close> holds of the working state of a request: the profiles of \<open>X\<close> still have to be announced.\<close>

definition draft :: "uuid set \<Rightarrow> project list \<Rightarrow> db \<Rightarrow> market site \<Rightarrow> bool" where
  "draft X P0 d s \<longleftrightarrow> (\<forall>g\<in>set (gigs (own s)). gig_ok g) \<and> (\<forall>p\<in>set (profiles (own s)). fp_id p \<notin> X \<longrightarrow> announced (core s) p) \<and>
     develops pj_id project_step P0 (projects (core s)) \<and> beside d (core s)"

definition market_ok :: "market site \<Rightarrow> bool" where
  "market_ok s \<longleftrightarrow> market_valid (own s) \<and> (\<forall>g\<in>set (gigs (own s)). gig_ok g) \<and> (\<forall>p\<in>set (profiles (own s)). announced (core s) p)"

definition market_good :: "project list \<Rightarrow> market site \<Rightarrow> bool" where
  "market_good P0 s \<longleftrightarrow> market_ok s \<and> develops pj_id project_step P0 (projects (core s))"

abbreviation kept :: "project list \<Rightarrow> db \<Rightarrow> market site \<times> market site \<Rightarrow> bool" where
  "kept P0 d p \<equiv> site_ok (market_good P0) d (fst p)"

lemma draft_good: "draft {} P0 d s \<Longrightarrow> market_valid (own s) \<Longrightarrow> site_ok (market_good P0) d s"
  by (simp add: draft_def site_ok_def market_good_def market_ok_def)

lemma good_draft: "market_good P0 s \<Longrightarrow> beside d (core s) \<Longrightarrow> draft {} P0 d s"
  by (simp add: draft_def market_good_def market_ok_def)

lemma draft_mono: "draft {} P0 d s \<Longrightarrow> draft X P0 d s"
  by (simp add: draft_def)

lemma draft_logs:
  assumes "draft X P0 d s" and "beside (core s) k" and "same_rows (core s) k"
  shows "draft X P0 d (s\<lparr>core := k\<rparr>)"
proof -
  obtain os es p where "k = append_outbox os (append_audit es (peripheral p (core s)))" using assms(2) by (auto simp: beside_def)
  then have "set (outbox (core s)) \<subseteq> set (outbox k)" by (auto simp: append_outbox_def append_audit_def peripheral_def)
  then show ?thesis using assms beside_trans by (auto simp: draft_def announced_def same_rows_def)
qed

lemma draft_own:
  "draft X P0 d s \<Longrightarrow> (\<And>g. g \<in> set (gigs t) \<Longrightarrow> g \<in> set (gigs (own s)) \<or> gig_ok g) \<Longrightarrow>
    (\<And>p. p \<in> set (profiles t) \<Longrightarrow> p \<in> set (profiles (own s)) \<or> fp_id p \<in> X) \<Longrightarrow> draft X P0 d (s\<lparr>own := t\<rparr>)"
  by (auto simp: draft_def)

lemma draft_same:
  "gigs (own s') = gigs (own s) \<Longrightarrow> profiles (own s') = profiles (own s) \<Longrightarrow> core s' = core s \<Longrightarrow> draft X P0 d s \<Longrightarrow> draft X P0 d s'"
  by (simp add: draft_def)

lemma draft_projects:
  assumes "draft X P0 d s"
  shows "draft X P0 d (s\<lparr>core := (core s)\<lparr>projects := projects (core s) @ ps\<rparr>\<rparr>)"
    and "row_by pj_id (pj_id p') (projects (core s)) = Some p \<Longrightarrow> project_step p p' \<Longrightarrow> draft X P0 d (s\<lparr>core := put_project p' (core s)\<rparr>)"
  using assms beside_rows(2) beside_trans unfolding draft_def put_project_def announced_def
  by (auto 0 3 intro!: project_rows.append project_rows.put)

lemma draft_edit:
  "row_by pj_id i (projects (core s)) = Some p \<Longrightarrow> draft X P0 d s \<Longrightarrow> project_step p p' \<Longrightarrow> draft X P0 d (s\<lparr>core := put_project p' (core s)\<rparr>)"
  by (rule draft_projects(2)) (auto simp: project_step_def dest: row_by_SomeD)

section \<open>The shared steps\<close>

lemma wpI_commit_market:
  assumes "draft {} P0 d w" and "site_ok (market_good P0) d w \<Longrightarrow> Q () (w, w)" and "E IntegrityError (c, w)"
  shows "wp commit_market Q E (c, w)"
  unfolding commit_market_def flush_market_def
  by (rule site_rules)+ (use assms draft_good in auto)

lemma wpI_flush_market: "Q () (c, w) \<Longrightarrow> E IntegrityError (c, w) \<Longrightarrow> wp flush_market Q E (c, w)"
  by (simp add: flush_market_def wp_eqs)

lemma wpI_market_audit:
  assumes "draft X P0 d w" and "\<And>w'. draft X P0 d w' \<Longrightarrow> own w' = own w \<Longrightarrow> same_rows (core w) (core w') \<Longrightarrow> Q () (c, w')"
    and "\<And>e. E e (c, w)"
  shows "wp (on_core (record_audit_event env action rtype actor rid prev new meta)) Q E (c, w)"
  by (rule wpI_site_audit) (use assms draft_logs in simp_all)

lemma wpI_touch:
  assumes "draft {fp_id p} P0 d w" and "\<And>w'. draft {} P0 d w' \<Longrightarrow> Q (p\<lparr>fp_version := fp_version p + 1\<rparr>) (c, w')"
  shows "wp (touch_search_projection p) Q E (c, w)"
proof -
  let ?p = "p\<lparr>fp_version := fp_version p + 1\<rparr>"
  let ?w = "w\<lparr>own := put_profile ?p (own w), core := append_outbox [refresh_event ?p] (core w)\<rparr>"
  have "draft {fp_id p} P0 d (w\<lparr>own := put_profile ?p (own w)\<rparr>)"
    by (rule draft_own [OF assms(1)]) (auto simp: put_profile_def dest!: put_row_memD)
  from draft_logs [OF this, of "append_outbox [refresh_event ?p] (core w)"]
  have "draft {fp_id p} P0 d ?w" by (simp add: beside_outbox same_rows_logs)
  moreover have "announced (core ?w) x" if "x \<in> set (profiles (own ?w))" "fp_id x = fp_id p" for x
    using that by (auto simp: announced_def append_outbox_def put_profile_def dest!: put_row_memD)
  ultimately have "draft {} P0 d ?w" by (auto simp: draft_def)
  then show ?thesis
    using assms(2) by (simp add: touch_search_projection_def wp_eqs wp_on_core enqueue_outbox_event_def refresh_event_def append_outbox_def Let_def)
qed

lemma wpI_market_id: "Q (market_next (own w)) (c, w\<lparr>own := (own w)\<lparr>market_next := Suc (market_next (own w))\<rparr>\<rparr>) \<Longrightarrow> wp market_id Q E (c, w)"
  by (simp add: market_id_def wp_eqs)

lemma wpI_create_skills:
  assumes "draft X P0 d w"
    and "\<And>ids w'. draft X P0 d w' \<Longrightarrow> core w' = core w \<Longrightarrow> Q ids (c, w')" and "\<And>e w'. E e (c, w')"
  shows "wp (create_skills nfkc vs) Q E (c, w)"
  using assms(1,2)
proof (induction vs arbitrary: w Q)
  case (Cons v vs)
  have one: "wp (get_or_create_skill nfkc v) (\<lambda>x. wp (create_skills nfkc vs) (\<lambda>ids. Q (sk_id x # ids)) E) E (c, w)"
    unfolding get_or_create_skill_def
    by (rule site_rules wpI_market_id | (rule Cons.IH; (rule draft_same [OF _ _ _ Cons.prems(1)])?; use Cons.prems(2) in simp; fail) | (use assms(3) in simp; fail))+
  show ?case unfolding create_skills.simps by (rule wpI_bnd, rule wp_mono [OF one], rule wpI_bnd, erule wp_mono) (simp_all add: wpI_ret)
qed (simp add: wp_eqs)

lemma wpI_get_profile:
  "(\<And>p. p \<in> set (profiles (own w)) \<Longrightarrow> Q p (c, w)) \<Longrightarrow> (\<And>e. E e (c, w)) \<Longrightarrow> wp (get_profile_by_user_id u) Q E (c, w)"
  by (auto simp: get_profile_by_user_id_def wp_eqs find_profile_def split: option.split dest: row_by_SomeD)

lemma wpI_site_project:
  "(\<And>p. row_by pj_id i (projects (core w)) = Some p \<Longrightarrow> pj_id p = i \<Longrightarrow> Q p (c, w)) \<Longrightarrow> (\<And>e. E e (c, w)) \<Longrightarrow>
    wp (on_core (get_project i)) Q E (c, w)"
  by (auto simp: get_project_def wp_eqs wp_on_core split: option.split dest: row_by_SomeD)

lemma wpI_flush_projects: "Q () (c, w) \<Longrightarrow> E IntegrityError (c, w) \<Longrightarrow> wp flush_projects Q E (c, w)"
  by (simp add: flush_projects_def wp_eqs)

lemma wpI_get_gig: "(\<And>g. g \<in> set (gigs (own w)) \<Longrightarrow> Q g (c, w)) \<Longrightarrow> (\<And>e. E e (c, w)) \<Longrightarrow> wp (get_gig i) Q E (c, w)"
  by (auto simp: get_gig_def wp_eqs split: option.split dest: row_by_SomeD)

lemma validated_gig: "validate_packages ps = Inr qs \<Longrightarrow> gg_packages g = qs \<Longrightarrow> gig_ok g"
proof -
  assume v: "validate_packages ps = Inr qs" and g: "gg_packages g = qs"
  have qs: "set qs = (\<lambda>p. p\<lparr>gp_tier := upper (gp_tier p)\<rparr>) ` set ps" "''BASIC'' \<in> set (map (\<lambda>p. upper (gp_tier p)) ps)"
      "length (remdups (map gp_currency ps)) = 1"
    using v by (auto simp: validate_packages_def Let_def split: if_splits)
  obtain c where "remdups (map gp_currency ps) = [c]" using qs(3) by (auto simp: length_Suc_conv)
  then have "gp_currency ` set ps = {c}" by (metis list.set_map set_remdups list.simps(15) empty_set)
  then show ?thesis using qs(1,2) g by (auto simp: gig_ok_def image_iff)
qed

lemmas market_rules = wpI_commit_market wpI_flush_market wpI_market_audit wpI_touch wpI_market_id wpI_create_skills wpI_get_profile
  wpI_site_project wpI_flush_projects wpI_get_gig site_rules

section \<open>The requests\<close>

lemma wp_publish_profile:
  assumes "draft {fp_id p} P0 d w" and "kept P0 d (c, w)"
  shows "wp (bnd (create_skills nfkc vs) (\<lambda>ids. bnd (touch_search_projection (p\<lparr>fp_skills := ids\<rparr>)) (\<lambda>p'.
     seq (on_core (record_audit_event env (action p') rtype actor (rid p') prev new (meta p'))) (seq commit_market (get_profile_by_user_id u)))))
     (\<lambda>_. kept P0 d) (\<lambda>_. kept P0 d) (c, w)"
  apply (rule wpI_bnd, rule wpI_create_skills [OF assms(1)])
   apply (rule market_rules | (use assms(2) in simp; fail) | assumption)+
  done

lemma keeps_upsert_profile:
  "keeps (site_ok (market_good P0) d) (upsert_profile env nfkc user title bio rate cur tz accepting languages skills)"
  apply (rule site_keepsI)
  apply (unfold upsert_profile_def)
  apply (rule wp_publish_profile market_rules | (simp add: site_ok_def; fail) | assumption
    | (rule draft_mono, rule good_draft; simp; fail)
    | (rule draft_own [OF draft_same [OF _ _ _ draft_mono [OF good_draft]]]; auto; fail))+
  done

lemma keeps_replace_rules: "keeps (site_ok (market_good P0) d) (replace_availability_rules env user rules)"
  apply (rule site_keepsI)
  apply (unfold replace_availability_rules_def)
  apply (rule market_rules | (simp add: site_ok_def; fail) | assumption | (rule draft_mono, rule good_draft; simp; fail))+
  done

lemma keeps_exception: "keeps (site_ok (market_good P0) d) (upsert_availability_exception env user date available a b reason)"
  apply (rule site_keepsI)
  apply (unfold upsert_availability_exception_def)
  apply (rule market_rules | (simp add: site_ok_def; fail) | assumption
    | (rule draft_mono, rule good_draft; simp; fail) | (rule draft_same [OF _ _ _ draft_mono [OF good_draft]]; simp; fail))+
  done

lemma keeps_create_gig: "keeps (site_ok (market_good P0) d) (create_gig env user title description packages requirements)"
  apply (rule site_keepsI)
  apply (unfold create_gig_def)
  apply (rule market_rules | (simp add: site_ok_def; fail) | assumption
    | (rule draft_own [OF draft_same [OF _ _ _ good_draft]]; auto intro: validated_gig; fail))+
  done

lemma keeps_replace_gig: "keeps (site_ok (market_good P0) d) (replace_gig env user i title description active packages requirements)"
  apply (rule site_keepsI)
  apply (unfold replace_gig_def)
  apply (rule market_rules | (simp add: site_ok_def; fail) | assumption
    | (rule draft_own [OF good_draft]; auto simp: put_gig_def intro: validated_gig dest!: put_row_memD; fail))+
  done

lemma keeps_create_portfolio_item: "keeps (site_ok (market_good P0) d) (create_portfolio_item env user title description url)"
  apply (rule site_keepsI)
  apply (unfold create_portfolio_item_def)
  apply (rule market_rules | (simp add: site_ok_def; fail) | assumption
    | (rule draft_same [OF _ _ _ draft_mono [OF good_draft]]; simp; fail))+
  done

lemma keeps_delete_portfolio_item: "keeps (site_ok (market_good P0) d) (delete_portfolio_item env user i)"
  apply (rule site_keepsI)
  apply (unfold delete_portfolio_item_def)
  apply (rule market_rules | (simp add: site_ok_def; fail) | assumption
    | (rule draft_same [OF _ _ _ draft_mono [OF good_draft]]; simp; fail))+
  done

lemma wpI_replace_skills:
  assumes "draft X P0 d w" and "\<And>w'. draft X P0 d w' \<Longrightarrow> core w' = core w \<Longrightarrow> Q () (c, w')" and "\<And>e w'. E e (c, w')"
  shows "wp (replace_project_skills nfkc i vs) Q E (c, w)"
  unfolding replace_project_skills_def
  by (rule market_rules assms(1,3) | (rule assms(2), rule draft_same, simp_all add: set_project_skills_def; fail))+

lemma keeps_create_project: "keeps (site_ok (market_good P0) d) (create_project env nfkc user title description lo hi cur skills)"
  apply (rule site_keepsI)
  apply (unfold create_project_def)
  apply (rule wpI_replace_skills market_rules | (simp add: site_ok_def; fail) | assumption
    | (rule draft_projects, rule draft_same [OF _ _ _ good_draft]; simp; fail))+
  done

lemma keeps_update_project: "keeps (site_ok (market_good P0) d) (update_project env nfkc user i title description lo hi cur skills)"
  apply (rule site_keepsI)
  apply (unfold update_project_def)
  apply (rule wpI_replace_skills market_rules | (simp add: site_ok_def; fail) | assumption
    | (rule draft_edit, assumption, rule good_draft; simp add: project_step_def; fail))+
  done

lemma keeps_close_project: "keeps (site_ok (market_good P0) d) (close_project env user i)"
  apply (rule site_keepsI)
  apply (unfold close_project_def)
  apply (rule market_rules | (simp add: site_ok_def; fail) | assumption
    | (rule draft_edit, assumption, rule draft_mono, rule good_draft; simp add: project_step_def; fail)
    | (rule draft_edit, assumption, rule good_draft; simp add: project_step_def; fail))+
  done

lemma keeps_create_review: "keeps (site_ok (market_good P0) d) (create_review env user i rating comment)"
  apply (rule site_keepsI)
  apply (unfold create_review_def)
  apply (rule market_rules | (simp add: site_ok_def; fail) | assumption
    | (rule draft_same [OF _ _ _ draft_mono [OF good_draft]]; simp; fail))+
  done

section \<open>The marketplace beside the platform\<close>

inductive market_request :: "market site \<Rightarrow> market site \<Rightarrow> bool" where
  profiled: "market_request s (site_after (upsert_profile env nfkc user title bio rate cur tz accepting languages skills) s)"
| scheduled: "market_request s (site_after (replace_availability_rules env user rules) s)"
| excepted: "market_request s (site_after (upsert_availability_exception env user date available a b reason) s)"
| gig_offered: "market_request s (site_after (create_gig env user title description packages requirements) s)"
| gig_changed: "market_request s (site_after (replace_gig env user i title description active packages requirements) s)"
| item_shown: "market_request s (site_after (create_portfolio_item env user title description url) s)"
| item_removed: "market_request s (site_after (delete_portfolio_item env user i) s)"
| project_opened: "market_request s (site_after (create_project env nfkc user title description lo hi cur skills) s)"
| project_changed: "market_request s (site_after (update_project env nfkc user i title description lo hi cur skills) s)"
| project_closed: "market_request s (site_after (close_project env user i) s)"
| reviewed: "market_request s (site_after (create_review env user i rating comment) s)"

definition empty_market :: "market \<Rightarrow> bool" where
  "empty_market t \<longleftrightarrow> skill_rows t = [] \<and> profiles t = [] \<and> project_skills t = [] \<and> gigs t = [] \<and> portfolio_items t = [] \<and> reviews t = []"

definition projects_kept :: "market site \<Rightarrow> market site \<Rightarrow> bool" where
  "projects_kept s s' \<longleftrightarrow> develops pj_id project_step (projects (core s)) (projects (core s'))"

lemma market_request_good:
  assumes "market_request s s'" and "market_ok s"
  shows "market_ok s' \<and> projects_kept s s' \<and> beside (core s) (core s')"
proof -
  have here: "market_good (projects (core s)) s" using assms(2) by (simp add: market_good_def)
  note kept = keeps_upsert_profile keeps_replace_rules keeps_exception keeps_create_gig keeps_replace_gig keeps_create_portfolio_item
    keeps_delete_portfolio_item keeps_create_project keeps_update_project keeps_close_project keeps_create_review
  have "market_good (projects (core s)) s' \<and> beside (core s) (core s')"
    using assms(1) by cases (use kept [THEN site_after_keeps, OF here] in simp_all)
  then show ?thesis by (simp add: market_good_def projects_kept_def)
qed

interpretation market: site_history "\<lambda>s. empty_market (own s)" market_request market_ok projects_kept
proof
  show "market_ok s" if "empty_market (own s)" for s
    using that by (simp add: empty_market_def market_ok_def market_valid_def skills_valid_def reviews_valid_def)
  show "market_ok (s\<lparr>core := d\<rparr>)" if "market_ok s" "extends (core s) d" for s d
    using that by (auto simp: market_ok_def announced_def extends_def dest: set_mono_prefix)
qed (use market_request_good project_rows.trans in \<open>auto simp: projects_kept_def extends_def\<close>)

definition reachable_market :: "market site \<Rightarrow> bool" where
  "reachable_market s \<longleftrightarrow> reachable (site_start (\<lambda>s. empty_market (own s))) (site_step market_request) s"

lemma reachable_market_ok: "reachable_market s \<Longrightarrow> market_ok s \<and> sys_inv (core s)"
  unfolding reachable_market_def by (drule market.system.reachable_inv) (simp add: site_inv_def)

section \<open>Closing a project\<close>

text \<open>Everything the contract of a project pays for has been paid out.\<close>

definition project_settled :: "db \<Rightarrow> uuid \<Rightarrow> bool" where
  "project_settled d i \<longleftrightarrow> (\<exists>c v. row_by con_project_id i (contracts d) = Some c \<and> con_status c = CON_ACTIVE \<and> v \<in> set (contract_versions d) \<and>
     cv_contract_id v = con_id c \<and> cv_number v = con_current_version c \<and>
     (\<forall>m\<in>set (milestones d). ms_version_id m = cv_id v \<longrightarrow> ms_status m = MS_RELEASED \<and> escrow_bal (ms_id m) d = 0))"

lemma close_project_guard:
  assumes ok: "run_request (close_project env user i) s = (Inr p', s')"
  shows "\<exists>p c v. row_by pj_id i (projects (core s)) = Some p \<and> can_edit_project user p \<and> pj_status p = PJ_OPEN \<and> p' = p\<lparr>pj_status := PJ_CLOSED\<rparr> \<and>
    row_by con_project_id i (contracts (core s)) = Some c \<and> con_status c = CON_ACTIVE \<and>
    v \<in> set (contract_versions (core s)) \<and> cv_contract_id v = con_id c \<and> cv_number v = con_current_version c \<and>
    (\<forall>m\<in>set (milestones (core s)). ms_version_id m = cv_id v \<longrightarrow> ms_status m = MS_RELEASED)"
proof (rule run_request_ok [OF ok])
  show "wp (close_project env user i) (\<lambda>p' _. \<exists>p c v. row_by pj_id i (projects (core s)) = Some p \<and> can_edit_project user p \<and>
      pj_status p = PJ_OPEN \<and> p' = p\<lparr>pj_status := PJ_CLOSED\<rparr> \<and> row_by con_project_id i (contracts (core s)) = Some c \<and> con_status c = CON_ACTIVE \<and>
      v \<in> set (contract_versions (core s)) \<and> cv_contract_id v = con_id c \<and> cv_number v = con_current_version c \<and>
      (\<forall>m\<in>set (milestones (core s)). ms_version_id m = cv_id v \<longrightarrow> ms_status m = MS_RELEASED)) (\<lambda>_ _. True) (s, s)"
    unfolding close_project_def touch_search_projection_def commit_market_def flush_market_def
    by (rule wpI_site_project wpI_flush_projects site_rules TrueI | (auto simp: find_None_iff dest!: find_SomeD; fail))+
qed

lemma close_project_settles:
  assumes "sys_inv (core s)" and ok: "run_request (close_project env user i) s = (Inr p', s')"
  shows "project_settled (core s) i"
proof -
  have paid: "escrow_bal (ms_id m) (core s) = 0" if "m \<in> set (milestones (core s))" "ms_status m = MS_RELEASED" for m
  proof -
    have "escrow_bal (ms_id m) (core s) + reserved (ms_id m) (core s) = 0"
      using inv_milestone [OF assms(1) that(1)] that(2) by (simp add: milestone_ok_def)
    moreover have "0 \<le> escrow_bal (ms_id m) (core s)" "0 \<le> reserved (ms_id m) (core s)"
      by (rule escrow_bal_nonneg [OF assms(1)], rule reserved_nonneg [OF assms(1)])
    ultimately show ?thesis by simp
  qed
  show ?thesis using close_project_guard [OF ok] paid unfolding project_settled_def by blast
qed

section \<open>Replacing the packages of a gig\<close>

lemma packages_clash: "gig_ok g \<Longrightarrow> validate_packages ps = Inr qs \<Longrightarrow> \<not> packages_valid (gg_packages g @ qs)"
  using validated_gig [of ps qs "g\<lparr>gg_packages := qs\<rparr>"] by (auto simp: gig_ok_def packages_valid_def)

lemma replace_gig_fails:
  assumes "market_ok s"
  shows "\<exists>e. run_request (replace_gig env user i title description active packages requirements) s = (Inl e, s)"
proof -
  have ok: "gig_ok g" if "g \<in> set (gigs (own s))" for g using assms that by (simp add: market_ok_def)
  have "wp (replace_gig env user i title description active packages requirements) (\<lambda>_ _. False) (\<lambda>_ t. fst t = s) (s, s)"
    unfolding replace_gig_def
    by (rule wpI_get_gig site_rules | (simp; fail) | (use packages_clash ok in blast))+
  then show ?thesis by (auto simp: wp_def run_request_def split: prod.splits sum.splits)
qed

end
