(* ===== verification/Marketplace.thy ===== *)
theory Marketplace
  imports Catalogue Scenario_Release
begin

text \<open>
  What the marketplace promises in every state it can reach together with the platform, after a
  concrete market: a freelancer writes a profile and offers a gig, and the employer closes the
  project once its contract is paid out.
\<close>

definition market0 :: market where
  "market0 = \<lparr>market_next = 200, skill_rows = [], profiles = [], project_skills = [], gigs = [], portfolio_items = [], reviews = []\<rparr>"

definition demo_package :: gig_package where
  "demo_package = \<lparr>gp_tier = ''BASIC'', gp_amount = 100, gp_currency = ''USD'', gp_delivery = 3, gp_revisions = 1, gp_description = ''logo''\<rparr>"

definition shop0 :: "market site" where
  "shop0 = \<lparr>core = demo0, own = market0\<rparr>"
definition shop1 :: "market site" where
  "shop1 = site_after (upsert_profile demo_env (\<lambda>s. s) freelancer ''designer'' ''logos'' (Some 50) (Some ''USD'') ''UTC'' True [] []) shop0"
definition shop2 :: "market site" where
  "shop2 = site_after (create_gig demo_env freelancer ''logo'' ''a logo'' [demo_package] []) shop1"

text \<open>The market beside the finished contract of the platform's run\<close>

definition shop_paid :: "market site" where
  "shop_paid = \<lparr>core = demo11, own = market0\<rparr>"
definition shop_closed :: "market site" where
  "shop_closed = site_after (close_project demo_env employer 4) shop_paid"

section \<open>Evaluation\<close>

lemmas shop_defs = market0_def demo_package_def upsert_profile_def create_gig_def close_project_def touch_search_projection_def
  market_id_def find_profile_def put_profile_def refresh_event_def get_profile_by_user_id_def get_gig_def commit_market_def flush_market_def
  market_valid_def skills_valid_def profile_valid_def rules_valid_def exceptions_valid_def packages_valid_def reviews_valid_def
  validate_packages_def allowed_tiers_def tier_rank_def can_edit_project_def get_project_def put_project_def flush_projects_def
  project_row_valid_def modify_core_def site_after_def on_core_def query_own_def query_core_def modify_own_def flush_own_def

lemma basic_upper: "upper ''BASIC'' = ''BASIC''"
  by code_simp

lemma market_roles: "user_roles freelancer = [''freelancer'']" "user_roles employer = [''employer'']"
  by (simp_all add: freelancer_def employer_def)

lemmas shop_simps = shop_defs basic_upper market_roles run_defs demo_rows demo_env_sel

lemma shop1_state: "shop1 = \<lparr>core = core shop1, own = own shop1\<rparr>"
  "own shop1 = market0\<lparr>market_next := 201, profiles := [\<lparr>fp_id = 200, fp_user = 2, fp_title = ''designer'',
    fp_bio = ''logos'', fp_rate = Some 50, fp_currency = Some ''USD'', fp_timezone = ''UTC'', fp_accepting = True, fp_languages = [],
    fp_skills = [], fp_rules = [], fp_exceptions = [], fp_version = 2\<rparr>]\<rparr>"
  by (simp_all add: shop1_def shop0_def demo0_def empty_db_def shop_simps)



lemma shop_reachable: "reachable_market shop0" "reachable_market shop1" "reachable_market shop2" "reachable_market shop_paid"
proof -
  have blank: "empty_market market0" by (simp add: empty_market_def market0_def)
  show 0: "reachable_market shop0" unfolding reachable_market_def shop0_def
    by (rule reachable_beside [OF demo_reachable_0]) (simp add: blank)
  show "reachable_market shop_paid" unfolding reachable_market_def shop_paid_def
    by (rule reachable_beside [OF demo_reachable_11]) (simp add: blank)
  note go = reachable.continue [of "site_start (\<lambda>s. empty_market (own s))" "site_step market_request", folded reachable_market_def]
  show 1: "reachable_market shop1" unfolding shop1_def
    by (rule go [OF 0], rule site_step.served, rule market_request.profiled)
  show "reachable_market shop2" unfolding shop2_def
    by (rule go [OF 1], rule site_step.served, rule market_request.gig_offered)
qed

section \<open>Projects\<close>



text \<open>C36: A project keeps its employer, is only edited while it is open, and once closed is never written again,
  whatever the marketplace and the platform do.\<close>

theorem projects_follow_machine:
  assumes "reachable_market s" and "(site_step market_request)\<^sup>*\<^sup>* s s'" and "row_by pj_id i (projects (core s)) = Some p"
  shows "\<exists>p'. row_by pj_id i (projects (core s')) = Some p' \<and> pj_employer p' = pj_employer p \<and> (pj_status p \<noteq> PJ_OPEN \<longrightarrow> p' = p)"
proof -
  have "site_inv market_ok s" using assms(1) unfolding reachable_market_def by (rule market.system.reachable_inv)
  then have "projects_kept s s'" by (rule market.history.rel_steps [OF assms(2)])
  then obtain p' where p': "row_by pj_id i (projects (core s')) = Some p'" "project_step\<^sup>*\<^sup>* p p'"
    using assms(3) by (auto simp: projects_kept_def develops_def)
  from p'(2) have "pj_employer p' = pj_employer p" by induction (simp_all add: project_step_def)
  moreover have "p' = p" if "pj_status p \<noteq> PJ_OPEN" using p'(2) by (rule stuck) (use that in \<open>simp add: project_step_def\<close>)
  ultimately show ?thesis using p'(1) by blast
qed

theorem projects_follow_machine_witness:
  "\<exists>p'. row_by pj_id 4 (projects (core shop_closed)) = Some p' \<and> pj_employer p' = 1"
proof -
  have "(site_step market_request)\<^sup>*\<^sup>* shop_paid shop_closed"
    unfolding shop_closed_def by (rule r_into_rtranclp, rule site_step.served, rule market_request.project_closed)
  from projects_follow_machine [OF shop_reachable(4) this, of 4 demo_project] show ?thesis
    by (simp add: shop_paid_def demo11_state row_by_def demo_project_def demo_rows)
qed

section \<open>Profiles and gigs\<close>

text \<open>The search projection is told of every change: the outbox holds a refresh event for each profile in
  the version that is stored, in every state the marketplace and the platform can reach.\<close>

theorem profiles_announced:
  assumes "reachable_market s" and "p \<in> set (profiles (own s))"
  shows "refresh_event p \<in> set (outbox (core s))"
  using reachable_market_ok [OF assms(1)] assms(2) by (simp add: market_ok_def announced_def)

theorem profiles_announced_witness: "refresh_event (hd (profiles (own shop1))) \<in> set (outbox (core shop1))"
  using profiles_announced [OF shop_reachable(2), of "hd (profiles (own shop1))"] by (simp add: shop1_state(2))



end
