(* ===== verification/Paging.thy ===== *)
theory Paging
  imports Prelude
begin

text \<open>
  Keyset pagination, as the list queries of disputes and risk assessments use it: the newest rows first,
  ties broken by id, and a page starts after the row its cursor names. Walking from page to page gives
  every row once, in that order.
\<close>

section \<open>Pages\<close>

definition recent_first :: "('r \<Rightarrow> nat) \<Rightarrow> ('r \<Rightarrow> nat) \<Rightarrow> 'r list \<Rightarrow> 'r list" where
  "recent_first created ident rows = rev (sort_key created (sort_key ident rows))"

definition earlier :: "('r \<Rightarrow> nat) \<Rightarrow> ('r \<Rightarrow> nat) \<Rightarrow> 'r \<Rightarrow> 'r \<Rightarrow> bool" where
  "earlier created ident c r \<longleftrightarrow> created r < created c \<or> created r = created c \<and> ident r < ident c"

definition page_after :: "('r \<Rightarrow> nat) \<Rightarrow> ('r \<Rightarrow> nat) \<Rightarrow> nat \<Rightarrow> 'r option \<Rightarrow> 'r list \<Rightarrow> 'r list \<times> nat option" where
  "page_after created ident limit cursor rows =
    (let found = take (Suc limit) (recent_first created ident
           (filter (\<lambda>r. case cursor of None \<Rightarrow> True | Some c \<Rightarrow> earlier created ident c r) rows));
         items = take limit found in
     (items, if limit < length found \<and> items \<noteq> [] then Some (ident (last items)) else None))"

section \<open>The order of the rows\<close>

lemma set_recent_first [simp]: "set (recent_first created ident rows) = set rows"
  by (simp add: recent_first_def)

lemma length_recent_first [simp]: "length (recent_first created ident rows) = length rows"
  by (simp add: recent_first_def)

lemma recent_first_filter: "recent_first created ident (filter P rows) = filter P (recent_first created ident rows)"
  by (simp add: recent_first_def filter_sort [symmetric] rev_filter)

lemma sort_key_lex:
  assumes "sorted_wrt (\<lambda>a b. ident a \<le> ident b) xs"
  shows "sorted_wrt (\<lambda>a b. created a < created b \<or> created a = created b \<and> ident a \<le> ident b) (sort_key (created :: 'r \<Rightarrow> nat) xs)"
proof -
  let ?ys = "sort_key created xs"
  have sorted: "sorted (map created ?ys)" by simp
  have stable: "filter (\<lambda>x. created x = k) ?ys = filter (\<lambda>x. created x = k) xs" for k by (rule sort_key_stable)
  show ?thesis unfolding sorted_wrt_iff_nth_less
  proof (intro allI impI)
    fix i j assume ij: "i < j" "j < length ?ys"
    let ?a = "?ys ! i" and ?b = "?ys ! j"
    have le: "created ?a \<le> created ?b" using sorted ij by (auto simp: sorted_iff_nth_mono)
    show "created ?a < created ?b \<or> created ?a = created ?b \<and> ident ?a \<le> ident ?b"
    proof (cases "created ?a = created ?b")
      case True
      let ?P = "\<lambda>x. created x = created ?b"
      have "?ys = take j ?ys @ ?b # drop (Suc j) ?ys" using ij(2) by (simp add: id_take_nth_drop)
      then have "filter ?P ?ys = filter ?P (take j ?ys) @ ?b # filter ?P (drop (Suc j) ?ys)"
        by (metis (mono_tags, lifting) filter.simps(2) filter_append)
      then have "sorted_wrt (\<lambda>a b. ident a \<le> ident b) (filter ?P (take j ?ys) @ ?b # filter ?P (drop (Suc j) ?ys))"
        using sorted_wrt_filter [OF assms, of ?P] by (simp add: stable)
      moreover have "?a \<in> set (filter ?P (take j ?ys))" using ij True by (auto simp: in_set_conv_nth intro!: exI [of _ i])
      ultimately show ?thesis using True by (auto simp: sorted_wrt_append)
    qed (use le in simp)
  qed
qed

lemma recent_first_sorted:
  assumes "distinct (map ident rows)"
  shows "sorted_wrt (earlier created ident) (recent_first created ident rows)"
proof -
  have "sorted_wrt (\<lambda>a b. created a < created b \<or> created a = created b \<and> ident a \<le> ident b) (sort_key created (sort_key ident rows))"
    by (rule sort_key_lex) (use sorted_sort_key [of ident rows] in \<open>simp add: sorted_map\<close>)
  moreover have "distinct (map ident (sort_key created (sort_key ident rows)))"
    using assms by (simp add: distinct_map)
  ultimately have "sorted_wrt (\<lambda>a b. earlier created ident b a) (sort_key created (sort_key ident rows))"
    unfolding sorted_wrt_iff_nth_less distinct_conv_nth
    by (auto simp: earlier_def order_less_le)
  then show ?thesis unfolding recent_first_def by (simp add: sorted_wrt_rev)
qed

lemma earlier_drop:
  assumes "sorted_wrt (earlier created ident) xs" and "k < length xs"
  shows "filter (earlier created ident (xs ! k)) xs = drop (Suc k) xs"
proof -
  have asym: "earlier created ident a b \<Longrightarrow> \<not> earlier created ident b a" "\<not> earlier created ident a a" for a b
    by (auto simp: earlier_def)
  have xs: "xs = take (Suc k) xs @ drop (Suc k) xs" by simp
  have "filter (earlier created ident (xs ! k)) (take (Suc k) xs) = []"
    using assms asym by (auto simp: filter_empty_conv in_set_conv_nth sorted_wrt_iff_nth_less less_Suc_eq)
  moreover have "filter (earlier created ident (xs ! k)) (drop (Suc k) xs) = drop (Suc k) xs"
    using assms by (auto simp: filter_id_conv in_set_conv_nth sorted_wrt_iff_nth_less)
  ultimately show ?thesis by (metis append_Nil filter_append xs)
qed

section \<open>Walking the pages\<close>

fun walk :: "(nat option \<Rightarrow> ('r list \<times> nat option) option) \<Rightarrow> nat \<Rightarrow> nat option \<Rightarrow> 'r list option" where
  "walk fetch 0 cursor = None"
| "walk fetch (Suc n) cursor = (case fetch cursor of None \<Rightarrow> None
     | Some (items, None) \<Rightarrow> Some items
     | Some (items, Some i) \<Rightarrow> map_option (\<lambda>rest. items @ rest) (walk fetch n (Some i)))"

lemma walk_mono: "walk fetch m cursor = Some r \<Longrightarrow> m \<le> n \<Longrightarrow> walk fetch n cursor = Some r"
proof (induction m arbitrary: n cursor r)
  case (Suc m)
  then obtain n' where "n = Suc n'" "m \<le> n'" by (cases n) auto
  show ?case
  proof (cases "fetch cursor")
    case (Some p)
    obtain items next_id where p: "p = (items, next_id)" by (cases p)
    show ?thesis
    proof (cases next_id)
      case (Some i)
      then obtain rest where "walk fetch m (Some i) = Some rest" "r = items @ rest"
        using Suc.prems(1) \<open>fetch cursor = Some p\<close> p by auto
      then show ?thesis using Suc.IH [OF _ \<open>m \<le> n'\<close>] \<open>fetch cursor = Some p\<close> \<open>n = Suc n'\<close> p Some by simp
    qed (use Suc.prems(1) \<open>fetch cursor = Some p\<close> \<open>n = Suc n'\<close> p in simp)
  qed (use Suc.prems(1) in simp)
qed simp

lemma walk_complete:
  assumes ids: "distinct (map ident rows)" and limit: "0 < limit"
    and first: "fetch None = Some (page_after created ident limit None rows)"
    and more: "\<And>r. r \<in> set rows \<Longrightarrow> fetch (Some (ident r)) = Some (page_after created ident limit (Some r) rows)"
  shows "walk fetch (Suc (length rows)) None = Some (recent_first created ident rows)"
proof -
  let ?L = "recent_first created ident rows"
  have sorted: "sorted_wrt (earlier created ident) ?L" by (rule recent_first_sorted [OF ids])
  have page: "page_after created ident limit cursor rows = (take limit (drop k ?L),
      if k + limit < length rows then Some (ident (?L ! (k + limit - 1))) else None)"
    if "(cursor = None \<and> k = 0) \<or> (\<exists>j. cursor = Some (?L ! j) \<and> k = Suc j \<and> j < length rows)" for cursor k
  proof -
    have found: "recent_first created ident (filter (\<lambda>r. case cursor of None \<Rightarrow> True | Some c \<Rightarrow> earlier created ident c r) rows) = drop k ?L"
      using that
    proof (elim disjE conjE exE)
      fix j assume j: "cursor = Some (?L ! j)" "k = Suc j" "j < length rows"
      then have "filter (earlier created ident (?L ! j)) ?L = drop (Suc j) ?L" by (intro earlier_drop [OF sorted]) simp
      then show ?thesis using j(1,2) by (simp add: recent_first_filter)
    qed (simp add: recent_first_filter)
    have items: "take limit (take (Suc limit) (drop k ?L)) = take limit (drop k ?L)" by (simp add: min_def)
    have len: "limit < length (take (Suc limit) (drop k ?L)) \<longleftrightarrow> k + limit < length rows" by auto
    show ?thesis
    proof (cases "k + limit < length rows")
      case True
      then have "take limit (drop k ?L) \<noteq> [] \<and> last (take limit (drop k ?L)) = ?L ! (k + limit - 1)"
        using limit by (simp add: last_conv_nth)
      then show ?thesis unfolding page_after_def Let_def found items len using True by simp
    next
      case False
      then show ?thesis unfolding page_after_def Let_def found items len by simp
    qed
  qed
  have rest: "walk fetch (Suc (length rows - k)) cursor = Some (drop k ?L)"
    if "fetch cursor = Some (page_after created ident limit c rows)" "k \<le> length rows"
      "(c = None \<and> k = 0) \<or> (\<exists>j. c = Some (?L ! j) \<and> k = Suc j \<and> j < length rows)" for cursor c k
    using that
  proof (induction "length rows - k" arbitrary: cursor c k rule: less_induct)
    case less
    show ?case
    proof (cases "k + limit < length rows")
      case False
      then show ?thesis using less.prems(1) page [OF less.prems(3)] by simp
    next
      case True
      let ?j = "k + limit - 1"
      have j: "?j < length rows" "Suc ?j = k + limit" using True limit by simp_all
      have "?L ! ?j \<in> set rows" using j(1) nth_mem [of ?j ?L] by simp
      note next_page = more [OF this]
      have "walk fetch (Suc (length rows - (k + limit))) (Some (ident (?L ! ?j))) = Some (drop (k + limit) ?L)"
        by (rule less.hyps [OF _ next_page]) (use j True limit in auto)
      moreover have "Suc (length rows - (k + limit)) \<le> length rows - k" using limit True by arith
      ultimately have "walk fetch (length rows - k) (Some (ident (?L ! ?j))) = Some (drop (k + limit) ?L)" by (rule walk_mono)
      moreover have "take limit (drop k ?L) @ drop (k + limit) ?L = drop k ?L" by (metis append_take_drop_id drop_drop add.commute)
      ultimately show ?thesis using less.prems(1) page [OF less.prems(3)] True by simp
    qed
  qed
  show ?thesis using rest [OF first, of 0] by simp
qed

end
