(* ===== verification/Casebook.thy ===== *)
theory Casebook
  imports Disputes Paging
begin

text \<open>
  The dispute queries (\<open>disputes/query.py\<close>): the disputes an administrator or a party sees, page by page,
  and the response for one case.
\<close>

definition visible_disputes :: "user \<Rightarrow> db \<Rightarrow> dispute list" where
  "visible_disputes user d = (if is_admin user then disputes d
     else filter (\<lambda>x. list_ex (\<lambda>p. dpp_dispute p = dp_id x \<and> dpp_user p = user_id user) (dispute_parties d)) (disputes d))"

definition dispute_filter :: "string option \<Rightarrow> exn + dispute_status option" where
  "dispute_filter status = (case status of None \<Rightarrow> Inr None | Some s \<Rightarrow>
     let name = upper (strip s) in
     if name = [] then Inr None
     else case dispute_status_of name of None \<Rightarrow> Inl (ApiError ''validation_error'' 422) | Some x \<Rightarrow> Inr (Some x))"

definition selected_disputes :: "user \<Rightarrow> dispute_status option \<Rightarrow> db \<Rightarrow> dispute list" where
  "selected_disputes user st d = filter (\<lambda>x. case st of None \<Rightarrow> True | Some y \<Rightarrow> dp_status x = y) (visible_disputes user d)"

definition list_disputes_for_user :: "user \<Rightarrow> uuid option \<Rightarrow> int \<Rightarrow> string option \<Rightarrow> (dispute list \<times> uuid option) dbop" where
  "list_disputes_for_user user after limit status =
    (if limit < 1 \<or> 100 < limit then raise (ApiError ''validation_error'' 422) else
     bnd (lift_result (dispute_filter status)) (\<lambda>st.
     bnd (query (selected_disputes user st)) (\<lambda>rows.
     case after of
       None \<Rightarrow> ret (page_after dp_created_at dp_id (nat limit) None rows)
     | Some i \<Rightarrow> bnd (query (\<lambda>d. row_by dp_id i (visible_disputes user d))) (\<lambda>c.
         case c of None \<Rightarrow> raise (ApiError ''validation_error'' 422)
         | Some x \<Rightarrow> ret (page_after dp_created_at dp_id (nat limit) (Some x) rows)))))"

definition serialize_dispute_case :: "env \<Rightarrow> dispute \<Rightarrow> json dbop" where
  "serialize_dispute_case env x =
    bnd (query (serialize_dispute env x)) (\<lambda>payload.
    bnd (query (\<lambda>d. row_by ms_id (dp_milestone x) (milestones d))) (\<lambda>r.
    case r of None \<Rightarrow> raise (ApiError ''milestone_not_found'' 404) | Some m \<Rightarrow>
    ret (JObj ((case payload of JObj kvs \<Rightarrow> kvs | _ \<Rightarrow> []) @
      [(''milestone'', JObj [(''id'', j_id (ms_id m)), (''sequence'', JInt (ms_sequence m)), (''title'', JStr (ms_title m)),
         (''amount_minor'', JInt (ms_amount m)), (''currency'', JStr (ms_currency m)),
         (''status'', JStr (milestone_status_str (ms_status m)))])]))))"

section \<open>Walking the pages\<close>

definition dispute_page :: "user \<Rightarrow> int \<Rightarrow> string option \<Rightarrow> db \<Rightarrow> uuid option \<Rightarrow> (dispute list \<times> uuid option) option" where
  "dispute_page user limit status d cursor =
    (case run_request (list_disputes_for_user user cursor limit status) d of (Inr p, _) \<Rightarrow> Some p | (Inl e, _) \<Rightarrow> None)"

lemma selected_visible: "set (selected_disputes user st d) \<subseteq> set (visible_disputes user d)"
  by (auto simp: selected_disputes_def)

lemma visible_ids: "distinct (map dp_id (disputes d)) \<Longrightarrow> distinct (map dp_id (visible_disputes user d))"
  by (auto simp: visible_disputes_def intro: distinct_map_filter)

lemma walk_disputes:
  assumes ids: "distinct (map dp_id (disputes d))" and limit: "1 \<le> limit" "limit \<le> 100" and st: "dispute_filter status = Inr st"
  shows "walk (dispute_page user limit status d) (Suc (length (selected_disputes user st d))) None =
    Some (recent_first dp_created_at dp_id (selected_disputes user st d))"
proof (rule walk_complete [of _ _ "nat limit"])
  show "distinct (map dp_id (selected_disputes user st d))"
    unfolding selected_disputes_def by (rule distinct_map_filter) (rule visible_ids [OF ids])
  show "dispute_page user limit status d None = Some (page_after dp_created_at dp_id (nat limit) None (selected_disputes user st d))"
    using limit st by (simp add: dispute_page_def list_disputes_for_user_def run_request_def bnd_def lift_result_def ret_def query_def)
  show "dispute_page user limit status d (Some (dp_id r)) = Some (page_after dp_created_at dp_id (nat limit) (Some r) (selected_disputes user st d))"
    if "r \<in> set (selected_disputes user st d)" for r
  proof -
    have "row_by dp_id (dp_id r) (visible_disputes user d) = Some r"
      using selected_visible that visible_ids [OF ids] by (subst row_by_Some_iff) auto
    then show ?thesis
      using limit st by (simp add: dispute_page_def list_disputes_for_user_def run_request_def bnd_def lift_result_def ret_def query_def)
  qed
qed (use limit in simp)

end
