(* ===== verification/Risk.thy ===== *)
theory Risk
  imports Site Paging "HOL-Library.Sublist"
begin

text \<open>
  Risk assessments (\<open>app/fraud/\<close>): an administrator has a text of a user scored by rules over the user's
  record; a high score waits for a review, no score acts by itself. What depends on creation times that
  the rows of the core do not keep (recent messages and proposals, the age of the account in hundredths
  of a day) is the argument \<open>recent\<close>. Texts are of code points below 256.
\<close>

section \<open>Rows\<close>

record recent_activity =
  ac_messages :: int
  ac_proposals :: int
  ac_age :: nat

record risk_signals =
  sg_urls :: int
  sg_terms :: "string list"
  sg_velocity :: int
  sg_age :: nat
  sg_failed :: int
  sg_burst :: int
  sg_disputes :: int
  sg_duplicates :: int

record risk_assessment =
  ra_id :: uuid
  ra_subject :: uuid
  ra_requested_by :: uuid
  ra_model :: string
  ra_feature :: string
  ra_text_hash :: string
  ra_score :: int
  ra_reasons :: "string list"
  ra_signals :: risk_signals
  ra_status :: string
  ra_reviewer :: "uuid option"
  ra_note :: "string option"
  ra_created :: nat
  ra_reviewed :: "nat option"

record risk =
  risk_next :: nat
  assessments :: "risk_assessment list"

type_synonym 'a risk_op = "(risk, 'a) sop"

definition review_statuses :: "string list" where
  "review_statuses = [''NOT_REQUIRED'', ''PENDING'', ''CLEARED'', ''ESCALATED'']"

definition assessment_valid :: "risk_assessment \<Rightarrow> bool" where
  "assessment_valid a \<longleftrightarrow> 0 \<le> ra_score a \<and> ra_score a \<le> 10000 \<and> ra_status a \<in> set review_statuses \<and>
     (ra_status a \<in> {''NOT_REQUIRED'', ''PENDING''} \<and> ra_reviewer a = None \<and> ra_reviewed a = None \<or>
      ra_status a \<in> {''CLEARED'', ''ESCALATED''} \<and> ra_reviewer a \<noteq> None \<and> ra_reviewed a \<noteq> None)"

definition commit_risk :: "unit risk_op" where
  "commit_risk = seq (flush_own (\<lambda>t. list_all assessment_valid (assessments t))) commit"

section \<open>Signals\<close>

definition off_platform_terms :: "string list" where
  "off_platform_terms = [''telegram'', ''whatsapp'', ''contact me at'', ''pay outside'', ''outside the platform'', ''crypto payment'']"

text \<open>Matches of \<open>https?://|www\.\<close>, found from left to right in the text in lower case\<close>

fun url_matches :: "string \<Rightarrow> nat" where
  "url_matches [] = 0"
| "url_matches (c # s) =
    (if prefix ''http://'' (c # s) then Suc (url_matches (drop 6 s))
     else if prefix ''https://'' (c # s) then Suc (url_matches (drop 7 s))
     else if prefix ''www.'' (c # s) then Suc (url_matches (drop 3 s))
     else url_matches s)"

definition risk_signals_of :: "recent_activity \<Rightarrow> uuid \<Rightarrow> string \<Rightarrow> string \<Rightarrow> db \<Rightarrow> risk \<Rightarrow> risk_signals" where
  "risk_signals_of recent u text text_hash d t =
    \<lparr>sg_urls = int (url_matches (lower text)),
     sg_terms = filter (\<lambda>term. sublist term (casefold text)) off_platform_terms,
     sg_velocity = ac_messages recent,
     sg_age = ac_age recent,
     sg_failed = int (length (filter (\<lambda>i. pi_employer i = u \<and> pi_status i = PI_FAILED) (intents d))),
     sg_burst = ac_proposals recent,
     sg_disputes = int (length (filter (\<lambda>p. dpp_user p = u) (dispute_parties d))),
     sg_duplicates = int (length (filter (\<lambda>a. ra_subject a = u \<and> ra_text_hash a = text_hash) (assessments t)))\<rparr>"

text \<open>Each rule contributes points and a reason, or nothing.\<close>

definition rule_points :: "risk_signals \<Rightarrow> (int \<times> string) list" where
  "rule_points g =
    (if 3 \<le> sg_urls g then [(min 2400 (sg_urls g * 800), ''url_spam'')] else []) @
    (if sg_terms g \<noteq> [] then [(2000, ''off_platform_contact'')] else []) @
    (if 20 \<le> sg_velocity g then [(1500, ''high_message_velocity'')]
     else if 10 \<le> sg_velocity g then [(800, ''elevated_message_velocity'')] else []) @
    (if sg_age g < 100 then [(1200, ''new_account'')] else if sg_age g < 700 then [(600, ''young_account'')] else []) @
    (if sg_failed g \<noteq> 0 then [(min 1500 (sg_failed g * 500), ''payment_failures'')] else []) @
    (if 10 \<le> sg_burst g then [(1500, ''proposal_burst'')] else if 5 \<le> sg_burst g then [(800, ''elevated_proposal_rate'')] else []) @
    (if 3 \<le> sg_disputes g then [(1000, ''repeated_disputes'')] else []) @
    (if 2 \<le> sg_duplicates g then [(1000, ''duplicate_text'')] else [])"

definition risk_score :: "risk_signals \<Rightarrow> int \<times> string list" where
  "risk_score g = (min 10000 (sum_list (map fst (rule_points g))), map snd (rule_points g))"

definition review_threshold :: int where
  "review_threshold = 6000"

section \<open>Responses\<close>

text \<open>The text of a float with at most \<open>k\<close> decimals, at least one of them shown\<close>

definition decimal_text :: "nat \<Rightarrow> nat \<Rightarrow> string" where
  "decimal_text k n = (let ds = map (\<lambda>i. digit (n div 10 ^ (k - Suc i) mod 10)) [0..<k];
     shown = rev (dropWhile (\<lambda>c. c = CHR ''0'') (rev (tl ds))) in
     str_int (int (n div 10 ^ k)) @ ''.'' @ hd ds # shown)"

definition signals_json :: "risk_signals \<Rightarrow> json" where
  "signals_json g = JObj
     [(''url_count'', JInt (sg_urls g)), (''off_platform_terms'', JList (map JStr (sg_terms g))),
      (''message_velocity_10m'', JInt (sg_velocity g)), (''account_age_days'', JFloat (decimal_text 2 (sg_age g))),
      (''failed_payment_count'', JInt (sg_failed g)), (''proposal_burst_1h'', JInt (sg_burst g)),
      (''dispute_count'', JInt (sg_disputes g)), (''duplicate_text_prior_assessments'', JInt (sg_duplicates g))]"

definition serialize_assessment :: "env \<Rightarrow> risk_assessment \<Rightarrow> json" where
  "serialize_assessment env a = JObj
     [(''id'', j_id (ra_id a)), (''subject_user_id'', j_id (ra_subject a)), (''model_version'', JStr (ra_model a)),
      (''feature_version'', JStr (ra_feature a)), (''risk_score'', JFloat (decimal_text 4 (nat (ra_score a)))),
      (''risk_score_basis_points'', JInt (ra_score a)), (''reasons'', JList (map JStr (ra_reasons a))),
      (''signals'', signals_json (ra_signals a)), (''review_status'', JStr (ra_status a)),
      (''reviewer_user_id'', j_opt j_id (ra_reviewer a)), (''review_note'', j_opt JStr (ra_note a)),
      (''created_at'', JStr (env_iso env (ra_created a))), (''reviewed_at'', j_opt (\<lambda>t. JStr (env_iso env t)) (ra_reviewed a)),
      (''automatic_action'', JNull)]"

section \<open>Operations\<close>

definition risk_id :: "uuid risk_op" where
  "risk_id = bnd (query_own risk_next) (\<lambda>i. seq (modify_own (\<lambda>t. t\<lparr>risk_next := Suc i\<rparr>)) (ret i))"

definition assess_risk :: "env \<Rightarrow> user \<Rightarrow> (uuid \<Rightarrow> recent_activity) \<Rightarrow> uuid \<Rightarrow> string \<Rightarrow> risk_assessment risk_op" where
  "assess_risk env admin recent u text =
    bnd (query_core (\<lambda>d. row_by user_id u (users d))) (\<lambda>subject.
    case subject of None \<Rightarrow> raise (ApiError ''user_not_found'' 404) | Some x \<Rightarrow>
    let text' = strip text in
    if 20000 < length text' then raise (ApiError ''validation_error'' 422) else
    let h = env_sha256 env (casefold text') in
    bnd (query (\<lambda>s. risk_signals_of (recent u) u text' h (core s) (own s))) (\<lambda>g.
    let (score, reasons) = risk_score g in
    bnd risk_id (\<lambda>i.
    let a = \<lparr>ra_id = i, ra_subject = u, ra_requested_by = user_id admin, ra_model = ''fraud-rules-v1'', ra_feature = ''fraud-signals-v1'',
             ra_text_hash = h, ra_score = score, ra_reasons = reasons, ra_signals = g,
             ra_status = (if review_threshold \<le> score then ''PENDING'' else ''NOT_REQUIRED''), ra_reviewer = None, ra_note = None,
             ra_created = env_now env, ra_reviewed = None\<rparr> in
    seq (modify_own (\<lambda>t. t\<lparr>assessments := assessments t @ [a]\<rparr>)) (
    seq (on_core (record_audit_event env ''risk.assessed'' ''risk_assessment'' (Some (user_id admin)) (Some (str_uuid i)) None None
           (JObj [(''subject_user_id'', j_id u), (''score_basis_points'', JInt score), (''reasons'', JList (map JStr reasons)),
                  (''review_status'', JStr (ra_status a))]))) (
    seq commit_risk (ret a)))))) "

definition put_assessment :: "risk_assessment \<Rightarrow> risk \<Rightarrow> risk" where
  "put_assessment a t = t\<lparr>assessments := put_row ra_id a (assessments t)\<rparr>"

definition review_assessment :: "env \<Rightarrow> user \<Rightarrow> uuid \<Rightarrow> string \<Rightarrow> string \<Rightarrow> risk_assessment risk_op" where
  "review_assessment env admin i decision note =
    bnd (query_own (\<lambda>t. row_by ra_id i (assessments t))) (\<lambda>r.
    case r of None \<Rightarrow> raise (ApiError ''assessment_not_found'' 404) | Some a \<Rightarrow>
    let dec = upper (strip decision); text = strip note in
    if dec \<notin> {''CLEAR'', ''ESCALATE''} then raise (ApiError ''validation_error'' 422)
    else if 2000 < length text then raise (ApiError ''validation_error'' 422) else
    let a' = a\<lparr>ra_status := (if dec = ''CLEAR'' then ''CLEARED'' else ''ESCALATED''), ra_reviewer := Some (user_id admin),
               ra_note := (if text = [] then None else Some text), ra_reviewed := Some (env_now env)\<rparr> in
    seq (modify_own (put_assessment a')) (
    seq (on_core (record_audit_event env ''risk.reviewed'' ''risk_assessment'' (Some (user_id admin)) (Some (str_uuid i)) None None
           (JObj [(''subject_user_id'', j_id (ra_subject a)), (''before_status'', JStr (ra_status a)),
                  (''after_status'', JStr (ra_status a')), (''decision'', JStr dec), (''note'', JStr text)]))) (
    seq commit_risk (ret a'))))"

section \<open>The review queue\<close>

definition assessment_filter :: "string option \<Rightarrow> exn + string option" where
  "assessment_filter status = (case status of None \<Rightarrow> Inr None | Some s \<Rightarrow>
     let name = upper (strip s) in
     if name = [] then Inr None
     else if name \<notin> set review_statuses then Inl (ApiError ''validation_error'' 422) else Inr (Some name))"

definition selected_assessments :: "string option \<Rightarrow> risk \<Rightarrow> risk_assessment list" where
  "selected_assessments st t = filter (\<lambda>a. case st of None \<Rightarrow> True | Some x \<Rightarrow> ra_status a = x) (assessments t)"

definition assessment_page :: "uuid option \<Rightarrow> int \<Rightarrow> string option \<Rightarrow> (risk_assessment list \<times> uuid option) risk_op" where
  "assessment_page cursor limit status =
    (if limit < 1 \<or> 100 < limit then raise (ApiError ''validation_error'' 422) else
     bnd (lift_result (assessment_filter status)) (\<lambda>st.
     bnd (query_own (selected_assessments st)) (\<lambda>rows.
     case cursor of
       None \<Rightarrow> ret (page_after ra_created ra_id (nat limit) None rows)
     | Some i \<Rightarrow> bnd (query_own (\<lambda>t. row_by ra_id i (assessments t))) (\<lambda>c.
         case c of None \<Rightarrow> raise (ApiError ''validation_error'' 422)
         | Some x \<Rightarrow> ret (page_after ra_created ra_id (nat limit) (Some x) rows)))))"

definition list_assessments :: "env \<Rightarrow> uuid option \<Rightarrow> int \<Rightarrow> string option \<Rightarrow> json risk_op" where
  "list_assessments env cursor limit status = bnd (assessment_page cursor limit status) (\<lambda>(items, next_after).
     ret (JObj [(''items'', JList (map (serialize_assessment env) items)), (''next_after'', j_opt j_id next_after)]))"

section \<open>Scores\<close>

lemma points_positive: "0 \<le> sg_urls g \<Longrightarrow> 0 \<le> sg_failed g \<Longrightarrow> (n, r) \<in> set (rule_points g) \<Longrightarrow> 0 < n \<and> n \<le> 2400"
  by (auto simp: rule_points_def split: if_splits)

lemma score_range:
  assumes "0 \<le> sg_urls g" and "0 \<le> sg_failed g"
  shows "0 \<le> fst (risk_score g) \<and> fst (risk_score g) \<le> 10000"
proof -
  have "0 \<le> sum_list (map fst (rule_points g))" using points_positive [OF assms] by (intro sum_list_nonneg) fastforce
  then show ?thesis by (simp add: risk_score_def)
qed

text \<open>The three heaviest rules add up to 5900 points.\<close>

lemma threshold_needs_four:
  assumes "review_threshold \<le> fst (risk_score g)"
  shows "4 \<le> length (snd (risk_score g))"
proof -
  define a1 a2 a3 a4 a5 a6 a7 a8 :: int where a: "a1 = of_bool (3 \<le> sg_urls g)" "a2 = of_bool (sg_terms g \<noteq> [])"
    "a3 = of_bool (10 \<le> sg_velocity g)" "a4 = of_bool (sg_age g < 700)" "a5 = of_bool (sg_failed g \<noteq> 0)"
    "a6 = of_bool (5 \<le> sg_burst g)" "a7 = of_bool (3 \<le> sg_disputes g)" "a8 = of_bool (2 \<le> sg_duplicates g)"
  have "sum_list (map fst (rule_points g)) \<le>
      2400 * a1 + (2000 * a2 + (1500 * a3 + (1200 * a4 + (1500 * a5 + (1500 * a6 + (1000 * a7 + 1000 * a8))))))"
    unfolding rule_points_def map_append sum_list_append a by (intro add_mono) simp_all
  moreover have "int (length (rule_points g)) = a1 + (a2 + (a3 + (a4 + (a5 + (a6 + (a7 + a8))))))"
    unfolding rule_points_def length_append of_nat_add a by (intro arg_cong2 [where f = "(+)"]) simp_all
  moreover have "a1 \<le> 1" "a2 \<le> 1" "a3 \<le> 1" "a4 \<le> 1" "a5 \<le> 1" "a6 \<le> 1" "a7 \<le> 1" "a8 \<le> 1"
    "0 \<le> a1" "0 \<le> a2" "0 \<le> a3" "0 \<le> a4" "0 \<le> a5" "0 \<le> a6" "0 \<le> a7" "0 \<le> a8"
    by (simp_all add: a)
  ultimately have "4 \<le> int (length (rule_points g))" using assms by (simp add: risk_score_def review_threshold_def)
  then show ?thesis by (simp add: risk_score_def)
qed

section \<open>The invariant\<close>

definition assessment_ok :: "risk_assessment \<Rightarrow> bool" where
  "assessment_ok a \<longleftrightarrow> (ra_score a, ra_reasons a) = risk_score (ra_signals a) \<and>
     (ra_status a = ''PENDING'' \<longrightarrow> review_threshold \<le> ra_score a) \<and> (ra_status a = ''NOT_REQUIRED'' \<longrightarrow> ra_score a < review_threshold)"

definition risk_ok :: "risk \<Rightarrow> bool" where
  "risk_ok t \<longleftrightarrow> fresh_ids ra_id (assessments t) (risk_next t) \<and> list_all assessment_valid (assessments t) \<and>
     list_all assessment_ok (assessments t)"

definition assessment_step :: "risk_assessment \<Rightarrow> risk_assessment \<Rightarrow> bool" where
  "assessment_step a a' \<longleftrightarrow> ra_status a' \<in> {''CLEARED'', ''ESCALATED''} \<and>
     a' = a\<lparr>ra_status := ra_status a', ra_reviewer := ra_reviewer a', ra_note := ra_note a', ra_reviewed := ra_reviewed a'\<rparr>"

interpretation assessment_rows: row_history ra_id assessment_step
  by unfold_locales (metis (no_types, lifting) assessment_step_def risk_assessment.select_convs(1) risk_assessment.surjective risk_assessment.update_convs(10-12,14))

definition risk_kept :: "risk \<Rightarrow> risk \<Rightarrow> bool" where
  "risk_kept t t' \<longleftrightarrow> develops ra_id assessment_step (assessments t) (assessments t')"

definition risk_good :: "risk \<Rightarrow> risk site \<Rightarrow> bool" where
  "risk_good t0 s \<longleftrightarrow> risk_ok (own s) \<and> risk_kept t0 (own s)"

lemma wpI_risk_id: "Q (risk_next (own w)) (c, w\<lparr>own := (own w)\<lparr>risk_next := Suc (risk_next (own w))\<rparr>\<rparr>) \<Longrightarrow> wp risk_id Q E (c, w)"
  by (simp add: risk_id_def wp_eqs)

lemma risk_good_added:
  assumes good: "risk_good t0 s" and a: "ra_id a = risk_next (own s)" "assessment_ok a"
    and valid: "list_all assessment_valid (assessments (own s) @ [a])"
  shows "risk_good t0 (s\<lparr>own := (own s)\<lparr>risk_next := Suc (risk_next (own s)), assessments := assessments (own s) @ [a]\<rparr>\<rparr>)"
  using assms by (auto simp: risk_good_def risk_ok_def risk_kept_def less_Suc_eq fresh_ids_def)

lemma risk_good_reviewed:
  assumes good: "risk_good t0 s" and a: "row_by ra_id i (assessments (own s)) = Some a" "assessment_step a a'"
    and valid: "list_all assessment_valid (assessments (put_assessment a' (own s)))"
  shows "risk_good t0 (s\<lparr>own := put_assessment a' (own s)\<rparr>)"
proof -
  have a': "ra_id a' = ra_id a" "a \<in> set (assessments (own s))" "ra_id a = i"
    using assessment_rows.step_key [OF a(2)] row_by_SomeD [OF a(1)] by simp_all
  have "assessment_ok a'" using good a(2) a'(2)
    by (auto simp: risk_good_def risk_ok_def list_all_iff assessment_ok_def assessment_step_def dest!: bspec)
       (metis (no_types, lifting) risk_assessment.select_convs(7,8,9) risk_assessment.surjective risk_assessment.update_convs(10-12,14))+
  moreover have "develops ra_id assessment_step (assessments t0) (assessments (put_assessment a' (own s)))"
    using good a a' by (auto simp: risk_good_def risk_kept_def put_assessment_def intro!: assessment_rows.put)
  moreover have "fresh_ids ra_id (assessments (put_assessment a' (own s))) (risk_next (own s))"
    using good a' by (auto simp: risk_good_def risk_ok_def fresh_ids_def put_assessment_def dest!: put_row_memD)
  ultimately show ?thesis using good valid
    by (auto simp: risk_good_def risk_ok_def risk_kept_def put_assessment_def list_all_iff dest!: put_row_memD)
qed

lemma wpI_commit_risk:
  "(list_all assessment_valid (assessments (own w)) \<Longrightarrow> Q () (w, w)) \<Longrightarrow> E IntegrityError (c, w) \<Longrightarrow> wp commit_risk Q E (c, w)"
  by (simp add: commit_risk_def wp_eqs)

lemma scored_ok:
  "risk_score g = (score, reasons) \<Longrightarrow> ra_score a = score \<Longrightarrow> ra_reasons a = reasons \<Longrightarrow> ra_signals a = g \<Longrightarrow>
    ra_status a = (if review_threshold \<le> score then ''PENDING'' else ''NOT_REQUIRED'') \<Longrightarrow> assessment_ok a"
  by (simp add: assessment_ok_def split: if_splits)

lemma site_risk:
  "risk_good t0 (s\<lparr>own := own t\<rparr>) \<Longrightarrow> beside d (core s) \<Longrightarrow> beside (core s) (core t) \<Longrightarrow> site_ok (risk_good t0) d t"
  using beside_trans by (auto simp: site_ok_def risk_good_def)

lemma site_assessed:
  assumes "risk_good t0 s" and "beside d (core s)" and "xa = risk_score g" and "xa = (score, reasons)"
    and a: "a = \<lparr>ra_id = risk_next (own s), ra_subject = u, ra_requested_by = v, ra_model = m, ra_feature = f, ra_text_hash = h,
      ra_score = score, ra_reasons = reasons, ra_signals = g,
      ra_status = (if review_threshold \<le> score then ''PENDING'' else ''NOT_REQUIRED''), ra_reviewer = None, ra_note = None,
      ra_created = now, ra_reviewed = None\<rparr>"
    and valid: "list_all assessment_valid (assessments (own t))"
    and t: "own t = (own s)\<lparr>risk_next := Suc (risk_next (own s)), assessments := assessments (own s) @ [a]\<rparr>" "beside (core s) (core t)"
  shows "site_ok (risk_good t0) d t"
proof -
  have "assessment_ok a" by (rule scored_ok) (use assms(3,4) in \<open>simp_all add: a\<close>)
  moreover have "ra_id a = risk_next (own s)" by (simp add: a)
  ultimately have "risk_good t0 (s\<lparr>own := own t\<rparr>)"
    unfolding t(1) by (intro risk_good_added) (use assms(1) valid t(1) in simp_all)
  then show ?thesis using assms(2) t(2) by (rule site_risk)
qed

lemma keeps_assess_risk: "keeps (site_ok (risk_good t0) d) (assess_risk env admin recent u text)"
  apply (rule site_keepsI)
  apply (unfold assess_risk_def)
  apply (rule wpI_risk_id wpI_commit_risk site_rules | (simp add: site_ok_def; fail)
    | (unfold fst_conv, rule site_assessed, assumption, assumption, assumption, assumption, assumption; simp; fail))+
  done

lemma site_reviewed:
  assumes "risk_good t0 s" and "beside d (core s)" and "row_by ra_id i (assessments (own s)) = Some a"
    and a': "a' = a\<lparr>ra_status := (if dec then ''CLEARED'' else ''ESCALATED''), ra_reviewer := Some v, ra_note := n, ra_reviewed := Some now\<rparr>"
    and "list_all assessment_valid (assessments (own t))" and "own t = put_assessment a' (own s)" and "beside (core s) (core t)"
  shows "site_ok (risk_good t0) d t"
proof (rule site_risk)
  have "assessment_step a a'" by (simp add: a' assessment_step_def)
  from risk_good_reviewed [OF assms(1,3) this] show "risk_good t0 (s\<lparr>own := own t\<rparr>)" using assms(5,6) by simp
qed (use assms in simp_all)

lemma keeps_review_assessment: "keeps (site_ok (risk_good t0) d) (review_assessment env admin i decision note)"
  apply (rule site_keepsI)
  apply (unfold review_assessment_def)
  apply (rule wpI_risk_id wpI_commit_risk site_rules | (simp add: site_ok_def; fail)
    | (unfold fst_conv, rule site_reviewed, assumption, assumption, assumption, assumption; simp; fail))+
  done

section \<open>Assessments beside the platform\<close>

inductive risk_request :: "risk site \<Rightarrow> risk site \<Rightarrow> bool" where
  assessed: "risk_request s (site_after (assess_risk env admin recent u text) s)"
| reviewed: "risk_request s (site_after (review_assessment env admin i decision note) s)"

lemma risk_request_good:
  assumes "risk_request s s'" and "risk_ok (own s)"
  shows "risk_ok (own s') \<and> risk_kept (own s) (own s') \<and> beside (core s) (core s')"
proof -
  have here: "risk_good (own s) s" using assms(2) by (simp add: risk_good_def risk_kept_def)
  from assms(1) show ?thesis
    by cases (use keeps_assess_risk [THEN site_after_keeps, OF here] keeps_review_assessment [THEN site_after_keeps, OF here] in
      \<open>simp_all add: risk_good_def\<close>)
qed

interpretation risk: site_history "\<lambda>s. assessments (own s) = []" risk_request "\<lambda>s. risk_ok (own s)" "\<lambda>s s'. risk_kept (own s) (own s')"
  by unfold_locales
    (use risk_request_good assessment_rows.trans in \<open>auto simp: risk_kept_def risk_ok_def fresh_ids_def\<close>)

definition reachable_risk :: "risk site \<Rightarrow> bool" where
  "reachable_risk s \<longleftrightarrow> reachable (site_start (\<lambda>s. assessments (own s) = [])) (site_step risk_request) s"

lemma reachable_risk_ok: "reachable_risk s \<Longrightarrow> risk_ok (own s)"
  unfolding reachable_risk_def by (drule risk.system.reachable_inv) (simp add: site_inv_def)

end
