(* ===== verification/Oversight.thy ===== *)
theory Oversight
  imports Casebook Risk Scenario_Dispute
begin

text \<open>
  What administrators rely on: the pages of the dispute list are complete, and a risk assessment is what
  its signals call for. A concrete dispute and a concrete assessment show that the properties apply.
\<close>

section \<open>Dispute lists\<close>

text \<open>C38: Walking the dispute list page by page, with any page size the service allows and any status filter,
  gives exactly the disputes the user may see with that status, each once, newest first.\<close>

theorem dispute_pages_complete:
  assumes "reachable_db d" and "1 \<le> limit" and "limit \<le> 100" and "dispute_filter status = Inr st"
  shows "walk (dispute_page user limit status d) (Suc (length (disputes d))) None =
      Some (recent_first dp_created_at dp_id (selected_disputes user st d)) \<and>
    distinct (map dp_id (selected_disputes user st d))"
proof -
  have ids: "distinct (map dp_id (disputes d))"
    using inv_parts(4) [OF reachable_sys_inv [OF assms(1)]] by (simp add: ids_ok_def fresh_ids_def)
  have "length (selected_disputes user st d) \<le> length (disputes d)"
    by (auto simp: selected_disputes_def visible_disputes_def intro: le_trans length_filter_le)
  then have "walk (dispute_page user limit status d) (Suc (length (disputes d))) None =
      Some (recent_first dp_created_at dp_id (selected_disputes user st d))"
    by (intro walk_mono [OF walk_disputes [OF ids assms(2-4)]]) simp
  moreover have "distinct (map dp_id (selected_disputes user st d))"
    unfolding selected_disputes_def by (rule distinct_map_filter) (rule visible_ids [OF ids])
  ultimately show ?thesis ..
qed

lemma demo_open: "dispute_filter (Some ''open'') = Inr (Some DS_OPEN)"
  by code_simp

theorem dispute_pages_complete_witness:
  "walk (dispute_page employer 1 (Some ''open'') demo6_disputed) 2 None = Some (disputes demo6_disputed) \<and>
    length (disputes demo6_disputed) = 1"
proof -
  have "length (disputes demo6_disputed) = 1" "selected_disputes employer (Some DS_OPEN) demo6_disputed = disputes demo6_disputed"
    by (simp_all add: selected_disputes_def visible_disputes_def demo6_disputed_state demo_rows)
  moreover have "recent_first f g xs = xs" if "length xs = 1" for xs :: "dispute list" and f g
    using that by (auto simp: recent_first_def length_Suc_conv)
  ultimately show ?thesis
    using dispute_pages_complete [OF demo_reachable_disputed, of 1 "Some ''open''" "Some DS_OPEN" employer] demo_open
    by (simp add: numeral_2_eq_2)
qed

section \<open>Risk assessments\<close>

definition demo_text :: string where
  "demo_text = ''see http://a or https://b or www.c or telegram''"

definition demo_recent :: "uuid \<Rightarrow> recent_activity" where
  "demo_recent u = \<lparr>ac_messages = 25, ac_proposals = 0, ac_age = 50\<rparr>"

definition watch0 :: "risk site" where
  "watch0 = \<lparr>core = demo0, own = \<lparr>risk_next = 500, assessments = []\<rparr>\<rparr>"
definition watch1 :: "risk site" where
  "watch1 = site_after (assess_risk demo_env arbiter demo_recent 2 demo_text) watch0"

lemma demo_text_signals: "strip demo_text = demo_text" "length demo_text \<le> 20000" "int (url_matches (lower demo_text)) = 3"
  "filter (\<lambda>term. sublist term (casefold demo_text)) off_platform_terms = [''telegram'']"
  unfolding demo_text_def by code_simp+

lemma demo_signals: "risk_signals_of (demo_recent 2) 2 demo_text h demo0 \<lparr>risk_next = 500, assessments = []\<rparr> =
    \<lparr>sg_urls = 3, sg_terms = [''telegram''], sg_velocity = 25, sg_age = 50, sg_failed = 0, sg_burst = 0, sg_disputes = 0, sg_duplicates = 0\<rparr>"
  unfolding risk_signals_of_def demo_text_signals by (simp add: demo_recent_def demo0_def empty_db_def)

lemma demo_score: "risk_score \<lparr>sg_urls = 3, sg_terms = [''telegram''], sg_velocity = 25, sg_age = 50, sg_failed = 0, sg_burst = 0,
    sg_disputes = 0, sg_duplicates = 0\<rparr> =
    (7100, [''url_spam'', ''off_platform_contact'', ''high_message_velocity'', ''new_account''])"
  by (simp add: risk_score_def rule_points_def)

lemma demo_short: "(20000 < length demo_text) = False"
  using demo_text_signals(2) by simp

lemma demo_users: "users demo0 = [employer, freelancer, arbiter]"
  by (simp add: demo0_def)

lemmas watch_simps = watch0_def site_after_def assess_risk_def demo_text_signals(1) demo_short demo_users demo_signals demo_score
  review_threshold_def risk_id_def commit_risk_def assessment_valid_def review_statuses_def on_core_def query_own_def query_core_def
  modify_own_def flush_own_def demo_env_sel demo_rows

lemma watch1_assessment: "\<exists>a. assessments (own watch1) = [a] \<and> ra_score a = 7100 \<and> ra_status a = ''PENDING''"
  unfolding watch1_def by (simp add: watch_simps run_defs)

lemma watch_reachable: "reachable_risk watch1"
proof -
  have "reachable_risk watch0" unfolding reachable_risk_def watch0_def
    by (rule reachable_beside [OF demo_reachable_0]) simp
  then show ?thesis unfolding reachable_risk_def watch1_def
    by (rule reachable.continue) (rule site_step.served, rule risk_request.assessed)
qed

text \<open>C39: An assessment is what its signals call for: its score lies between 0 and 10000 and is the sum of the
  rules that fired, its reasons name them; a review is pending only from the threshold of 6000 on, which
  no three rules reach together, none is required only below it, and a decision names its reviewer.\<close>

theorem assessments_follow_rules:
  assumes "reachable_risk s" and "a \<in> set (assessments (own s))"
  shows "0 \<le> ra_score a \<and> ra_score a \<le> 10000 \<and> (ra_score a, ra_reasons a) = risk_score (ra_signals a) \<and>
    (ra_status a = ''PENDING'' \<longrightarrow> 6000 \<le> ra_score a \<and> 4 \<le> length (ra_reasons a)) \<and>
    (ra_status a = ''NOT_REQUIRED'' \<longrightarrow> ra_score a < 6000) \<and>
    (ra_status a \<in> {''CLEARED'', ''ESCALATED''} \<longrightarrow> ra_reviewer a \<noteq> None)"
proof -
  have a: "assessment_valid a" "assessment_ok a"
    using reachable_risk_ok [OF assms(1)] assms(2) by (simp_all add: risk_ok_def list_all_iff)
  then have s: "fst (risk_score (ra_signals a)) = ra_score a" "snd (risk_score (ra_signals a)) = ra_reasons a"
    by (simp_all add: assessment_ok_def prod_eq_iff)
  then show ?thesis using a threshold_needs_four [of "ra_signals a"]
    by (auto simp: assessment_ok_def assessment_valid_def review_threshold_def)
qed

theorem assessments_follow_rules_witness: "4 \<le> length (ra_reasons (hd (assessments (own watch1))))"
  using assessments_follow_rules [OF watch_reachable, of "hd (assessments (own watch1))"] watch1_assessment by auto

end
