(* ===== verification/Spec2Isabelle.thy ===== *)
theory Spec2Isabelle
  imports Guarantees Deals Services Accounts Notices Marketplace Oversight
begin

text \<open>
  A verification development for the freelancing platform (the Flask services under src/app): its
  money core and the services around it. Definitions are translated from the Python services and
  the constraints of their SQLAlchemy models; the theorems state what keeps clients' and
  freelancers' money safe.

  \<^bold>\<open>The program.\<close> A project receives proposals; an accepted proposal becomes a contract with
  milestones, which is active once both parties have signed the hash of its document. The
  employer funds a milestone through a payment provider, whose signed webhook captures the
  payment into the milestone's escrow account. Funded work is started, submitted and approved;
  the release divides the escrow between the freelancer's wallet and the platform commission,
  and wallets are paid out through a provider. Before work starts the escrow can be refunded,
  and a dispute freezes a milestone until an administrator divides its escrow. All money is
  moved by journals of a double-entry ledger; financial requests are made retry-safe by
  idempotency keys; every service writes an audit log and a transactional outbox.

  Around this core, accounts register, log in and refresh their sessions (identity), members of a
  contract exchange messages with scanned attachments and call each other (messaging, files, calls),
  requests in the outbox become notifications, reconciliation compares payments with the provider,
  and the marketplace keeps profiles, gigs, portfolios, projects and reviews.

  \<^bold>\<open>How it is modelled.\<close> A handler is a function of the session, a pair of the committed and the
  working database, to its result (\<open>exn + 'a\<close>) and the new session; \<open>commit\<close>, \<open>rollback\<close> and
  savepoints act as in the code, and \<open>run_request\<close> keeps of a failed request only what it had
  committed. A table is a list of rows, an INSERT or UPDATE checks the CHECK and UNIQUE
  constraints of the table it models, and every \<open>raise\<close> is a value: \<open>ApiError\<close> with its type
  and HTTP status, \<open>RuntimeError\<close>, \<open>ValueError\<close> and so on. Amounts are Python integers. A row
  lock (SELECT ... FOR UPDATE) is the row read in the transaction that uses it: transactions
  on the same row do not overlap, and requests interleave between transactions, which is why a
  refund and a payout are two steps each.

  \<^bold>\<open>Theories and sources.\<close>
  \<^item> \<open>Prelude\<close>, \<open>PyText\<close>, \<open>Json\<close>: sessions and their weakest preconditions, tables, Python's
    string operations, canonical JSON.
  \<^item> \<open>Schema\<close>: the rows of the models.py files, the database, the provider protocol
    (payments/providers/base.py) and the environment of a request.
  \<^item> \<open>AuditLog\<close>: audit/service.py, common/outbox.py. \<open>Ledger\<close>: ledger/service.py.
    \<open>Idempotency\<close>: payments/idempotency.py. \<open>Providers\<close>: payments/providers/sandbox.py and
    registry.py.
  \<^item> \<open>Payments\<close> and \<open>Refunds\<close>: payments/service.py. \<open>Payouts\<close>: payouts/service.py and
    provider_accounts.py. \<open>Milestones\<close>, \<open>Contracts\<close>, \<open>Proposals\<close>, \<open>Disputes\<close>: the service.py
    and policies.py of the directory with that name.
  \<^item> \<open>Invariants\<close>, \<open>Transitions\<close>, \<open>Handlers\<close>, \<open>Casework\<close>: the invariant \<open>sys_inv\<close> of the money
    tables, the business transitions that keep it, and every handler kept in it on every path.
  \<^item> \<open>Logs\<close>: every handler only extends the journals, the audit log and the outbox.
    \<open>Atomicity\<close>: a handler that fails has committed nothing.
  \<^item> \<open>System\<close>: the platform as a step relation over all handlers, with the locales
    \<open>invariant_system\<close> and \<open>progress_system\<close> interpreted on it.
  \<^item> \<open>History\<close>, \<open>Lifecycle\<close>, \<open>Deals\<close>: the state machines of milestones, contracts, proposals, disputes,
    refunds, payouts and payments as relations of rows along every run (locale \<open>row_history\<close>).
  \<^item> \<open>Site\<close>: a service with tables of its own beside the core, its transactions and the locales
    \<open>site_service\<close> and \<open>site_history\<close>, which each of the following services interprets.
  \<^item> \<open>Messaging\<close>, \<open>Chat\<close>: messaging/. \<open>Calls\<close>, \<open>Lines\<close>: calls/. \<open>Files\<close>, \<open>Desk\<close>: files/. Of each pair the
    first has the definitions, the second the invariant, the histories and the interpretation;
    \<open>Scenario_Services\<close> and \<open>Services\<close> have the concrete runs and the properties.
  \<^item> \<open>Pii\<close>, \<open>Identity\<close>: identity/ (encrypted personal data; accounts, sessions, tokens, second factor),
    with \<open>Credentials\<close> and \<open>Access\<close> for the invariants and \<open>Accounts\<close> for the properties.
  \<^item> \<open>Notify\<close>, \<open>Inbox\<close>: notifications/. \<open>Reconcile\<close>: payments/reconciliation.py, reconcile_provider of
    payments/service.py, tasks.py and actions.py. \<open>Notices\<close>: their properties.
  \<^item> \<open>Market\<close>, \<open>Catalogue\<close>: projects/, freelancers/, gigs/, portfolios/, reviews/. \<open>Marketplace\<close>: their
    properties.
  \<^item> \<open>Paging\<close>: keyset pagination. \<open>Casebook\<close>: disputes/query.py. \<open>Risk\<close>: fraud/. \<open>Oversight\<close>: their
    properties.
  \<^item> \<open>Effects\<close>, \<open>Guarantees\<close>: what the components promise, request by request.
  \<^item> \<open>Scenario\<close>, \<open>Scenario_Release\<close>, \<open>Scenario_Refund\<close>, \<open>Scenario_Dispute\<close>: concrete runs, in
    which every handler is evaluated, used to apply the properties.

  \<^bold>\<open>What is shown.\<close> Below, for every database the platform can reach: money is conserved, no escrow
  or wallet is overdrawn, the escrow of a milestone is what its status calls for, work is fully
  funded, at most one refund is pending, each journal is written once and justified by the row
  it refers to, and the records are append-only and complete. In \<open>Guarantees\<close>: the behaviour
  of the ledger, of idempotency keys, of the sandbox provider and of webhooks, that failed
  requests change nothing, and how a release divides the escrow. In \<open>Services\<close>, \<open>Accounts\<close>, \<open>Notices\<close>,
  \<open>Marketplace\<close> and \<open>Oversight\<close>, for every state a service can reach together with the platform: messages are
  gapless and their attachments safe, calls follow their machine, refresh tokens work once and a
  logout is final, wrong passwords lock an account, the notification queue empties and matches its
  requests, reconciliation is exact, a project closes only when its contract is paid out, the pages of the dispute list are complete,
  and risk assessments follow their rules.

  \<^bold>\<open>Assumptions.\<close> SHA-256, HMAC, \<open>json.loads\<close>, the clock and the Stripe adapter are parameters of
  the environment; nothing is assumed of them. The platform starts without accounts, journals
  or milestones. Two rules of \<open>platform_step\<close> have a premise. \<open>capture_safe\<close>, for a webhook: no
  refund is reserved on a funded milestone that has an uncaptured intent; without it the
  overfunding check of the capture can pass while the escrow is empty because its content is
  reserved for a refund, a finding about the code. \<open>refund_of\<close>, for the second transaction of a
  refund: the refund row belongs to the milestone of the request, as the first transaction
  established. There is no fuel: all functions are total, and the loops of the code are
  structural recursions over lists; the bound of \<open>notification_queue_empties\<close> is the number of
  drains its caller makes. The services take their libraries as parameters as well: Argon2, JWT,
  AES-GCM, HMAC and the random generators (the record \<open>vault\<close>), the object storage and the ClamAV
  socket, and NFKC normalisation. A flush writes new rows before it removes deleted ones, as the
  unit of work of SQLAlchemy does. A session keeps what it read: the rows of a service are changed
  by one request at a time.

  \<^bold>\<open>Not modelled.\<close> Routing, request parsing and responses of the api.py files (HTTP glue over the
  modelled services), the application factory, configuration, metrics and health checks, and the
  publishing of events to Socket.IO clients (realtime), which are calls into external libraries;
  the Stripe adapter, a network client that is the parameter \<open>env_stripe\<close>; search and
  recommendations, which are Elasticsearch queries and floating-point ranking; the migrations,
  which create the tables the models describe. Of the risk signals, the counts of recent messages
  and proposals and the age of an account are arguments, since their rows keep no creation time. Titles and English details of errors, and
  timestamps no query or response uses, are left out of the rows.
\<close>

section \<open>Invariants of the reachable databases\<close>

lemma reachable_milestone: "reachable_db d \<Longrightarrow> m \<in> set (milestones d) \<Longrightarrow> milestone_ok d m"
  using reachable_sys_inv inv_milestone by blast

lemma reachable_wf: "reachable_db d \<Longrightarrow> wf_ledger d"
  using reachable_sys_inv inv_parts(1) by blast

text \<open>C2: Money is conserved: in every reachable database the balances of all accounts of a currency
  add up to zero, what the providers hold included.\<close>

theorem ledger_conserved:
  assumes "reachable_db d"
  shows "ledger_total cur d = 0"
  using assms by (intro ledger_total_zero reachable_wf)

theorem ledger_conserved_witness: "ledger_total ''USD'' demo11 = 0 \<and> length (journals demo11) = 3"
  using ledger_conserved [OF demo_reachable_11] by (simp add: demo11_state)

text \<open>C3: No account but the provider clearing accounts is ever overdrawn: escrows, wallets and the
  commission account have a non-negative balance in every reachable database.\<close>

theorem accounts_solvent:
  assumes "reachable_db d" and "a \<in> set (accounts d)" and "acc_type a \<noteq> PROVIDER_CLEARING"
  shows "0 \<le> account_balance_minor (acc_id a) d"
  using assms reachable_sys_inv inv_parts(3) unfolding solvent_def by blast

theorem accounts_solvent_witness:
  "acc_type (accounts demo11 ! 2) = FREELANCER_WALLET \<and>
    0 \<le> account_balance_minor (acc_id (accounts demo11 ! 2)) demo11"
  using accounts_solvent [OF demo_reachable_11, of "accounts demo11 ! 2"] by (simp add: demo11_state)





text \<open>The status RELEASE_PENDING exists only inside the release transaction: no reachable
  database stores it.\<close>

theorem release_pending_never_stored:
  assumes "reachable_db d" and "m \<in> set (milestones d)"
  shows "ms_status m \<noteq> MS_RELEASE_PENDING"
  using reachable_milestone [OF assms] by (simp add: milestone_ok_def)

theorem release_pending_never_stored_witness: "ms_status (hd (milestones demo9)) \<noteq> MS_RELEASE_PENDING"
  by (rule release_pending_never_stored [OF demo_reachable_9]) (simp add: demo9_state)



text \<open>C9: Exactly-once posting: no two journals of a reachable database have the same operation and
  reference, so a milestone is released once, an intent captured once, a dispute settled once.\<close>

theorem journal_written_once:
  assumes "reachable_db d" and "j \<in> set (journals d)" and "j' \<in> set (journals d)"
    and "jn_reference_type j = jn_reference_type j'" and "jn_reference_id j = jn_reference_id j'"
    and "jn_operation j = jn_operation j'"
  shows "j = j'"
  using reachable_wf [OF assms(1)] assms(2-) by (auto simp: wf_ledger_def journal_ref_def distinct_map inj_on_def)

theorem journal_written_once_witness: "journals demo9 ! 1 = last (journals demo9)"
  by (rule journal_written_once [OF demo_reachable_9]) (simp_all add: demo9_state)



section \<open>Agreements\<close>

text \<open>C12: An active contract was signed by both of its parties: each of them signed the hash of the
  contract's current version, the same document.\<close>

theorem active_contracts_signed:
  assumes "reachable_db d" and "c \<in> set (contracts d)" and "con_status c = CON_ACTIVE"
  shows "\<exists>v\<in>set (contract_versions d). cv_contract_id v = con_id c \<and> cv_number v = con_current_version c \<and>
    (\<forall>u\<in>{con_employer c, con_freelancer c}. \<exists>s\<in>set (contract_signatures d).
      cs_user_id s = u \<and> cs_version_id s = cv_id v \<and> cs_document_hash s = cv_document_hash v)"
proof -
  have inv: "deals_inv d" using assms(1) by (rule reachable_deals)
  then obtain v where v: "v \<in> set (contract_versions d)" "cv_contract_id v = con_id c" "cv_number v = con_current_version c"
      "{con_employer c, con_freelancer c} \<subseteq> set (signed_user_ids (cv_id v) d)"
    using assms(2,3) by (auto simp: deals_inv_def contract_ok_def)
  have "cs_document_hash s = cv_document_hash v" if s: "s \<in> set (contract_signatures d)" "cs_version_id s = cv_id v" for s
  proof -
    obtain v' where "v' \<in> set (contract_versions d)" "cv_id v' = cv_id v" "cv_document_hash v' = cs_document_hash s"
      using bspec [OF deals_signatures [OF inv] s(1)] s(2) by (auto simp: signature_ok_def)
    with deals_parts(3) [OF inv] v(1) show ?thesis by (auto simp: fresh_ids_def distinct_map dest: inj_onD)
  qed
  with v show ?thesis by (fastforce simp: signed_user_ids_def)
qed

theorem active_contracts_signed_witness:
  "\<exists>v\<in>set (contract_versions demo3). cv_document_hash v = demo_hash \<and>
    (\<exists>s\<in>set (contract_signatures demo3). cs_user_id s = 2 \<and> cs_document_hash s = demo_hash)"
  using active_contracts_signed [OF demo_reachable_3, of "hd (contracts demo3)"] by (auto simp: demo3_state)

text \<open>C13: A project has one contract and one accepted proposal at most, however many proposals are
  decided and in whatever order.\<close>

theorem one_deal_per_project:
  assumes "reachable_db d"
  shows "(\<forall>c\<in>set (contracts d). \<forall>c'\<in>set (contracts d). con_project_id c = con_project_id c' \<longrightarrow> c = c') \<and>
    (\<forall>p\<in>set (proposals d). \<forall>q\<in>set (proposals d). pr_status p = PR_ACCEPTED \<and> pr_status q = PR_ACCEPTED \<and>
      pr_project_id p = pr_project_id q \<longrightarrow> p = q)"
  using reachable_deals [OF assms] by (auto simp: deals_inv_def one_accepted_def distinct_map dest: inj_onD)

theorem one_deal_per_project_witness:
  "hd (contracts demo9) = last (contracts demo9) \<and> length (contracts demo9) = 1"
  using one_deal_per_project [OF demo_reachable_9] by (simp add: demo9_state)

section \<open>The records over time\<close>


lemma demo_steps: "platform_step\<^sup>*\<^sup>* demo9 demo11"
proof -
  have "platform_step demo9 demo10" unfolding demo10_def by (rule platform_step.payout_1)
  moreover have "platform_step demo10 demo11" unfolding demo11_def by (rule platform_step.payout_2)
  ultimately show ?thesis by (simp add: converse_rtranclp_into_rtranclp)
qed


text \<open>C17: The audit log stays complete: along every run, each event of a high-risk action carries the
  hashes of the state before and after it.\<close>

theorem audit_hashes_complete:
  assumes "reachable_db d" and "platform_step\<^sup>*\<^sup>* d d'" and "audit_complete d"
  shows "audit_complete d'"
  using platform.rel_steps [OF assms(2) reachable_sys_inv [OF assms(1)]] assms(3) by (simp add: extends_def)

lemma demo_audit_complete: "audit_complete demo9"
  by (simp add: audit_complete_def demo9_state audit_row_def audit_state_hash_def state_hash_required_actions_def)

theorem audit_hashes_complete_witness: "audit_complete demo11"
  by (rule audit_hashes_complete [OF demo_reachable_9 demo_steps demo_audit_complete])

text \<open>C11: A milestone moves only along its state machine: along every run it keeps its terms (amount,
  currency, title, delivery days, contract version) and its status only follows the edges of the
  machine; once released it never changes again.\<close>

theorem milestones_follow_machine:
  assumes "reachable_db d" and "platform_step\<^sup>*\<^sup>* d d'" and "m \<in> set (milestones d)"
  shows "\<exists>s. m\<lparr>ms_status := s\<rparr> \<in> set (milestones d') \<and> milestone_edge\<^sup>*\<^sup>* (ms_status m) s \<and>
    (ms_status m = MS_RELEASED \<longrightarrow> s = MS_RELEASED)"
proof -
  have "develops ms_id milestone_step (milestones d) (milestones d')"
    using run_history [OF assms(1,2)] by (simp add: history_def)
  moreover have "distinct (map ms_id (milestones d))"
    using inv_ids(1) [OF reachable_sys_inv [OF assms(1)]] by (simp add: fresh_ids_def)
  ultimately have "\<exists>m'. m' \<in> set (milestones d') \<and> milestone_step\<^sup>*\<^sup>* m m'"
    by (rule row_memD [OF _ _ assms(3)])
  then obtain s where "m\<lparr>ms_status := s\<rparr> \<in> set (milestones d')" "milestone_edge\<^sup>*\<^sup>* (ms_status m) s"
    using milestone_terms_kept by blast
  then show ?thesis using released_stays by (intro exI [of _ s]) auto
qed

theorem milestones_follow_machine_witness: "hd (milestones demo9) \<in> set (milestones demo11)"
proof -
  have m: "hd (milestones demo9) \<in> set (milestones demo9)" "ms_status (hd (milestones demo9)) = MS_RELEASED"
    by (simp_all add: demo9_state)
  obtain s where "(hd (milestones demo9))\<lparr>ms_status := s\<rparr> \<in> set (milestones demo11)" "s = MS_RELEASED"
    using milestones_follow_machine [OF demo_reachable_9 demo_steps m(1)] m(2) by blast
  then show ?thesis by (simp add: demo9_state)
qed

text \<open>C15: What is settled stays settled: a refund or payout that has succeeded or failed, a captured
  payment and a resolved dispute are never written again.\<close>

theorem settled_rows_final:
  assumes "reachable_db d" and "platform_step\<^sup>*\<^sup>* d d'"
  shows "(\<forall>r\<in>set (refunds d). rf_status r \<noteq> RF_PENDING \<longrightarrow> r \<in> set (refunds d')) \<and>
    (\<forall>p\<in>set (payouts d). po_status p \<noteq> PO_PENDING \<longrightarrow> p \<in> set (payouts d')) \<and>
    (\<forall>i\<in>set (intents d). pi_status i = PI_CAPTURED \<longrightarrow> i \<in> set (intents d')) \<and>
    (\<forall>x\<in>set (disputes d). dp_status x = DS_RESOLVED \<longrightarrow> x \<in> set (disputes d'))"
proof -
  have ids: "distinct (map rf_id (refunds d))" "distinct (map po_id (payouts d))" "distinct (map pi_id (intents d))"
      "distinct (map dp_id (disputes d))"
    using inv_ids [OF reachable_sys_inv [OF assms(1)]] by (simp_all add: fresh_ids_def)
  show ?thesis
    using run_history [OF assms] ids unfolding history_def
    by (intro conjI ballI impI) (auto elim: row_final dest: finished_rows(1-4))
qed

theorem settled_rows_final_witness:
  "hd (intents demo9) \<in> set (intents demo11) \<and> pi_status (hd (intents demo9)) = PI_CAPTURED"
  using settled_rows_final [OF demo_reachable_9 demo_steps] by (simp add: demo9_state)

text \<open>C14: Signed documents are immutable: the versions and signatures of contracts are only ever
  appended to, and a proposal that was accepted, rejected or withdrawn and a cancelled contract
  are never written again.\<close>

theorem agreements_immutable:
  assumes "reachable_db d" and "platform_step\<^sup>*\<^sup>* d d'"
  shows "prefix (contract_versions d) (contract_versions d') \<and> prefix (contract_signatures d) (contract_signatures d') \<and>
    (\<forall>p\<in>set (proposals d). pr_status p \<in> {PR_WITHDRAWN, PR_REJECTED, PR_ACCEPTED} \<longrightarrow> p \<in> set (proposals d')) \<and>
    (\<forall>c\<in>set (contracts d). con_status c = CON_CANCELLED \<longrightarrow> c \<in> set (contracts d'))"
proof -
  have ids: "distinct (map con_id (contracts d))" "distinct (map pr_id (proposals d))"
    using reachable_deals [OF assms(1)] by (simp_all add: deals_inv_def fresh_ids_def)
  note run = run_history [OF assms, unfolded history_def]
  have "p \<in> set (proposals d')" if "p \<in> set (proposals d)" "pr_status p \<in> {PR_WITHDRAWN, PR_REJECTED, PR_ACCEPTED}" for p
    using run ids that(1) finished_rows(6) [OF that(2)] row_final [of pr_id proposal_step] by blast
  moreover have "c \<in> set (contracts d')" if "c \<in> set (contracts d)" "con_status c = CON_CANCELLED" for c
    using run ids that(1) finished_rows(5) [OF that(2)] row_final [of con_id contract_step] by blast
  ultimately show ?thesis using run by blast
qed

theorem agreements_immutable_witness:
  "hd (proposals demo9) \<in> set (proposals demo11) \<and> prefix (contract_versions demo9) (contract_versions demo11)"
  using agreements_immutable [OF demo_reachable_9 demo_steps] by (simp add: demo9_state)

section \<open>The whole engagement\<close>


text \<open>The split decision is possible and divides the escrow: sixty go to the freelancer, less ten per
  cent commission, forty back to the client through the provider.\<close>

theorem dispute_splits_escrow:
  "reachable_db demo6_resolved \<and> map ms_status (milestones demo6_resolved) = [MS_RELEASED] \<and>
    map dp_status (disputes demo6_resolved) = [DS_RESOLVED] \<and>
    map (\<lambda>x. (dd_award x, dd_net x, dd_commission x, dd_refund_minor x)) (dispute_decisions demo6_resolved) = [(60, 54, 6, 40)] \<and>
    map (\<lambda>r. (rf_amount r, rf_status r)) (refunds demo6_resolved) = [(40, RF_SUCCEEDED)] \<and>
    map (\<lambda>a. (acc_type a, account_balance_minor (acc_id a) demo6_resolved)) (accounts demo6_resolved) =
      [(MILESTONE_ESCROW, 0), (PROVIDER_CLEARING, -60), (FREELANCER_WALLET, 54), (PLATFORM_COMMISSION, 6)]"
  using demo_reachable_resolved
  by (simp add: demo6_resolved_state account_balance_minor_def entries_def signed_def)

end
